(* ===== verification/Prelude.thy ===== *)
theory Prelude
  imports Main
begin

text \<open>
  Shared vocabulary of the development: the model of fallible, state-changing Go code as
  functions from a state to a result and a new state, the relational reasoning principle that
  every component uses for such code (\<open>always R m\<close>: every outcome of \<open>m\<close>, errors
  included, is related to its start by \<open>R\<close>), and generic lemmas on tables, which are lists of
  rows as the SQL statements see them.
\<close>

named_theorems io_defs \<open>definitions of the state-and-error combinators\<close>
named_theorems query_defs \<open>definitions of the SQL statements\<close>

subsection \<open>Types shared by all components\<close>

text \<open>
  A UUID is only ever compared, so it is an opaque number. Instants and durations are integers
  (nanoseconds); Go's zero \<open>time.Time\<close> is \<open>0\<close> and every real instant is positive.
\<close>

type_synonym ID = nat
type_synonym gotime = int
type_synonym duration = int

abbreviation (input) zero_time :: gotime where "zero_time \<equiv> 0"

text \<open>
  JSON-like payloads (\<open>map[string]any\<close>), with the kinds of values the code stores in them. A \<open>float64\<close>
  is given by its shortest decimal text, a \<open>json.RawMessage\<close> by its bytes.
\<close>

datatype json =
    JNull | JBool bool | JInt int | JStr string | JTime gotime | JArr "json list" | JObj "(string \<times> json) list"
  | JFloat string | JRaw string

type_synonym payload = "(string \<times> json) list"

subsection \<open>State, errors and early returns\<close>

text \<open>
  \<open>('w, 'e, 'a) io\<close> is Go code that reads and writes a state \<open>'w\<close> and returns either an
  error (\<open>Inl\<close>) or a value (\<open>Inr\<close>). An error does not undo the writes made before it.
\<close>

type_synonym ('w, 'e, 'a) io = "'w \<Rightarrow> ('e + 'a) \<times> 'w"

definition ret :: "'a \<Rightarrow> ('w, 'e, 'a) io" where
  [io_defs]: "ret x = (\<lambda>w. (Inr x, w))"

definition throw :: "'e \<Rightarrow> ('w, 'e, 'a) io" where
  [io_defs]: "throw e = (\<lambda>w. (Inl e, w))"

definition bindE :: "('w, 'e, 'a) io \<Rightarrow> ('a \<Rightarrow> ('w, 'e, 'b) io) \<Rightarrow> ('w, 'e, 'b) io" where
  [io_defs]: "bindE m k = (\<lambda>w. case m w of (Inl e, w') \<Rightarrow> (Inl e, w') | (Inr x, w') \<Rightarrow> k x w')"

text \<open>\<open>if err != nil { ... }\<close>: continue with the handler, from the state the error left.\<close>

definition catchE :: "('w, 'e, 'a) io \<Rightarrow> ('e \<Rightarrow> ('w, 'f, 'a) io) \<Rightarrow> ('w, 'f, 'a) io" where
  [io_defs]: "catchE m h = (\<lambda>w. case m w of (Inl e, w') \<Rightarrow> h e w' | (Inr x, w') \<Rightarrow> (Inr x, w'))"

text \<open>\<open>return fmt.Errorf(...)\<close> around an error: only the error changes.\<close>

definition wrapE :: "('e \<Rightarrow> 'f) \<Rightarrow> ('w, 'e, 'a) io \<Rightarrow> ('w, 'f, 'a) io" where
  [io_defs]: "wrapE f m = (\<lambda>w. case m w of (Inl e, w') \<Rightarrow> (Inl (f e), w') | (Inr x, w') \<Rightarrow> (Inr x, w'))"

text \<open>\<open>x, err := m()\<close>: the error is an ordinary value the code looks at.\<close>

definition attempt :: "('w, 'e, 'a) io \<Rightarrow> ('w, 'f, 'e + 'a) io" where
  [io_defs]: "attempt m = (\<lambda>w. case m w of (r, w') \<Rightarrow> (Inr r, w'))"

text \<open>\<open>_ = m()\<close>, or an error that is only logged.\<close>

definition ignoreE :: "('w, 'e, 'a) io \<Rightarrow> ('w, 'f, unit) io" where
  [io_defs]: "ignoreE m = (\<lambda>w. (Inr (), snd (m w)))"

definition getsE :: "('w \<Rightarrow> 'a) \<Rightarrow> ('w, 'e, 'a) io" where
  [io_defs]: "getsE f = (\<lambda>w. (Inr (f w), w))"

definition modifyE :: "('w \<Rightarrow> 'w) \<Rightarrow> ('w, 'e, unit) io" where
  [io_defs]: "modifyE f = (\<lambda>w. (Inr (), f w))"

definition whenE :: "bool \<Rightarrow> ('w, 'e, unit) io \<Rightarrow> ('w, 'e, unit) io" where
  [io_defs]: "whenE b m = (if b then m else ret ())"

text \<open>\<open>for _, x := range xs { if err := f(x); err != nil { return err } }\<close>\<close>

fun forE :: "'a list \<Rightarrow> ('a \<Rightarrow> ('w, 'e, unit) io) \<Rightarrow> ('w, 'e, unit) io" where
  "forE [] f = ret ()"
| "forE (x # xs) f = bindE (f x) (\<lambda>_. forE xs f)"

definition result :: "('w, 'e, 'a) io \<Rightarrow> 'w \<Rightarrow> 'e + 'a" where
  "result m w = fst (m w)"

definition final :: "('w, 'e, 'a) io \<Rightarrow> 'w \<Rightarrow> 'w" where
  "final m w = snd (m w)"

lemma final_ret [simp]: "final (ret x) w = w"
  by (simp add: final_def ret_def)

lemma bindE_Inr: "m w = (Inr x, w') \<Longrightarrow> bindE m k w = k x w'"
  by (simp add: bindE_def)

lemma bindE_Inl: "m w = (Inl e, w') \<Longrightarrow> bindE m k w = (Inl e, w')"
  by (simp add: bindE_def)

lemma bindE_ret [simp]: "bindE (ret x) k = k x"
  by (simp add: bindE_def ret_def)

lemma bindE_throw [simp]: "bindE (throw e) k = throw e"
  by (simp add: bindE_def throw_def)

lemma bindE_assoc: "bindE (bindE m k) h = bindE m (\<lambda>x. bindE (k x) h)"
  by (auto simp: bindE_def fun_eq_iff split: prod.splits sum.splits)

subsection \<open>What every outcome of a computation guarantees\<close>

text \<open>
  \<open>always R m\<close>: whatever \<open>m\<close> returns, its final state is related by \<open>R\<close> to the state it
  started in. Invariants, frame conditions and monotonicity are all of this form, and all are
  preorders; the locale proves once that the combinators keep such a guarantee.
\<close>

definition always :: "('w \<Rightarrow> 'w \<Rightarrow> bool) \<Rightarrow> ('w, 'e, 'a) io \<Rightarrow> bool" where
  "always R m \<longleftrightarrow> (\<forall>w. R w (snd (m w)))"

lemma alwaysI: "(\<And>w. R w (snd (m w))) \<Longrightarrow> always R m"
  by (simp add: always_def)

lemma alwaysD: "always R m \<Longrightarrow> R w (snd (m w))"
  by (simp add: always_def)

lemma always_eqD: "always R m \<Longrightarrow> m w = (r, w') \<Longrightarrow> R w w'"
  by (metis always_def snd_conv)

lemma always_modifyE: "(\<And>w. R w (f w)) \<Longrightarrow> always R (modifyE f)"
  by (simp add: always_def modifyE_def)

locale world_rel =
  fixes R :: "'w \<Rightarrow> 'w \<Rightarrow> bool"
  assumes R_refl: "R w w"
    and R_trans: "R u v \<Longrightarrow> R v w \<Longrightarrow> R u w"
begin

lemma always_ret: "always R (ret x)"
  by (simp add: always_def ret_def R_refl)

lemma always_throw: "always R (throw e)"
  by (simp add: always_def throw_def R_refl)

lemma always_getsE: "always R (getsE f)"
  by (simp add: always_def getsE_def R_refl)

lemma always_bindE:
  assumes m: "always R m" and k: "\<And>x. always R (k x)"
  shows "always R (bindE m k)"
proof (rule alwaysI)
  fix w
  show "R w (snd (bindE m k w))"
  proof (cases "m w")
    case (Pair r w')
    with m have "R w w'" by (rule always_eqD)
    then show ?thesis
      using Pair k by (auto simp: bindE_def always_def intro: R_trans split: sum.splits)
  qed
qed

lemma always_catchE:
  assumes m: "always R m" and h: "\<And>e. always R (h e)"
  shows "always R (catchE m h)"
proof (rule alwaysI)
  fix w
  show "R w (snd (catchE m h w))"
  proof (cases "m w")
    case (Pair r w')
    with m have "R w w'" by (rule always_eqD)
    then show ?thesis
      using Pair h by (auto simp: catchE_def always_def intro: R_trans split: sum.splits)
  qed
qed

lemma always_wrapE: "always R m \<Longrightarrow> always R (wrapE f m)"
  by (simp add: always_def wrapE_def split_beta split: sum.split)

lemma always_attempt: "always R m \<Longrightarrow> always R (attempt m)"
  by (simp add: always_def attempt_def split_beta)

lemma always_ignoreE: "always R m \<Longrightarrow> always R (ignoreE m)"
  by (simp add: always_def ignoreE_def)

lemma always_whenE: "(b \<Longrightarrow> always R m) \<Longrightarrow> always R (whenE b m)"
  by (simp add: whenE_def always_ret)

lemma always_forE: "(\<And>x. x \<in> set xs \<Longrightarrow> always R (f x)) \<Longrightarrow> always R (forE xs f)"
  by (induction xs) (auto intro: always_ret always_bindE)

lemma always_if: "(b \<Longrightarrow> always R m) \<Longrightarrow> (\<not> b \<Longrightarrow> always R n) \<Longrightarrow> always R (if b then m else n)"
  by simp

lemma always_case_option:
  "(x = None \<Longrightarrow> always R m) \<Longrightarrow> (\<And>y. x = Some y \<Longrightarrow> always R (k y)) \<Longrightarrow>
   always R (case x of None \<Rightarrow> m | Some y \<Rightarrow> k y)"
  by (cases x) auto

lemma always_case_sum:
  "(\<And>e. x = Inl e \<Longrightarrow> always R (h e)) \<Longrightarrow> (\<And>y. x = Inr y \<Longrightarrow> always R (k y)) \<Longrightarrow>
   always R (case x of Inl e \<Rightarrow> h e | Inr y \<Rightarrow> k y)"
  by (cases x) auto

lemma always_case_prod: "(\<And>a b. always R (k a b)) \<Longrightarrow> always R (case x of (a, b) \<Rightarrow> k a b)"
  by (cases x) auto

lemma always_case_list:
  "always R m \<Longrightarrow> (\<And>y ys. always R (k y ys)) \<Longrightarrow> always R (case x of [] \<Rightarrow> m | y # ys \<Rightarrow> k y ys)"
  by (cases x) auto

lemmas always_intros =
  always_ret always_throw always_getsE always_bindE always_catchE always_wrapE always_attempt
  always_ignoreE always_whenE always_forE always_if always_case_option always_case_sum
  always_case_prod always_case_list

end

text \<open>The two most common guarantees: a component of the state is unchanged, a predicate is kept.\<close>

definition same :: "('w \<Rightarrow> 'b) \<Rightarrow> 'w \<Rightarrow> 'w \<Rightarrow> bool" where
  "same f w w' \<longleftrightarrow> f w' = f w"

definition kept :: "('w \<Rightarrow> bool) \<Rightarrow> 'w \<Rightarrow> 'w \<Rightarrow> bool" where
  "kept P w w' \<longleftrightarrow> (P w \<longrightarrow> P w')"

interpretation same: world_rel "same f"
  by unfold_locales (auto simp: same_def)

interpretation kept: world_rel "kept P"
  by unfold_locales (auto simp: kept_def)

subsection \<open>Computations that cannot fail, and what they end in\<close>

definition noerr :: "('w, 'e, 'a) io \<Rightarrow> bool" where
  "noerr m \<longleftrightarrow> (\<forall>w. \<exists>x w'. m w = (Inr x, w'))"

definition ends_in :: "('w \<Rightarrow> bool) \<Rightarrow> ('w, 'e, 'a) io \<Rightarrow> bool" where
  "ends_in Q m \<longleftrightarrow> (\<forall>w. Q (snd (m w)))"

lemma noerr_ret: "noerr (ret x)" by (simp add: noerr_def ret_def)
lemma noerr_getsE: "noerr (getsE f)" by (simp add: noerr_def getsE_def)
lemma noerr_modifyE: "noerr (modifyE f)" by (simp add: noerr_def modifyE_def)
lemma noerr_ignoreE: "noerr (ignoreE m)" by (simp add: noerr_def ignoreE_def)
lemma noerr_attempt: "noerr (attempt m)" by (simp add: noerr_def attempt_def split_beta)
lemma noerr_whenE: "noerr m \<Longrightarrow> noerr (whenE b m)" by (simp add: whenE_def noerr_ret)

lemma noerr_bindE:
  assumes m: "noerr m" and k: "\<And>x. noerr (k x)"
  shows "noerr (bindE m k)"
  unfolding noerr_def
proof
  fix w
  from m obtain x w1 where "m w = (Inr x, w1)" unfolding noerr_def by blast
  moreover from k obtain y w2 where "k x w1 = (Inr y, w2)" unfolding noerr_def by blast
  ultimately show "\<exists>x w'. bindE m k w = (Inr x, w')" by (simp add: bindE_def)
qed

lemma noerr_case_option: "noerr m \<Longrightarrow> (\<And>y. noerr (k y)) \<Longrightarrow> noerr (case x of None \<Rightarrow> m | Some y \<Rightarrow> k y)"
  by (cases x) auto

lemma noerr_if: "noerr m \<Longrightarrow> noerr n \<Longrightarrow> noerr (if b then m else n)"
  by simp

lemmas noerr_intros = noerr_ret noerr_getsE noerr_modifyE noerr_ignoreE noerr_attempt noerr_whenE
  noerr_bindE noerr_case_option noerr_if

lemma ends_in_later:
  assumes m: "noerr m" and k: "\<And>x. ends_in Q (k x)"
  shows "ends_in Q (bindE m k)"
  unfolding ends_in_def
proof
  fix w
  from m obtain x w1 where "m w = (Inr x, w1)" unfolding noerr_def by blast
  with k [of x] show "Q (snd (bindE m k w))" by (simp add: bindE_def ends_in_def)
qed

lemma ends_in_now:
  assumes m: "ends_in Q m" and k: "\<And>x. always (kept Q) (k x)"
  shows "ends_in Q (bindE m k)"
  unfolding ends_in_def
proof
  fix w
  obtain r w1 where mw: "m w = (r, w1)" by (cases "m w")
  with m have "Q w1" unfolding ends_in_def by (metis snd_conv)
  with k mw show "Q (snd (bindE m k w))"
    by (auto simp: bindE_def always_def kept_def split: sum.split)
qed

lemma ends_inD: "ends_in Q m \<Longrightarrow> m w = (r, w') \<Longrightarrow> Q w'"
  by (metis ends_in_def snd_conv)

subsection \<open>Tables as lists of rows\<close>

text \<open>\<open>UPDATE t SET f WHERE p\<close>\<close>

definition update_where :: "('r \<Rightarrow> bool) \<Rightarrow> ('r \<Rightarrow> 'r) \<Rightarrow> 'r list \<Rightarrow> 'r list" where
  "update_where p f rows = map (\<lambda>r. if p r then f r else r) rows"

text \<open>The row a \<open>:one\<close> query returns: the first match, in table order.\<close>

definition first_where :: "('r \<Rightarrow> bool) \<Rightarrow> 'r list \<Rightarrow> 'r option" where
  "first_where p rows = find p rows"

lemma length_update_where [simp]: "length (update_where p f rows) = length rows"
  by (simp add: update_where_def)

lemma update_where_Nil [simp]: "update_where p f [] = []"
  by (simp add: update_where_def)

lemma update_where_Cons [simp]:
  "update_where p f (r # rs) = (if p r then f r else r) # update_where p f rs"
  by (simp add: update_where_def)

lemma map_update_where:
  "(\<And>r. p r \<Longrightarrow> key (f r) = key r) \<Longrightarrow> map key (update_where p f rows) = map key rows"
  by (simp add: update_where_def)

lemma set_update_where: "set (update_where p f rows) = (\<lambda>r. if p r then f r else r) ` set rows"
  by (simp add: update_where_def)

lemma first_where_Some: "first_where p rows = Some r \<Longrightarrow> p r \<and> r \<in> set rows"
  by (auto simp: first_where_def find_Some_iff)

lemma first_where_None: "first_where p rows = None \<longleftrightarrow> (\<forall>r\<in>set rows. \<not> p r)"
  by (auto simp: first_where_def find_None_iff)

text \<open>Lookup by key, the way every table here is addressed.\<close>

definition by_key :: "('r \<Rightarrow> 'k) \<Rightarrow> 'k \<Rightarrow> 'r list \<Rightarrow> 'r option" where
  "by_key key k rows = find (\<lambda>r. key r = k) rows"

lemma by_key_Nil [simp]: "by_key key k [] = None"
  by (simp add: by_key_def)

lemma by_key_Cons [simp]: "by_key key k (r # rs) = (if key r = k then Some r else by_key key k rs)"
  by (simp add: by_key_def)

lemma by_key_Some: "by_key key k rows = Some r \<Longrightarrow> key r = k \<and> r \<in> set rows"
  by (auto simp: by_key_def find_Some_iff)

lemma by_key_None: "by_key key k rows = None \<longleftrightarrow> k \<notin> key ` set rows"
  by (auto simp: by_key_def find_None_iff)

lemma by_key_append: "by_key key k (xs @ ys) = (case by_key key k xs of None \<Rightarrow> by_key key k ys | Some r \<Rightarrow> Some r)"
  by (induction xs) auto

lemma by_key_distinct:
  "distinct (map key rows) \<Longrightarrow> r \<in> set rows \<Longrightarrow> by_key key (key r) rows = Some r"
  by (induction rows) (auto simp: by_key_def)

lemma by_key_update_where:
  assumes "\<And>r. p r \<Longrightarrow> key (f r) = key r"
  shows "by_key key k (update_where p f rows) =
    map_option (\<lambda>r. if p r then f r else r) (by_key key k rows)"
  using assms by (induction rows) auto

text \<open>\<open>DELETE FROM t WHERE p\<close> as seen through a key.\<close>

lemma by_key_filter:
  "distinct (map key rows) \<Longrightarrow>
   by_key key k (filter p rows) = (case by_key key k rows of None \<Rightarrow> None | Some r \<Rightarrow> if p r then Some r else None)"
proof (induction rows)
  case Nil
  then show ?case by simp
next
  case (Cons a rows)
  show ?case
  proof (cases "key a = k")
    case True
    with Cons.prems have "by_key key k rows = None" and "by_key key k (filter p rows) = None"
      by (auto simp: by_key_None)
    with True show ?thesis by simp
  next
    case False
    with Cons show ?thesis by simp
  qed
qed

subsection \<open>64-bit arithmetic\<close>

text \<open>What an \<open>int64\<close> (a duration, for instance) holds after an arithmetic operation.\<close>

definition int64 :: "int \<Rightarrow> int" where "int64 x = (x + 2 ^ 63) mod 2 ^ 64 - 2 ^ 63"

lemma int64_small: "- (2 ^ 63) \<le> x \<Longrightarrow> x < 2 ^ 63 \<Longrightarrow> int64 x = x"
  by (simp add: int64_def)

end
