(* ===== verification/Go_Strings.thy ===== *)
theory Go_Strings
  imports Prelude "HOL-Library.Sublist"
begin

text \<open>
  The parts of Go's \<open>strings\<close> and \<open>unicode/utf8\<close> packages the program uses, on byte strings
  (\<open>string\<close>, a list of bytes). Request bodies are decoded by \<open>encoding/json\<close>, which only
  produces valid UTF-8, so runes are counted as the bytes that do not continue a sequence.
  \<open>ToLower\<close> and \<open>TrimSpace\<close> are the ASCII parts of their Go namesakes.
\<close>

definition HasPrefix :: "string \<Rightarrow> string \<Rightarrow> bool" where
  "HasPrefix s p \<longleftrightarrow> take (length p) s = p"

definition HasSuffix :: "string \<Rightarrow> string \<Rightarrow> bool" where
  "HasSuffix s p \<longleftrightarrow> HasPrefix (rev s) (rev p)"

definition CutPrefix :: "string \<Rightarrow> string \<Rightarrow> string option" where
  "CutPrefix s p = (if HasPrefix s p then Some (drop (length p) s) else None)"

fun Contains :: "string \<Rightarrow> string \<Rightarrow> bool" where
  "Contains [] p = (p = [])"
| "Contains (c # s) p = (HasPrefix (c # s) p \<or> Contains s p)"

definition lower_char :: "char \<Rightarrow> char" where
  "lower_char c = (if 65 \<le> (of_char c :: nat) \<and> (of_char c :: nat) \<le> 90
     then char_of ((of_char c :: nat) + 32) else c)"

definition ToLower :: "string \<Rightarrow> string" where
  "ToLower s = map lower_char s"

definition replace_char :: "char \<Rightarrow> char \<Rightarrow> string \<Rightarrow> string" where
  "replace_char a b s = map (\<lambda>c. if c = a then b else c) s"

definition is_space :: "char \<Rightarrow> bool" where
  "is_space c \<longleftrightarrow> (of_char c :: nat) = 32 \<or> (9 \<le> (of_char c :: nat) \<and> (of_char c :: nat) \<le> 13)"

definition TrimSpace :: "string \<Rightarrow> string" where
  "TrimSpace s = rev (dropWhile is_space (rev (dropWhile is_space s)))"

text \<open>\<open>strings.Split(s, sep)\<close> for a one-byte separator.\<close>

fun Split :: "string \<Rightarrow> char \<Rightarrow> string list" where
  "Split [] sep = [[]]"
| "Split (c # s) sep =
     (if c = sep then [] # Split s sep
      else (case Split s sep of [] \<Rightarrow> [[c]] | p # ps \<Rightarrow> (c # p) # ps))"

definition RuneCountInString :: "string \<Rightarrow> nat" where
  "RuneCountInString s = length (filter (\<lambda>c. \<not> (128 \<le> (of_char c :: nat) \<and> (of_char c :: nat) < 192)) s)"

text \<open>\<open>strconv.FormatInt(n, 10)\<close> and the \<open>%d\<close> verb.\<close>

fun digits_nat :: "nat \<Rightarrow> string" where
  "digits_nat n = (if n < 10 then [char_of (48 + n)] else digits_nat (n div 10) @ [char_of (48 + n mod 10)])"

declare digits_nat.simps [simp del]

definition FormatInt :: "int \<Rightarrow> string" where
  "FormatInt n = (if n < 0 then CHR ''-'' # digits_nat (nat (- n)) else digits_nat (nat n))"

text \<open>\<open>strconv.ParseInt(s, 10, 64)\<close>: an optional sign, at least one digit, within 64 bits.\<close>

definition digit_val :: "char \<Rightarrow> nat option" where
  "digit_val c = (let n = (of_char c :: nat) in if 48 \<le> n \<and> n \<le> 57 then Some (n - 48) else None)"

fun parse_digits :: "nat \<Rightarrow> string \<Rightarrow> nat option" where
  "parse_digits acc [] = Some acc"
| "parse_digits acc (c # s) =
     (case digit_val c of None \<Rightarrow> None | Some d \<Rightarrow> parse_digits (10 * acc + d) s)"

definition parse_nat :: "string \<Rightarrow> nat option" where
  "parse_nat s = (if s = [] then None else parse_digits 0 s)"

definition ParseInt64 :: "string \<Rightarrow> int option" where
  "ParseInt64 s =
     (let (neg, body) = (case s of [] \<Rightarrow> (False, [])
                         | c # r \<Rightarrow> if c = CHR ''-'' then (True, r)
                                    else if c = CHR ''+'' then (False, r) else (False, s));
          value = map_option (\<lambda>n. if neg then - int n else int n) (parse_nat body)
      in case value of None \<Rightarrow> None
         | Some v \<Rightarrow> if - (2 ^ 63) \<le> v \<and> v < 2 ^ 63 then Some v else None)"

subsection \<open>Facts\<close>

lemma HasPrefix_append [simp]: "HasPrefix (p @ s) p"
  by (simp add: HasPrefix_def)

lemma HasPrefix_iff: "HasPrefix s p \<longleftrightarrow> (\<exists>r. s = p @ r)"
  unfolding HasPrefix_def by (metis append_eq_conv_conj append_take_drop_id)

lemma CutPrefix_Some: "CutPrefix s p = Some r \<longleftrightarrow> s = p @ r"
  by (auto simp: CutPrefix_def HasPrefix_iff)

lemma TrimSpace_last: "TrimSpace s \<noteq> [] \<Longrightarrow> \<not> is_space (last (TrimSpace s))"
  by (simp add: TrimSpace_def last_rev hd_dropWhile)

lemma hd_rev_dropWhile_rev:
  "xs \<noteq> [] \<Longrightarrow> \<not> P (hd xs) \<Longrightarrow> rev (dropWhile P (rev xs)) \<noteq> [] \<and> hd (rev (dropWhile P (rev xs))) = hd xs"
  by (cases xs) (auto simp: dropWhile_append)

lemma TrimSpace_hd:
  assumes "TrimSpace s \<noteq> []"
  shows "\<not> is_space (hd (TrimSpace s))"
proof -
  let ?d = "dropWhile is_space s"
  from assms have ne: "?d \<noteq> []" by (metis TrimSpace_def dropWhile.simps(1) rev.simps(1))
  then have "\<not> is_space (hd ?d)" by (rule hd_dropWhile)
  with ne show ?thesis
    using hd_rev_dropWhile_rev [of ?d is_space] by (simp add: TrimSpace_def)
qed

text \<open>Trimming is idempotent: what is stored is a fixed point of the normalisation.\<close>

lemma TrimSpace_idem [simp]: "TrimSpace (TrimSpace s) = TrimSpace s"
proof (cases "TrimSpace s = []")
  case True
  then show ?thesis by (metis TrimSpace_def dropWhile.simps(1) rev.simps(1))
next
  case False
  let ?t = "TrimSpace s"
  from False have h: "\<not> is_space (hd ?t)" and l: "\<not> is_space (last ?t)"
    by (rule TrimSpace_hd, rule TrimSpace_last)
  have "dropWhile is_space ?t = ?t"
    using False h by (cases ?t) auto
  moreover have "dropWhile is_space (rev ?t) = rev ?t"
    using False l by (metis dropWhile_eq_self_iff hd_rev)
  ultimately show ?thesis by (simp add: TrimSpace_def [of ?t])
qed

lemma digits_nat_nonempty [simp]: "digits_nat n \<noteq> []"
  by (subst digits_nat.simps) simp

lemma parse_digits_append:
  "parse_digits acc (s @ t) = (case parse_digits acc s of None \<Rightarrow> None | Some v \<Rightarrow> parse_digits v t)"
  by (induction acc s rule: parse_digits.induct) (auto split: option.splits)

lemma digit_val_char: "d < 10 \<Longrightarrow> digit_val (char_of (48 + d)) = Some d"
  by (simp add: digit_val_def Let_def of_char_of)

lemma parse_digits_digits_nat: "parse_digits 0 (digits_nat n) = Some n"
proof (induction n rule: digits_nat.induct)
  case (1 n)
  show ?case
  proof (cases "n < 10")
    case True
    then show ?thesis by (subst digits_nat.simps) (simp add: digit_val_char)
  next
    case False
    with "1.IH" have "parse_digits 0 (digits_nat (n div 10)) = Some (n div 10)" by simp
    with False show ?thesis
      by (subst digits_nat.simps) (simp add: parse_digits_append digit_val_char)
  qed
qed

lemma digits_nat_no_sign: "hd (digits_nat n) \<noteq> CHR ''-'' \<and> hd (digits_nat n) \<noteq> CHR ''+''"
proof (induction n rule: digits_nat.induct)
  case (1 n)
  show ?case
  proof (cases "n < 10")
    case True
    then have "of_char (char_of (48 + n) :: char) = 48 + n" by (simp add: of_char_of)
    then have "(char_of (48 + n) :: char) \<noteq> c" if "of_char c < (48::nat)" for c :: char
      using that by auto
    from this [of "CHR ''-''"] this [of "CHR ''+''"]
    have "(char_of (48 + n) :: char) \<noteq> CHR ''-''" "(char_of (48 + n) :: char) \<noteq> CHR ''+''"
      by simp_all
    with True show ?thesis by (subst (1 2) digits_nat.simps) simp
  next
    case False
    with "1.IH" have "hd (digits_nat (n div 10)) \<noteq> CHR ''-'' \<and> hd (digits_nat (n div 10)) \<noteq> CHR ''+''" by simp
    with False show ?thesis by (subst (1 2) digits_nat.simps) simp
  qed
qed

lemma ParseInt64_FormatInt:
  assumes "- (2 ^ 63) \<le> n" and "n < 2 ^ 63"
  shows "ParseInt64 (FormatInt n) = Some n"
proof (cases "n < 0")
  case True
  then show ?thesis using assms
    by (simp add: ParseInt64_def FormatInt_def parse_nat_def parse_digits_digits_nat)
next
  case False
  then have "FormatInt n = digits_nat (nat n)" by (simp add: FormatInt_def)
  moreover obtain c r where "digits_nat (nat n) = c # r"
    by (cases "digits_nat (nat n)") auto
  moreover from this have "c \<noteq> CHR ''-''" "c \<noteq> CHR ''+''"
    using digits_nat_no_sign [of "nat n"] by auto
  ultimately show ?thesis using assms False
    using parse_digits_digits_nat [of "nat n"]
    by (simp add: ParseInt64_def parse_nat_def del: parse_digits.simps)
qed

end
