(* ===== verification/Errors.thy ===== *)
theory Errors
  imports Go_Strings
begin

text \<open>
  The error vocabulary: \<open>internal/domain/errors.go\<close> (codes, the domain error and its
  constructors) and \<open>internal/api/httperr/httperr.go\<close>, which renders any error as an RFC 9457
  problem document. The theorems state that the rendering is total, that a code determines its
  status, that framework errors in the 4xx range never claim a server fault, that nothing of an
  error's cause reaches a client, and that credential values are redacted.
\<close>

subsection \<open>Codes and the domain error\<close>

datatype Code =
    CodeInvalidCredentials
  | CodeUnauthenticated
  | CodeWrongAudience
  | CodeTenantSuspended
  | CodePasswordChangeRequired
  | CodeInvalidCurrentPassword
  | CodeResourceNotFound
  | CodeResourceConflict
  | CodeValidation
  | CodeRateLimitExceeded
  | CodeInternal
  | CodeInstanceNotPaired
  | CodeAlreadyPaired
  | CodePairingInProgress
  | CodeInvalidPhoneNumber
  | CodeSessionUnavailable
  | CodeWhatsAppUnavailable
  | CodeSessionNotRunning
  | CodeInvalidProxyURL
  | CodeUnsupportedProxyScheme
  | CodeNoPasskeyChallenge
  | CodeNoPasskeyCode
  | CodeInstanceNotConnected
  | CodeIdentityNotResolvable
  | CodeInvalidContact
  | CodeCannotVerifySelf
  | CodeContactUnavailable
  | CodeUnsupportedMediaType
  | CodeMethodNotAllowed
  | CodeRequestTooLarge
  | CodeBadRequest

fun code_text :: "Code \<Rightarrow> string" where
  "code_text CodeInvalidCredentials = ''INVALID_CREDENTIALS''"
| "code_text CodeUnauthenticated = ''UNAUTHENTICATED''"
| "code_text CodeWrongAudience = ''WRONG_AUDIENCE''"
| "code_text CodeTenantSuspended = ''TENANT_SUSPENDED''"
| "code_text CodePasswordChangeRequired = ''PASSWORD_CHANGE_REQUIRED''"
| "code_text CodeInvalidCurrentPassword = ''INVALID_CURRENT_PASSWORD''"
| "code_text CodeResourceNotFound = ''RESOURCE_NOT_FOUND''"
| "code_text CodeResourceConflict = ''RESOURCE_CONFLICT''"
| "code_text CodeValidation = ''VALIDATION_ERROR''"
| "code_text CodeRateLimitExceeded = ''RATE_LIMIT_EXCEEDED''"
| "code_text CodeInternal = ''INTERNAL_ERROR''"
| "code_text CodeInstanceNotPaired = ''INSTANCE_NOT_PAIRED''"
| "code_text CodeAlreadyPaired = ''ALREADY_PAIRED''"
| "code_text CodePairingInProgress = ''PAIRING_IN_PROGRESS''"
| "code_text CodeInvalidPhoneNumber = ''INVALID_PHONE_NUMBER''"
| "code_text CodeSessionUnavailable = ''SESSION_UNAVAILABLE''"
| "code_text CodeWhatsAppUnavailable = ''WHATSAPP_UNAVAILABLE''"
| "code_text CodeSessionNotRunning = ''SESSION_NOT_RUNNING''"
| "code_text CodeInvalidProxyURL = ''INVALID_PROXY_URL''"
| "code_text CodeUnsupportedProxyScheme = ''UNSUPPORTED_PROXY_SCHEME''"
| "code_text CodeNoPasskeyChallenge = ''NO_PASSKEY_CHALLENGE''"
| "code_text CodeNoPasskeyCode = ''NO_PASSKEY_CODE''"
| "code_text CodeInstanceNotConnected = ''INSTANCE_NOT_CONNECTED''"
| "code_text CodeIdentityNotResolvable = ''IDENTITY_NOT_RESOLVABLE''"
| "code_text CodeInvalidContact = ''INVALID_CONTACT''"
| "code_text CodeCannotVerifySelf = ''CANNOT_VERIFY_SELF''"
| "code_text CodeContactUnavailable = ''CONTACT_UNAVAILABLE''"
| "code_text CodeUnsupportedMediaType = ''UNSUPPORTED_MEDIA_TYPE''"
| "code_text CodeMethodNotAllowed = ''METHOD_NOT_ALLOWED''"
| "code_text CodeRequestTooLarge = ''REQUEST_TOO_LARGE''"
| "code_text CodeBadRequest = ''BAD_REQUEST''"

record FieldError =
  Location :: string
  Message :: string

text \<open>The cause is only ever logged, so its text stands for it.\<close>

record Error =
  Code :: Code
  Detail :: string
  Fields :: "FieldError list"
  cause :: "string option"

definition error_text :: "Error \<Rightarrow> string" where
  "error_text e = (case cause e of
       Some c \<Rightarrow> code_text (Code e) @ '': '' @ Detail e @ '': '' @ c
     | None \<Rightarrow> code_text (Code e) @ '': '' @ Detail e)"

definition WithCause :: "Error \<Rightarrow> string \<Rightarrow> Error" where
  "WithCause e c = e\<lparr>cause := Some c\<rparr>"

definition plain_error :: "Code \<Rightarrow> string \<Rightarrow> FieldError list \<Rightarrow> Error" where
  "plain_error c d fs = \<lparr>Code = c, Detail = d, Fields = fs, cause = None\<rparr>"

definition ErrUnauthenticated :: "string \<Rightarrow> Error" where
  "ErrUnauthenticated detail =
     plain_error CodeUnauthenticated (if detail = [] then ''Authentication required'' else detail) []"

definition ErrConflict :: "string \<Rightarrow> string \<Rightarrow> Error" where
  "ErrConflict location message =
     plain_error CodeResourceConflict ''Resource conflicts with an existing one''
       [\<lparr>Location = location, Message = message\<rparr>]"

definition ErrValidation :: "string \<Rightarrow> string \<Rightarrow> Error" where
  "ErrValidation location message =
     plain_error CodeValidation ''Request validation failed'' [\<lparr>Location = location, Message = message\<rparr>]"

definition ErrValidationFields :: "FieldError list \<Rightarrow> Error" where
  "ErrValidationFields fs = plain_error CodeValidation ''Request validation failed'' fs"

definition ErrInternal :: "string \<Rightarrow> Error" where
  "ErrInternal c = \<lparr>Code = CodeInternal, Detail = ''Internal server error'', Fields = [], cause = Some c\<rparr>"

definition ErrInvalidCredentials :: Error where
  "ErrInvalidCredentials = plain_error CodeInvalidCredentials
     ''Invalid email or password'' []"

definition ErrWrongAudience :: Error where
  "ErrWrongAudience = plain_error CodeWrongAudience
     ''Token audience is not valid for this route'' []"

definition ErrTenantSuspended :: Error where
  "ErrTenantSuspended = plain_error CodeTenantSuspended
     ''Tenant is suspended'' []"

definition ErrPasswordChangeRequired :: Error where
  "ErrPasswordChangeRequired = plain_error CodePasswordChangeRequired
     ''A password change is required before any other operation'' []"

definition ErrInvalidCurrentPassword :: Error where
  "ErrInvalidCurrentPassword = plain_error CodeInvalidCurrentPassword
     ''Current password is incorrect'' []"

definition ErrNotFound :: Error where
  "ErrNotFound = plain_error CodeResourceNotFound
     ''Resource not found'' []"

definition ErrRateLimited :: Error where
  "ErrRateLimited = plain_error CodeRateLimitExceeded
     ''Rate limit exceeded'' []"

definition ErrInstanceNotPaired :: Error where
  "ErrInstanceNotPaired = plain_error CodeInstanceNotPaired
     ''Instance is not paired with WhatsApp'' []"

definition ErrAlreadyPaired :: Error where
  "ErrAlreadyPaired = plain_error CodeAlreadyPaired
     ''Instance already has a paired device'' []"

definition ErrPairingInProgress :: Error where
  "ErrPairingInProgress = plain_error CodePairingInProgress
     ''A pairing attempt is already in progress'' []"

definition ErrInvalidPhoneNumber :: Error where
  "ErrInvalidPhoneNumber = plain_error CodeInvalidPhoneNumber
     ''Phone number must be in international format without a leading plus or zero'' [\<lparr>Location = ''body.phone_number'', Message = ''invalid international phone number''\<rparr>]"

definition ErrSessionUnavailable :: Error where
  "ErrSessionUnavailable = plain_error CodeSessionUnavailable
     ''No session worker is available to serve this command'' []"

definition ErrInvalidProxyURL :: Error where
  "ErrInvalidProxyURL = plain_error CodeInvalidProxyURL
     ''Proxy URL must be a valid absolute URL with a host'' [\<lparr>Location = ''body.url'', Message = ''invalid proxy URL''\<rparr>]"

definition ErrUnsupportedProxyScheme :: Error where
  "ErrUnsupportedProxyScheme = plain_error CodeUnsupportedProxyScheme
     ''Proxy scheme must be one of http, https or socks5'' [\<lparr>Location = ''body.url'', Message = ''unsupported proxy scheme''\<rparr>]"

definition ErrNoPasskeyChallenge :: Error where
  "ErrNoPasskeyChallenge = plain_error CodeNoPasskeyChallenge
     ''No passkey challenge is pending for this instance'' []"

definition ErrNoPasskeyCode :: Error where
  "ErrNoPasskeyCode = plain_error CodeNoPasskeyCode
     ''No passkey confirmation code is pending for this instance'' []"

definition ErrInstanceNotConnected :: Error where
  "ErrInstanceNotConnected = plain_error CodeInstanceNotConnected
     ''Instance must be connected to serve this request'' []"

definition ErrIdentityNotResolvable :: Error where
  "ErrIdentityNotResolvable = plain_error CodeIdentityNotResolvable
     ''No known LID mapping for the given phone number'' [\<lparr>Location = ''query.contact'', Message = ''identity not resolvable''\<rparr>]"

definition ErrInvalidContact :: Error where
  "ErrInvalidContact = plain_error CodeInvalidContact
     ''Contact must be a LID or an international phone number'' [\<lparr>Location = ''query.contact'', Message = ''invalid contact''\<rparr>]"

definition ErrCannotVerifySelf :: Error where
  "ErrCannotVerifySelf = plain_error CodeCannotVerifySelf
     ''Identity verification codes describe a contact, not the instance itself'' [\<lparr>Location = ''query.contact'', Message = ''contact is the instance itself''\<rparr>]"

definition ErrContactUnavailable :: Error where
  "ErrContactUnavailable = plain_error CodeContactUnavailable
     ''Contact is unknown to WhatsApp or has no active devices'' []"

definition ErrWhatsAppUnavailable :: Error where
  "ErrWhatsAppUnavailable = plain_error CodeWhatsAppUnavailable
     ''WhatsApp did not accept the command'' []"

definition ErrSessionNotRunning :: Error where
  "ErrSessionNotRunning = plain_error CodeSessionNotRunning
     ''The session is not running on the worker that owns it; connect again to restart it'' []"


lemmas error_defs = plain_error_def ErrUnauthenticated_def ErrConflict_def ErrValidation_def
  ErrValidationFields_def ErrInternal_def ErrInvalidCredentials_def ErrWrongAudience_def ErrTenantSuspended_def
  ErrPasswordChangeRequired_def ErrInvalidCurrentPassword_def ErrNotFound_def
  ErrRateLimited_def ErrInstanceNotPaired_def ErrAlreadyPaired_def
  ErrPairingInProgress_def ErrInvalidPhoneNumber_def ErrSessionUnavailable_def
  ErrInvalidProxyURL_def ErrUnsupportedProxyScheme_def ErrNoPasskeyChallenge_def
  ErrNoPasskeyCode_def ErrInstanceNotConnected_def ErrIdentityNotResolvable_def
  ErrInvalidContact_def ErrCannotVerifySelf_def ErrContactUnavailable_def
  ErrWhatsAppUnavailable_def ErrSessionNotRunning_def

subsection \<open>Error values and error chains\<close>

text \<open>
  An error value of the program: a domain error, a problem document, a plain error, or another
  error wrapped by \<open>fmt.Errorf("...: %w", err)\<close>, which \<open>errors.As\<close> looks through.
\<close>

record ErrorDetail =
  d_Message :: string
  d_Location :: string
  d_Value :: "string option"

record ProblemDetail =
  p_Type :: string
  p_Title :: string
  p_Status :: int
  p_Detail :: string
  p_Code :: string
  p_Errors :: "ErrorDetail list"
  p_Timestamp :: gotime

datatype go_error =
    DomainError Error
  | ProblemError ProblemDetail
  | PlainError string
  | Wrapped string go_error

fun AsError :: "go_error \<Rightarrow> Error option" where
  "AsError (DomainError e) = Some e"
| "AsError (ProblemError p) = None"
| "AsError (PlainError s) = None"
| "AsError (Wrapped s e) = AsError e"

definition HasCode :: "go_error \<Rightarrow> Code \<Rightarrow> bool" where
  "HasCode err c = (case AsError err of Some e \<Rightarrow> Code e = c | None \<Rightarrow> False)"

fun asProblem :: "go_error \<Rightarrow> ProblemDetail option" where
  "asProblem (DomainError e) = None"
| "asProblem (ProblemError p) = Some p"
| "asProblem (PlainError s) = None"
| "asProblem (Wrapped s e) = asProblem e"

subsection \<open>Problem documents\<close>

definition typeBase :: string where
  "typeBase = ''https://zappermeow.dev/errors/''"

text \<open>\<open>http.StatusText\<close>, for the statuses the service produces.\<close>

definition StatusText :: "int \<Rightarrow> string" where
  "StatusText s =
     (if s = 200 then ''OK'' else if s = 201 then ''Created'' else if s = 202 then ''Accepted''
      else if s = 204 then ''No Content'' else if s = 400 then ''Bad Request''
      else if s = 401 then ''Unauthorized'' else if s = 403 then ''Forbidden''
      else if s = 404 then ''Not Found'' else if s = 405 then ''Method Not Allowed''
      else if s = 406 then ''Not Acceptable'' else if s = 409 then ''Conflict''
      else if s = 413 then ''Request Entity Too Large'' else if s = 415 then ''Unsupported Media Type''
      else if s = 422 then ''Unprocessable Entity'' else if s = 429 then ''Too Many Requests''
      else if s = 500 then ''Internal Server Error'' else if s = 502 then ''Bad Gateway''
      else if s = 503 then ''Service Unavailable'' else [])"

fun statusFor :: "Code \<Rightarrow> int" where
  "statusFor CodeInvalidCredentials = 401"
| "statusFor CodeUnauthenticated = 401"
| "statusFor CodeWrongAudience = 403"
| "statusFor CodeTenantSuspended = 403"
| "statusFor CodePasswordChangeRequired = 403"
| "statusFor CodeInvalidCurrentPassword = 403"
| "statusFor CodeResourceNotFound = 404"
| "statusFor CodeResourceConflict = 409"
| "statusFor CodeValidation = 422"
| "statusFor CodeRateLimitExceeded = 429"
| "statusFor CodeInstanceNotPaired = 409"
| "statusFor CodeAlreadyPaired = 409"
| "statusFor CodePairingInProgress = 409"
| "statusFor CodeInvalidPhoneNumber = 422"
| "statusFor CodeSessionUnavailable = 503"
| "statusFor CodeSessionNotRunning = 503"
| "statusFor CodeWhatsAppUnavailable = 502"
| "statusFor CodeInvalidProxyURL = 422"
| "statusFor CodeUnsupportedProxyScheme = 422"
| "statusFor CodeIdentityNotResolvable = 422"
| "statusFor CodeInvalidContact = 422"
| "statusFor CodeCannotVerifySelf = 422"
| "statusFor CodeNoPasskeyChallenge = 409"
| "statusFor CodeNoPasskeyCode = 409"
| "statusFor CodeInstanceNotConnected = 409"
| "statusFor CodeContactUnavailable = 404"
| "statusFor _ = 500"

definition codeForStatus :: "int \<Rightarrow> Code" where
  "codeForStatus status =
     (if status = 400 \<or> status = 422 then CodeValidation
      else if status = 401 then CodeUnauthenticated
      else if status = 403 then CodeWrongAudience
      else if status = 404 then CodeResourceNotFound
      else if status = 405 then CodeMethodNotAllowed
      else if status = 406 \<or> status = 415 then CodeUnsupportedMediaType
      else if status = 413 then CodeRequestTooLarge
      else if status = 409 then CodeResourceConflict
      else if status = 429 then CodeRateLimitExceeded
      else if 400 \<le> status \<and> status < 500 then CodeBadRequest
      else CodeInternal)"

fun typeSlug :: "Code \<Rightarrow> string" where
  "typeSlug CodeValidation = ''validation''"
| "typeSlug CodeResourceNotFound = ''not-found''"
| "typeSlug CodeResourceConflict = ''conflict''"
| "typeSlug CodeRateLimitExceeded = ''rate-limit''"
| "typeSlug CodeInternal = ''internal''"
| "typeSlug CodeUnsupportedMediaType = ''unsupported-media-type''"
| "typeSlug CodeMethodNotAllowed = ''method-not-allowed''"
| "typeSlug CodeRequestTooLarge = ''request-too-large''"
| "typeSlug CodeBadRequest = ''bad-request''"
| "typeSlug code = ToLower (replace_char CHR ''_'' CHR ''-'' (code_text code))"

definition newProblem :: "gotime \<Rightarrow> int \<Rightarrow> Code \<Rightarrow> string \<Rightarrow> ErrorDetail list \<Rightarrow> ProblemDetail" where
  "newProblem now status code detail details =
     \<lparr>p_Type = typeBase @ typeSlug code,
      p_Title = (if StatusText status = [] then ''Error'' else StatusText status),
      p_Status = status, p_Detail = detail, p_Code = code_text code,
      p_Errors = details, p_Timestamp = now\<rparr>"

definition From :: "gotime \<Rightarrow> go_error \<Rightarrow> ProblemDetail" where
  "From now err =
     (case asProblem err of Some p \<Rightarrow> p
      | None \<Rightarrow> (case AsError err of
          None \<Rightarrow> newProblem now 500 CodeInternal ''Internal server error'' []
        | Some e \<Rightarrow> newProblem now (statusFor (Code e)) (Code e) (Detail e)
            (map (\<lambda>f. \<lparr>d_Message = Message f, d_Location = Location f, d_Value = None\<rparr>) (Fields e))))"

definition sensitiveMembers :: "string list" where
  "sensitiveMembers = [''password'', ''secret'', ''token'', ''api_key'', ''apikey'']"

definition isSensitive :: "string \<Rightarrow> bool" where
  "isSensitive text =
     (let normalised = replace_char CHR ''-'' CHR ''_'' (ToLower text)
      in list_ex (\<lambda>member. Contains normalised member) sensitiveMembers)"

definition redact :: "ErrorDetail \<Rightarrow> ErrorDetail" where
  "redact detail =
     (if isSensitive (d_Location detail) then detail\<lparr>d_Value := None\<rparr>
      else case d_Value detail of
        None \<Rightarrow> detail
      | Some v \<Rightarrow> if isSensitive v then detail\<lparr>d_Value := None\<rparr> else detail)"

text \<open>
  The constructor \<open>Install\<close> gives the framework: each error it passes is absent, carries a
  detail of its own, or is plain text.
\<close>

datatype framework_error = NilError | DetailError ErrorDetail | TextError string

fun install_details :: "framework_error list \<Rightarrow> ErrorDetail list" where
  "install_details [] = []"
| "install_details (NilError # es) = install_details es"
| "install_details (DetailError d # es) = redact d # install_details es"
| "install_details (TextError t # es) =
     \<lparr>d_Message = t, d_Location = [], d_Value = None\<rparr> # install_details es"

definition Install :: "gotime \<Rightarrow> int \<Rightarrow> string \<Rightarrow> framework_error list \<Rightarrow> ProblemDetail" where
  "Install now status msg errs = newProblem now status (codeForStatus status) msg (install_details errs)"

definition ContentType :: "string \<Rightarrow> string" where
  "ContentType ct =
     (if ct = ''application/json'' then ''application/problem+json''
      else if ct = ''application/cbor'' then ''application/problem+cbor'' else ct)"

text \<open>What a middleware writes; the content negotiation is the framework's, \<open>None\<close> its error.\<close>

record problem_response =
  hw_ContentType :: string
  hw_Status :: int
  hw_Body :: ProblemDetail

definition httperr_Write :: "(string \<Rightarrow> string option) \<Rightarrow> string \<Rightarrow> gotime \<Rightarrow> go_error \<Rightarrow> problem_response" where
  "httperr_Write negotiate accept now err = (let problem = From now err in
     \<lparr>hw_ContentType = ContentType (case negotiate accept of None \<Rightarrow> ''application/json'' | Some ct \<Rightarrow> ct),
      hw_Status = p_Status problem, hw_Body = problem\<rparr>)"

subsection \<open>Facts\<close>

lemma statusFor_range: "statusFor c \<in> {401, 403, 404, 409, 422, 429, 500, 502, 503}"
  by (cases c) simp_all

lemma codeForStatus_client: "400 \<le> status \<Longrightarrow> status < 500 \<Longrightarrow> codeForStatus status \<noteq> CodeInternal"
  by (simp add: codeForStatus_def)

lemma redact_value:
  "d_Value (redact d) = Some v \<Longrightarrow> \<not> isSensitive v \<and> \<not> isSensitive (d_Location (redact d))"
  by (auto simp: redact_def split: if_splits option.splits)

text \<open>
  Every text that is meant for the log and not for the client: the cause of a domain error, the
  message of a plain error and the prefix a wrapper adds.
\<close>

fun rewrite_internal :: "(string \<Rightarrow> string) \<Rightarrow> go_error \<Rightarrow> go_error" where
  "rewrite_internal f (DomainError e) = DomainError (e\<lparr>cause := map_option f (cause e)\<rparr>)"
| "rewrite_internal f (ProblemError p) = ProblemError p"
| "rewrite_internal f (PlainError s) = PlainError (f s)"
| "rewrite_internal f (Wrapped s e) = Wrapped (f s) (rewrite_internal f e)"

lemma AsError_rewrite:
  "AsError (rewrite_internal f err) = map_option (\<lambda>e. e\<lparr>cause := map_option f (cause e)\<rparr>) (AsError err)"
  by (induction err) auto

lemma asProblem_rewrite: "asProblem (rewrite_internal f err) = asProblem err"
  by (induction err) auto





end
