(* ===== verification/Domain_Accounts.thy ===== *)
theory Domain_Accounts
  imports Errors
begin

text \<open>
  The account vocabulary: \<open>internal/domain/tenant.go\<close>, \<open>user.go\<close>, \<open>securityevent.go\<close>,
  \<open>validate.go\<close> and \<open>apikey.go\<close>. The facts state that validated names are exactly the
  non-blank ones of bounded length, that \<open>CollectErrors\<close> reports every field at once, and that
  the base62 rendering of an API key secret has a fixed width and loses none of its 256 bits.
\<close>

subsection \<open>Tenants and users\<close>

datatype TenantStatus = TenantActive | TenantSuspended | OtherTenantStatus string

record Tenant =
  t_ID :: ID
  t_Name :: string
  t_Status :: TenantStatus
  t_CreatedAt :: gotime
  t_UpdatedAt :: gotime

definition IsActive :: "Tenant \<Rightarrow> bool" where
  "IsActive t \<longleftrightarrow> t_Status t = TenantActive"

datatype Role = RoleSuperAdmin | RoleTenantAdmin | OtherRole string

datatype Audience = AudiencePlatform | AudienceTenant | OtherAudience string

definition role_Audience :: "Role \<Rightarrow> Audience" where
  "role_Audience r = (if r = RoleSuperAdmin then AudiencePlatform else AudienceTenant)"

record User =
  u_ID :: ID
  u_Name :: string
  u_Email :: string
  u_Role :: Role
  u_TenantID :: "ID option"
  u_MustChangePassword :: bool
  u_FailedLoginCount :: int
  u_LockedUntil :: gotime
  u_PasswordChangedAt :: gotime
  u_CreatedAt :: gotime
  u_UpdatedAt :: gotime

definition IsLocked :: "User \<Rightarrow> gotime \<Rightarrow> bool" where
  "IsLocked u now \<longleftrightarrow> u_LockedUntil u \<noteq> zero_time \<and> u_LockedUntil u > now"

definition second :: duration where "second = 1000000000"

text \<open>\<open>time.Time.Truncate(time.Second)\<close>.\<close>

definition truncate_second :: "gotime \<Rightarrow> gotime" where
  "truncate_second t = t - t mod second"

definition TokenPredatesPasswordChange :: "User \<Rightarrow> gotime \<Rightarrow> bool" where
  "TokenPredatesPasswordChange u issuedAt \<longleftrightarrow> issuedAt < truncate_second (u_PasswordChangedAt u)"

subsection \<open>Audit records\<close>

datatype EventType =
    EventLoginSucceeded | EventLoginFailed | EventAccountLocked | EventAccountUnlocked
  | EventPasswordChanged | EventPasswordReset | EventTenantCreated | EventTenantUpdated
  | EventTenantSuspended | EventTenantActivated | EventTenantDeleted | EventInstanceCreated
  | EventInstanceUpdated | EventInstanceDeleted | EventAPIKeyCreated | EventAPIKeyRevoked
  | EventBootstrapAdminCreate

datatype EventResult = ResultSuccess | ResultFailure | ResultDenied

datatype TargetType = TargetNone | TargetTenant | TargetUser | TargetInstance | TargetAPIKey

record SecurityEvent =
  se_Type :: EventType
  se_ActorUserID :: "ID option"
  se_TargetType :: TargetType
  se_TargetID :: "ID option"
  se_Result :: EventResult
  se_SourceIP :: "string option"
  se_Metadata :: payload

subsection \<open>Validation\<close>

definition MaxNameLength :: nat where "MaxNameLength = 120"
definition MaxLabelLen :: nat where "MaxLabelLen = 60"

definition NormalizeName :: "string \<Rightarrow> string" where
  "NormalizeName name = TrimSpace name"

definition NormalizeEmail :: "string \<Rightarrow> string" where
  "NormalizeEmail email = ToLower (TrimSpace email)"

text \<open>A validator returns \<open>None\<close> for Go's \<open>nil\<close>.\<close>

definition ValidateName :: "string \<Rightarrow> string \<Rightarrow> Error option" where
  "ValidateName location name =
     (let trimmed = NormalizeName name in
      if trimmed = [] then Some (ErrValidation location ''must not be empty'')
      else if RuneCountInString trimmed > MaxNameLength then
        Some (ErrValidation location
          (''expected length <= '' @ FormatInt (int MaxNameLength) @ '', got '' @
           FormatInt (int (RuneCountInString trimmed))))
      else None)"

definition ValidateLabel :: "string \<Rightarrow> string \<Rightarrow> Error option" where
  "ValidateLabel location label =
     (if RuneCountInString (TrimSpace label) > MaxLabelLen then
        Some (ErrValidation location
          (''expected length <= '' @ FormatInt (int MaxLabelLen) @ '', got '' @
           FormatInt (int (RuneCountInString (TrimSpace label)))))
      else None)"

text \<open>The loop of \<open>CollectErrors\<close>: \<open>Inl\<close> is the early return of a foreign error.\<close>

fun collect_fields :: "go_error option list \<Rightarrow> go_error + FieldError list" where
  "collect_fields [] = Inr []"
| "collect_fields (None # errs) = collect_fields errs"
| "collect_fields (Some err # errs) =
     (case AsError err of None \<Rightarrow> Inl err
      | Some e \<Rightarrow> (case collect_fields errs of Inl f \<Rightarrow> Inl f | Inr fs \<Rightarrow> Inr (Fields e @ fs)))"

definition CollectErrors :: "go_error option list \<Rightarrow> go_error option" where
  "CollectErrors errs =
     (case collect_fields errs of Inl err \<Rightarrow> Some err
      | Inr fs \<Rightarrow> if fs = [] then None else Some (DomainError (ErrValidationFields fs)))"

subsection \<open>API keys\<close>

definition APIKeyPrefix :: string where "APIKeyPrefix = ''zmk_''"
definition apiKeySecretBytes :: nat where "apiKeySecretBytes = 32"
definition apiKeySecretChars :: nat where "apiKeySecretChars = 43"
definition APIKeyPrefixLength :: nat where "APIKeyPrefixLength = 12"

definition base62Alphabet :: string where
  "base62Alphabet = ''0123456789ABCDEFGHIJKLMNOPQRSTUVWXYZabcdefghijklmnopqrstuvwxyz''"

datatype APIKeyStatus = APIKeyActive | APIKeyRevoked | OtherKeyStatus string

record APIKey =
  k_ID :: ID
  k_InstanceID :: ID
  k_Label :: "string option"
  k_KeyPrefix :: string
  k_Status :: APIKeyStatus
  k_CreatedAt :: gotime
  k_RevokedAt :: "gotime option"

record GeneratedAPIKey =
  g_Secret :: string
  g_Prefix :: string
  g_Hash :: string

text \<open>\<open>new(big.Int).SetBytes(buf)\<close>: big-endian.\<close>

definition SetBytes :: "string \<Rightarrow> nat" where
  "SetBytes buf = foldl (\<lambda>acc b. 256 * acc + of_char b) 0 buf"

text \<open>
  The loop fills \<open>out\<close> from the last index down, one \<open>DivMod\<close> per digit: the digit at
  index \<open>i\<close> is followed by those written before it.
\<close>

fun base62_loop :: "nat \<Rightarrow> nat \<Rightarrow> string \<Rightarrow> string" where
  "base62_loop 0 value out = out"
| "base62_loop (Suc i) value out =
     base62_loop i (value div length base62Alphabet)
       ((base62Alphabet ! (value mod length base62Alphabet)) # out)"

text \<open>The bytes are what \<open>crypto/rand\<close> returned; its failure is a value of its own.\<close>

definition randomBase62 :: "string option \<Rightarrow> string option" where
  "randomBase62 buf = map_option (\<lambda>b. base62_loop apiKeySecretChars (SetBytes b) []) buf"

text \<open>The digest is \<open>crypto/sha256\<close>, a parameter: only its being a function is used.\<close>

definition GenerateAPIKey :: "(string \<Rightarrow> string) \<Rightarrow> string option \<Rightarrow> GeneratedAPIKey option" where
  "GenerateAPIKey sha256 buf =
     (case randomBase62 buf of None \<Rightarrow> None
      | Some secret \<Rightarrow> (let token = APIKeyPrefix @ secret in
          Some \<lparr>g_Secret = token, g_Prefix = take APIKeyPrefixLength token, g_Hash = sha256 token\<rparr>))"

definition LooksLikeAPIKey :: "string \<Rightarrow> bool" where
  "LooksLikeAPIKey token \<longleftrightarrow> HasPrefix token APIKeyPrefix \<and> length token > APIKeyPrefixLength"

subsection \<open>Facts\<close>

lemma ValidateName_ok_iff:
  "ValidateName l n = None \<longleftrightarrow> TrimSpace n \<noteq> [] \<and> RuneCountInString (TrimSpace n) \<le> 120"
  by (auto simp: ValidateName_def NormalizeName_def MaxNameLength_def Let_def)

text \<open>A normalised name that was accepted is accepted again: storing the trimmed form is stable.\<close>

lemma ValidateName_NormalizeName: "ValidateName l (NormalizeName n) = ValidateName l n"
  by (simp add: ValidateName_def NormalizeName_def)

lemma collect_fields_domain:
  "collect_fields (map (map_option DomainError) es) =
   Inr (concat (map (\<lambda>x. case x of None \<Rightarrow> [] | Some e \<Rightarrow> Fields e) es))"
proof (induction es)
  case Nil
  then show ?case by simp
next
  case (Cons a es)
  then show ?case by (cases a) simp_all
qed

lemma length_base62_loop [simp]: "length (base62_loop n v out) = n + length out"
  by (induction n v out rule: base62_loop.induct) auto

lemma length_alphabet [simp]: "length base62Alphabet = 62"
  by (simp add: base62Alphabet_def)

lemma distinct_alphabet: "distinct base62Alphabet"
  by code_simp

text \<open>Reading digits back: the inverse of the rendering.\<close>

fun index_of :: "'a \<Rightarrow> 'a list \<Rightarrow> nat" where
  "index_of x [] = 0"
| "index_of x (y # ys) = (if x = y then 0 else Suc (index_of x ys))"

definition base62_value :: "string \<Rightarrow> nat" where
  "base62_value s = foldl (\<lambda>acc c. 62 * acc + index_of c base62Alphabet) 0 s"

lemma index_of_nth: "distinct xs \<Longrightarrow> i < length xs \<Longrightarrow> index_of (xs ! i) xs = i"
  by (induction xs arbitrary: i) (auto simp: nth_Cons split: nat.splits)

lemma foldl_digits_shift:
  "foldl (\<lambda>acc c. b * acc + f c) a xs = a * b ^ length xs + foldl (\<lambda>acc c. b * acc + f c) (0::nat) xs"
proof (induction xs arbitrary: a)
  case Nil
  then show ?case by simp
next
  case (Cons x xs)
  show ?case using Cons [of "b * a + f x"] Cons [of "f x"] by (simp add: algebra_simps)
qed

lemma base62_value_loop:
  "base62_value (base62_loop n v out) = (v mod 62 ^ n) * 62 ^ length out + base62_value out"
proof (induction n arbitrary: v out)
  case 0
  then show ?case by simp
next
  case (Suc n)
  let ?d = "v mod 62"
  have d: "index_of (base62Alphabet ! ?d) base62Alphabet = ?d"
    using index_of_nth [OF distinct_alphabet, of ?d] by simp
  have cons: "base62_value ((base62Alphabet ! ?d) # out) = ?d * 62 ^ length out + base62_value out"
    using foldl_digits_shift [of 62 "\<lambda>c. index_of c base62Alphabet" ?d out] d
    by (simp add: base62_value_def)
  have "v mod 62 ^ Suc n = (v div 62 mod 62 ^ n) * 62 + ?d"
    using mod_mult2_eq [of v 62 "62 ^ n"] by (simp add: mult.commute)
  then show ?case using Suc [of "v div 62" "(base62Alphabet ! ?d) # out"] cons
    by (simp add: algebra_simps)
qed

lemma SetBytes_bound: "SetBytes b < 256 ^ length b"
proof (induction b rule: rev_induct)
  case Nil
  then show ?case by (simp add: SetBytes_def)
next
  case (snoc c b)
  have eq: "SetBytes (b @ [c]) = 256 * SetBytes b + of_char c" by (simp add: SetBytes_def)
  have "of_char c < (256::nat)" by (rule nat_of_char_less_256)
  then have "256 * SetBytes b + of_char c < 256 * Suc (SetBytes b)" unfolding mult_Suc_right by arith
  also have "\<dots> \<le> 256 * 256 ^ length b" using snoc by (intro mult_le_mono2) (rule Suc_leI)
  finally show ?case using eq by simp
qed

lemma SetBytes_inject: "length a = length b \<Longrightarrow> SetBytes a = SetBytes b \<Longrightarrow> a = b"
proof (induction a arbitrary: b rule: rev_induct)
  case Nil
  then show ?case by simp
next
  case (snoc c a)
  then obtain b' d where b: "b = b' @ [d]" by (cases b rule: rev_cases) auto
  have lt: "of_char x < (256::nat)" for x :: char by (rule nat_of_char_less_256)
  from snoc.prems b have eq: "256 * SetBytes a + of_char c = 256 * SetBytes b' + (of_char d :: nat)"
    by (simp add: SetBytes_def)
  then have "(256 * SetBytes a + of_char c) div 256 = (256 * SetBytes b' + (of_char d :: nat)) div 256"
    and "(256 * SetBytes a + of_char c) mod 256 = (256 * SetBytes b' + (of_char d :: nat)) mod 256"
    by simp_all
  with lt have "SetBytes a = SetBytes b'" and "of_char c = (of_char d :: nat)" by simp_all
  then show ?case using snoc b by simp
qed

lemma randomBase62_value:
  assumes "length b = apiKeySecretBytes"
  shows "base62_value (base62_loop apiKeySecretChars (SetBytes b) []) = SetBytes b"
proof -
  have "SetBytes b < 256 ^ 32" using SetBytes_bound [of b] assms by (simp add: apiKeySecretBytes_def)
  also have "(256::nat) ^ 32 \<le> 62 ^ 43" by simp
  finally show ?thesis
    using base62_value_loop [of apiKeySecretChars "SetBytes b" "[]"]
    by (simp add: apiKeySecretChars_def base62_value_def)
qed

text \<open>
  A generated API key is recognised as one, always has 47 characters of which the first 12 are
  the stored prefix, and carries all of its randomness: two draws of 32 random bytes give the same
  secret only if the bytes are the same.
\<close>

theorem generated_keys_carry_their_randomness:
  assumes "length a = apiKeySecretBytes" and "length b = apiKeySecretBytes"
    and "GenerateAPIKey sha256 (Some a) = Some ka" and "GenerateAPIKey sha256 (Some b) = Some kb"
  shows "LooksLikeAPIKey (g_Secret ka) \<and> length (g_Secret ka) = 47 \<and>
    HasPrefix (g_Secret ka) (g_Prefix ka) \<and> length (g_Prefix ka) = APIKeyPrefixLength \<and>
    g_Hash ka = sha256 (g_Secret ka) \<and> (g_Secret ka = g_Secret kb \<longleftrightarrow> a = b)"
proof -
  have ka: "g_Secret ka = APIKeyPrefix @ base62_loop apiKeySecretChars (SetBytes a) []"
    "g_Prefix ka = take APIKeyPrefixLength (g_Secret ka)" "g_Hash ka = sha256 (g_Secret ka)"
    and kb: "g_Secret kb = APIKeyPrefix @ base62_loop apiKeySecretChars (SetBytes b) []"
    using assms(3,4) by (auto simp: GenerateAPIKey_def randomBase62_def Let_def)
  have len: "length (g_Secret ka) = 47"
    by (simp add: ka(1) apiKeySecretChars_def APIKeyPrefix_def)
  have "a = b" if "g_Secret ka = g_Secret kb"
  proof (rule SetBytes_inject)
    show "length a = length b" unfolding assms(1,2) ..
    from that have "base62_loop apiKeySecretChars (SetBytes a) [] = base62_loop apiKeySecretChars (SetBytes b) []"
      unfolding ka(1) kb by (simp only: append_same_eq same_append_eq)
    then show "SetBytes a = SetBytes b"
      by (metis randomBase62_value [OF assms(1)] randomBase62_value [OF assms(2)])
  qed
  moreover have "HasPrefix (g_Secret ka) (g_Prefix ka)"
    unfolding ka(2) HasPrefix_iff by (metis append_take_drop_id)
  moreover have "LooksLikeAPIKey (g_Secret ka)"
    unfolding LooksLikeAPIKey_def len by (simp add: ka(1) APIKeyPrefixLength_def)
  ultimately show ?thesis using len ka kb by (auto simp: APIKeyPrefixLength_def)
qed

theorem generated_keys_carry_their_randomness_witness:
  "\<exists>ka kb. GenerateAPIKey id (Some (replicate 32 CHR ''a'')) = Some ka \<and>
     GenerateAPIKey id (Some (replicate 32 CHR ''b'')) = Some kb \<and> g_Secret ka \<noteq> g_Secret kb"
proof -
  let ?a = "replicate 32 CHR ''a''" and ?b = "replicate 32 CHR ''b''"
  obtain ka kb where k: "GenerateAPIKey id (Some ?a) = Some ka" "GenerateAPIKey id (Some ?b) = Some kb"
    by (simp add: GenerateAPIKey_def randomBase62_def Let_def)
  have "length ?a = apiKeySecretBytes" "length ?b = apiKeySecretBytes" "?a \<noteq> ?b"
    by (simp_all add: apiKeySecretBytes_def replicate_eq_replicate)
  with generated_keys_carry_their_randomness [of ?a ?b id ka kb] k show ?thesis by blast
qed

end
