(* ===== verification/Domain_Instance.thy ===== *)
theory Domain_Instance
  imports Go_Strings
begin

text \<open>
  The domain vocabulary of connections: \<open>internal/domain/instance.go\<close> (states, intents, the
  transition table, device identities, instances) and \<open>internal/domain/connectionevent.go\<close>
  (trail entries, disconnect reasons and which of them are permanent). Go's string enumerations
  are datatypes; the last constructor of each stands for every string that is none of the
  declared constants.
\<close>

subsection \<open>States and intents\<close>

datatype InstanceState =
    InstanceRegistered | InstancePairing | InstanceConnecting | InstanceConnected
  | InstanceDisconnected | InstanceLoggedOut | InstanceBanned | OtherState string

fun state_text :: "InstanceState \<Rightarrow> string" where
  "state_text InstanceRegistered = ''registered''"
| "state_text InstancePairing = ''pairing''"
| "state_text InstanceConnecting = ''connecting''"
| "state_text InstanceConnected = ''connected''"
| "state_text InstanceDisconnected = ''disconnected''"
| "state_text InstanceLoggedOut = ''logged_out''"
| "state_text InstanceBanned = ''banned''"
| "state_text (OtherState s) = s"

fun state_Valid :: "InstanceState \<Rightarrow> bool" where
  "state_Valid (OtherState s) = False"
| "state_Valid _ = True"

definition Terminal :: "InstanceState \<Rightarrow> bool" where
  "Terminal s \<longleftrightarrow> s = InstanceLoggedOut \<or> s = InstanceBanned"

datatype ConnectionIntent = IntentActive | IntentStopped | OtherIntent string

definition intent_Valid :: "ConnectionIntent \<Rightarrow> bool" where
  "intent_Valid i \<longleftrightarrow> i = IntentActive \<or> i = IntentStopped"

fun allowedTransitions :: "InstanceState \<Rightarrow> InstanceState list" where
  "allowedTransitions InstanceRegistered = [InstancePairing]"
| "allowedTransitions InstancePairing =
     [InstanceConnected, InstanceConnecting, InstanceRegistered, InstanceDisconnected]"
| "allowedTransitions InstanceConnecting =
     [InstanceConnected, InstanceDisconnected, InstanceLoggedOut, InstanceBanned, InstanceRegistered]"
| "allowedTransitions InstanceConnected =
     [InstanceConnecting, InstanceDisconnected, InstanceLoggedOut, InstanceBanned]"
| "allowedTransitions InstanceDisconnected =
     [InstanceConnecting, InstancePairing, InstanceRegistered, InstanceLoggedOut, InstanceBanned]"
| "allowedTransitions InstanceLoggedOut = [InstancePairing, InstanceRegistered]"
| "allowedTransitions InstanceBanned = [InstancePairing, InstanceConnecting, InstanceRegistered]"
| "allowedTransitions (OtherState s) = []"

definition CanTransition :: "InstanceState \<Rightarrow> InstanceState \<Rightarrow> bool" where
  "CanTransition from to \<longleftrightarrow>
     (if \<not> state_Valid from \<or> \<not> state_Valid to then False
      else if from = to then True
      else to \<in> set (allowedTransitions from))"

subsection \<open>Trail entry types and disconnect reasons\<close>

datatype ConnectionEventType =
    ConnEventPairingStarted | ConnEventPairingSucceeded | ConnEventPairingExpired
  | ConnEventPairingFailed | ConnEventConnected | ConnEventDisconnected | ConnEventLoggedOut
  | ConnEventBanned | ConnEventNumberChanged | ConnEventLeaseAcquired | ConnEventLeaseLost
  | ConnEventDeleted | ConnEventStreamError | ConnEventManualLoginReconnect
  | ConnEventProxyUpdated | ConnEventPassiveModeUpdated | ConnEventPasskeyChallenge
  | ConnEventPasskeyResponded | ConnEventPasskeyConfirmed | OtherEventType string

fun event_type_Valid :: "ConnectionEventType \<Rightarrow> bool" where
  "event_type_Valid (OtherEventType s) = False"
| "event_type_Valid _ = True"

datatype DisconnectReason =
    ReasonNone | ReasonNetwork | ReasonKeepaliveTimeout | ReasonWorkerLost | ReasonStreamError
  | ReasonProxyConnectFailed | ReasonProxyUpdated | ReasonUserRequested
  | ReasonLoggedOutFromPhone | ReasonTemporaryBan | ReasonSessionReplaced
  | ReasonClientOutdated | ReasonConnectFailure | ReasonCATRefreshFailed
  | ReasonLogoutLocalOnly | ReasonTenantSuspended | OtherReason string

fun reason_text :: "DisconnectReason \<Rightarrow> string" where
  "reason_text ReasonNone = []"
| "reason_text ReasonNetwork = ''network''"
| "reason_text ReasonKeepaliveTimeout = ''keepalive_timeout''"
| "reason_text ReasonWorkerLost = ''worker_lost''"
| "reason_text ReasonStreamError = ''stream_error''"
| "reason_text ReasonProxyConnectFailed = ''proxy_connect_failed''"
| "reason_text ReasonProxyUpdated = ''proxy_updated''"
| "reason_text ReasonUserRequested = ''user_requested''"
| "reason_text ReasonLoggedOutFromPhone = ''logged_out_from_phone''"
| "reason_text ReasonTemporaryBan = ''temporary_ban''"
| "reason_text ReasonSessionReplaced = ''session_replaced''"
| "reason_text ReasonClientOutdated = ''client_outdated''"
| "reason_text ReasonConnectFailure = ''connect_failure''"
| "reason_text ReasonCATRefreshFailed = ''cat_refresh_failed''"
| "reason_text ReasonLogoutLocalOnly = ''logout_local_only''"
| "reason_text ReasonTenantSuspended = ''tenant_suspended''"
| "reason_text (OtherReason s) = s"

definition permanentReasons :: "DisconnectReason set" where
  "permanentReasons =
     {ReasonUserRequested, ReasonLoggedOutFromPhone, ReasonTemporaryBan, ReasonSessionReplaced,
      ReasonClientOutdated, ReasonConnectFailure, ReasonCATRefreshFailed, ReasonLogoutLocalOnly,
      ReasonTenantSuspended}"

definition Permanent :: "DisconnectReason \<Rightarrow> bool" where
  "Permanent r \<longleftrightarrow> r \<in> permanentReasons"

definition reason_Valid :: "DisconnectReason \<Rightarrow> bool" where
  "reason_Valid r \<longleftrightarrow>
     (if r = ReasonNone then True else if Permanent r then True
      else r \<in> {ReasonNetwork, ReasonKeepaliveTimeout, ReasonWorkerLost, ReasonStreamError,
                ReasonProxyConnectFailed, ReasonProxyUpdated})"

text \<open>The list the SQL predicate of the reconciliation loop is given.\<close>

definition PermanentReasonList :: "string list" where
  "PermanentReasonList = map reason_text
     [ReasonUserRequested, ReasonLoggedOutFromPhone, ReasonTemporaryBan,
      ReasonSessionReplaced, ReasonClientOutdated, ReasonConnectFailure,
      ReasonCATRefreshFailed, ReasonLogoutLocalOnly, ReasonTenantSuspended]"

record ConnectionEvent =
  ce_ID :: int
  ce_InstanceID :: ID
  ce_Type :: ConnectionEventType
  ce_Reason :: DisconnectReason
  ce_Detail :: payload
  ce_OccurredAt :: gotime

subsection \<open>Instances\<close>

record DeviceIdentity =
  JID :: string
  LID :: string
  PhoneNumber :: string
  PushName :: string
  Platform :: string
  BusinessName :: string
  PairedAt :: gotime

record Instance =
  i_ID :: ID
  i_TenantID :: ID
  i_Name :: string
  i_State :: InstanceState
  i_Intent :: ConnectionIntent
  i_CreatedAt :: gotime
  i_UpdatedAt :: gotime
  i_Device :: "DeviceIdentity option"
  i_ConnectedAt :: "gotime option"
  i_LastDisconnectAt :: "gotime option"
  i_LastDisconnectReason :: DisconnectReason
  i_BanExpiresAt :: "gotime option"
  i_ProxyURL :: "string option"
  i_PassiveMode :: bool

definition Paired :: "Instance \<Rightarrow> bool" where
  "Paired i \<longleftrightarrow> (case i_Device i of None \<Rightarrow> False | Some d \<Rightarrow> JID d \<noteq> [])"

definition ShouldAutoReconnect :: "Instance \<Rightarrow> bool" where
  "ShouldAutoReconnect i \<longleftrightarrow> i_Intent i = IntentActive \<and> \<not> Permanent (i_LastDisconnectReason i)"

subsection \<open>Facts\<close>

lemma Permanent_simps [simp]:
  "\<not> Permanent ReasonNone" "\<not> Permanent ReasonNetwork" "\<not> Permanent ReasonKeepaliveTimeout"
  "\<not> Permanent ReasonWorkerLost" "\<not> Permanent ReasonStreamError"
  "\<not> Permanent ReasonProxyConnectFailed" "\<not> Permanent ReasonProxyUpdated"
  "\<not> Permanent (OtherReason s)"
  "Permanent ReasonUserRequested" "Permanent ReasonLoggedOutFromPhone"
  "Permanent ReasonTemporaryBan" "Permanent ReasonSessionReplaced"
  "Permanent ReasonClientOutdated" "Permanent ReasonConnectFailure"
  "Permanent ReasonCATRefreshFailed" "Permanent ReasonLogoutLocalOnly"
  "Permanent ReasonTenantSuspended"
  by (simp_all add: Permanent_def permanentReasons_def)

text \<open>
  The list handed to SQL is exactly the set of permanent reasons, for every reason whose text is
  one of the declared constants.
\<close>

lemma PermanentReasonList_iff:
  "reason_Valid r \<Longrightarrow> reason_text r \<in> set PermanentReasonList \<longleftrightarrow> Permanent r"
  by (cases r) (simp_all add: PermanentReasonList_def reason_Valid_def)

text \<open>
  States a user must act on are left only towards a new pairing, a fresh registration, or (for a
  ban, which expires) a new connection; nothing reaches \<open>connected\<close> without going through
  \<open>pairing\<close> or \<open>connecting\<close>.
\<close>

lemma CanTransition_terminal:
  "Terminal s \<Longrightarrow> CanTransition s t \<Longrightarrow>
   t = s \<or> t = InstancePairing \<or> t = InstanceRegistered \<or> (s = InstanceBanned \<and> t = InstanceConnecting)"
  by (auto simp: Terminal_def CanTransition_def split: if_splits)

lemma CanTransition_connected:
  "CanTransition s InstanceConnected \<Longrightarrow> s \<in> {InstanceConnected, InstancePairing, InstanceConnecting}"
  by (cases s) (auto simp: CanTransition_def)

text \<open>From every valid state every valid state can be reached by legal transitions.\<close>

lemma CanTransition_connected_graph:
  assumes "state_Valid s" and "state_Valid t"
  shows "CanTransition\<^sup>*\<^sup>* s t"
proof -
  have to_reg: "CanTransition\<^sup>*\<^sup>* s InstanceRegistered"
  proof (cases s)
    case InstanceConnected
    have "CanTransition InstanceConnected InstanceConnecting"
      and "CanTransition InstanceConnecting InstanceRegistered" by (simp_all add: CanTransition_def)
    then show ?thesis using InstanceConnected by (metis converse_rtranclp_into_rtranclp r_into_rtranclp)
  qed (use assms in \<open>auto simp: CanTransition_def intro!: r_into_rtranclp\<close>)
  have step: "CanTransition InstanceRegistered InstancePairing"
    "CanTransition InstancePairing InstanceConnecting" by (simp_all add: CanTransition_def)
  then have p: "CanTransition\<^sup>*\<^sup>* InstanceRegistered InstancePairing"
    and c: "CanTransition\<^sup>*\<^sup>* InstanceRegistered InstanceConnecting" by auto
  have "CanTransition\<^sup>*\<^sup>* InstanceRegistered t"
  proof (cases "t = InstanceRegistered \<or> t = InstancePairing")
    case True
    with p show ?thesis by auto
  next
    case False
    then have "CanTransition InstanceConnecting t" using assms(2)
      by (cases t) (auto simp: CanTransition_def)
    with c show ?thesis by (rule rtranclp.rtrancl_into_rtrancl)
  qed
  with to_reg show ?thesis by (rule rtranclp_trans)
qed

text \<open>
  The transition table is a sound and live state machine: every declared state can reach every
  declared state, \<open>connected\<close> is entered only from \<open>pairing\<close> or \<open>connecting\<close>, and the states
  a user must act on are left only by a new pairing, a fresh registration, or a reconnection after
  a ban.
\<close>

theorem transition_table_sound_and_live:
  "(state_Valid s \<and> state_Valid t \<longrightarrow> CanTransition\<^sup>*\<^sup>* s t) \<and>
   (CanTransition s InstanceConnected \<longrightarrow> s \<in> {InstanceConnected, InstancePairing, InstanceConnecting}) \<and>
   (Terminal s \<and> CanTransition s t \<longrightarrow> t = s \<or> t = InstancePairing \<or> t = InstanceRegistered \<or>
      (s = InstanceBanned \<and> t = InstanceConnecting))"
  using CanTransition_connected_graph CanTransition_connected CanTransition_terminal by blast

theorem transition_table_sound_and_live_witness:
  "state_Valid InstanceBanned \<and> state_Valid InstanceConnected \<and> CanTransition\<^sup>*\<^sup>* InstanceBanned InstanceConnected"
  using transition_table_sound_and_live [of InstanceBanned InstanceConnected] by simp

end
