(* ===== verification/Store.thy ===== *)
theory Store
  imports Domain_Accounts Domain_Instance
begin

text \<open>
  The data-access layer: the tables of \<open>internal/store/sqlc_models.go\<close> and the statements of
  \<open>internal/store/leases.sql.go\<close>, \<open>connection.sql.go\<close>, \<open>connection_events.sql.go\<close> and
  \<open>instances.sql.go\<close>, one definition per statement. A table is the list of its rows. NULL is
  \<open>None\<close> and a comparison with it is not true, as in SQL. A statement is atomic; a call may
  still fail in two ways the program has to live with: the request is lost (nothing happened) or
  the reply is lost (it happened, and the caller sees an error). \<open>faults\<close> is the sequence of
  outcomes the next calls will have; an empty sequence means that every call is delivered.
\<close>

subsection \<open>Rows\<close>

datatype Desired = DesiredRunning | DesiredStopped | DesiredDraining

record SessionLease =
  l_instance_id :: ID
  l_worker_id :: "string option"
  l_grpc_addr :: "string option"
  l_generation :: int
  l_heartbeat_at :: "gotime option"
  l_desired_state :: Desired
  l_updated_at :: gotime

record InstanceRow =
  r_id :: ID
  r_tenant_id :: ID
  r_name :: string
  r_connection_state :: InstanceState
  r_created_at :: gotime
  r_updated_at :: gotime
  r_connection_intent :: ConnectionIntent
  r_wa_jid :: "string option"
  r_wa_lid :: "string option"
  r_phone_number :: "string option"
  r_push_name :: "string option"
  r_platform :: "string option"
  r_business_name :: "string option"
  r_paired_at :: "gotime option"
  r_connected_at :: "gotime option"
  r_last_disconnect_at :: "gotime option"
  r_last_disconnect_reason :: "DisconnectReason option"
  r_ban_expires_at :: "gotime option"
  r_proxy_url :: "string option"
  r_passive_mode :: bool

record TrailRow =
  e_id :: int
  e_instance_id :: ID
  e_type :: ConnectionEventType
  e_reason :: "DisconnectReason option"
  e_detail :: "payload option"
  e_occurred_at :: gotime

record UserRow =
  usr_user :: User
  usr_password_hash :: string

record KeyRow =
  key_meta :: APIKey
  key_secret_hash :: string

record AuditRow =
  au_id :: ID
  au_event :: SecurityEvent
  au_created_at :: gotime

record database =
  tenants :: "Tenant list"
  users :: "UserRow list"
  instances :: "InstanceRow list"
  api_keys :: "KeyRow list"
  security_events :: "AuditRow list"
  session_leases :: "SessionLease list"
  connection_events :: "TrailRow list"
  next_event_id :: int

datatype db_error =
    ErrNoRows | UniqueViolation string | ForeignKeyViolation | CheckViolation | ConnectionFailure

definition IsNoRows :: "db_error \<Rightarrow> bool" where
  "IsNoRows err \<longleftrightarrow> err = ErrNoRows"

text \<open>\<open>store.Interval\<close>: PostgreSQL intervals count microseconds, so the rest is cut off.\<close>

definition Interval :: "duration \<Rightarrow> duration" where
  "Interval d = (if d \<ge> 0 then d div 1000 else - ((- d) div 1000)) * 1000"

subsection \<open>Calls to the database\<close>

datatype outcome = Delivered | RequestLost | ReplyLost

record world =
  db :: database
  now :: gotime
  faults :: "outcome list"

type_synonym 'a statement = "gotime \<Rightarrow> database \<Rightarrow> (db_error + 'a) \<times> database"

definition next_outcome :: "'z world_scheme \<Rightarrow> outcome \<times> 'z world_scheme" where
  "next_outcome w = (case faults w of [] \<Rightarrow> (Delivered, w) | f # fs \<Rightarrow> (f, w\<lparr>faults := fs\<rparr>))"

definition run_statement :: "'a statement \<Rightarrow> ('z world_scheme, db_error, 'a) io" where
  "run_statement q = (\<lambda>w. case next_outcome w of
       (Delivered, w') \<Rightarrow> (case q (now w') (db w') of (r, d) \<Rightarrow> (r, w'\<lparr>db := d\<rparr>))
     | (RequestLost, w') \<Rightarrow> (Inl ConnectionFailure, w')
     | (ReplyLost, w') \<Rightarrow> (Inl ConnectionFailure, w'\<lparr>db := snd (q (now w') (db w'))\<rparr>))"

text \<open>The shapes of statements: \<open>:exec\<close>, \<open>:one\<close>, \<open>:many\<close>.\<close>

definition exec_on_leases :: "(gotime \<Rightarrow> SessionLease list \<Rightarrow> SessionLease list) \<Rightarrow> unit statement" where
  [query_defs]: "exec_on_leases f = (\<lambda>t d. (Inr (), d\<lparr>session_leases := f t (session_leases d)\<rparr>))"

definition exec_on_instances :: "(gotime \<Rightarrow> InstanceRow list \<Rightarrow> InstanceRow list) \<Rightarrow> unit statement" where
  [query_defs]: "exec_on_instances f = (\<lambda>t d. (Inr (), d\<lparr>instances := f t (instances d)\<rparr>))"

definition select :: "(gotime \<Rightarrow> database \<Rightarrow> 'a) \<Rightarrow> 'a statement" where
  [query_defs]: "select f = (\<lambda>t d. (Inr (f t d), d))"

definition select_one :: "(gotime \<Rightarrow> database \<Rightarrow> 'a option) \<Rightarrow> 'a statement" where
  [query_defs]: "select_one f = (\<lambda>t d. ((case f t d of None \<Rightarrow> Inl ErrNoRows | Some x \<Rightarrow> Inr x), d))"

definition lease_of :: "database \<Rightarrow> ID \<Rightarrow> SessionLease option" where
  "lease_of d i = by_key l_instance_id i (session_leases d)"

definition instance_of :: "database \<Rightarrow> ID \<Rightarrow> InstanceRow option" where
  "instance_of d i = by_key r_id i (instances d)"

text \<open>\<open>heartbeat_at < now() - expiry\<close>, not true of NULL.\<close>

definition expired :: "gotime \<Rightarrow> duration \<Rightarrow> SessionLease \<Rightarrow> bool" where
  "expired t expiry l = (case l_heartbeat_at l of None \<Rightarrow> False | Some h \<Rightarrow> h < t - expiry)"

definition claimable :: "gotime \<Rightarrow> duration \<Rightarrow> SessionLease \<Rightarrow> bool" where
  "claimable t expiry l \<longleftrightarrow> l_worker_id l = None \<or> expired t expiry l"

subsection \<open>Statements on session leases\<close>

definition EnsureLease :: "ID \<Rightarrow> ('z world_scheme, db_error, unit) io" where
  [query_defs]: "EnsureLease i = run_statement (\<lambda>t d.
     if i \<in> l_instance_id ` set (session_leases d) then (Inr (), d)
     else if i \<notin> r_id ` set (instances d) then (Inl ForeignKeyViolation, d)
     else (Inr (), d\<lparr>session_leases := session_leases d @
       [\<lparr>l_instance_id = i, l_worker_id = None, l_grpc_addr = None, l_generation = 0,
         l_heartbeat_at = None, l_desired_state = DesiredStopped, l_updated_at = t\<rparr>]\<rparr>))"

definition SetDesiredState :: "ID \<Rightarrow> Desired \<Rightarrow> ('z world_scheme, db_error, unit) io" where
  [query_defs]: "SetDesiredState i s = run_statement (exec_on_leases (\<lambda>t.
     update_where (\<lambda>l. l_instance_id l = i) (\<lambda>l. l\<lparr>l_desired_state := s, l_updated_at := t\<rparr>)))"

definition SetTenantDesiredState :: "ID \<Rightarrow> Desired \<Rightarrow> ('z world_scheme, db_error, unit) io" where
  [query_defs]: "SetTenantDesiredState tenant s = run_statement (\<lambda>t d.
     (Inr (), d\<lparr>session_leases := update_where
       (\<lambda>l. \<exists>r \<in> set (instances d). r_id r = l_instance_id l \<and> r_tenant_id r = tenant)
       (\<lambda>l. l\<lparr>l_desired_state := s, l_updated_at := t\<rparr>) (session_leases d)\<rparr>))"

definition acquire_guard :: "gotime \<Rightarrow> duration \<Rightarrow> ID \<Rightarrow> SessionLease \<Rightarrow> bool" where
  "acquire_guard t expiry i l \<longleftrightarrow>
     l_instance_id l = i \<and> l_desired_state l = DesiredRunning \<and> claimable t expiry l"

definition acquire_set :: "gotime \<Rightarrow> string \<Rightarrow> string \<Rightarrow> SessionLease \<Rightarrow> SessionLease" where
  "acquire_set t wid addr l =
     l\<lparr>l_worker_id := Some wid, l_grpc_addr := Some addr, l_generation := l_generation l + 1,
       l_heartbeat_at := Some t, l_updated_at := t\<rparr>"

definition AcquireLease :: "ID \<Rightarrow> string \<Rightarrow> string \<Rightarrow> duration \<Rightarrow> ('z world_scheme, db_error, int) io" where
  [query_defs]: "AcquireLease i wid addr expiry = run_statement (\<lambda>t d.
     case first_where (acquire_guard t expiry i) (session_leases d) of
       None \<Rightarrow> (Inl ErrNoRows, d)
     | Some l \<Rightarrow> (Inr (l_generation l + 1),
         d\<lparr>session_leases := update_where (acquire_guard t expiry i) (acquire_set t wid addr)
           (session_leases d)\<rparr>))"

definition heartbeat_guard :: "string \<Rightarrow> SessionLease \<Rightarrow> bool" where
  "heartbeat_guard wid l \<longleftrightarrow> l_worker_id l = Some wid \<and> l_desired_state l = DesiredRunning"

definition HeartbeatLeases :: "string \<Rightarrow> ('z world_scheme, db_error, (ID \<times> int) list) io" where
  [query_defs]: "HeartbeatLeases wid = run_statement (\<lambda>t d.
     (Inr (map (\<lambda>l. (l_instance_id l, l_generation l)) (filter (heartbeat_guard wid) (session_leases d))),
      d\<lparr>session_leases := update_where (heartbeat_guard wid)
         (\<lambda>l. l\<lparr>l_heartbeat_at := Some t, l_updated_at := t\<rparr>) (session_leases d)\<rparr>))"

definition clear_owner :: "gotime \<Rightarrow> SessionLease \<Rightarrow> SessionLease" where
  "clear_owner t l = l\<lparr>l_worker_id := None, l_grpc_addr := None, l_heartbeat_at := None, l_updated_at := t\<rparr>"

definition ReleaseLease :: "ID \<Rightarrow> string \<Rightarrow> ('z world_scheme, db_error, unit) io" where
  [query_defs]: "ReleaseLease i wid = run_statement (exec_on_leases (\<lambda>t.
     update_where (\<lambda>l. l_instance_id l = i \<and> l_worker_id l = Some wid) (clear_owner t)))"

definition ReleaseWorkerLeases :: "string \<Rightarrow> ('z world_scheme, db_error, unit) io" where
  [query_defs]: "ReleaseWorkerLeases wid = run_statement (exec_on_leases (\<lambda>t.
     update_where (\<lambda>l. l_worker_id l = Some wid) (clear_owner t)))"

definition adoptable_row :: "gotime \<Rightarrow> duration \<Rightarrow> string list \<Rightarrow> database \<Rightarrow> SessionLease \<Rightarrow> bool" where
  "adoptable_row t expiry permanent d l \<longleftrightarrow>
     l_desired_state l = DesiredRunning \<and> claimable t expiry l \<and>
     (case instance_of d (l_instance_id l) of None \<Rightarrow> False
      | Some r \<Rightarrow> (case r_last_disconnect_reason r of None \<Rightarrow> True
                   | Some reason \<Rightarrow> reason_text reason \<notin> set permanent))"

definition ListAdoptableLeases ::
  "duration \<Rightarrow> string list \<Rightarrow> nat \<Rightarrow> ('z world_scheme, db_error, (ID \<times> int) list) io" where
  [query_defs]: "ListAdoptableLeases expiry permanent maxRows = run_statement (select (\<lambda>t d.
     take maxRows (map (\<lambda>l. (l_instance_id l, l_generation l))
       (sort_key l_updated_at (filter (adoptable_row t expiry permanent d) (session_leases d))))))"

record LeaseOwnerRow =
  lo_grpc_addr :: "string option"
  lo_generation :: int
  lo_is_live :: "bool option"

text \<open>\<open>worker_id IS NOT NULL AND heartbeat_at >= now() - expiry\<close>: false, true or unknown.\<close>

definition is_live :: "gotime \<Rightarrow> duration \<Rightarrow> SessionLease \<Rightarrow> bool option" where
  "is_live t expiry l =
     (if l_worker_id l = None then Some False
      else map_option (\<lambda>h. h \<ge> t - expiry) (l_heartbeat_at l))"

definition GetLeaseOwner :: "ID \<Rightarrow> duration \<Rightarrow> ('z world_scheme, db_error, LeaseOwnerRow) io" where
  [query_defs]: "GetLeaseOwner i expiry = run_statement (select_one (\<lambda>t d.
     map_option (\<lambda>l. \<lparr>lo_grpc_addr = l_grpc_addr l, lo_generation = l_generation l,
       lo_is_live = is_live t expiry l\<rparr>) (lease_of d i)))"

definition GetLease :: "ID \<Rightarrow> ('z world_scheme, db_error, SessionLease) io" where
  [query_defs]: "GetLease i = run_statement (select_one (\<lambda>t d. lease_of d i))"

definition CountLeasesByWorker :: "string \<Rightarrow> ('z world_scheme, db_error, int) io" where
  [query_defs]: "CountLeasesByWorker wid = run_statement (select (\<lambda>t d.
     int (length (filter (\<lambda>l. l_worker_id l = Some wid) (session_leases d)))))"

subsection \<open>Statements on the connection state of an instance\<close>

definition update_instance :: "ID \<Rightarrow> (gotime \<Rightarrow> InstanceRow \<Rightarrow> InstanceRow) \<Rightarrow> unit statement" where
  [query_defs]: "update_instance i f = exec_on_instances (\<lambda>t.
     update_where (\<lambda>r. r_id r = i) (\<lambda>r. (f t r)\<lparr>r_updated_at := t\<rparr>))"

text \<open>A CHECK constraint is evaluated on the rows an UPDATE writes.\<close>

definition checked_update ::
  "bool \<Rightarrow> ID \<Rightarrow> (gotime \<Rightarrow> InstanceRow \<Rightarrow> InstanceRow) \<Rightarrow> unit statement" where
  [query_defs]: "checked_update ok i f = (\<lambda>t d.
     if \<not> ok \<and> i \<in> r_id ` set (instances d) then (Inl CheckViolation, d)
     else update_instance i f t d)"

definition SetConnectionIntent ::
  "ID \<Rightarrow> ConnectionIntent \<Rightarrow> bool \<Rightarrow> ('z world_scheme, db_error, InstanceRow) io" where
  [query_defs]: "SetConnectionIntent i intent clearReason = run_statement (\<lambda>t d.
     case checked_update (intent_Valid intent) i
       (\<lambda>t r. r\<lparr>r_connection_intent := intent,
         r_last_disconnect_reason := (if clearReason then None else r_last_disconnect_reason r)\<rparr>) t d of
       (Inl e, d') \<Rightarrow> (Inl e, d')
     | (Inr _, d') \<Rightarrow> (case instance_of d' i of None \<Rightarrow> (Inl ErrNoRows, d') | Some r \<Rightarrow> (Inr r, d')))"

definition SetConnectionState :: "ID \<Rightarrow> InstanceState \<Rightarrow> ('z world_scheme, db_error, unit) io" where
  [query_defs]: "SetConnectionState i s = run_statement (checked_update (state_Valid s) i (\<lambda>t r.
     r\<lparr>r_connection_state := s, r_connected_at := (if s = InstanceConnected then Some t else None)\<rparr>))"

definition RecordDisconnect ::
  "ID \<Rightarrow> InstanceState \<Rightarrow> DisconnectReason option \<Rightarrow> gotime option \<Rightarrow> ('z world_scheme, db_error, unit) io" where
  [query_defs]: "RecordDisconnect i s reason banExpires = run_statement (checked_update (state_Valid s) i (\<lambda>t r.
     r\<lparr>r_connection_state := s, r_connected_at := None, r_last_disconnect_at := Some t,
       r_last_disconnect_reason := reason, r_ban_expires_at := banExpires\<rparr>))"

record DeviceParams =
  dp_wa_jid :: "string option"
  dp_wa_lid :: "string option"
  dp_phone_number :: "string option"
  dp_push_name :: "string option"
  dp_platform :: "string option"
  dp_business_name :: "string option"

text \<open>The partial unique index \<open>instances_wa_jid_key\<close>: no two rows share a device JID.\<close>

definition SetDeviceIdentity :: "ID \<Rightarrow> DeviceParams \<Rightarrow> ('z world_scheme, db_error, unit) io" where
  [query_defs]: "SetDeviceIdentity i p = run_statement (\<lambda>t d.
     if dp_wa_jid p \<noteq> None \<and> i \<in> r_id ` set (instances d) \<and>
        (\<exists>r \<in> set (instances d). r_id r \<noteq> i \<and> r_wa_jid r = dp_wa_jid p)
     then (Inl (UniqueViolation ''instances_wa_jid_key''), d)
     else update_instance i (\<lambda>t r.
       r\<lparr>r_wa_jid := dp_wa_jid p, r_wa_lid := dp_wa_lid p, r_phone_number := dp_phone_number p,
         r_push_name := dp_push_name p, r_platform := dp_platform p,
         r_business_name := dp_business_name p, r_paired_at := Some t\<rparr>) t d)"

definition ClearDeviceIdentity :: "ID \<Rightarrow> ('z world_scheme, db_error, unit) io" where
  [query_defs]: "ClearDeviceIdentity i = run_statement (update_instance i (\<lambda>t r.
     r\<lparr>r_wa_jid := None, r_wa_lid := None, r_phone_number := None, r_push_name := None,
       r_platform := None, r_business_name := None, r_paired_at := None, r_connected_at := None,
       r_ban_expires_at := None, r_connection_state := InstanceRegistered\<rparr>))"

definition ClearDeviceMaterial :: "ID \<Rightarrow> ('z world_scheme, db_error, unit) io" where
  [query_defs]: "ClearDeviceMaterial i = run_statement (update_instance i (\<lambda>t r.
     r\<lparr>r_wa_jid := None, r_wa_lid := None, r_push_name := None, r_platform := None,
       r_business_name := None, r_paired_at := None, r_connected_at := None\<rparr>))"

definition SetInstanceProxy :: "ID \<Rightarrow> string option \<Rightarrow> ('z world_scheme, db_error, unit) io" where
  [query_defs]: "SetInstanceProxy i url = run_statement (update_instance i (\<lambda>t r. r\<lparr>r_proxy_url := url\<rparr>))"

definition SetInstancePassiveMode :: "ID \<Rightarrow> bool \<Rightarrow> ('z world_scheme, db_error, unit) io" where
  [query_defs]: "SetInstancePassiveMode i b =
     run_statement (update_instance i (\<lambda>t r. r\<lparr>r_passive_mode := b\<rparr>))"

definition GetInstanceConnection :: "ID \<Rightarrow> ID \<Rightarrow> ('z world_scheme, db_error, InstanceRow) io" where
  [query_defs]: "GetInstanceConnection i tenant = run_statement (select_one (\<lambda>t d.
     first_where (\<lambda>r. r_id r = i \<and> r_tenant_id r = tenant) (instances d)))"

definition GetInstanceConnectionByID :: "ID \<Rightarrow> ('z world_scheme, db_error, InstanceRow) io" where
  [query_defs]: "GetInstanceConnectionByID i = run_statement (select_one (\<lambda>t d. instance_of d i))"

definition GetInstanceSettings :: "ID \<Rightarrow> ('z world_scheme, db_error, string option \<times> bool) io" where
  [query_defs]: "GetInstanceSettings i = run_statement (select_one (\<lambda>t d.
     map_option (\<lambda>r. (r_proxy_url r, r_passive_mode r)) (instance_of d i)))"

definition ListActiveIntentInstancesByTenant :: "ID \<Rightarrow> ('z world_scheme, db_error, ID list) io" where
  [query_defs]: "ListActiveIntentInstancesByTenant tenant = run_statement (select (\<lambda>t d.
     map r_id (filter (\<lambda>r. r_tenant_id r = tenant \<and> r_connection_intent r = IntentActive) (instances d))))"

definition ListInstanceIDsByTenant :: "ID \<Rightarrow> ('z world_scheme, db_error, ID list) io" where
  [query_defs]: "ListInstanceIDsByTenant tenant = run_statement (select (\<lambda>t d.
     map r_id (filter (\<lambda>r. r_tenant_id r = tenant) (instances d))))"

definition ListInstancesSharingNumber ::
  "ID \<Rightarrow> string option \<Rightarrow> ID \<Rightarrow> ('z world_scheme, db_error, ID list) io" where
  [query_defs]: "ListInstancesSharingNumber tenant phone i = run_statement (select (\<lambda>t d.
     map r_id (sort_key r_created_at (filter (\<lambda>r. r_tenant_id r = tenant \<and> phone \<noteq> None \<and>
       r_phone_number r = phone \<and> r_id r \<noteq> i) (instances d)))))"

subsection \<open>Statements on the connection trail\<close>

definition AppendConnectionEvent ::
  "ID \<Rightarrow> ConnectionEventType \<Rightarrow> DisconnectReason option \<Rightarrow> payload option \<Rightarrow>
   ('z world_scheme, db_error, int \<times> gotime) io" where
  [query_defs]: "AppendConnectionEvent i ty reason detail = run_statement (\<lambda>t d.
     let n = next_event_id d; d' = d\<lparr>next_event_id := n + 1\<rparr> in
     if \<not> event_type_Valid ty then (Inl CheckViolation, d')
     else if i \<notin> r_id ` set (instances d) then (Inl ForeignKeyViolation, d')
     else (Inr (n, t), d'\<lparr>connection_events := connection_events d @
       [\<lparr>e_id = n, e_instance_id = i, e_type = ty, e_reason = reason, e_detail = detail,
         e_occurred_at = t\<rparr>]\<rparr>))"

definition DeleteConnectionEventsBefore :: "gotime \<Rightarrow> ('z world_scheme, db_error, int) io" where
  [query_defs]: "DeleteConnectionEventsBefore limit = run_statement (\<lambda>t d.
     (Inr (int (length (filter (\<lambda>e. e_occurred_at e < limit) (connection_events d)))),
      d\<lparr>connection_events := filter (\<lambda>e. \<not> e_occurred_at e < limit) (connection_events d)\<rparr>))"

text \<open>\<open>detail->>'phone_number'\<close>\<close>

definition json_text :: "payload option \<Rightarrow> string \<Rightarrow> string option" where
  "json_text detail k =
     (case detail of None \<Rightarrow> None
      | Some obj \<Rightarrow> (case map_of obj k of Some (JStr s) \<Rightarrow> Some s | _ \<Rightarrow> None))"

definition LastPairedPhone :: "ID \<Rightarrow> ('z world_scheme, db_error, string) io" where
  [query_defs]: "LastPairedPhone i = run_statement (select_one (\<lambda>t d.
     case rev (sort_key e_id (filter (\<lambda>e. e_instance_id e = i \<and> e_type e = ConnEventPairingSucceeded \<and>
       json_text (e_detail e) ''phone_number'' \<noteq> None) (connection_events d))) of
       [] \<Rightarrow> None | e # _ \<Rightarrow> json_text (e_detail e) ''phone_number''))"

text \<open>\<open>ORDER BY occurred_at DESC, id DESC\<close>\<close>

definition newest_first :: "TrailRow list \<Rightarrow> TrailRow list" where
  "newest_first es = rev (sort_key e_occurred_at (sort_key e_id es))"

definition ListConnectionEvents ::
  "ID \<Rightarrow> int option \<Rightarrow> ConnectionEventType list option \<Rightarrow> nat \<Rightarrow> ('z world_scheme, db_error, TrailRow list) io" where
  [query_defs]: "ListConnectionEvents i before types maxRows = run_statement (select (\<lambda>t d.
     take maxRows (newest_first (filter (\<lambda>e. e_instance_id e = i \<and>
       (case before of None \<Rightarrow> True | Some b \<Rightarrow> e_id e < b) \<and>
       (case types of None \<Rightarrow> True | Some ts \<Rightarrow> e_type e \<in> set ts)) (connection_events d)))))"

subsection \<open>Statements on instances\<close>

definition new_instance_row :: "gotime \<Rightarrow> ID \<Rightarrow> ID \<Rightarrow> string \<Rightarrow> InstanceRow" where
  "new_instance_row t i tenant name =
     \<lparr>r_id = i, r_tenant_id = tenant, r_name = name, r_connection_state = InstanceRegistered,
      r_created_at = t, r_updated_at = t, r_connection_intent = IntentStopped, r_wa_jid = None,
      r_wa_lid = None, r_phone_number = None, r_push_name = None, r_platform = None,
      r_business_name = None, r_paired_at = None, r_connected_at = None,
      r_last_disconnect_at = None, r_last_disconnect_reason = None, r_ban_expires_at = None,
      r_proxy_url = None, r_passive_mode = False\<rparr>"

definition name_taken :: "database \<Rightarrow> ID \<Rightarrow> ID \<Rightarrow> string \<Rightarrow> bool" where
  "name_taken d i tenant name \<longleftrightarrow>
     (\<exists>r \<in> set (instances d). r_id r \<noteq> i \<and> r_tenant_id r = tenant \<and> ToLower (r_name r) = ToLower name)"

definition name_length_ok :: "string \<Rightarrow> bool" where
  "name_length_ok name \<longleftrightarrow> 1 \<le> RuneCountInString name \<and> RuneCountInString name \<le> 120"

definition CreateInstance :: "ID \<Rightarrow> ID \<Rightarrow> string \<Rightarrow> ('z world_scheme, db_error, InstanceRow) io" where
  [query_defs]: "CreateInstance i tenant name = run_statement (\<lambda>t d.
     if \<not> name_length_ok name then (Inl CheckViolation, d)
     else if i \<in> r_id ` set (instances d) then (Inl (UniqueViolation ''instances_pkey''), d)
     else if name_taken d i tenant name then (Inl (UniqueViolation ''instances_tenant_id_name_uk''), d)
     else if tenant \<notin> t_ID ` set (tenants d) then (Inl ForeignKeyViolation, d)
     else (Inr (new_instance_row t i tenant name),
           d\<lparr>instances := instances d @ [new_instance_row t i tenant name]\<rparr>))"

text \<open>\<open>ON DELETE CASCADE\<close>: the keys, the lease and the trail of an instance go with it.\<close>

definition drop_instances :: "(ID \<Rightarrow> bool) \<Rightarrow> database \<Rightarrow> database" where
  "drop_instances gone d =
     d\<lparr>instances := filter (\<lambda>r. \<not> gone (r_id r)) (instances d),
       api_keys := filter (\<lambda>k. \<not> gone (k_InstanceID (key_meta k))) (api_keys d),
       session_leases := filter (\<lambda>l. \<not> gone (l_instance_id l)) (session_leases d),
       connection_events := filter (\<lambda>e. \<not> gone (e_instance_id e)) (connection_events d)\<rparr>"

definition DeleteInstance :: "ID \<Rightarrow> ID \<Rightarrow> ('z world_scheme, db_error, InstanceRow) io" where
  [query_defs]: "DeleteInstance i tenant = run_statement (\<lambda>t d.
     case first_where (\<lambda>r. r_id r = i \<and> r_tenant_id r = tenant) (instances d) of
       None \<Rightarrow> (Inl ErrNoRows, d)
     | Some r \<Rightarrow> (Inr r, drop_instances (\<lambda>j. j = i) d))"

definition GetInstanceByIDAndTenant :: "ID \<Rightarrow> ID \<Rightarrow> ('z world_scheme, db_error, InstanceRow) io" where
  [query_defs]: "GetInstanceByIDAndTenant i tenant = run_statement (select_one (\<lambda>t d.
     first_where (\<lambda>r. r_id r = i \<and> r_tenant_id r = tenant) (instances d)))"

definition ListInstancesByTenant :: "ID \<Rightarrow> ('z world_scheme, db_error, InstanceRow list) io" where
  [query_defs]: "ListInstancesByTenant tenant = run_statement (select (\<lambda>t d.
     sort_key r_created_at (filter (\<lambda>r. r_tenant_id r = tenant) (instances d))))"

definition RenameInstance :: "ID \<Rightarrow> ID \<Rightarrow> string \<Rightarrow> ('z world_scheme, db_error, InstanceRow) io" where
  [query_defs]: "RenameInstance i tenant name = run_statement (\<lambda>t d.
     case first_where (\<lambda>r. r_id r = i \<and> r_tenant_id r = tenant) (instances d) of
       None \<Rightarrow> (Inl ErrNoRows, d)
     | Some r \<Rightarrow>
        if \<not> name_length_ok name then (Inl CheckViolation, d)
        else if name_taken d i tenant name then (Inl (UniqueViolation ''instances_tenant_id_name_uk''), d)
        else (Inr (r\<lparr>r_name := name, r_updated_at := t\<rparr>),
              d\<lparr>instances := update_where (\<lambda>r. r_id r = i \<and> r_tenant_id r = tenant)
                 (\<lambda>r. r\<lparr>r_name := name, r_updated_at := t\<rparr>) (instances d)\<rparr>))"

definition CountKeysByInstance :: "ID \<Rightarrow> ('z world_scheme, db_error, int) io" where
  [query_defs]: "CountKeysByInstance i = run_statement (select (\<lambda>t d.
     int (length (filter (\<lambda>k. k_InstanceID (key_meta k) = i) (api_keys d)))))"

subsection \<open>Reasoning about calls\<close>

text \<open>Without faults a call is its statement.\<close>

lemma run_statement_ok:
  "faults w = [] \<Longrightarrow>
   run_statement q w = (fst (q (now w) (db w)), w\<lparr>db := snd (q (now w) (db w))\<rparr>)"
  by (simp add: run_statement_def next_outcome_def split_beta)

text \<open>With faults, the statement either ran or did not, and only the database and the remaining
  faults change.\<close>

lemma run_statement_cases:
  obtains fs where "run_statement q w = (fst (q (now w) (db w)), w\<lparr>db := snd (q (now w) (db w)), faults := fs\<rparr>)"
  | fs where "run_statement q w = (Inl ConnectionFailure, w\<lparr>faults := fs\<rparr>)"
  | fs where "run_statement q w = (Inl ConnectionFailure, w\<lparr>db := snd (q (now w) (db w)), faults := fs\<rparr>)"
proof (cases "faults w")
  case Nil
  then have "run_statement q w = (fst (q (now w) (db w)), w\<lparr>db := snd (q (now w) (db w)), faults := []\<rparr>)"
    by (simp add: run_statement_ok)
  then show ?thesis by (rule that(1))
next
  case (Cons f fs)
  have sw: "w\<lparr>faults := fs, db := d\<rparr> = w\<lparr>db := d, faults := fs\<rparr>" for d by simp
  from Cons show ?thesis
    by (cases f) (auto simp: run_statement_def next_outcome_def split_beta sw
      intro: that(1) [of fs] that(2) [of fs] that(3) [of fs])
qed

lemma run_statement_Inr:
  assumes "run_statement q w = (Inr x, w')"
  obtains fs where "q (now w) (db w) = (Inr x, db w')" and "w' = w\<lparr>db := db w', faults := fs\<rparr>"
  by (rule run_statement_cases [of q w]) (use assms that in \<open>auto simp: prod_eq_iff\<close>)

lemma always_run_statement:
  assumes "\<And>w fs. R w (w\<lparr>faults := fs\<rparr>)"
    and "\<And>w fs. R w (w\<lparr>db := snd (q (now w) (db w)), faults := fs\<rparr>)"
  shows "always R (run_statement q)"
proof (rule alwaysI)
  fix w
  show "R w (snd (run_statement q w))"
    by (rule run_statement_cases [of q w]) (simp_all add: assms)
qed

text \<open>A guarantee that concerns the database alone.\<close>

definition on_db :: "(database \<Rightarrow> database \<Rightarrow> bool) \<Rightarrow> 'z world_scheme \<Rightarrow> 'z world_scheme \<Rightarrow> bool" where
  "on_db R w w' \<longleftrightarrow> R (db w) (db w')"

lemma always_on_db:
  assumes "\<And>d. R d d" and "\<And>t d. R d (snd (q t d))"
  shows "always (on_db R) (run_statement q)"
  by (rule always_run_statement) (simp_all add: on_db_def assms)

lemma lease_of_id: "lease_of d i = Some l \<Longrightarrow> l_instance_id l = i"
  by (auto simp: lease_of_def dest: by_key_Some)

lemma instance_of_id: "instance_of d i = Some r \<Longrightarrow> r_id r = i"
  by (auto simp: instance_of_def dest: by_key_Some)

lemma claimable_owned: "l_worker_id l = Some a \<Longrightarrow> claimable t expiry l = expired t expiry l"
  by (simp add: claimable_def)

end
