(* ===== verification/Lease.thy ===== *)
theory Lease
  imports Store
begin

text \<open>
  Exclusive session ownership, \<open>internal/lease/lease.go\<close>: the operations of a worker's lease
  manager, the interface they provide to the rest of the system (\<open>fencing\<close>: a numbered token
  per instance that is granted once), and its interpretation on the SQL statements under any
  interleaving of any number of managers, lost requests and replies, the passage of time and the
  deletion of instances.
\<close>

subsection \<open>The manager\<close>

record Manager =
  workerID :: string
  grpcAddr :: string
  m_expiry :: duration

datatype lease_error = ErrNotAcquired | ErrWrongGeneration | LeaseStore db_error

definition Ensure :: "Manager \<Rightarrow> ID \<Rightarrow> ('z world_scheme, lease_error, unit) io" where
  "Ensure m i = wrapE LeaseStore (EnsureLease i)"

definition SetDesired :: "Manager \<Rightarrow> ID \<Rightarrow> Desired \<Rightarrow> ('z world_scheme, lease_error, unit) io" where
  "SetDesired m i desired = wrapE LeaseStore (SetDesiredState i desired)"

definition SetTenantDesired :: "Manager \<Rightarrow> ID \<Rightarrow> Desired \<Rightarrow> ('z world_scheme, lease_error, unit) io" where
  "SetTenantDesired m tenant desired = wrapE LeaseStore (SetTenantDesiredState tenant desired)"

definition no_rows_as_not_acquired :: "db_error \<Rightarrow> lease_error" where
  "no_rows_as_not_acquired e = (if IsNoRows e then ErrNotAcquired else LeaseStore e)"

definition Acquire :: "Manager \<Rightarrow> ID \<Rightarrow> ('z world_scheme, lease_error, int) io" where
  "Acquire m i = wrapE no_rows_as_not_acquired
     (AcquireLease i (workerID m) (grpcAddr m) (Interval (m_expiry m)))"

text \<open>\<open>held[row.InstanceID] = row.Generation\<close> for every row, in order.\<close>

definition Heartbeat :: "Manager \<Rightarrow> ('z world_scheme, lease_error, ID \<rightharpoonup> int) io" where
  "Heartbeat m = bindE (wrapE LeaseStore (HeartbeatLeases (workerID m)))
     (\<lambda>rows. ret (foldl (\<lambda>held row. held(fst row \<mapsto> snd row)) Map.empty rows))"

definition Release :: "Manager \<Rightarrow> ID \<Rightarrow> ('z world_scheme, lease_error, unit) io" where
  "Release m i = wrapE LeaseStore (ReleaseLease i (workerID m))"

definition ReleaseAll :: "Manager \<Rightarrow> ('z world_scheme, lease_error, unit) io" where
  "ReleaseAll m = wrapE LeaseStore (ReleaseWorkerLeases (workerID m))"

definition Adoptable :: "Manager \<Rightarrow> nat \<Rightarrow> ('z world_scheme, lease_error, ID list) io" where
  "Adoptable m limit = bindE
     (wrapE LeaseStore (ListAdoptableLeases (Interval (m_expiry m)) PermanentReasonList limit))
     (\<lambda>rows. ret (map fst rows))"

record Owner =
  o_GRPCAddr :: string
  o_Generation :: int
  o_Live :: bool

definition lease_Owner :: "Manager \<Rightarrow> ID \<Rightarrow> ('z world_scheme, lease_error, Owner) io" where
  "lease_Owner m i = bindE
     (wrapE no_rows_as_not_acquired (GetLeaseOwner i (Interval (m_expiry m))))
     (\<lambda>row. ret \<lparr>o_GRPCAddr = (case lo_grpc_addr row of None \<Rightarrow> [] | Some a \<Rightarrow> a),
                 o_Generation = lo_generation row,
                 o_Live = (lo_is_live row = Some True)\<rparr>)"

definition lease_Count :: "Manager \<Rightarrow> ('z world_scheme, lease_error, int) io" where
  "lease_Count m = wrapE LeaseStore (CountLeasesByWorker (workerID m))"

definition CheckGeneration :: "Manager \<Rightarrow> ID \<Rightarrow> int \<Rightarrow> ('z world_scheme, lease_error, unit) io" where
  "CheckGeneration m i generation = bindE (wrapE no_rows_as_not_acquired (GetLease i))
     (\<lambda>row. if l_generation row \<noteq> generation then throw ErrWrongGeneration
            else if l_worker_id row \<noteq> Some (workerID m) then throw ErrWrongGeneration
            else ret ())"

lemmas lease_defs = Ensure_def SetDesired_def SetTenantDesired_def Acquire_def Heartbeat_def
  Release_def ReleaseAll_def Adoptable_def lease_Owner_def lease_Count_def CheckGeneration_def

lemma wrapE_Inr: "wrapE f m w = (Inr x, w') \<longleftrightarrow> m w = (Inr x, w')"
  by (auto simp: wrapE_def split: prod.splits sum.splits)

lemma snd_wrapE [simp]: "snd (wrapE f m w) = snd (m w)"
  by (simp add: wrapE_def split_beta split: sum.split)

subsection \<open>What one statement does to one lease\<close>

text \<open>
  The effect on the lease of one instance, whatever the outcome of the call: it is either
  untouched or the row the WHERE clause and the SET list say.
\<close>

lemma lease_of_update_where:
  "(\<And>l. p l \<Longrightarrow> l_instance_id (f l) = l_instance_id l) \<Longrightarrow>
   lease_of (d\<lparr>session_leases := update_where p f (session_leases d)\<rparr>) i =
   map_option (\<lambda>l. if p l then f l else l) (lease_of d i)"
  unfolding lease_of_def by (simp add: by_key_update_where)

lemma lease_of_other_tables [simp]:
  "lease_of (d\<lparr>instances := x\<rparr>) i = lease_of d i"
  "lease_of (d\<lparr>connection_events := y\<rparr>) i = lease_of d i"
  "lease_of (d\<lparr>next_event_id := n\<rparr>) i = lease_of d i"
  by (simp_all add: lease_of_def)

lemma acquire_guard_lease:
  assumes "distinct (map l_instance_id (session_leases d))"
  shows "first_where (acquire_guard t expiry i) (session_leases d) =
    (case lease_of d i of None \<Rightarrow> None | Some l \<Rightarrow> if acquire_guard t expiry i l then Some l else None)"
proof (cases "lease_of d i")
  case None
  then have "\<forall>l \<in> set (session_leases d). l_instance_id l \<noteq> i"
    by (auto simp: lease_of_def by_key_None)
  then have "first_where (acquire_guard t expiry i) (session_leases d) = None"
    by (simp add: first_where_None acquire_guard_def)
  with None show ?thesis by simp
next
  case (Some l)
  then have l: "l \<in> set (session_leases d)" "l_instance_id l = i"
    by (auto simp: lease_of_def dest: by_key_Some)
  have only: "l' = l" if "l' \<in> set (session_leases d)" "l_instance_id l' = i" for l'
    using that l by_key_distinct [OF assms, of l'] Some by (simp add: lease_of_def)
  show ?thesis
  proof (cases "acquire_guard t expiry i l")
    case True
    then obtain l' where "first_where (acquire_guard t expiry i) (session_leases d) = Some l'"
      using l by (cases "first_where (acquire_guard t expiry i) (session_leases d)") (auto simp: first_where_None)
    moreover then have "l' = l" using only by (auto dest!: first_where_Some simp: acquire_guard_def)
    ultimately show ?thesis using True Some by simp
  next
    case False
    then have "first_where (acquire_guard t expiry i) (session_leases d) = None"
      using only by (auto simp: first_where_None acquire_guard_def)
    with False Some show ?thesis by simp
  qed
qed

subsection \<open>The interface: a fencing token is granted once\<close>

text \<open>
  A grant names an instance, a generation and the worker it was given to. The laws are what the
  rest of the system relies on: a grant raises the generation and records its owner; anything
  else may free the instance, raise the generation, or leave both alone; a token row disappears
  only with its instance, and instance identifiers are never reused.
\<close>

type_synonym grant = "ID \<times> int \<times> string"

locale fencing =
  fixes step :: "grant list \<Rightarrow> 'w \<Rightarrow> grant option \<Rightarrow> 'w \<Rightarrow> bool"
    and token :: "'w \<Rightarrow> ID \<Rightarrow> (int \<times> string option) option"
    and alive :: "'w \<Rightarrow> ID \<Rightarrow> bool"
    and init :: "'w \<Rightarrow> bool"
    and ok :: "'w \<Rightarrow> bool"
  assumes init_ok: "init w \<Longrightarrow> ok w"
    and step_ok: "step h w lbl w' \<Longrightarrow> ok w \<Longrightarrow> ok w'"
    and grant_raises: "step h w (Some (i, g, a)) w' \<Longrightarrow> ok w \<Longrightarrow>
      \<exists>g0 own. token w i = Some (g0, own) \<and> g0 < g \<and> token w' i = Some (g, Some a)"
    and token_moves: "step h w lbl w' \<Longrightarrow> ok w \<Longrightarrow> token w i = Some (g, own) \<Longrightarrow> token w' i = Some (g', own') \<Longrightarrow>
      g < g' \<or> (g' = g \<and> (own' = own \<or> own' = None))"
    and token_gone: "step h w lbl w' \<Longrightarrow> ok w \<Longrightarrow> token w i \<noteq> None \<Longrightarrow> token w' i = None \<Longrightarrow> \<not> alive w' i"
    and token_new: "step h w lbl w' \<Longrightarrow> ok w \<Longrightarrow> token w i = None \<Longrightarrow> token w' i \<noteq> None \<Longrightarrow> alive w i"
    and alive_new: "step h w lbl w' \<Longrightarrow> ok w \<Longrightarrow> \<not> alive w i \<Longrightarrow> alive w' i \<Longrightarrow> i \<notin> fst ` set h"
begin

inductive reach :: "'w \<Rightarrow> grant list \<Rightarrow> bool" where
  start: "init w \<Longrightarrow> reach w []"
| silent: "reach w h \<Longrightarrow> step h w None w' \<Longrightarrow> reach w' h"
| granted: "reach w h \<Longrightarrow> step h w (Some x) w' \<Longrightarrow> reach w' (x # h)"

definition consistent :: "'w \<Rightarrow> grant list \<Rightarrow> bool" where
  "consistent w h \<longleftrightarrow> ok w \<and> distinct (map (\<lambda>(i, g, a). (i, g)) h) \<and>
     (\<forall>i g a. (i, g, a) \<in> set h \<longrightarrow>
        (case token w i of None \<Rightarrow> \<not> alive w i
         | Some (g', own) \<Rightarrow> g \<le> g' \<and> (g = g' \<longrightarrow> own = None \<or> own = Some a)))"

text \<open>One step keeps the record consistent with every grant made before it.\<close>

lemma past_grants_kept:
  assumes "consistent w h" and st: "step h w lbl w'" and x: "(i, g, a) \<in> set h"
  shows "case token w' i of None \<Rightarrow> \<not> alive w' i
         | Some (g', own) \<Rightarrow> g \<le> g' \<and> (g = g' \<longrightarrow> own = None \<or> own = Some a)"
proof -
  from assms have ok: "ok w" and inv: "case token w i of None \<Rightarrow> \<not> alive w i
         | Some (g', own) \<Rightarrow> g \<le> g' \<and> (g = g' \<longrightarrow> own = None \<or> own = Some a)"
    by (auto simp: consistent_def)
  from x have mem: "i \<in> fst ` set h" by force
  show ?thesis
  proof (cases "token w' i")
    case None
    with inv token_gone [OF st ok, of i] alive_new [OF st ok, of i] mem show ?thesis
      by (cases "token w i") (simp_all, blast)
  next
    case (Some t')
    show ?thesis
    proof (cases "token w i")
      case None
      with inv Some token_new [OF st ok, of i] show ?thesis by simp
    next
      case (Some t)
      with inv \<open>token w' i = Some t'\<close> token_moves [OF st ok, of i "fst t" "snd t" "fst t'" "snd t'"]
      show ?thesis by (cases t; cases t') auto
    qed
  qed
qed

lemma reach_consistent: "reach w h \<Longrightarrow> consistent w h"
proof (induction rule: reach.induct)
  case (start w)
  then show ?case by (simp add: consistent_def init_ok)
next
  case (silent w h w')
  then show ?case
    using past_grants_kept [OF silent.IH silent.hyps(2)] step_ok [OF silent.hyps(2)]
    by (auto simp: consistent_def)
next
  case (granted w h x w')
  obtain i g a where x: "x = (i, g, a)" by (cases x)
  from granted have ok: "ok w" by (simp add: consistent_def)
  from grant_raises [OF granted.hyps(2) [unfolded x] ok] obtain g0 own where
    old: "token w i = Some (g0, own)" "g0 < g" and new: "token w' i = Some (g, Some a)" by blast
  have "(i, g) \<notin> (\<lambda>(i, g, a). (i, g)) ` set h"
    using granted.IH old by (fastforce simp: consistent_def)
  then show ?case
    using past_grants_kept [OF granted.IH granted.hyps(2)] step_ok [OF granted.hyps(2) ok] new granted.IH x
    by (auto simp: consistent_def)
qed

lemma granted_once: "reach w h \<Longrightarrow> (i, g, a) \<in> set h \<Longrightarrow> (i, g, b) \<in> set h \<Longrightarrow> a = b"
  by (drule reach_consistent) (auto simp: consistent_def distinct_map inj_on_def)

lemma holder_unique:
  "reach w h \<Longrightarrow> token w i = Some (g, Some b) \<Longrightarrow> (i, g, a) \<in> set h \<Longrightarrow> a = b"
  by (drule reach_consistent) (fastforce simp: consistent_def)

lemma holder_latest:
  "reach w h \<Longrightarrow> token w i = Some (g, own) \<Longrightarrow> (i, g', a) \<in> set h \<Longrightarrow> g' \<le> g"
  by (drule reach_consistent) (fastforce simp: consistent_def)

end

subsection \<open>Every interleaving of lease operations\<close>

text \<open>
  One step of the deployment as the lease table sees it: an operation of any manager, whatever
  its outcome; the creation of an instance under an identifier that was never granted; the
  deletion of instances with their leases; a statement on another table; the clock; the network.
\<close>

inductive lease_step :: "grant list \<Rightarrow> world \<Rightarrow> grant option \<Rightarrow> world \<Rightarrow> bool" where
  acquire_won: "Acquire m i w = (Inr g, w') \<Longrightarrow> lease_step h w (Some (i, g, workerID m)) w'"
| acquire_lost: "Acquire m i w = (Inl e, w') \<Longrightarrow> lease_step h w None w'"
| ensure: "lease_step h w None (snd (Ensure m i w))"
| set_desired: "lease_step h w None (snd (SetDesired m i s w))"
| set_tenant_desired: "lease_step h w None (snd (SetTenantDesired m tenant s w))"
| heartbeat: "lease_step h w None (snd (Heartbeat m w))"
| release: "lease_step h w None (snd (Release m i w))"
| release_all: "lease_step h w None (snd (ReleaseAll m w))"
| create_instance: "i \<notin> fst ` set h \<Longrightarrow> lease_step h w None (snd (CreateInstance i tenant name w))"
| delete_instance: "lease_step h w None (snd (DeleteInstance i tenant w))"
| delete_tenant: "lease_step h w None (w\<lparr>db := drop_instances gone (db w)\<rparr>)"
| other_table: "session_leases d = session_leases (db w) \<Longrightarrow> map r_id (instances d) = map r_id (instances (db w)) \<Longrightarrow>
    lease_step h w None (w\<lparr>db := d\<rparr>)"
| tick: "0 \<le> dt \<Longrightarrow> lease_step h w None (w\<lparr>now := now w + dt\<rparr>)"
| network: "lease_step h w None (w\<lparr>faults := fs\<rparr>)"

definition leases_ok :: "database \<Rightarrow> bool" where
  "leases_ok d \<longleftrightarrow> distinct (map l_instance_id (session_leases d))"

definition lease_token :: "'z world_scheme \<Rightarrow> ID \<Rightarrow> (int \<times> string option) option" where
  "lease_token w i = map_option (\<lambda>l. (l_generation l, l_worker_id l)) (lease_of (db w) i)"

definition instance_alive :: "'z world_scheme \<Rightarrow> ID \<Rightarrow> bool" where
  "instance_alive w i \<longleftrightarrow> i \<in> r_id ` set (instances (db w))"

text \<open>What any of these does to the lease rows, stated on the database.\<close>

definition lease_moves :: "SessionLease \<Rightarrow> SessionLease \<Rightarrow> bool" where
  "lease_moves l l' \<longleftrightarrow> l_generation l < l_generation l' \<or>
     (l_generation l' = l_generation l \<and> (l_worker_id l' = l_worker_id l \<or> l_worker_id l' = None))"

definition evolves :: "database \<Rightarrow> database \<Rightarrow> bool" where
  "evolves d d' \<longleftrightarrow> (leases_ok d \<longrightarrow> leases_ok d') \<and>
     (\<forall>i. case lease_of d i of
        None \<Rightarrow> lease_of d' i \<noteq> None \<longrightarrow> i \<in> r_id ` set (instances d)
      | Some l \<Rightarrow> (case lease_of d' i of None \<Rightarrow> i \<notin> r_id ` set (instances d')
                   | Some l' \<Rightarrow> lease_moves l l'))"

lemma evolvesD:
  assumes "evolves d d'"
  shows "leases_ok d \<Longrightarrow> leases_ok d'"
    and "lease_of d i = Some l \<Longrightarrow> lease_of d' i = Some l' \<Longrightarrow> lease_moves l l'"
    and "lease_of d i \<noteq> None \<Longrightarrow> lease_of d' i = None \<Longrightarrow> i \<notin> r_id ` set (instances d')"
    and "lease_of d i = None \<Longrightarrow> lease_of d' i \<noteq> None \<Longrightarrow> i \<in> r_id ` set (instances d)"
  using assms unfolding evolves_def by (auto dest!: spec [of _ i])

lemma evolves_same_leases:
  "session_leases d' = session_leases d \<Longrightarrow> evolves d d'"
  by (simp add: evolves_def leases_ok_def lease_of_def lease_moves_def split: option.split)

lemma evolves_update:
  assumes "\<And>l. p l \<Longrightarrow> l_instance_id (f l) = l_instance_id l \<and> lease_moves l (f l)"
  shows "evolves d (d\<lparr>session_leases := update_where p f (session_leases d)\<rparr>)"
proof -
  have key: "p l \<Longrightarrow> l_instance_id (f l) = l_instance_id l" for l using assms by simp
  show ?thesis
    using assms by (auto simp: evolves_def leases_ok_def map_update_where [where key = l_instance_id, OF key]
      lease_of_update_where [OF key] lease_moves_def split: option.split)
qed

lemma by_key_filter_key:
  "by_key key k (filter (\<lambda>r. P (key r)) rows) = (if P k then by_key key k rows else None)"
  by (induction rows) auto

lemma evolves_drop: "evolves d (drop_instances gone d)"
proof -
  have "lease_of (drop_instances gone d) i = (if gone i then None else lease_of d i)" for i
    using by_key_filter_key [of l_instance_id i "\<lambda>i. \<not> gone i" "session_leases d"]
    by (simp add: lease_of_def drop_instances_def)
  moreover have "leases_ok d \<Longrightarrow> leases_ok (drop_instances gone d)"
    by (simp add: leases_ok_def drop_instances_def distinct_map_filter)
  ultimately show ?thesis
    by (auto simp: evolves_def drop_instances_def lease_moves_def split: option.split)
qed

lemma evolves_ensure:
  "i \<notin> l_instance_id ` set (session_leases d) \<Longrightarrow> i \<in> r_id ` set (instances d) \<Longrightarrow> l_instance_id l = i \<Longrightarrow>
   evolves d (d\<lparr>session_leases := session_leases d @ [l]\<rparr>)"
  by (auto simp: evolves_def leases_ok_def lease_of_def by_key_append lease_moves_def split: option.split)

text \<open>Every operation of a manager, with or without faults.\<close>

lemma evolves_refl: "evolves d d"
  by (rule evolves_same_leases) simp

lemma evolves_instances: "evolves d (d\<lparr>instances := x\<rparr>)"
  by (rule evolves_same_leases) simp

lemma evolves_statements:
  "always (on_db evolves) (EnsureLease i)"
  "always (on_db evolves) (SetDesiredState i s)"
  "always (on_db evolves) (SetTenantDesiredState tenant s)"
  "always (on_db evolves) (AcquireLease i wid addr expiry)"
  "always (on_db evolves) (HeartbeatLeases wid)"
  "always (on_db evolves) (ReleaseLease i wid)"
  "always (on_db evolves) (ReleaseWorkerLeases wid)"
  "always (on_db evolves) (CreateInstance i tenant name)"
  "always (on_db evolves) (DeleteInstance i tenant)"
  unfolding query_defs
  by (rule always_on_db; auto simp: evolves_refl intro!: evolves_update evolves_ensure evolves_drop
    evolves_instances simp: lease_moves_def acquire_set_def clear_owner_def split: option.split)+

lemma on_db_snd: "always (on_db R) m \<Longrightarrow> R (db w) (db (snd (m w)))"
  by (simp add: always_def on_db_def)

lemma Acquire_evolves: "evolves (db w) (db (snd (Acquire m i w)))"
  by (simp add: Acquire_def on_db_snd evolves_statements)

lemma snd_Heartbeat: "snd (Heartbeat m w) = snd (HeartbeatLeases (workerID m) w)"
  by (simp add: Heartbeat_def bindE_def ret_def wrapE_def split_beta split: sum.split)

lemma lease_step_evolves: "lease_step h w lbl w' \<Longrightarrow> evolves (db w) (db w')"
proof (induction rule: lease_step.induct)
  case (acquire_won m i w g w' h)
  then show ?case using Acquire_evolves [of w m i] by simp
next
  case (acquire_lost m i w e w' h)
  then show ?case using Acquire_evolves [of w m i] by simp
qed (simp_all add: Ensure_def SetDesired_def SetTenantDesired_def Release_def ReleaseAll_def
    snd_Heartbeat on_db_snd evolves_statements evolves_drop evolves_same_leases)

text \<open>A successful acquisition, exactly.\<close>

lemma Acquire_Inr:
  assumes "Acquire m i w = (Inr g, w')" and "leases_ok (db w)"
  obtains l where "lease_of (db w) i = Some l"
    and "acquire_guard (now w) (Interval (m_expiry m)) i l"
    and "g = l_generation l + 1"
    and "lease_of (db w') i = Some (acquire_set (now w) (workerID m) (grpcAddr m) l)"
    and "\<forall>j. j \<noteq> i \<longrightarrow> lease_of (db w') j = lease_of (db w) j"
    and "now w' = now w"
proof -
  let ?p = "acquire_guard (now w) (Interval (m_expiry m)) i"
  let ?f = "acquire_set (now w) (workerID m) (grpcAddr m)"
  have key: "?p l \<Longrightarrow> l_instance_id (?f l) = l_instance_id l" for l by (simp add: acquire_set_def)
  from assms(1) have "AcquireLease i (workerID m) (grpcAddr m) (Interval (m_expiry m)) w = (Inr g, w')"
    by (simp add: Acquire_def wrapE_Inr)
  then obtain fs where
    q: "(case first_where ?p (session_leases (db w)) of None \<Rightarrow> (Inl ErrNoRows, db w)
      | Some l \<Rightarrow> (Inr (l_generation l + 1),
          db w\<lparr>session_leases := update_where ?p ?f (session_leases (db w))\<rparr>)) = (Inr g, db w')"
    and w': "w' = w\<lparr>db := db w', faults := fs\<rparr>"
    unfolding AcquireLease_def by (rule run_statement_Inr)
  have fw: "first_where ?p (session_leases (db w)) =
    (case lease_of (db w) i of None \<Rightarrow> None | Some l \<Rightarrow> if ?p l then Some l else None)"
    using assms(2) unfolding leases_ok_def by (rule acquire_guard_lease)
  from q obtain l where l: "lease_of (db w) i = Some l" "?p l" "g = l_generation l + 1"
    and d': "db w' = db w\<lparr>session_leases := update_where ?p ?f (session_leases (db w))\<rparr>"
    unfolding fw by (auto split: option.splits if_splits)
  have eff: "lease_of (db w') j = map_option (\<lambda>l. if ?p l then ?f l else l) (lease_of (db w) j)" for j
    unfolding d' by (rule lease_of_update_where) (rule key)
  have "lease_of (db w') i = Some (?f l)" using eff l by simp
  moreover have "lease_of (db w') j = lease_of (db w) j" if "j \<noteq> i" for j
    using eff [of j] that lease_of_id [of "db w" j]
    by (cases "lease_of (db w) j") (auto simp: acquire_guard_def)
  moreover have "now w' = now w" by (subst w') simp
  ultimately show ?thesis using that l by blast
qed

text \<open>Only the creation of an instance adds an identifier.\<close>

definition adds_ids :: "ID set \<Rightarrow> database \<Rightarrow> database \<Rightarrow> bool" where
  "adds_ids S d d' \<longleftrightarrow> r_id ` set (instances d') \<subseteq> r_id ` set (instances d) \<union> S"

lemma adds_ids_statements:
  "always (on_db (adds_ids {})) (EnsureLease i)"
  "always (on_db (adds_ids {})) (SetDesiredState i s)"
  "always (on_db (adds_ids {})) (SetTenantDesiredState tenant s)"
  "always (on_db (adds_ids {})) (AcquireLease i wid addr expiry)"
  "always (on_db (adds_ids {})) (HeartbeatLeases wid)"
  "always (on_db (adds_ids {})) (ReleaseLease i wid)"
  "always (on_db (adds_ids {})) (ReleaseWorkerLeases wid)"
  "always (on_db (adds_ids {i})) (CreateInstance i tenant name)"
  "always (on_db (adds_ids {})) (DeleteInstance i tenant)"
  unfolding query_defs
  by (rule always_on_db; auto simp: adds_ids_def drop_instances_def new_instance_row_def split: option.split)+

lemma adds_ids_weaken: "adds_ids S d d' \<Longrightarrow> S \<subseteq> T \<Longrightarrow> adds_ids T d d'"
  by (auto simp: adds_ids_def)

lemma adds_ids_op: "always (on_db (adds_ids {})) m \<Longrightarrow> adds_ids T (db w) (db (snd (m w)))"
  by (drule on_db_snd [where w = w]) (auto intro: adds_ids_weaken)

lemma Acquire_adds_ids: "adds_ids T (db w) (db (snd (Acquire m i w)))"
  by (simp add: Acquire_def adds_ids_op adds_ids_statements)

lemma lease_step_adds_ids: "lease_step h w lbl w' \<Longrightarrow> adds_ids (- fst ` set h) (db w) (db w')"
proof (induction rule: lease_step.induct)
  case (acquire_won m i w g w' h)
  then show ?case using Acquire_adds_ids [of _ w m i] by simp
next
  case (acquire_lost m i w e w' h)
  then show ?case using Acquire_adds_ids [of _ w m i] by simp
next
  case (create_instance i h w tenant name)
  then show ?case by (intro adds_ids_weaken [OF on_db_snd [OF adds_ids_statements(8)]]) simp
next
  case (other_table d w h)
  then have "r_id ` set (instances d) = r_id ` set (instances (db w))" by (metis list.set_map)
  then show ?case by (simp add: adds_ids_def)
next
  case (delete_tenant h w gone)
  then show ?case by (auto simp: adds_ids_def drop_instances_def)
qed (simp_all add: adds_ids_op adds_ids_statements Ensure_def SetDesired_def
    SetTenantDesired_def Release_def ReleaseAll_def snd_Heartbeat,
  simp_all add: adds_ids_def)

interpretation leases: fencing lease_step lease_token instance_alive
  "\<lambda>w. leases_ok (db w)" "\<lambda>w. leases_ok (db w)"
proof
  fix h w lbl w' assume st: "lease_step h w lbl w'"
  note ev = evolvesD [OF lease_step_evolves [OF st]]
  show "leases_ok (db w) \<Longrightarrow> leases_ok (db w')" by (rule ev(1))
  show "g < g' \<or> (g' = g \<and> (own' = own \<or> own' = None))"
    if "lease_token w i = Some (g, own)" "lease_token w' i = Some (g', own')" for i g own g' own'
    using that ev(2) [of i] unfolding lease_moves_def by (fastforce simp: lease_token_def)
  show "\<not> instance_alive w' i" if "lease_token w i \<noteq> None" "lease_token w' i = None" for i
    using that ev(3) [of i] by (auto simp: lease_token_def instance_alive_def)
  show "instance_alive w i" if "lease_token w i = None" "lease_token w' i \<noteq> None" for i
    using that ev(4) [of i] by (auto simp: lease_token_def instance_alive_def)
  show "i \<notin> fst ` set h" if "\<not> instance_alive w i" "instance_alive w' i" for i
    using lease_step_adds_ids [OF st] that by (auto simp: adds_ids_def instance_alive_def)
next
  fix h w i g a w'
  assume st: "lease_step h w (Some (i, g, a)) w'" and ok: "leases_ok (db w)"
  from st obtain m where m: "Acquire m i w = (Inr g, w')" "a = workerID m"
    by (cases rule: lease_step.cases) auto
  from Acquire_Inr [OF m(1) ok] obtain l where "lease_of (db w) i = Some l" "g = l_generation l + 1"
    "lease_of (db w') i = Some (acquire_set (now w) (workerID m) (grpcAddr m) l)" by blast
  then show "\<exists>g0 own. lease_token w i = Some (g0, own) \<and> g0 < g \<and> lease_token w' i = Some (g, Some a)"
    by (simp add: lease_token_def acquire_set_def m)
qed

inductive_cases lease_grantE: "lease_step h w (Some x) w'"

text \<open>The states a deployment can be in, with the generations granted on the way, latest first.\<close>

inductive lease_history :: "world \<Rightarrow> grant list \<Rightarrow> bool" where
  deployed: "leases_ok (db w) \<Longrightarrow> lease_history w []"
| unnoticed: "lease_history w h \<Longrightarrow> lease_step h w None w' \<Longrightarrow> lease_history w' h"
| grants: "lease_history w h \<Longrightarrow> lease_step h w (Some x) w' \<Longrightarrow> lease_history w' (x # h)"

lemma history_reach: "lease_history w h \<Longrightarrow> leases.reach w h"
  by (induction rule: lease_history.induct) (auto intro: leases.reach.intros)

subsection \<open>The fence\<close>

lemma CheckGeneration_Inr:
  assumes "CheckGeneration m i g w = (Inr (), w')"
  shows "lease_token w i = Some (g, Some (workerID m))"
proof -
  from assms obtain row where "GetLease i w = (Inr row, w')"
    and row: "l_generation row = g" "l_worker_id row = Some (workerID m)"
    by (auto simp: CheckGeneration_def bindE_def wrapE_def throw_def ret_def
      split: prod.splits sum.splits if_splits)
  then show ?thesis
    by (auto simp: GetLease_def select_one_def lease_token_def elim!: run_statement_Inr split: option.splits)
qed

text \<open>
  C1. However lease operations of any number of workers interleave, and whichever calls fail, a
  generation of an instance is granted to one worker at most.
\<close>

theorem generation_granted_once:
  assumes "lease_history w h" and "(i, g, a) \<in> set h" and "(i, g, b) \<in> set h"
  shows "a = b"
  using history_reach [OF assms(1)] assms(2,3) by (rule leases.granted_once)

text \<open>
  C2. Fencing: a command that carries a granted generation and passes \<open>CheckGeneration\<close> on some
  worker was granted to that very worker, and no later generation has been granted to anybody.
\<close>

theorem fence_admits_current_owner_only:
  assumes run: "lease_history w h" and check: "CheckGeneration m i g w = (Inr (), w')"
    and "(i, g, a) \<in> set h"
  shows "a = workerID m \<and> (\<forall>(j, g', b) \<in> set h. j = i \<longrightarrow> g' \<le> g)"
proof -
  note tok = CheckGeneration_Inr [OF check]
  have "a = workerID m" using history_reach [OF run] tok assms(3) by (rule leases.holder_unique)
  moreover have "g' \<le> g" if "(i, g', b) \<in> set h" for g' b
    using history_reach [OF run] tok that by (rule leases.holder_latest)
  ultimately show ?thesis by auto
qed

text \<open>Two workers racing for one instance: the loser of the race holds a stale view.\<close>

definition demo_manager :: "string \<Rightarrow> Manager" where
  "demo_manager name = \<lparr>workerID = name, grpcAddr = name @ '':9090'', m_expiry = 30000000000\<rparr>"

definition demo_lease :: SessionLease where
  "demo_lease = \<lparr>l_instance_id = 7, l_worker_id = None, l_grpc_addr = None, l_generation = 0,
     l_heartbeat_at = None, l_desired_state = DesiredRunning, l_updated_at = 1\<rparr>"

definition demo_db :: database where
  "demo_db = \<lparr>tenants = [], users = [], instances = [new_instance_row 1 7 1 ''shop''], api_keys = [],
     security_events = [], session_leases = [demo_lease], connection_events = [], next_event_id = 1\<rparr>"

definition demo_world :: world where
  "demo_world = \<lparr>db = demo_db, now = 100, faults = []\<rparr>"

lemmas demo_defs = demo_manager_def demo_lease_def demo_db_def demo_world_def new_instance_row_def

definition demo_taken :: world where
  "demo_taken = snd (Acquire (demo_manager ''w1'') 7 demo_world)"

lemma demo_acquire: "Acquire (demo_manager ''w1'') 7 demo_world = (Inr 1, demo_taken)"
  by (simp add: demo_taken_def Acquire_def AcquireLease_def wrapE_def run_statement_ok demo_defs
    first_where_def acquire_guard_def claimable_def)

lemma demo_reach: "lease_history demo_taken [(7, 1, ''w1'')]"
proof -
  have "lease_history demo_world []"
    by (rule lease_history.deployed) (simp add: leases_ok_def demo_defs)
  moreover have "lease_step [] demo_world (Some (7, 1, ''w1'')) demo_taken"
    using lease_step.acquire_won [OF demo_acquire] by (simp add: demo_manager_def)
  ultimately show ?thesis by (rule lease_history.grants)
qed

lemma demo_check: "CheckGeneration (demo_manager ''w1'') 7 1 demo_taken = (Inr (), demo_taken)"
  by (simp add: demo_taken_def Acquire_def AcquireLease_def wrapE_def run_statement_ok demo_defs
    first_where_def acquire_guard_def claimable_def CheckGeneration_def GetLease_def select_one_def
    lease_of_def acquire_set_def bindE_def ret_def)

theorem generation_granted_once_witness:
  "lease_history demo_taken [(7, 1, ''w1'')] \<and> (7, 1, ''w1'') \<in> set [(7 :: nat, 1 :: int, ''w1'')]
   \<and> ''w1'' = ''w1''"
  using demo_reach generation_granted_once [OF demo_reach, of 7 1 "''w1''" "''w1''"] by simp

theorem fence_admits_current_owner_only_witness:
  "lease_history demo_taken [(7, 1, ''w1'')] \<and>
   CheckGeneration (demo_manager ''w1'') 7 1 demo_taken = (Inr (), demo_taken) \<and>
   ''w1'' = workerID (demo_manager ''w1'')"
  using demo_reach demo_check
    fence_admits_current_owner_only [OF demo_reach demo_check, of "''w1''"] by simp

subsection \<open>A live owner is not displaced\<close>

text \<open>
  Everything workers do to the lease table while an owner keeps its lease: acquisitions and
  heartbeats by anybody, releases by anybody else, new leases, time, and failing calls.
\<close>

datatype worker_op =
    OpAcquire Manager ID | OpHeartbeat Manager | OpRelease Manager ID | OpReleaseAll Manager
  | OpEnsure Manager ID | OpTick duration | OpNetwork "outcome list"

fun run_op :: "worker_op \<Rightarrow> world \<Rightarrow> world" where
  "run_op (OpAcquire m i) w = snd (Acquire m i w)"
| "run_op (OpHeartbeat m) w = snd (Heartbeat m w)"
| "run_op (OpRelease m i) w = snd (Release m i w)"
| "run_op (OpReleaseAll m) w = snd (ReleaseAll m w)"
| "run_op (OpEnsure m i) w = snd (Ensure m i w)"
| "run_op (OpTick dt) w = w\<lparr>now := now w + dt\<rparr>"
| "run_op (OpNetwork fs) w = w\<lparr>faults := fs\<rparr>"

definition run_ops :: "worker_op list \<Rightarrow> world \<Rightarrow> world" where
  "run_ops ops w = fold run_op ops w"

text \<open>The owner \<open>a\<close> does not release; every worker uses the same expiry; time moves forward.\<close>

fun undisturbed :: "string \<Rightarrow> duration \<Rightarrow> worker_op \<Rightarrow> bool" where
  "undisturbed a e (OpAcquire m i) = (m_expiry m = e)"
| "undisturbed a e (OpRelease m i) = (workerID m \<noteq> a)"
| "undisturbed a e (OpReleaseAll m) = (workerID m \<noteq> a)"
| "undisturbed a e (OpTick dt) = (0 \<le> dt)"
| "undisturbed a e _ = True"

definition holds_lease :: "string \<Rightarrow> int \<Rightarrow> gotime \<Rightarrow> SessionLease \<Rightarrow> bool" where
  "holds_lease a g hb l \<longleftrightarrow> l_worker_id l = Some a \<and> l_generation l = g \<and>
     l_desired_state l = DesiredRunning \<and> (\<exists>h. l_heartbeat_at l = Some h \<and> hb \<le> h)"

definition held_by :: "ID \<Rightarrow> string \<Rightarrow> int \<Rightarrow> gotime \<Rightarrow> database \<Rightarrow> bool" where
  "held_by i a g hb d \<longleftrightarrow> (\<exists>l. lease_of d i = Some l \<and> holds_lease a g hb l)"

lemma held_by_update:
  assumes "held_by i a g hb d" and "\<And>l. p l \<Longrightarrow> l_instance_id (f l) = l_instance_id l"
    and "\<And>l. l_instance_id l = i \<Longrightarrow> holds_lease a g hb l \<Longrightarrow> p l \<Longrightarrow> holds_lease a g hb (f l)"
  shows "held_by i a g hb (d\<lparr>session_leases := update_where p f (session_leases d)\<rparr>)"
proof -
  from assms(1) obtain l where l: "lease_of d i = Some l" "holds_lease a g hb l" by (auto simp: held_by_def)
  then have "lease_of (d\<lparr>session_leases := update_where p f (session_leases d)\<rparr>) i = Some (if p l then f l else l)"
    by (subst lease_of_update_where [OF assms(2)]) simp_all
  with l assms(3) [of l] show ?thesis by (simp add: held_by_def lease_of_id)
qed

lemma held_by_statement:
  assumes "held_by i a g hb (db w)" and "held_by i a g hb (snd (q (now w) (db w)))"
  shows "held_by i a g hb (db (snd (run_statement q w)))"
  by (rule run_statement_cases [of q w]) (use assms in simp_all)

lemma now_run_statement [simp]: "now (snd (run_statement q w)) = now w"
  by (rule run_statement_cases [of q w]) simp_all

lemma run_op_now: "undisturbed a e op \<Longrightarrow> now w \<le> now (run_op op w)"
  by (cases op) (simp_all add: Acquire_def Release_def ReleaseAll_def Ensure_def snd_Heartbeat
    EnsureLease_def AcquireLease_def HeartbeatLeases_def ReleaseLease_def ReleaseWorkerLeases_def)

lemma run_op_held:
  assumes u: "undisturbed a e op" and h: "held_by i a g hb (db w)"
    and t: "hb \<le> now w" "now w \<le> hb + Interval e"
  shows "held_by i a g hb (db (run_op op w))"
proof (cases op)
  case (OpAcquire m j)
  have not_won: "\<not> acquire_guard (now w) (Interval (m_expiry m)) j l"
    if "l_instance_id l = i" "holds_lease a g hb l" for l
    using that t u OpAcquire by (auto simp: acquire_guard_def claimable_def expired_def holds_lease_def)
  show ?thesis using OpAcquire h not_won
    by (auto simp: Acquire_def AcquireLease_def acquire_set_def intro!: held_by_statement
      held_by_update split: option.split)
next
  case (OpEnsure m j)
  have app: "held_by i a g hb (d\<lparr>session_leases := session_leases d @ ls\<rparr>)" if "held_by i a g hb d" for d ls
    using that by (auto simp: held_by_def lease_of_def by_key_append)
  show ?thesis using OpEnsure h by (auto simp: Ensure_def EnsureLease_def intro!: held_by_statement app)
qed (use h u t in \<open>auto simp: snd_Heartbeat HeartbeatLeases_def Release_def ReleaseLease_def ReleaseAll_def
    ReleaseWorkerLeases_def exec_on_leases_def clear_owner_def holds_lease_def
    intro!: held_by_statement held_by_update\<close>)

lemma live_owner_holds:
  assumes "held_by i a g hb (db w)" and "hb \<le> now w"
    and "\<forall>op \<in> set ops. undisturbed a e op"
    and "now (run_ops ops w) \<le> hb + Interval e"
  shows "held_by i a g hb (db (run_ops ops w))"
  using assms
proof (induction ops arbitrary: w)
  case Nil
  then show ?case by (simp add: run_ops_def)
next
  case (Cons op ops)
  have mono: "now w' \<le> now (run_ops ops w')" for w'
    using Cons.prems(3)
  proof (induction ops arbitrary: w')
    case (Cons op' ops)
    have "now w' \<le> now (run_op op' w')" using Cons.prems by (intro run_op_now [of a e]) simp
    also have "\<dots> \<le> now (run_ops ops (run_op op' w'))" using Cons.prems by (intro Cons.IH) simp
    finally show ?case by (simp add: run_ops_def)
  qed (simp add: run_ops_def)
  have "now w \<le> now (run_op op w)" using Cons.prems by (intro run_op_now [of a e]) simp
  with mono [of "run_op op w"] Cons.prems show ?case
    using run_op_held [of a e op i g hb w] Cons.IH [of "run_op op w"] by (simp add: run_ops_def)
qed

text \<open>
  A worker whose last recorded heartbeat is at most one expiry old keeps its lease: whatever
  the other workers attempt in the meantime (any sequence of acquisitions, heartbeats, releases,
  lost requests and replies), it is still the owner under the same generation, so the fence still
  admits it.
\<close>

theorem live_owner_keeps_lease:
  assumes "held_by i a g hb (db w)" and "hb \<le> now w"
    and "\<forall>op \<in> set ops. undisturbed a e op"
    and "now (run_ops ops w) \<le> hb + Interval e"
  shows "held_by i a g hb (db (run_ops ops w))"
  using assms by (rule live_owner_holds)

theorem live_owner_keeps_lease_witness:
  "held_by 7 ''w1'' 1 100 (db (run_ops
     [OpTick 20000000000, OpAcquire (demo_manager ''w2'') 7, OpReleaseAll (demo_manager ''w2'')] demo_taken))"
  by (rule live_owner_keeps_lease [where e = 30000000000])
    (simp_all add: demo_taken_def Acquire_def AcquireLease_def wrapE_def run_statement_ok demo_defs
      first_where_def acquire_guard_def claimable_def held_by_def lease_of_def acquire_set_def
      holds_lease_def run_ops_def ReleaseAll_def ReleaseWorkerLeases_def Interval_def exec_on_leases_def
      expired_def)

subsection \<open>What a heartbeat returns\<close>

lemma foldl_upd_notin:
  "i \<notin> fst ` set rows \<Longrightarrow> foldl (\<lambda>held row. held(fst row \<mapsto> snd row)) m rows i = m i"
  by (induction rows arbitrary: m) auto

lemma foldl_upd_distinct:
  "distinct (map fst rows) \<Longrightarrow>
   foldl (\<lambda>held row. held(fst row \<mapsto> snd row)) m rows i = (case map_of rows i of None \<Rightarrow> m i | Some g \<Rightarrow> Some g)"
proof (induction rows arbitrary: m)
  case (Cons row rows)
  show ?case
  proof (cases "fst row = i")
    case True
    with Cons.prems have "i \<notin> fst ` set rows" by auto
    with True foldl_upd_notin [of i rows "m(fst row \<mapsto> snd row)"]
    show ?thesis by (simp del: fun_upd_apply add: fun_upd_same)
  next
    case False
    with Cons show ?thesis by (simp split: option.split)
  qed
qed simp

lemma map_of_lease_rows:
  assumes "distinct (map l_instance_id ls)"
  shows "map_of (map (\<lambda>l. (l_instance_id l, l_generation l)) (filter p ls)) i =
    (case by_key l_instance_id i ls of None \<Rightarrow> None | Some l \<Rightarrow> if p l then Some (l_generation l) else None)"
proof -
  have "map_of (map (\<lambda>l. (l_instance_id l, l_generation l)) ls') i = map_option l_generation (by_key l_instance_id i ls')" for ls'
    by (induction ls') auto
  note this [of "filter p ls"]
  then show ?thesis unfolding by_key_filter [OF assms] by (simp split: option.split)
qed

lemma heartbeat_exact:
  assumes "leases_ok (db w)" and "Heartbeat m w = (Inr held, w')"
  shows "held i = (case lease_of (db w) i of None \<Rightarrow> None
           | Some l \<Rightarrow> if heartbeat_guard (workerID m) l then Some (l_generation l) else None) \<and>
         lease_of (db w') i = map_option (\<lambda>l. if held i \<noteq> None
           then l\<lparr>l_heartbeat_at := Some (now w), l_updated_at := now w\<rparr> else l) (lease_of (db w) i)"
proof -
  let ?p = "heartbeat_guard (workerID m)"
  let ?f = "\<lambda>l. l\<lparr>l_heartbeat_at := Some (now w), l_updated_at := now w\<rparr>"
  let ?rows = "map (\<lambda>l. (l_instance_id l, l_generation l)) (filter ?p (session_leases (db w)))"
  from assms(2) obtain rows where "HeartbeatLeases (workerID m) w = (Inr rows, w')"
    and held: "held = foldl (\<lambda>held row. held(fst row \<mapsto> snd row)) Map.empty rows"
    by (auto simp: Heartbeat_def bindE_def wrapE_def ret_def split: prod.splits sum.splits)
  then have rows: "rows = ?rows"
    and d': "db w' = db w\<lparr>session_leases := update_where ?p ?f (session_leases (db w))\<rparr>"
    by (auto simp: HeartbeatLeases_def elim!: run_statement_Inr)
  have dist: "distinct (map fst ?rows)"
    using assms(1) by (simp add: leases_ok_def comp_def distinct_map_filter)
  have h: "held i = (case lease_of (db w) i of None \<Rightarrow> None
           | Some l \<Rightarrow> if ?p l then Some (l_generation l) else None)"
    using assms(1) unfolding held rows foldl_upd_distinct [OF dist] leases_ok_def
    by (simp add: map_of_lease_rows lease_of_def split: option.split)
  moreover have "lease_of (db w') i = map_option (\<lambda>l. if ?p l then ?f l else l) (lease_of (db w) i)"
    unfolding d' by (rule lease_of_update_where) simp
  ultimately show ?thesis by (auto split: option.splits if_splits)
qed

text \<open>
  A successful heartbeat returns exactly the leases the worker still owns and should be
  running, each with its current generation, and renews exactly those: a lease that was taken
  over, released or stopped is missing from the result and its row is left as it is.
\<close>

theorem heartbeat_returns_held_leases:
  assumes "leases_ok (db w)" and "Heartbeat m w = (Inr held, w')"
  shows "held i = (case lease_of (db w) i of None \<Rightarrow> None
           | Some l \<Rightarrow> if heartbeat_guard (workerID m) l then Some (l_generation l) else None) \<and>
         lease_of (db w') i = map_option (\<lambda>l. if held i \<noteq> None
           then l\<lparr>l_heartbeat_at := Some (now w), l_updated_at := now w\<rparr> else l) (lease_of (db w) i)"
  using assms by (rule heartbeat_exact)

definition demo_held :: "ID \<rightharpoonup> int" where
  "demo_held = [7 \<mapsto> 1]"

lemma demo_heartbeat: "\<exists>w'. Heartbeat (demo_manager ''w1'') demo_taken = (Inr demo_held, w')"
  by (simp add: demo_taken_def Acquire_def AcquireLease_def wrapE_def run_statement_ok demo_defs
    first_where_def acquire_guard_def claimable_def Heartbeat_def HeartbeatLeases_def
    heartbeat_guard_def acquire_set_def bindE_def ret_def demo_held_def)

theorem heartbeat_returns_held_leases_witness:
  "\<exists>w'. Heartbeat (demo_manager ''w1'') demo_taken = (Inr demo_held, w') \<and> demo_held 7 = Some 1 \<and>
     lease_of (db w') 8 = None"
proof -
  obtain w' where hb: "Heartbeat (demo_manager ''w1'') demo_taken = (Inr demo_held, w')"
    using demo_heartbeat by blast
  have ok: "leases_ok (db demo_taken)"
    using leases.reach_consistent [OF history_reach [OF demo_reach]] by (simp add: leases.consistent_def)
  have "lease_of (db demo_taken) 8 = None"
    by (simp add: demo_taken_def Acquire_def AcquireLease_def wrapE_def run_statement_ok demo_defs
      first_where_def acquire_guard_def claimable_def lease_of_def acquire_set_def)
  with heartbeat_returns_held_leases [OF ok hb, of 8] hb show ?thesis by (simp add: demo_held_def)
qed

subsection \<open>What reconciliation may adopt\<close>

text \<open>
  The specification: should be running, no live owner, and not parked on a permanent reason
  (\<open>Instance.ShouldAutoReconnect\<close> in the code's own words, on the row).
\<close>

definition may_adopt :: "Manager \<Rightarrow> 'z world_scheme \<Rightarrow> ID \<Rightarrow> bool" where
  "may_adopt m w i \<longleftrightarrow> (\<exists>l r. lease_of (db w) i = Some l \<and> instance_of (db w) i = Some r \<and>
     l_desired_state l = DesiredRunning \<and> claimable (now w) (Interval (m_expiry m)) l \<and>
     (\<forall>reason. r_last_disconnect_reason r = Some reason \<longrightarrow> \<not> Permanent reason))"

definition reasons_ok :: "database \<Rightarrow> bool" where
  "reasons_ok d \<longleftrightarrow> (\<forall>r \<in> set (instances d). \<forall>reason. r_last_disconnect_reason r = Some reason \<longrightarrow> reason_Valid reason)"

lemma adoptable_row_iff:
  assumes "leases_ok (db w)" and "reasons_ok (db w)" and "l \<in> set (session_leases (db w))"
  shows "adoptable_row (now w) (Interval (m_expiry m)) PermanentReasonList (db w) l \<longleftrightarrow>
    may_adopt m w (l_instance_id l)"
proof -
  have "lease_of (db w) (l_instance_id l) = Some l"
    using assms(1,3) by (simp add: lease_of_def leases_ok_def by_key_distinct)
  moreover have "reason_text reason \<in> set PermanentReasonList \<longleftrightarrow> Permanent reason"
    if "instance_of (db w) (l_instance_id l) = Some r" "r_last_disconnect_reason r = Some reason" for r reason
    using assms(2) that by (intro PermanentReasonList_iff) (auto simp: reasons_ok_def instance_of_def dest: by_key_Some)
  ultimately show ?thesis by (auto simp: adoptable_row_def may_adopt_def split: option.splits)
qed

lemma Adoptable_Inr:
  assumes "leases_ok (db w)" and "reasons_ok (db w)" and "Adoptable m limit w = (Inr ids, w')"
  shows "(\<forall>i \<in> set ids. may_adopt m w i) \<and> distinct ids \<and> length ids \<le> limit \<and>
         (length ids < limit \<longrightarrow> (\<forall>i. may_adopt m w i \<longrightarrow> i \<in> set ids)) \<and> db w' = db w"
proof -
  let ?p = "adoptable_row (now w) (Interval (m_expiry m)) PermanentReasonList (db w)"
  let ?ls = "sort_key l_updated_at (filter ?p (session_leases (db w)))"
  from assms(3) obtain rows where "ListAdoptableLeases (Interval (m_expiry m)) PermanentReasonList limit w = (Inr rows, w')"
    and ids: "ids = map fst rows"
    by (auto simp: Adoptable_def bindE_def wrapE_def ret_def split: prod.splits sum.splits)
  then have d': "db w' = db w" and "rows = take limit (map (\<lambda>l. (l_instance_id l, l_generation l)) ?ls)"
    by (auto simp: ListAdoptableLeases_def select_def elim!: run_statement_Inr)
  then have ids': "ids = take limit (map l_instance_id ?ls)" by (simp add: ids take_map comp_def)
  have all: "set (map l_instance_id ?ls) = {i. may_adopt m w i}"
  proof -
    have "may_adopt m w i \<Longrightarrow> \<exists>l \<in> set (session_leases (db w)). l_instance_id l = i" for i
      by (auto simp: may_adopt_def lease_of_def dest: by_key_Some)
    then show ?thesis using adoptable_row_iff [OF assms(1,2)] by fastforce
  qed
  have "distinct (map l_instance_id (filter ?p (session_leases (db w))))"
    using assms(1) by (simp add: leases_ok_def distinct_map_filter)
  then have dist: "distinct (map l_instance_id ?ls)" by (simp add: distinct_map)
  have "set ids \<subseteq> {i. may_adopt m w i}" using all ids' by (metis set_take_subset)
  moreover have "{i. may_adopt m w i} \<subseteq> set ids" if "length ids < limit"
  proof -
    from that ids' have "ids = map l_instance_id ?ls" by (simp add: take_map)
    with all show ?thesis by simp
  qed
  moreover have "distinct ids" using dist ids' by simp
  moreover have "length ids \<le> limit" using ids' by simp
  ultimately show ?thesis using d' by blast
qed

text \<open>
  \<open>Adoptable\<close> lists only instances that should run, have no live owner and are not parked
  on a permanent disconnect reason; it lists each at most once, never more than the limit, and
  all of them when fewer than the limit were returned, so no orphan is overlooked.
\<close>

theorem adoptable_sound_and_complete:
  assumes "leases_ok (db w)" and "reasons_ok (db w)" and "Adoptable m limit w = (Inr ids, w')"
  shows "(\<forall>i \<in> set ids. may_adopt m w i) \<and> distinct ids \<and> length ids \<le> limit \<and>
         (length ids < limit \<longrightarrow> (\<forall>i. may_adopt m w i \<longrightarrow> i \<in> set ids)) \<and> db w' = db w"
  using assms by (rule Adoptable_Inr)

theorem adoptable_sound_and_complete_witness:
  "Adoptable (demo_manager ''w2'') 5 demo_world = (Inr [7], demo_world) \<and>
   may_adopt (demo_manager ''w2'') demo_world 7"
proof -
  have run: "Adoptable (demo_manager ''w2'') 5 demo_world = (Inr [7], demo_world)"
    by (simp add: Adoptable_def ListAdoptableLeases_def select_def bindE_def wrapE_def ret_def
      run_statement_ok demo_defs adoptable_row_def claimable_def instance_of_def)
  have "leases_ok (db demo_world)" and "reasons_ok (db demo_world)"
    by (simp_all add: leases_ok_def reasons_ok_def demo_defs)
  from adoptable_sound_and_complete [OF this run] run show ?thesis by simp
qed

end
