(* ===== verification/Events.thy ===== *)
theory Events
  imports Lease
begin

text \<open>
  The event bus, \<open>internal/events\<close>: envelopes, the Redis state behind the bus (a sequence
  counter and a pairing snapshot per instance, both with a time to live, and what was published
  on each channel), the publisher's operations and the bounded pump of a subscription. The facts
  state when sequence numbers grow, that an expired pairing code is never served, and that a
  subscription hands on a prefix of what was published or reports an overflow.
\<close>

subsection \<open>Envelopes and pairing snapshots\<close>

datatype Type =
    TypeStateSnapshot | TypePairingCode | TypePairingSucceed | TypePairingExpired
  | TypePairingFailed | TypeConnected | TypeDisconnected | TypeLoggedOut | TypeBanned
  | TypeNumberChanged | TypePairingPasskeyChallenge | TypePairingPasskeyCode
  | OtherType string

fun type_text :: "Type \<Rightarrow> string" where
  "type_text TypeStateSnapshot = ''state.snapshot''"
| "type_text TypePairingCode = ''pairing.code''"
| "type_text TypePairingSucceed = ''pairing.succeeded''"
| "type_text TypePairingExpired = ''pairing.expired''"
| "type_text TypePairingFailed = ''pairing.failed''"
| "type_text TypeConnected = ''connection.connected''"
| "type_text TypeDisconnected = ''connection.disconnected''"
| "type_text TypeLoggedOut = ''connection.logged_out''"
| "type_text TypeBanned = ''connection.banned''"
| "type_text TypeNumberChanged = ''connection.number_changed''"
| "type_text TypePairingPasskeyChallenge = ''pairing.passkey_challenge''"
| "type_text TypePairingPasskeyCode = ''pairing.passkey_code''"
| "type_text (OtherType s) = s"

record Envelope =
  Seq :: int
  env_Type :: Type
  env_InstanceID :: ID
  env_Generation :: int
  env_OccurredAt :: gotime
  env_Data :: payload

datatype PairingPhase = PhaseNone | PhaseQR | PhasePasskeyChallenge | PhasePasskeyCode

fun phase_text :: "PairingPhase \<Rightarrow> string" where
  "phase_text PhaseNone = []"
| "phase_text PhaseQR = ''qr''"
| "phase_text PhasePasskeyChallenge = ''passkey_challenge''"
| "phase_text PhasePasskeyCode = ''passkey_code''"

record PairingSnapshot =
  ps_Method :: string
  ps_Phase :: PairingPhase
  ps_Code :: string
  ps_ExpiresAt :: gotime
  ps_Challenge :: string

definition CurrentPhase :: "PairingSnapshot \<Rightarrow> PairingPhase" where
  "CurrentPhase s = (if ps_Phase s = PhaseNone then PhaseQR else ps_Phase s)"

subsection \<open>Redis\<close>

text \<open>A key holds a value and the instant it expires, if it has one.\<close>

type_synonym 'v keyed = "('v \<times> gotime option) option"

definition live :: "gotime \<Rightarrow> 'v keyed \<Rightarrow> 'v option" where
  "live t k = (case k of None \<Rightarrow> None
     | Some (v, None) \<Rightarrow> Some v
     | Some (v, Some e) \<Rightarrow> if t < e then Some v else None)"

record redis_store =
  seq_keys :: "ID \<Rightarrow> int keyed"
  pairing_keys :: "ID \<Rightarrow> PairingSnapshot keyed"
  published :: "Envelope list"
  owner_keys :: "ID \<Rightarrow> (string \<times> int) keyed"
  claims :: "ID list"
  stops :: "ID list"

datatype redis_error = RedisNil | RedisFailure

record bus_world = world +
  redis :: redis_store

definition redis_call ::
  "(gotime \<Rightarrow> redis_store \<Rightarrow> (redis_error + 'a) \<times> redis_store) \<Rightarrow> ('z bus_world_scheme, redis_error, 'a) io" where
  "redis_call q = (\<lambda>w. case next_outcome w of
       (Delivered, w') \<Rightarrow> (case q (now w') (redis w') of (r, d) \<Rightarrow> (r, w'\<lparr>redis := d\<rparr>))
     | (RequestLost, w') \<Rightarrow> (Inl RedisFailure, w')
     | (ReplyLost, w') \<Rightarrow> (Inl RedisFailure, w'\<lparr>redis := snd (q (now w') (redis w'))\<rparr>))"

text \<open>\<open>INCR\<close>: a missing or expired key counts from zero without a time to live.\<close>

definition Incr :: "ID \<Rightarrow> ('z bus_world_scheme, redis_error, int) io" where
  "Incr i = redis_call (\<lambda>t r.
     case live t (seq_keys r i) of
       None \<Rightarrow> (Inr 1, r\<lparr>seq_keys := (seq_keys r)(i := Some (1, None))\<rparr>)
     | Some n \<Rightarrow> (Inr (n + 1), r\<lparr>seq_keys := (seq_keys r)(i := Some (n + 1, snd (the (seq_keys r i))))\<rparr>))"

definition Expire :: "ID \<Rightarrow> duration \<Rightarrow> ('z bus_world_scheme, redis_error, unit) io" where
  "Expire i ttl = redis_call (\<lambda>t r.
     case live t (seq_keys r i) of
       None \<Rightarrow> (Inr (), r)
     | Some n \<Rightarrow> (Inr (), r\<lparr>seq_keys := (seq_keys r)(i := Some (n, Some (t + ttl)))\<rparr>))"

subsection \<open>The publisher\<close>

definition seqTTL :: duration where "seqTTL = 24 * 3600 * second"

definition Publish :: "Envelope \<Rightarrow> ('z bus_world_scheme, redis_error, Envelope) io" where
  "Publish envelope = bindE (Incr (env_InstanceID envelope)) (\<lambda>seq.
     bindE (Expire (env_InstanceID envelope) seqTTL) (\<lambda>_.
     bindE (getsE now) (\<lambda>t.
       let e = envelope\<lparr>Seq := seq, env_OccurredAt :=
                 (if env_OccurredAt envelope = zero_time then t else env_OccurredAt envelope)\<rparr>
       in bindE (redis_call (\<lambda>t r. (Inr (), r\<lparr>published := published r @ [e]\<rparr>))) (\<lambda>_. ret e))))"

definition CurrentSeq :: "ID \<Rightarrow> ('z bus_world_scheme, redis_error, int) io" where
  "CurrentSeq i = redis_call (\<lambda>t r. (Inr (case live t (seq_keys r i) of None \<Rightarrow> 0 | Some n \<Rightarrow> n), r))"

definition ClearPairing :: "ID \<Rightarrow> ('z bus_world_scheme, redis_error, unit) io" where
  "ClearPairing i = redis_call (\<lambda>t r. (Inr (), r\<lparr>pairing_keys := (pairing_keys r)(i := None)\<rparr>))"

definition SetPairing :: "ID \<Rightarrow> PairingSnapshot \<Rightarrow> ('z bus_world_scheme, redis_error, unit) io" where
  "SetPairing i snapshot = bindE (getsE now) (\<lambda>t.
     let ttl = ps_ExpiresAt snapshot - t in
     if ttl \<le> 0 then ClearPairing i
     else redis_call (\<lambda>t' r.
       (Inr (), r\<lparr>pairing_keys := (pairing_keys r)(i := Some (snapshot, Some (t' + ttl)))\<rparr>)))"

text \<open>\<open>(snapshot, true)\<close> is \<open>Some\<close>, \<open>(_, false)\<close> is \<open>None\<close>.\<close>

definition Pairing :: "ID \<Rightarrow> ('z bus_world_scheme, redis_error, PairingSnapshot option) io" where
  "Pairing i = redis_call (\<lambda>t r. (Inr (live t (pairing_keys r i)), r))"

definition Claim :: "ID \<Rightarrow> ('z bus_world_scheme, redis_error, unit) io" where
  "Claim i = redis_call (\<lambda>t r. (Inr (), r\<lparr>claims := claims r @ [i]\<rparr>))"

definition Stop :: "ID \<Rightarrow> ('z bus_world_scheme, redis_error, unit) io" where
  "Stop i = redis_call (\<lambda>t r. (Inr (), r\<lparr>stops := stops r @ [i]\<rparr>))"

lemmas bus_defs = Incr_def Expire_def Publish_def CurrentSeq_def ClearPairing_def SetPairing_def
  Pairing_def Claim_def Stop_def

subsection \<open>A subscription\<close>

definition bufferSize :: nat where "bufferSize = 64"

text \<open>
  The pump of one subscription. It is offered messages (decoded, or malformed) and the consumer
  takes from the buffered channel; a message that finds the channel full ends the pump.
\<close>

record Stream =
  buffered :: "Envelope list"
  overflowed :: bool
  pump_done :: bool

definition new_stream :: Stream where
  "new_stream = \<lparr>buffered = [], overflowed = False, pump_done = False\<rparr>"

definition pump_message :: "Envelope option \<Rightarrow> Stream \<Rightarrow> Stream" where
  "pump_message msg s =
     (if pump_done s then s
      else case msg of None \<Rightarrow> s
      | Some envelope \<Rightarrow>
          if length (buffered s) < bufferSize then s\<lparr>buffered := buffered s @ [envelope]\<rparr>
          else s\<lparr>overflowed := True, pump_done := True\<rparr>)"

definition consumer_take :: "Stream \<Rightarrow> (Envelope \<times> Stream) option" where
  "consumer_take s = (case buffered s of [] \<Rightarrow> None | e # es \<Rightarrow> Some (e, s\<lparr>buffered := es\<rparr>))"

datatype stream_event = Message "Envelope option" | Take

text \<open>A schedule of messages and takes: what the consumer got, and the stream after it.\<close>

fun run_stream :: "stream_event list \<Rightarrow> Stream \<Rightarrow> Envelope list \<times> Stream" where
  "run_stream [] s = ([], s)"
| "run_stream (Message msg # evs) s = run_stream evs (pump_message msg s)"
| "run_stream (Take # evs) s =
     (case consumer_take s of None \<Rightarrow> run_stream evs s
      | Some (e, s') \<Rightarrow> (case run_stream evs s' of (es, s'') \<Rightarrow> (e # es, s'')))"

fun offered :: "stream_event list \<Rightarrow> Envelope list" where
  "offered [] = []"
| "offered (Message (Some e) # evs) = e # offered evs"
| "offered (_ # evs) = offered evs"

subsection \<open>Calls to Redis\<close>

lemma redis_call_ok:
  "faults w = [] \<Longrightarrow>
   redis_call q w = (fst (q (now w) (redis w)), w\<lparr>redis := snd (q (now w) (redis w))\<rparr>)"
  by (simp add: redis_call_def next_outcome_def split_beta)

lemma redis_call_cases:
  obtains fs where "redis_call q w = (fst (q (now w) (redis w)), w\<lparr>redis := snd (q (now w) (redis w)), faults := fs\<rparr>)"
  | fs where "redis_call q w = (Inl RedisFailure, w\<lparr>faults := fs\<rparr>)"
  | fs where "redis_call q w = (Inl RedisFailure, w\<lparr>redis := snd (q (now w) (redis w)), faults := fs\<rparr>)"
proof (cases "faults w")
  case Nil
  then have "redis_call q w = (fst (q (now w) (redis w)), w\<lparr>redis := snd (q (now w) (redis w)), faults := []\<rparr>)"
    by (simp add: redis_call_ok)
  then show ?thesis by (rule that(1))
next
  case (Cons f fs)
  have sw: "w\<lparr>faults := fs, redis := d\<rparr> = w\<lparr>redis := d, faults := fs\<rparr>" for d by simp
  from Cons show ?thesis
    by (cases f) (auto simp: redis_call_def next_outcome_def split_beta sw
      intro: that(1) [of fs] that(2) [of fs] that(3) [of fs])
qed

lemma redis_call_Inr:
  assumes "redis_call q w = (Inr x, w')"
  obtains fs where "q (now w) (redis w) = (Inr x, redis w')" and "w' = w\<lparr>redis := redis w', faults := fs\<rparr>"
  by (rule redis_call_cases [of q w]) (use assms that in \<open>auto simp: prod_eq_iff\<close>)

text \<open>A guarantee about Redis at the current instant, which a call does not change.\<close>

definition on_redis :: "(gotime \<Rightarrow> redis_store \<Rightarrow> redis_store \<Rightarrow> bool) \<Rightarrow>
    'z bus_world_scheme \<Rightarrow> 'z bus_world_scheme \<Rightarrow> bool" where
  "on_redis R w w' \<longleftrightarrow> R (now w) (redis w) (redis w') \<and> now w' = now w"

lemma always_on_redis:
  assumes "\<And>t r. R t r r" and "\<And>t r. R t r (snd (q t r))"
  shows "always (on_redis R) (redis_call q)"
proof (rule alwaysI)
  fix w
  show "on_redis R w (snd (redis_call q w))"
    by (rule redis_call_cases [of q w]) (simp_all add: on_redis_def assms)
qed

lemma world_rel_on_redis:
  "(\<And>t r. R t r r) \<Longrightarrow> (\<And>t a b c. R t a b \<Longrightarrow> R t b c \<Longrightarrow> R t a c) \<Longrightarrow> world_rel (on_redis R)"
  by unfold_locales (auto simp: on_redis_def)

subsection \<open>Sequence numbers\<close>

text \<open>The counter of an instance is alive and at least every sequence number published for it.\<close>

definition covered :: "gotime \<Rightarrow> redis_store \<Rightarrow> ID \<Rightarrow> bool" where
  "covered t r i \<longleftrightarrow> (\<forall>f \<in> set (published r). env_InstanceID f = i \<longrightarrow>
     (\<exists>c. live t (seq_keys r i) = Some c \<and> Seq f \<le> c))"

lemma Incr_Inr:
  assumes "Incr i w = (Inr n, w')"
  shows "n = (case live (now w) (seq_keys (redis w) i) of None \<Rightarrow> 1 | Some c \<Rightarrow> c + 1)"
    and "live (now w) (seq_keys (redis w') i) = Some n"
    and "published (redis w') = published (redis w)" and "now w' = now w"
proof -
  from assms obtain fs where q: "(case live (now w) (seq_keys (redis w) i) of
       None \<Rightarrow> (Inr 1, redis w\<lparr>seq_keys := (seq_keys (redis w))(i := Some (1, None))\<rparr>)
     | Some n \<Rightarrow> (Inr (n + 1), redis w\<lparr>seq_keys := (seq_keys (redis w))(i := Some (n + 1, snd (the (seq_keys (redis w) i))))\<rparr>)) = (Inr n :: redis_error + int, redis w')"
    and w': "w' = w\<lparr>redis := redis w', faults := fs\<rparr>"
    unfolding Incr_def by (rule redis_call_Inr)
  show "now w' = now w" by (subst w') simp
  show "n = (case live (now w) (seq_keys (redis w) i) of None \<Rightarrow> 1 | Some c \<Rightarrow> c + 1)"
    using q by (auto split: option.splits)
  from q have upd: "redis w' = redis w\<lparr>seq_keys := (seq_keys (redis w))(i := Some (n,
      if live (now w) (seq_keys (redis w) i) = None then None else snd (the (seq_keys (redis w) i))))\<rparr>"
    by (cases "live (now w) (seq_keys (redis w) i)") auto
  show "published (redis w') = published (redis w)" by (subst upd) simp
  show "live (now w) (seq_keys (redis w') i) = Some n"
    by (subst upd) (auto simp: live_def split: option.splits if_splits prod.splits)
qed

lemma Expire_Inr:
  assumes "Expire i ttl w = (Inr x, w')" and "live (now w) (seq_keys (redis w) i) = Some n"
  shows "seq_keys (redis w') i = Some (n, Some (now w + ttl))"
    and "published (redis w') = published (redis w)" and "now w' = now w"
proof -
  from assms(1) obtain fs where q: "(case live (now w) (seq_keys (redis w) i) of
       None \<Rightarrow> (Inr (), redis w)
     | Some n \<Rightarrow> (Inr (), redis w\<lparr>seq_keys := (seq_keys (redis w))(i := Some (n, Some (now w + ttl)))\<rparr>)) = (Inr x :: redis_error + unit, redis w')"
    and w': "w' = w\<lparr>redis := redis w', faults := fs\<rparr>"
    unfolding Expire_def by (rule redis_call_Inr)
  show "now w' = now w" by (subst w') simp
  from q assms(2) have "redis w' = redis w\<lparr>seq_keys := (seq_keys (redis w))(i := Some (n, Some (now w + ttl)))\<rparr>" by simp
  then show "seq_keys (redis w') i = Some (n, Some (now w + ttl))" "published (redis w') = published (redis w)" by simp_all
qed

text \<open>
  A frame that was published carries a sequence number above every earlier frame of its
  instance, as long as the counter of the instance had not expired; it is appended to what was
  published before, and the guarantee carries over to every frame published in the next 24 hours
  (the time to live of the counter).
\<close>

theorem publish_numbers_increase:
  assumes cov: "covered (now w) (redis w) (env_InstanceID e)" and run: "Publish e w = (Inr e', w')"
  shows "published (redis w') = published (redis w) @ [e'] \<and> env_InstanceID e' = env_InstanceID e \<and>
    (\<forall>f \<in> set (published (redis w)). env_InstanceID f = env_InstanceID e \<longrightarrow> Seq f < Seq e') \<and>
    (\<forall>t < now w + seqTTL. covered t (redis w') (env_InstanceID e))"
proof -
  let ?i = "env_InstanceID e"
  from run obtain n w1 w2 where incr: "Incr ?i w = (Inr n, w1)"
    and exp: "Expire ?i seqTTL w1 = (Inr (), w2)"
    and pub: "redis_call (\<lambda>t r. (Inr (), r\<lparr>published := published r @ [e']\<rparr>)) w2 = (Inr (), w')"
    and e': "Seq e' = n" "env_InstanceID e' = ?i"
    by (auto simp: Publish_def bindE_def getsE_def ret_def Let_def split: prod.splits sum.splits)
  note i = Incr_Inr [OF incr]
  from i(2,4) have l1: "live (now w1) (seq_keys (redis w1) ?i) = Some n" by simp
  note x = Expire_Inr [OF exp l1]
  from pub have r': "redis w' = redis w2\<lparr>published := published (redis w2) @ [e']\<rparr>"
    by (rule redis_call_Inr) simp
  have lt: "Seq f < n" if "f \<in> set (published (redis w))" "env_InstanceID f = ?i" for f
    using cov that i(1) by (auto simp: covered_def split: option.splits)
  have all: "published (redis w') = published (redis w) @ [e']" using r' x(2) i(3) by simp
  moreover have "covered t (redis w') ?i" if "t < now w + seqTTL" for t
    unfolding covered_def all using that lt x(1) r' i(4) e'
    by (auto simp: live_def intro: less_imp_le)
  ultimately show ?thesis using lt e' by simp
qed

definition demo_redis :: redis_store where
  "demo_redis = \<lparr>seq_keys = (\<lambda>_. None), pairing_keys = (\<lambda>_. None), published = [], owner_keys = (\<lambda>_. None), claims = [], stops = []\<rparr>"

definition demo_bus :: bus_world where
  "demo_bus = \<lparr>db = demo_db, now = 100, faults = [], redis = demo_redis\<rparr>"

definition demo_frame :: Envelope where
  "demo_frame = \<lparr>Seq = 0, env_Type = TypeConnected, env_InstanceID = 7, env_Generation = 1,
     env_OccurredAt = 0, env_Data = []\<rparr>"

lemma demo_publish:
  "\<exists>w'. Publish demo_frame demo_bus = (Inr (demo_frame\<lparr>Seq := 1, env_OccurredAt := 100\<rparr>), w')"
  by (simp add: Publish_def Incr_def Expire_def bindE_def getsE_def ret_def Let_def redis_call_ok
    demo_bus_def demo_redis_def demo_frame_def live_def)

theorem publish_numbers_increase_witness:
  "\<exists>w'. Publish demo_frame demo_bus = (Inr (demo_frame\<lparr>Seq := 1, env_OccurredAt := 100\<rparr>), w') \<and>
     published (redis w') = [demo_frame\<lparr>Seq := 1, env_OccurredAt := 100\<rparr>]"
proof -
  obtain w' where run: "Publish demo_frame demo_bus = (Inr (demo_frame\<lparr>Seq := 1, env_OccurredAt := 100\<rparr>), w')"
    using demo_publish by blast
  have "covered (now demo_bus) (redis demo_bus) (env_InstanceID demo_frame)"
    by (simp add: covered_def demo_bus_def demo_redis_def)
  from publish_numbers_increase [OF this run] run show ?thesis by (simp add: demo_bus_def demo_redis_def)
qed

subsection \<open>Pairing snapshots expire with the code they hold\<close>

definition pairing_ok :: "redis_store \<Rightarrow> bool" where
  "pairing_ok r \<longleftrightarrow> (\<forall>i s e. pairing_keys r i = Some (s, e) \<longrightarrow> (\<exists>x. e = Some x \<and> x \<le> ps_ExpiresAt s))"

definition keeps_pairing :: "gotime \<Rightarrow> redis_store \<Rightarrow> redis_store \<Rightarrow> bool" where
  "keeps_pairing t r r' \<longleftrightarrow> (pairing_ok r \<longrightarrow> pairing_ok r')"

interpretation pairing: world_rel "on_redis keeps_pairing"
  by (rule world_rel_on_redis) (auto simp: keeps_pairing_def)

lemma keeps_pairing_redis_calls:
  "always (on_redis keeps_pairing) (Incr i)"
  "always (on_redis keeps_pairing) (Expire i ttl)"
  "always (on_redis keeps_pairing) (CurrentSeq i)"
  "always (on_redis keeps_pairing) (ClearPairing i)"
  "always (on_redis keeps_pairing) (Pairing i)"
  "always (on_redis keeps_pairing) (Claim i)"
  "always (on_redis keeps_pairing) (Stop i)"
  unfolding bus_defs
  by (rule always_on_redis; auto simp: keeps_pairing_def pairing_ok_def split: option.split)+

lemma keeps_pairing_Publish: "always (on_redis keeps_pairing) (Publish e)"
  unfolding Publish_def Let_def
  by (intro pairing.always_intros keeps_pairing_redis_calls always_on_redis)
    (auto simp: keeps_pairing_def pairing_ok_def)

lemma keeps_pairing_SetPairing: "always (on_redis keeps_pairing) (SetPairing i snap)"
proof (rule alwaysI)
  fix w
  show "on_redis keeps_pairing w (snd (SetPairing i snap w))"
  proof (cases "ps_ExpiresAt snap - now w \<le> 0")
    case True
    then show ?thesis using alwaysD [OF keeps_pairing_redis_calls(4)]
      by (simp add: SetPairing_def bindE_def getsE_def Let_def)
  next
    case False
    let ?q = "\<lambda>t' r. (Inr () :: redis_error + unit, r\<lparr>pairing_keys := (pairing_keys r)(i := Some (snap, Some (t' + (ps_ExpiresAt snap - now w))))\<rparr>)"
    have "on_redis keeps_pairing w (snd (redis_call ?q w))"
      by (rule redis_call_cases [of ?q w]) (auto simp: on_redis_def keeps_pairing_def pairing_ok_def)
    with False show ?thesis by (simp add: SetPairing_def bindE_def getsE_def Let_def)
  qed
qed

text \<open>
  A pairing code is never served after it expired: whatever the publisher did before (with
  any calls lost), a snapshot that \<open>Pairing\<close> returns has its expiry still ahead, and the
  operations of the publisher keep that so.
\<close>

theorem pairing_served_only_while_valid:
  assumes "pairing_ok (redis w)"
  shows "pairing_ok (redis (snd (SetPairing i snap w))) \<and> pairing_ok (redis (snd (ClearPairing i w))) \<and>
    pairing_ok (redis (snd (Publish e w))) \<and>
    (\<forall>s w'. Pairing i w = (Inr (Some s), w') \<longrightarrow> now w < ps_ExpiresAt s)"
proof -
  have "now w < ps_ExpiresAt s" if "Pairing i w = (Inr (Some s), w')" for s w'
  proof -
    from that have "live (now w) (pairing_keys (redis w) i) = Some s"
      unfolding Pairing_def by (rule redis_call_Inr) auto
    with assms show ?thesis
      by (force simp: pairing_ok_def live_def split: option.splits if_splits)
  qed
  moreover have "pairing_ok (redis (snd (SetPairing i snap w)))"
    using alwaysD [OF keeps_pairing_SetPairing, of w] assms by (simp add: on_redis_def keeps_pairing_def)
  moreover have "pairing_ok (redis (snd (ClearPairing i w)))"
    using alwaysD [OF keeps_pairing_redis_calls(4), of w] assms by (simp add: on_redis_def keeps_pairing_def)
  moreover have "pairing_ok (redis (snd (Publish e w)))"
    using alwaysD [OF keeps_pairing_Publish, of w] assms by (simp add: on_redis_def keeps_pairing_def)
  ultimately show ?thesis by blast
qed

definition demo_snapshot :: PairingSnapshot where
  "demo_snapshot = \<lparr>ps_Method = ''qr'', ps_Phase = PhaseQR, ps_Code = ''2@abc'', ps_ExpiresAt = 160, ps_Challenge = []\<rparr>"

definition demo_pairing :: bus_world where
  "demo_pairing = snd (SetPairing 7 demo_snapshot demo_bus)"

theorem pairing_served_only_while_valid_witness:
  "pairing_ok (redis demo_pairing) \<and> Pairing 7 demo_pairing = (Inr (Some demo_snapshot), demo_pairing) \<and>
   now demo_pairing < ps_ExpiresAt demo_snapshot"
proof -
  have pr: "Pairing 7 demo_pairing = (Inr (Some demo_snapshot), demo_pairing)"
    by (simp add: demo_pairing_def SetPairing_def Pairing_def bindE_def getsE_def Let_def redis_call_ok
      demo_bus_def demo_snapshot_def demo_redis_def live_def)
  have ok: "pairing_ok (redis demo_bus)" by (simp add: pairing_ok_def demo_bus_def demo_redis_def)
  from pairing_served_only_while_valid [OF ok] have ok': "pairing_ok (redis demo_pairing)"
    unfolding demo_pairing_def by blast
  from pairing_served_only_while_valid [OF ok'] pr ok' show ?thesis by blast
qed

subsection \<open>A subscription loses nothing silently\<close>

lemma run_stream_done:
  "run_stream evs s = (es, s') \<Longrightarrow> pump_done s \<Longrightarrow>
   buffered s = es @ buffered s' \<and> overflowed s' = overflowed s"
proof (induction evs s arbitrary: es rule: run_stream.induct)
  case (2 msg evs s)
  then show ?case by (simp add: pump_message_def)
next
  case (3 evs s)
  show ?case
  proof (cases "buffered s")
    case Nil
    with 3 show ?thesis by (simp add: consumer_take_def)
  next
    case (Cons e b)
    with 3 show ?thesis by (fastforce simp: consumer_take_def split: prod.splits)
  qed
qed simp

lemma run_stream_prefix:
  "run_stream evs s = (es, s') \<Longrightarrow> \<not> pump_done s \<Longrightarrow>
   \<exists>rest. buffered s @ offered evs = es @ buffered s' @ rest \<and> (rest \<noteq> [] \<longrightarrow> overflowed s')"
proof (induction evs s arbitrary: es rule: run_stream.induct)
  case (2 msg evs s)
  show ?case
  proof (cases msg)
    case None
    with 2 show ?thesis by (simp add: pump_message_def)
  next
    case (Some e)
    show ?thesis
    proof (cases "length (buffered s) < bufferSize")
      case True
      with 2 Some show ?thesis by (simp add: pump_message_def)
    next
      case False
      with 2 Some have "run_stream evs (s\<lparr>overflowed := True, pump_done := True\<rparr>) = (es, s')"
        by (simp add: pump_message_def)
      from run_stream_done [OF this] Some show ?thesis by simp
    qed
  qed
next
  case (3 evs s)
  show ?case
  proof (cases "buffered s")
    case Nil
    with 3 show ?thesis by (simp add: consumer_take_def)
  next
    case (Cons e b)
    with "3.prems" obtain es' where es: "es = e # es'" and run: "run_stream evs (s\<lparr>buffered := b\<rparr>) = (es', s')"
      by (auto simp: consumer_take_def split: prod.splits)
    from Cons "3.IH"(2) [of "(e, s\<lparr>buffered := b\<rparr>)" e "s\<lparr>buffered := b\<rparr>", OF _ _ run] "3.prems"(2) es
    show ?thesis by (simp add: consumer_take_def Cons)
  qed
qed simp



end
