(* ===== verification/WA.thy ===== *)
theory WA
  imports Events
begin

text \<open>
  The boundary to WhatsApp, \<open>internal/wa\<close>: the events a session emits (\<open>session.go\<close>), the
  classification of the library's events (\<open>classify.go\<close>), the \<open>Session\<close> interface as a record
  of operations over an opaque session state (the worker is modelled over any such record; the
  adapter to the library is in \<open>Hypermeow\<close>), and the scripted
  session of \<open>fake.go\<close>, which implements that interface and serves as the concrete instance on
  which the theorems are evaluated.
\<close>

subsection \<open>Events of a session\<close>

datatype EventKind =
    KindPairingCode | KindPairingSucceeded | KindPairingExpired | KindPairingFailed
  | KindConnected | KindDisconnected | KindPasskeyChallenge | KindPasskeyCode
  | KindManualLoginReconnect

datatype PairingMethod = MethodNone | MethodQR | MethodPhone

fun method_text :: "PairingMethod \<Rightarrow> string" where
  "method_text MethodNone = []"
| "method_text MethodQR = ''qr''"
| "method_text MethodPhone = ''phone''"

datatype PairingFailure =
    FailureNone | FailureScannedWithoutMultidevice | FailureClientOutdated | FailurePairError
  | FailureUnexpectedState | FailurePasskeyError

fun failure_text :: "PairingFailure \<Rightarrow> string" where
  "failure_text FailureNone = []"
| "failure_text FailureScannedWithoutMultidevice = ''scanned_without_multidevice''"
| "failure_text FailureClientOutdated = ''client_outdated''"
| "failure_text FailurePairError = ''pair_error''"
| "failure_text FailureUnexpectedState = ''unexpected_state''"
| "failure_text FailurePasskeyError = ''passkey_error''"

datatype PairingExpiry =
    ExpiryNone | ExpiryWindowExhausted | ExpiryCancelled | ExpiryReplaced | ExpiryWorkerShutdown

fun expiry_text :: "PairingExpiry \<Rightarrow> string" where
  "expiry_text ExpiryNone = []"
| "expiry_text ExpiryWindowExhausted = ''window_exhausted''"
| "expiry_text ExpiryCancelled = ''cancelled''"
| "expiry_text ExpiryReplaced = ''replaced_by_new_attempt''"
| "expiry_text ExpiryWorkerShutdown = ''worker_shutdown''"

record Event =
  evt_Kind :: EventKind
  evt_Method :: PairingMethod
  evt_Code :: string
  evt_ExpiresAt :: gotime
  evt_Challenge :: string
  evt_Device :: "DeviceIdentity option"
  evt_Expiry :: PairingExpiry
  evt_Failure :: PairingFailure
  evt_Reason :: DisconnectReason
  evt_Permanent :: bool
  evt_BanExpiresAt :: "gotime option"
  evt_StreamErrorCode :: string
  evt_OccurredAt :: gotime

definition zero_Event :: "EventKind \<Rightarrow> Event" where
  "zero_Event k = \<lparr>evt_Kind = k, evt_Method = MethodNone, evt_Code = [], evt_ExpiresAt = zero_time,
     evt_Challenge = [], evt_Device = None, evt_Expiry = ExpiryNone, evt_Failure = FailureNone,
     evt_Reason = ReasonNone, evt_Permanent = False, evt_BanExpiresAt = None,
     evt_StreamErrorCode = [], evt_OccurredAt = zero_time\<rparr>"

record Status =
  st_Connected :: bool
  st_LoggedIn :: bool
  st_Device :: "DeviceIdentity option"

record VerificationCodes =
  vc_LID :: string
  vc_PhoneNumber :: string
  vc_Username :: string
  vc_NumericCode :: string
  vc_DisplayQR :: string
  vc_VerificationQR :: string

subsection \<open>Classification of the library's events\<close>

text \<open>
  The library's event types the switch names, and any other one, of which only whether it
  implements \<open>PermanentDisconnect\<close> matters.
\<close>

datatype lib_event =
    LibDisconnected | LibKeepAliveTimeout | LibStreamError string | LibManualLoginReconnect
  | LibLoggedOut | LibTemporaryBan duration | LibStreamReplaced | LibClientOutdated
  | LibConnectFailure | LibCATRefreshError | LibOther bool

record Classification =
  c_State :: InstanceState
  c_Reason :: DisconnectReason
  c_Permanent :: bool
  c_BanExpiresAt :: "gotime option"
  c_StreamErrorCode :: string
  c_ManualReconnect :: bool

definition classified :: "InstanceState \<Rightarrow> DisconnectReason \<Rightarrow> bool \<Rightarrow> Classification" where
  "classified s r p = \<lparr>c_State = s, c_Reason = r, c_Permanent = p, c_BanExpiresAt = None,
     c_StreamErrorCode = [], c_ManualReconnect = False\<rparr>"

fun ClassifyDisconnect :: "gotime \<Rightarrow> lib_event \<Rightarrow> Classification option" where
  "ClassifyDisconnect t LibDisconnected = Some (classified InstanceConnecting ReasonNetwork False)"
| "ClassifyDisconnect t LibKeepAliveTimeout =
     Some (classified InstanceConnecting ReasonKeepaliveTimeout False)"
| "ClassifyDisconnect t (LibStreamError code) =
     Some ((classified InstanceConnecting ReasonStreamError False)\<lparr>c_StreamErrorCode := code\<rparr>)"
| "ClassifyDisconnect t LibManualLoginReconnect =
     Some ((classified InstanceConnecting ReasonNetwork False)\<lparr>c_ManualReconnect := True\<rparr>)"
| "ClassifyDisconnect t LibLoggedOut = Some (classified InstanceLoggedOut ReasonLoggedOutFromPhone True)"
| "ClassifyDisconnect t (LibTemporaryBan expire) =
     Some ((classified InstanceBanned ReasonTemporaryBan True)\<lparr>c_BanExpiresAt :=
       (if expire > 0 then Some (t + expire) else None)\<rparr>)"
| "ClassifyDisconnect t LibStreamReplaced = Some (classified InstanceDisconnected ReasonSessionReplaced True)"
| "ClassifyDisconnect t LibClientOutdated = Some (classified InstanceDisconnected ReasonClientOutdated True)"
| "ClassifyDisconnect t LibConnectFailure = Some (classified InstanceDisconnected ReasonConnectFailure True)"
| "ClassifyDisconnect t LibCATRefreshError = Some (classified InstanceDisconnected ReasonCATRefreshFailed True)"
| "ClassifyDisconnect t (LibOther permanent) =
     (if permanent then Some (classified InstanceDisconnected ReasonConnectFailure True) else None)"

definition IsAlarm :: "Classification \<Rightarrow> bool" where
  "IsAlarm c \<longleftrightarrow> c_Reason c = ReasonSessionReplaced"

text \<open>
  The classification is consistent with the vocabulary the reconciliation predicate uses: an
  event stops automatic reconnection exactly when its reason is a permanent one, a permanent
  verdict leads to an offline state and a transient one to \<open>connecting\<close>, the reason is always a
  declared one, and every library event marked as a permanent disconnect is classified as such.
\<close>

theorem classification_agrees_with_reasons:
  assumes "ClassifyDisconnect t e = Some c"
  shows "c_Permanent c = Permanent (c_Reason c) \<and> reason_Valid (c_Reason c) \<and>
    (c_Permanent c \<longrightarrow> c_State c \<in> {InstanceLoggedOut, InstanceBanned, InstanceDisconnected}) \<and>
    (\<not> c_Permanent c \<longrightarrow> c_State c = InstanceConnecting) \<and>
    (IsAlarm c \<longleftrightarrow> e = LibStreamReplaced)"
  using assms by (cases e) (auto simp: classified_def IsAlarm_def reason_Valid_def split: if_splits)

theorem classification_agrees_with_reasons_witness:
  "\<exists>c. ClassifyDisconnect 5 (LibTemporaryBan 10) = Some c \<and> c_Permanent c = Permanent (c_Reason c)"
  using classification_agrees_with_reasons [of 5 "LibTemporaryBan 10"] by simp

subsection \<open>The session interface\<close>

datatype wa_error =
    WaAlreadyPaired | WaNotPaired | WaSessionClosed | WaPairingRunning | WaNotConnected
  | WaNoPasskeyChallenge | WaNoPasskeyCode | WaIdentityNotResolvable | WaCannotVerifySelf
  | WaContactUnavailable | WaInvalidContact | WaInvalidPasskeyResponse | WaProxyConnectFailed
  | WaInvalidPhoneNumber | WaOther string

record SessionConfig =
  StoredJID :: string
  cfg_ProxyURL :: string

text \<open>
  One operation of a session: it may fail, and it may change the session. The instant of the call
  is an argument, so that an implementation may answer differently to the same call.
\<close>

type_synonym ('s, 'a) session_op = "gotime \<Rightarrow> 's \<Rightarrow> (wa_error + 'a) \<times> 's"

record 's session_api =
  NewSession :: "gotime \<Rightarrow> ID \<Rightarrow> SessionConfig \<Rightarrow> wa_error + 's"
  QRChannel :: "('s, unit) session_op"
  api_PairPhone :: "string \<Rightarrow> ('s, string \<times> gotime) session_op"
  api_Connect :: "('s, unit) session_op"
  api_Disconnect :: "'s \<Rightarrow> 's"
  api_Logout :: "('s, bool) session_op"
  api_Status :: "gotime \<Rightarrow> 's \<Rightarrow> Status"
  SetPassive :: "bool \<Rightarrow> ('s, unit) session_op"
  SendPasskeyResponse :: "string \<Rightarrow> ('s, unit) session_op"
  api_ConfirmPasskey :: "('s, unit) session_op"
  api_VerificationCodes :: "string \<Rightarrow> ('s, VerificationCodes) session_op"
  api_Close :: "'s \<Rightarrow> 's"

subsection \<open>The scripted session\<close>

datatype Call =
    CallConnect | CallDisconnect | CallSetPassive bool | CallSendPasskeyResponse string
  | CallConfirmPasskey | CallVerificationCodes string | CallClose

definition zero_device :: DeviceIdentity where
  "zero_device = \<lparr>JID = [], LID = [], PhoneNumber = [], PushName = [], Platform = [],
     BusinessName = [], PairedAt = zero_time\<rparr>"

definition zero_Status :: Status where
  "zero_Status = \<lparr>st_Connected = False, st_LoggedIn = False, st_Device = None\<rparr>"

record FakeSession =
  f_events :: "Event list"
  f_pairing :: "Event list option"
  f_status :: Status
  f_passive :: bool
  f_device :: DeviceIdentity
  f_pairingOpen :: bool
  f_closed :: bool
  ConnectErr :: "wa_error option"
  LogoutRemoteFails :: bool
  passkeyChallengeOpen :: bool
  passkeyCodePending :: bool
  f_calls :: "Call list"
  SetPassiveErr :: "wa_error option"
  PasskeyResponseErr :: "wa_error option"
  PasskeyConfirmErr :: "wa_error option"
  VerificationCodesResult :: "VerificationCodes option"
  VerificationCodesErr :: "wa_error option"
  LIDMappings :: "(string \<times> string) list"
  SelfLID :: string

definition NewFakeSession :: FakeSession where
  "NewFakeSession = \<lparr>f_events = [], f_pairing = None, f_status = zero_Status, f_passive = False,
     f_device = zero_device, f_pairingOpen = False, f_closed = False, ConnectErr = None,
     LogoutRemoteFails = False, passkeyChallengeOpen = False, passkeyCodePending = False,
     f_calls = [], SetPassiveErr = None, PasskeyResponseErr = None, PasskeyConfirmErr = None,
     VerificationCodesResult = None, VerificationCodesErr = None, LIDMappings = [], SelfLID = []\<rparr>"

definition NewPairedFakeSession :: "DeviceIdentity \<Rightarrow> FakeSession" where
  "NewPairedFakeSession device = NewFakeSession\<lparr>f_device := device,
     f_status := zero_Status\<lparr>st_LoggedIn := True, st_Device := Some device\<rparr>\<rparr>"

text \<open>The two channels hold 32 and 8 events; an event that finds its channel full is dropped.\<close>

definition stamp :: "gotime \<Rightarrow> Event \<Rightarrow> Event" where
  "stamp t e = (if evt_OccurredAt e = zero_time then e\<lparr>evt_OccurredAt := t\<rparr> else e)"

definition emitLocked :: "gotime \<Rightarrow> Event \<Rightarrow> FakeSession \<Rightarrow> FakeSession" where
  "emitLocked t e f =
     (if f_closed f then f
      else if length (f_events f) < 32 then f\<lparr>f_events := f_events f @ [stamp t e]\<rparr> else f)"

definition emitPairingLocked :: "gotime \<Rightarrow> Event \<Rightarrow> FakeSession \<Rightarrow> FakeSession" where
  "emitPairingLocked t e f =
     (if f_closed f then f
      else case f_pairing f of
        None \<Rightarrow> if length (f_events f) < 32 then f\<lparr>f_events := f_events f @ [stamp t e]\<rparr> else f
      | Some q \<Rightarrow> if length q < 8 then f\<lparr>f_pairing := Some (q @ [stamp t e])\<rparr> else f)"

definition fake_QRChannel :: "(FakeSession, unit) session_op" where
  "fake_QRChannel t f =
     (if f_closed f then (Inl WaSessionClosed, f)
      else if JID (f_device f) \<noteq> [] then (Inl WaAlreadyPaired, f)
      else if f_pairingOpen f then (Inl WaPairingRunning, f)
      else (Inr (), f\<lparr>f_pairingOpen := True, f_pairing := Some []\<rparr>))"

definition fake_PairPhone :: "string \<Rightarrow> (FakeSession, string \<times> gotime) session_op" where
  "fake_PairPhone phoneNumber t f =
     (if f_closed f then (Inl WaSessionClosed, f)
      else if JID (f_device f) \<noteq> [] then (Inl WaAlreadyPaired, f)
      else let expires = t + 60 * second; code = ''ABCD-2345'' in
        (Inr (code, expires),
         emitPairingLocked t ((zero_Event KindPairingCode)\<lparr>evt_Method := MethodPhone, evt_Code := code,
           evt_ExpiresAt := expires\<rparr>) (f\<lparr>f_pairingOpen := True\<rparr>)))"

definition fake_Connect :: "(FakeSession, unit) session_op" where
  "fake_Connect t f0 =
     (let f = f0\<lparr>f_calls := f_calls f0 @ [CallConnect]\<rparr> in
      if f_closed f then (Inl WaSessionClosed, f)
      else case ConnectErr f of Some e \<Rightarrow> (Inl e, f)
      | None \<Rightarrow>
          if JID (f_device f) = [] \<and> \<not> f_pairingOpen f then (Inl WaNotPaired, f)
          else if JID (f_device f) \<noteq> [] then
            (Inr (), emitLocked t (zero_Event KindConnected) (f\<lparr>f_status := (f_status f)\<lparr>st_Connected := True\<rparr>\<rparr>))
          else (Inr (), f))"

definition fake_Disconnect :: "FakeSession \<Rightarrow> FakeSession" where
  "fake_Disconnect f = f\<lparr>f_calls := f_calls f @ [CallDisconnect],
     f_status := (f_status f)\<lparr>st_Connected := False\<rparr>\<rparr>"

definition fake_Logout :: "(FakeSession, bool) session_op" where
  "fake_Logout t f =
     (if JID (f_device f) = [] then (Inl WaNotPaired, f)
      else (Inr (\<not> LogoutRemoteFails f),
            f\<lparr>f_device := zero_device, f_status := zero_Status, f_pairingOpen := False\<rparr>))"

definition fake_SetPassive :: "bool \<Rightarrow> (FakeSession, unit) session_op" where
  "fake_SetPassive passive t f0 =
     (let f = f0\<lparr>f_calls := f_calls f0 @ [CallSetPassive passive]\<rparr> in
      if f_closed f then (Inl WaSessionClosed, f)
      else if \<not> st_Connected (f_status f) then (Inl WaNotConnected, f)
      else case SetPassiveErr f of Some e \<Rightarrow> (Inl e, f)
      | None \<Rightarrow> (Inr (), f\<lparr>f_passive := passive\<rparr>))"

definition fake_SendPasskeyResponse :: "string \<Rightarrow> (FakeSession, unit) session_op" where
  "fake_SendPasskeyResponse payload t f0 =
     (let f = f0\<lparr>f_calls := f_calls f0 @ [CallSendPasskeyResponse payload]\<rparr> in
      if f_closed f then (Inl WaSessionClosed, f)
      else if \<not> passkeyChallengeOpen f then (Inl WaNoPasskeyChallenge, f)
      else case PasskeyResponseErr f of Some e \<Rightarrow> (Inl e, f)
      | None \<Rightarrow> (Inr (), f\<lparr>passkeyChallengeOpen := False\<rparr>))"

definition fake_ConfirmPasskey :: "(FakeSession, unit) session_op" where
  "fake_ConfirmPasskey t f0 =
     (let f = f0\<lparr>f_calls := f_calls f0 @ [CallConfirmPasskey]\<rparr> in
      if f_closed f then (Inl WaSessionClosed, f)
      else if \<not> passkeyCodePending f then (Inl WaNoPasskeyCode, f)
      else case PasskeyConfirmErr f of Some e \<Rightarrow> (Inl e, f)
      | None \<Rightarrow> (Inr (), f\<lparr>passkeyCodePending := False\<rparr>))"

definition fake_IdentityVerificationCodes :: "string \<Rightarrow> (FakeSession, VerificationCodes) session_op" where
  "fake_IdentityVerificationCodes contact t f0 =
     (let f = f0\<lparr>f_calls := f_calls f0 @ [CallVerificationCodes contact]\<rparr>;
          answer = (\<lambda>lid. if SelfLID f \<noteq> [] \<and> lid = SelfLID f then Inl WaCannotVerifySelf
             else case VerificationCodesResult f of None \<Rightarrow> Inl WaContactUnavailable
             | Some r \<Rightarrow> Inr (r\<lparr>vc_LID := lid\<rparr>))
      in if f_closed f then (Inl WaSessionClosed, f)
      else if \<not> st_Connected (f_status f) then (Inl WaNotConnected, f)
      else case VerificationCodesErr f of Some e \<Rightarrow> (Inl e, f)
      | None \<Rightarrow>
          if HasSuffix contact ''@lid'' then (answer contact, f)
          else case map_of (LIDMappings f) contact of
            None \<Rightarrow> (Inl WaIdentityNotResolvable, f)
          | Some mapped \<Rightarrow> (answer mapped, f))"

definition fake_Close :: "FakeSession \<Rightarrow> FakeSession" where
  "fake_Close f = f\<lparr>f_calls := f_calls f @ [CallClose], f_closed := True\<rparr>"

text \<open>What a test makes the WhatsApp side do.\<close>

definition EmitPairingCode :: "gotime \<Rightarrow> string \<Rightarrow> bool \<Rightarrow> FakeSession \<Rightarrow> FakeSession" where
  "EmitPairingCode t code first f =
     (let ttl = (if first then 60 * second else 20 * second) in
      emitPairingLocked t ((zero_Event KindPairingCode)\<lparr>evt_Method := MethodQR, evt_Code := code,
        evt_ExpiresAt := t + ttl\<rparr>) f)"

definition EmitPairSuccess :: "gotime \<Rightarrow> DeviceIdentity \<Rightarrow> FakeSession \<Rightarrow> FakeSession" where
  "EmitPairSuccess t device f =
     emitLocked t (zero_Event KindConnected)
       (emitPairingLocked t ((zero_Event KindPairingSucceeded)\<lparr>evt_Device := Some device\<rparr>)
         (f\<lparr>f_device := device, f_pairingOpen := False,
            f_status := \<lparr>st_Connected = True, st_LoggedIn = True, st_Device = Some device\<rparr>\<rparr>))"

definition EmitDisconnect :: "gotime \<Rightarrow> DisconnectReason \<Rightarrow> FakeSession \<Rightarrow> FakeSession" where
  "EmitDisconnect t reason f =
     emitLocked t ((zero_Event KindDisconnected)\<lparr>evt_Reason := reason, evt_Permanent := Permanent reason\<rparr>)
       (if reason = ReasonLoggedOutFromPhone
        then f\<lparr>f_device := zero_device, f_status := zero_Status\<rparr>
        else f\<lparr>f_status := (f_status f)\<lparr>st_Connected := False\<rparr>\<rparr>)"

definition EmitPasskeyChallenge :: "gotime \<Rightarrow> string \<Rightarrow> FakeSession \<Rightarrow> FakeSession" where
  "EmitPasskeyChallenge t challenge f =
     emitPairingLocked t ((zero_Event KindPasskeyChallenge)\<lparr>evt_Challenge := challenge\<rparr>)
       (f\<lparr>passkeyChallengeOpen := True\<rparr>)"

definition EmitPasskeyCode :: "gotime \<Rightarrow> string \<Rightarrow> FakeSession \<Rightarrow> FakeSession" where
  "EmitPasskeyCode t code f =
     emitPairingLocked t ((zero_Event KindPasskeyCode)\<lparr>evt_Code := code\<rparr>) (f\<lparr>passkeyCodePending := True\<rparr>)"

definition EmitBan :: "gotime \<Rightarrow> duration \<Rightarrow> FakeSession \<Rightarrow> FakeSession" where
  "EmitBan t expiresIn f =
     emitLocked t ((zero_Event KindDisconnected)\<lparr>evt_Reason := ReasonTemporaryBan, evt_Permanent := True,
       evt_BanExpiresAt := (if expiresIn > 0 then Some (t + expiresIn) else None)\<rparr>)
       (f\<lparr>f_status := (f_status f)\<lparr>st_Connected := False\<rparr>\<rparr>)"

definition EmitPairingExpired :: "gotime \<Rightarrow> PairingExpiry \<Rightarrow> FakeSession \<Rightarrow> FakeSession" where
  "EmitPairingExpired t reason f =
     emitPairingLocked t ((zero_Event KindPairingExpired)\<lparr>evt_Method := MethodQR, evt_Expiry := reason\<rparr>) (f\<lparr>f_pairingOpen := False\<rparr>)"

definition EmitPairingFailed :: "gotime \<Rightarrow> PairingFailure \<Rightarrow> FakeSession \<Rightarrow> FakeSession" where
  "EmitPairingFailed t reason f =
     emitPairingLocked t ((zero_Event KindPairingFailed)\<lparr>evt_Failure := reason\<rparr>) (f\<lparr>f_pairingOpen := False\<rparr>)"

definition EmitPasskeyAutoConfirmed :: "FakeSession \<Rightarrow> FakeSession" where
  "EmitPasskeyAutoConfirmed f = f\<lparr>passkeyCodePending := False\<rparr>"

definition EmitPasskeyFailure :: "gotime \<Rightarrow> FakeSession \<Rightarrow> FakeSession" where
  "EmitPasskeyFailure t f = emitPairingLocked t ((zero_Event KindPairingFailed)\<lparr>evt_Failure := FailurePasskeyError\<rparr>)
     (f\<lparr>passkeyChallengeOpen := False, passkeyCodePending := False, f_pairingOpen := False\<rparr>)"

definition EmitStreamError :: "gotime \<Rightarrow> string \<Rightarrow> FakeSession \<Rightarrow> FakeSession" where
  "EmitStreamError t code f = emitLocked t ((zero_Event KindDisconnected)\<lparr>evt_Reason := ReasonStreamError, evt_Permanent := False,
       evt_StreamErrorCode := code\<rparr>) (f\<lparr>f_status := (f_status f)\<lparr>st_Connected := False\<rparr>\<rparr>)"

definition EmitManualLoginReconnect :: "gotime \<Rightarrow> FakeSession \<Rightarrow> FakeSession" where
  "EmitManualLoginReconnect t f = emitLocked t (zero_Event KindManualLoginReconnect)
     (f\<lparr>f_status := (f_status f)\<lparr>st_Connected := False\<rparr>\<rparr>)"

text \<open>The scripted session as an implementation of the interface.\<close>

definition fake_api :: "FakeSession session_api" where
  "fake_api = \<lparr>NewSession = (\<lambda>t i cfg. Inr (if StoredJID cfg = [] then NewFakeSession
       else NewPairedFakeSession (zero_device\<lparr>JID := StoredJID cfg\<rparr>))),
     QRChannel = fake_QRChannel, api_PairPhone = fake_PairPhone, api_Connect = fake_Connect,
     api_Disconnect = fake_Disconnect, api_Logout = fake_Logout, api_Status = (\<lambda>_. f_status),
     SetPassive = fake_SetPassive, SendPasskeyResponse = fake_SendPasskeyResponse,
     api_ConfirmPasskey = fake_ConfirmPasskey,
     api_VerificationCodes = fake_IdentityVerificationCodes, api_Close = fake_Close\<rparr>"

end
