(* ===== verification/Supervisor.thy ===== *)
theory Supervisor
  imports WA
begin

text \<open>
  The worker: \<open>internal/worker/supervisor.go\<close> (the sessions a process owns and the commands on
  them), \<open>session.go\<close> (the pump that turns session events into persisted state and published
  frames) and \<open>reconcile.go\<close> (heartbeats, adoption, coordination messages).

  Managed sessions are objects shared by pointer between the session map, the pump and the
  goroutines a command starts, so they live in a list of objects and a pointer is an index into
  it; the map from instances to pointers is an association list. \<open>go s.reconnect(...)\<close> appends
  to \<open>spawned\<close>, and \<open>run_spawned\<close> runs the oldest such goroutine. Logging and metrics have
  no effect on the state and are left out; a handler's context is live, and a cancelled one makes
  every database call fail without effect.
\<close>

subsection \<open>State\<close>

record 's managedSession =
  ms_instanceID :: ID
  ms_generation :: int
  ms_session :: 's
  ms_cancelled :: bool
  ms_pairingCancel :: bool
  ms_pairingExpires :: gotime

record 's worker_world = bus_world +
  objects :: "'s managedSession list"
  sessions :: "(ID \<times> nat) list"
  draining :: bool
  spawned :: "nat list"

record 's Supervisor =
  sup_api :: "'s session_api"
  sup_leases :: Manager
  sup_pairingWindow :: duration
  sup_maxSessions :: int

datatype worker_error =
    ErrUnknownInstance | ErrDraining | WorkerLease lease_error | WorkerStore db_error | WorkerWA wa_error

subsection \<open>Managed sessions\<close>

definition managed :: "('s, 'z) worker_world_scheme \<Rightarrow> nat \<Rightarrow> 's managedSession" where
  "managed w p = objects w ! p"

definition update_object ::
  "nat \<Rightarrow> ('s managedSession \<Rightarrow> 's managedSession) \<Rightarrow> (('s, 'z) worker_world_scheme, 'e, unit) io" where
  "update_object p f = modifyE (\<lambda>w. w\<lparr>objects := (objects w)[p := f (managed w p)]\<rparr>)"

definition session_call ::
  "('s, 'a) session_op \<Rightarrow> nat \<Rightarrow> (('s, 'z) worker_world_scheme, worker_error, 'a) io" where
  "session_call op p = (\<lambda>w. case op (now w) (ms_session (managed w p)) of
       (r, s) \<Rightarrow> ((case r of Inl e \<Rightarrow> Inl (WorkerWA e) | Inr x \<Rightarrow> Inr x),
                  w\<lparr>objects := (objects w)[p := (managed w p)\<lparr>ms_session := s\<rparr>]\<rparr>))"

definition session_do :: "('s \<Rightarrow> 's) \<Rightarrow> nat \<Rightarrow> (('s, 'z) worker_world_scheme, 'e, unit) io" where
  "session_do f p = update_object p (\<lambda>m. m\<lparr>ms_session := f (ms_session m)\<rparr>)"

definition session_Status :: "'s Supervisor \<Rightarrow> nat \<Rightarrow> (('s, 'z) worker_world_scheme, 'e, Status) io" where
  "session_Status s p = getsE (\<lambda>w. api_Status (sup_api s) (now w) (ms_session (managed w p)))"

definition setPairing :: "nat \<Rightarrow> gotime \<Rightarrow> (('s, 'z) worker_world_scheme, 'e, unit) io" where
  "setPairing p expiresAt = update_object p (\<lambda>m. m\<lparr>ms_pairingCancel := True, ms_pairingExpires := expiresAt\<rparr>)"

definition pairingActive :: "nat \<Rightarrow> (('s, 'z) worker_world_scheme, 'e, bool) io" where
  "pairingActive p = getsE (\<lambda>w. ms_pairingCancel (managed w p) \<and> now w < ms_pairingExpires (managed w p))"

definition pairingExpiry :: "nat \<Rightarrow> (('s, 'z) worker_world_scheme, 'e, gotime) io" where
  "pairingExpiry p = getsE (\<lambda>w. ms_pairingExpires (managed w p))"

definition cancelPairing :: "nat \<Rightarrow> (('s, 'z) worker_world_scheme, 'e, unit) io" where
  "cancelPairing p = update_object p (\<lambda>m. m\<lparr>ms_pairingCancel := False, ms_pairingExpires := zero_time\<rparr>)"

definition lookup :: "ID \<Rightarrow> (('s, 'z) worker_world_scheme, 'e, nat option) io" where
  "lookup i = getsE (\<lambda>w. map_of (sessions w) i)"

subsection \<open>Persistence and publication helpers\<close>

definition setState :: "ID \<Rightarrow> InstanceState \<Rightarrow> ('z world_scheme, worker_error, unit) io" where
  "setState i s = wrapE WorkerStore (SetConnectionState i s)"

definition recordDisconnect ::
  "ID \<Rightarrow> InstanceState \<Rightarrow> DisconnectReason \<Rightarrow> gotime option \<Rightarrow> ('z world_scheme, worker_error, unit) io" where
  "recordDisconnect i s reason banExpiresAt =
     wrapE WorkerStore (RecordDisconnect i s (Some reason) banExpiresAt)"

definition record_event ::
  "ID \<Rightarrow> ConnectionEventType \<Rightarrow> DisconnectReason \<Rightarrow> payload \<Rightarrow> ('z world_scheme, 'e, unit) io" where
  "record_event i ty reason detail = ignoreE (AppendConnectionEvent i ty
     (if reason = ReasonNone then None else Some reason) (if detail = [] then None else Some detail))"

definition publish ::
  "nat \<Rightarrow> Type \<Rightarrow> payload \<Rightarrow> (('s, 'z) worker_world_scheme, 'e, unit) io" where
  "publish p frameType data = bindE (getsE (\<lambda>w. managed w p)) (\<lambda>m.
     ignoreE (Publish \<lparr>Seq = 0, env_Type = frameType, env_InstanceID = ms_instanceID m,
       env_Generation = ms_generation m, env_OccurredAt = zero_time, env_Data = data\<rparr>))"

definition publishPairingEnded ::
  "nat \<Rightarrow> PairingExpiry \<Rightarrow> (('s, 'z) worker_world_scheme, 'e, unit) io" where
  "publishPairingEnded p reason = bindE (getsE (\<lambda>w. ms_instanceID (managed w p))) (\<lambda>i.
     bindE (ignoreE (ClearPairing i)) (\<lambda>_.
     bindE (record_event i ConnEventPairingExpired ReasonNone [(''reason'', JStr (expiry_text reason))]) (\<lambda>_.
     publish p TypePairingExpired [(''reason'', JStr (expiry_text reason))])))"

subsection \<open>Starting and stopping a session\<close>

definition HasCapacity :: "'s Supervisor \<Rightarrow> (('s, 'z) worker_world_scheme, 'e, bool) io" where
  "HasCapacity s = getsE (\<lambda>w. \<not> draining w \<and> int (length (sessions w)) < sup_maxSessions s)"

definition Capacity :: "'s Supervisor \<Rightarrow> (('s, 'z) worker_world_scheme, 'e, int) io" where
  "Capacity s = getsE (\<lambda>w. let free = sup_maxSessions s - int (length (sessions w)) in
     if free < 0 then 0 else free)"

definition sup_Count :: "(('s, 'z) worker_world_scheme, 'e, int) io" where
  "sup_Count = getsE (\<lambda>w. int (length (sessions w)))"

definition Held :: "(('s, 'z) worker_world_scheme, 'e, ID list) io" where
  "Held = getsE (\<lambda>w. map fst (sessions w))"

definition Owns :: "ID \<Rightarrow> (('s, 'z) worker_world_scheme, 'e, bool) io" where
  "Owns i = getsE (\<lambda>w. map_of (sessions w) i \<noteq> None)"

definition remove_session :: "ID \<Rightarrow> (ID \<times> nat) list \<Rightarrow> (ID \<times> nat) list" where
  "remove_session i xs = filter (\<lambda>x. fst x \<noteq> i) xs"

definition load_error :: "db_error \<Rightarrow> worker_error" where
  "load_error e = (if IsNoRows e then ErrUnknownInstance else WorkerStore e)"

text \<open>The managed session is built, entered in the map, and dialled if it is paired and wanted.\<close>

definition start :: "'s Supervisor \<Rightarrow> ID \<Rightarrow> int \<Rightarrow> (('s, 'z) worker_world_scheme, worker_error, unit) io" where
  "start s i generation =
     bindE (wrapE load_error (GetInstanceConnectionByID i)) (\<lambda>instance.
     let storedJID = (case r_wa_jid instance of None \<Rightarrow> [] | Some j \<Rightarrow> j);
         proxyURL = (case r_proxy_url instance of None \<Rightarrow> [] | Some u \<Rightarrow> u)
     in bindE (getsE now) (\<lambda>t.
       case NewSession (sup_api s) t i \<lparr>StoredJID = storedJID, cfg_ProxyURL = proxyURL\<rparr> of
         Inl e \<Rightarrow> throw (WorkerWA e)
       | Inr session \<Rightarrow> modifyE (\<lambda>w.
           let p = length (objects w) in
           w\<lparr>objects := objects w @ [\<lparr>ms_instanceID = i, ms_generation = generation, ms_session = session,
                ms_cancelled = False, ms_pairingCancel = False, ms_pairingExpires = zero_time\<rparr>],
             sessions := (i, p) # remove_session i (sessions w),
             spawned := (if storedJID \<noteq> [] \<and> r_connection_intent instance = IntentActive
                         then spawned w @ [p] else spawned w)\<rparr>)))"

definition stop :: "'s Supervisor \<Rightarrow> ID \<Rightarrow> (('s, 'z) worker_world_scheme, 'e, unit) io" where
  "stop s i = bindE (lookup i) (\<lambda>found. case found of
       None \<Rightarrow> ret ()
     | Some p \<Rightarrow>
        bindE (modifyE (\<lambda>w. w\<lparr>sessions := remove_session i (sessions w)\<rparr>)) (\<lambda>_.
        bindE (cancelPairing p) (\<lambda>_.
        bindE (update_object p (\<lambda>m. m\<lparr>ms_cancelled := True\<rparr>)) (\<lambda>_.
        session_do (api_Close (sup_api s)) p))))"

text \<open>\<open>stopFromPump\<close> differs from \<open>stop\<close> only in not waiting for the pump, which is the caller.\<close>

definition stopFromPump :: "'s Supervisor \<Rightarrow> ID \<Rightarrow> (('s, 'z) worker_world_scheme, 'e, unit) io" where
  "stopFromPump s i = stop s i"

definition Adopt :: "'s Supervisor \<Rightarrow> ID \<Rightarrow> (('s, 'z) worker_world_scheme, worker_error, unit) io" where
  "Adopt s i = bindE (HasCapacity s) (\<lambda>room. if \<not> room then throw ErrDraining else
     bindE (lookup i) (\<lambda>held. if held \<noteq> None then ret () else
     bindE (wrapE WorkerLease (Acquire (sup_leases s) i)) (\<lambda>generation.
     bindE (catchE (start s i generation) (\<lambda>err.
       bindE (ignoreE (Release (sup_leases s) i)) (\<lambda>_. throw err))) (\<lambda>_.
     record_event i ConnEventLeaseAcquired ReasonNone []))))"

definition reconnect :: "'s Supervisor \<Rightarrow> nat \<Rightarrow> (('s, 'z) worker_world_scheme, 'e, unit) io" where
  "reconnect s p = bindE (getsE (\<lambda>w. managed w p)) (\<lambda>m.
     bindE (if ms_cancelled m then ret () else ignoreE (setState (ms_instanceID m) InstanceConnecting)) (\<lambda>_.
     ignoreE (session_call (api_Connect (sup_api s)) p)))"

definition run_spawned :: "'s Supervisor \<Rightarrow> (('s, 'z) worker_world_scheme, 'e, unit) io" where
  "run_spawned s = bindE (getsE spawned) (\<lambda>q. case q of
       [] \<Rightarrow> ret ()
     | p # rest \<Rightarrow> bindE (modifyE (\<lambda>w. w\<lparr>spawned := rest\<rparr>)) (\<lambda>_. reconnect s p))"

definition Drop :: "'s Supervisor \<Rightarrow> ID \<Rightarrow> (('s, 'z) worker_world_scheme, 'e, unit) io" where
  "Drop s i = bindE (stop s i) (\<lambda>_. record_event i ConnEventLeaseLost ReasonWorkerLost [])"

subsection \<open>Commands\<close>

text \<open>A command looks its session up first; without one it fails with \<open>ErrUnknownInstance\<close>.\<close>

definition with_session ::
  "ID \<Rightarrow> (nat \<Rightarrow> (('s, 'z) worker_world_scheme, worker_error, 'a) io) \<Rightarrow>
   (('s, 'z) worker_world_scheme, worker_error, 'a) io" where
  "with_session i k = bindE (lookup i) (\<lambda>found. case found of
       None \<Rightarrow> throw ErrUnknownInstance | Some p \<Rightarrow> k p)"

record StatusSnapshot =
  ss_State :: InstanceState
  ss_Status :: Status
  ss_ConnectedAt :: gotime

definition sup_Status :: "'s Supervisor \<Rightarrow> ID \<Rightarrow> (('s, 'z) worker_world_scheme, worker_error, StatusSnapshot) io" where
  "sup_Status s i = with_session i (\<lambda>p.
     bindE (wrapE load_error (GetInstanceConnectionByID i)) (\<lambda>row.
     bindE (session_Status s p) (\<lambda>st.
     ret \<lparr>ss_State = r_connection_state row, ss_Status = st,
          ss_ConnectedAt = (case r_connected_at row of None \<Rightarrow> zero_time | Some t \<Rightarrow> t)\<rparr>)))"

definition applyPassiveMode ::
  "'s Supervisor \<Rightarrow> nat \<Rightarrow> bool \<Rightarrow> (('s, 'z) worker_world_scheme, worker_error, bool) io" where
  "applyPassiveMode s p passive = bindE (session_Status s p) (\<lambda>st.
     if \<not> st_Connected st then ret False
     else catchE (bindE (session_call (SetPassive (sup_api s) passive) p) (\<lambda>_. ret True))
       (\<lambda>err. if err = WorkerWA WaNotConnected then ret False else throw err))"

definition relink :: "'s Supervisor \<Rightarrow> nat \<Rightarrow> (('s, 'z) worker_world_scheme, worker_error, unit) io" where
  "relink s p = bindE (getsE (\<lambda>w. managed w p)) (\<lambda>m.
     let i = ms_instanceID m; generation = ms_generation m in
     bindE (pairingActive p) (\<lambda>active.
     bindE (whenE active (publishPairingEnded p ExpiryCancelled)) (\<lambda>_.
     bindE (ignoreE (recordDisconnect i InstanceConnecting ReasonProxyUpdated None)) (\<lambda>_.
     bindE (record_event i ConnEventDisconnected ReasonProxyUpdated []) (\<lambda>_.
     bindE (publish p TypeDisconnected [(''reason'', JStr (reason_text ReasonProxyUpdated))]) (\<lambda>_.
     bindE (stop s i) (\<lambda>_.
     bindE (start s i generation) (\<lambda>_.
     with_session i (\<lambda>rebuilt. modifyE (\<lambda>w. w\<lparr>spawned := spawned w @ [rebuilt]\<rparr>))))))))))"

record SettingsResult =
  sr_State :: InstanceState
  sr_Reconnecting :: bool
  sr_PassiveApplied :: bool

definition ApplySettings ::
  "'s Supervisor \<Rightarrow> ID \<Rightarrow> bool \<Rightarrow> bool \<Rightarrow> (('s, 'z) worker_world_scheme, worker_error, SettingsResult) io" where
  "ApplySettings s i proxyChanged passiveChanged = with_session i (\<lambda>p.
     bindE (wrapE load_error (GetInstanceSettings i)) (\<lambda>settings.
     if proxyChanged then bindE (relink s p) (\<lambda>_.
       ret \<lparr>sr_State = InstanceConnecting, sr_Reconnecting = True, sr_PassiveApplied = False\<rparr>)
     else bindE (if passiveChanged then applyPassiveMode s p (snd settings) else ret False) (\<lambda>applied.
       bindE (attempt (sup_Status s i)) (\<lambda>snap.
       ret \<lparr>sr_State = (case snap of Inl _ \<Rightarrow> InstanceConnecting | Inr x \<Rightarrow> ss_State x),
            sr_Reconnecting = False, sr_PassiveApplied = applied\<rparr>))))"

record ConnectResult =
  cr_State :: InstanceState
  cr_PairingStarted :: bool
  cr_PairingExpiresAt :: gotime

definition startPairing :: "'s Supervisor \<Rightarrow> nat \<Rightarrow> (('s, 'z) worker_world_scheme, worker_error, gotime) io" where
  "startPairing s p =
     bindE (session_call (QRChannel (sup_api s)) p) (\<lambda>_.
     bindE (getsE (\<lambda>w. now w + sup_pairingWindow s)) (\<lambda>expiresAt.
     bindE (setPairing p expiresAt) (\<lambda>_.
     bindE (catchE (session_call (api_Connect (sup_api s)) p) (\<lambda>err.
       bindE (cancelPairing p) (\<lambda>_. throw err))) (\<lambda>_.
     bindE (getsE (\<lambda>w. ms_instanceID (managed w p))) (\<lambda>i.
     bindE (setState i InstancePairing) (\<lambda>_.
     bindE (record_event i ConnEventPairingStarted ReasonNone []) (\<lambda>_.
     ret expiresAt)))))))"

definition device_known :: "Status \<Rightarrow> bool" where
  "device_known st = (case st_Device st of None \<Rightarrow> False | Some d \<Rightarrow> JID d \<noteq> [])"

definition sup_Connect :: "'s Supervisor \<Rightarrow> ID \<Rightarrow> (('s, 'z) worker_world_scheme, worker_error, ConnectResult) io" where
  "sup_Connect s i = with_session i (\<lambda>p. bindE (session_Status s p) (\<lambda>st.
     if st_Connected st then
       ret \<lparr>cr_State = InstanceConnected, cr_PairingStarted = False, cr_PairingExpiresAt = zero_time\<rparr>
     else if device_known st then
       bindE (session_call (api_Connect (sup_api s)) p) (\<lambda>_.
       ret \<lparr>cr_State = InstanceConnecting, cr_PairingStarted = False, cr_PairingExpiresAt = zero_time\<rparr>)
     else bindE (startPairing s p) (\<lambda>expiresAt.
       ret \<lparr>cr_State = InstancePairing, cr_PairingStarted = True, cr_PairingExpiresAt = expiresAt\<rparr>)))"

definition sup_PairPhone ::
  "'s Supervisor \<Rightarrow> ID \<Rightarrow> string \<Rightarrow> bool \<Rightarrow> (('s, 'z) worker_world_scheme, worker_error, string \<times> gotime) io" where
  "sup_PairPhone s i phoneNumber replaceActive = with_session i (\<lambda>p.
     bindE (pairingActive p) (\<lambda>active.
     bindE (if active then
              if \<not> replaceActive then throw (WorkerWA WaPairingRunning)
              else bindE (cancelPairing p) (\<lambda>_. publishPairingEnded p ExpiryReplaced)
            else ret ()) (\<lambda>_.
     bindE (session_call (api_PairPhone (sup_api s) phoneNumber) p) (\<lambda>r.
     bindE (setPairing p (snd r)) (\<lambda>_.
     bindE (setState i InstancePairing) (\<lambda>_.
     bindE (record_event i ConnEventPairingStarted ReasonNone [(''method'', JStr (method_text MethodPhone))]) (\<lambda>_.
     ret r)))))))"

definition sup_Disconnect :: "'s Supervisor \<Rightarrow> ID \<Rightarrow> (('s, 'z) worker_world_scheme, worker_error, InstanceState) io" where
  "sup_Disconnect s i = bindE (lookup i) (\<lambda>found. case found of
       None \<Rightarrow> ret InstanceDisconnected
     | Some p \<Rightarrow>
        bindE (cancelPairing p) (\<lambda>_.
        bindE (session_do (api_Disconnect (sup_api s)) p) (\<lambda>_.
        bindE (recordDisconnect i InstanceDisconnected ReasonUserRequested None) (\<lambda>_.
        bindE (publish p TypeDisconnected [(''reason'', JStr (reason_text ReasonUserRequested)),
          (''permanent'', JBool True)]) (\<lambda>_.
        bindE (stop s i) (\<lambda>_.
        bindE (ignoreE (Release (sup_leases s) i)) (\<lambda>_.
        ret InstanceDisconnected)))))))"

definition sup_Logout :: "'s Supervisor \<Rightarrow> ID \<Rightarrow> bool \<Rightarrow> (('s, 'z) worker_world_scheme, worker_error, bool) io" where
  "sup_Logout s i allowTemporaryConnect = with_session i (\<lambda>p.
     bindE (cancelPairing p) (\<lambda>_.
     bindE (session_Status s p) (\<lambda>st.
     bindE (whenE (allowTemporaryConnect \<and> \<not> st_Connected st)
       (ignoreE (session_call (api_Connect (sup_api s)) p))) (\<lambda>_.
     bindE (session_call (api_Logout (sup_api s)) p) (\<lambda>remoteRemoved.
     let reason = (if remoteRemoved then ReasonUserRequested else ReasonLogoutLocalOnly) in
     bindE (wrapE WorkerStore (ClearDeviceIdentity i)) (\<lambda>_.
     bindE (record_event i ConnEventLoggedOut reason []) (\<lambda>_.
     bindE (publish p TypeLoggedOut [(''reason'', JStr (reason_text reason)), (''from_phone'', JBool False)]) (\<lambda>_.
     bindE (stop s i) (\<lambda>_.
     bindE (ignoreE (Release (sup_leases s) i)) (\<lambda>_.
     ret remoteRemoved))))))))))"

definition SubmitPasskeyResponse ::
  "'s Supervisor \<Rightarrow> ID \<Rightarrow> string \<Rightarrow> (('s, 'z) worker_world_scheme, worker_error, InstanceState) io" where
  "SubmitPasskeyResponse s i webauthn = with_session i (\<lambda>p.
     bindE (session_call (SendPasskeyResponse (sup_api s) webauthn) p) (\<lambda>_. ret InstancePairing))"

definition sup_ConfirmPasskey :: "'s Supervisor \<Rightarrow> ID \<Rightarrow> (('s, 'z) worker_world_scheme, worker_error, InstanceState) io" where
  "sup_ConfirmPasskey s i = with_session i (\<lambda>p.
     bindE (session_call (api_ConfirmPasskey (sup_api s)) p) (\<lambda>_.
     bindE (record_event i ConnEventPasskeyConfirmed ReasonNone [(''automatic'', JBool False)]) (\<lambda>_.
     ret InstancePairing)))"

definition IdentityVerificationCodes ::
  "'s Supervisor \<Rightarrow> ID \<Rightarrow> string \<Rightarrow> (('s, 'z) worker_world_scheme, worker_error, VerificationCodes) io" where
  "IdentityVerificationCodes s i contact = with_session i (\<lambda>p.
     session_call (api_VerificationCodes (sup_api s) contact) p)"

definition StopOnRequest ::
  "'s Supervisor \<Rightarrow> ID \<Rightarrow> DisconnectReason \<Rightarrow> (('s, 'z) worker_world_scheme, 'e, unit) io" where
  "StopOnRequest s i reason = bindE (lookup i) (\<lambda>found. case found of
       None \<Rightarrow> ret ()
     | Some p \<Rightarrow>
        bindE (cancelPairing p) (\<lambda>_.
        bindE (session_do (api_Disconnect (sup_api s)) p) (\<lambda>_.
        bindE (ignoreE (recordDisconnect i InstanceDisconnected reason None)) (\<lambda>_.
        bindE (record_event i ConnEventDisconnected reason []) (\<lambda>_.
        bindE (publish p TypeDisconnected [(''reason'', JStr (reason_text reason)),
          (''permanent'', JBool (Permanent reason))]) (\<lambda>_.
        bindE (stop s i) (\<lambda>_.
        ignoreE (Release (sup_leases s) i))))))))"

text \<open>\<open>Shutdown\<close>: the loop body for one session, then all leases at once.\<close>

definition shutdown_one :: "'s Supervisor \<Rightarrow> ID \<Rightarrow> (('s, 'z) worker_world_scheme, worker_error, unit) io" where
  "shutdown_one s i = bindE (lookup i) (\<lambda>found.
     bindE (case found of None \<Rightarrow> ret ()
       | Some p \<Rightarrow> bindE (pairingActive p) (\<lambda>active. whenE active (publishPairingEnded p ExpiryWorkerShutdown))) (\<lambda>_.
     stop s i))"

definition Shutdown :: "'s Supervisor \<Rightarrow> (('s, 'z) worker_world_scheme, worker_error, unit) io" where
  "Shutdown s = bindE (modifyE (\<lambda>w. w\<lparr>draining := True\<rparr>)) (\<lambda>_.
     bindE Held (\<lambda>ids.
     bindE (forE ids (shutdown_one s)) (\<lambda>_.
     wrapE WorkerLease (ReleaseAll (sup_leases s)))))"

subsection \<open>The pump: one handler per kind of event\<close>

definition restoreStateAfterPairing :: "'s Supervisor \<Rightarrow> nat \<Rightarrow> (('s, 'z) worker_world_scheme, 'e, unit) io" where
  "restoreStateAfterPairing s p = bindE (session_Status s p) (\<lambda>st.
     bindE (getsE (\<lambda>w. ms_instanceID (managed w p))) (\<lambda>i.
     ignoreE (setState i (if device_known st then InstanceDisconnected else InstanceRegistered))))"

definition device_params :: "DeviceIdentity \<Rightarrow> DeviceParams" where
  "device_params d = \<lparr>dp_wa_jid = Some (JID d), dp_wa_lid = Some (LID d),
     dp_phone_number = Some (PhoneNumber d), dp_push_name = Some (PushName d),
     dp_platform = Some (Platform d), dp_business_name = Some (BusinessName d)\<rparr>"

definition ensureDeviceIdentity :: "'s Supervisor \<Rightarrow> nat \<Rightarrow> (('s, 'z) worker_world_scheme, 'e, unit) io" where
  "ensureDeviceIdentity s p = bindE (session_Status s p) (\<lambda>st.
     case st_Device st of None \<Rightarrow> ret ()
     | Some d \<Rightarrow> if JID d = [] then ret () else
        bindE (getsE (\<lambda>w. ms_instanceID (managed w p))) (\<lambda>i.
        bindE (attempt (GetInstanceConnectionByID i)) (\<lambda>row. case row of
            Inl _ \<Rightarrow> ret ()
          | Inr r \<Rightarrow> if r_wa_jid r \<noteq> None \<and> r_wa_jid r \<noteq> Some [] then ret ()
                     else ignoreE (SetDeviceIdentity i (device_params d)))))"

definition reapplyPassiveMode :: "'s Supervisor \<Rightarrow> nat \<Rightarrow> (('s, 'z) worker_world_scheme, 'e, unit) io" where
  "reapplyPassiveMode s p = bindE (getsE (\<lambda>w. ms_instanceID (managed w p))) (\<lambda>i.
     bindE (attempt (GetInstanceSettings i)) (\<lambda>settings. case settings of
         Inl _ \<Rightarrow> ret ()
       | Inr cfg \<Rightarrow> if \<not> snd cfg then ret () else ignoreE (applyPassiveMode s p True)))"

definition lastPairedPhone :: "ID \<Rightarrow> ('z world_scheme, 'e, string) io" where
  "lastPairedPhone i = bindE (attempt (LastPairedPhone i)) (\<lambda>r. case r of
     Inl _ \<Rightarrow> ret [] | Inr phone \<Rightarrow> ret phone)"

definition handlePairingCode :: "nat \<Rightarrow> Event \<Rightarrow> (('s, 'z) worker_world_scheme, 'e, unit) io" where
  "handlePairingCode p evt = bindE (getsE (\<lambda>w. ms_instanceID (managed w p))) (\<lambda>i.
     bindE (ignoreE (SetPairing i \<lparr>ps_Method = method_text (evt_Method evt), ps_Phase = PhaseQR,
       ps_Code = evt_Code evt, ps_ExpiresAt = evt_ExpiresAt evt, ps_Challenge = []\<rparr>)) (\<lambda>_.
     publish p TypePairingCode [(''method'', JStr (method_text (evt_Method evt))),
       (''code'', JStr (evt_Code evt)), (''expires_at'', JTime (evt_ExpiresAt evt))]))"

definition handlePasskeyChallenge :: "nat \<Rightarrow> Event \<Rightarrow> (('s, 'z) worker_world_scheme, 'e, unit) io" where
  "handlePasskeyChallenge p evt = bindE (getsE (\<lambda>w. ms_instanceID (managed w p))) (\<lambda>i.
     bindE (pairingExpiry p) (\<lambda>expiresAt.
     bindE (ignoreE (SetPairing i \<lparr>ps_Method = method_text MethodQR, ps_Phase = PhasePasskeyChallenge,
       ps_Code = [], ps_ExpiresAt = expiresAt, ps_Challenge = evt_Challenge evt\<rparr>)) (\<lambda>_.
     bindE (record_event i ConnEventPasskeyChallenge ReasonNone []) (\<lambda>_.
     publish p TypePairingPasskeyChallenge [(''public_key'', JRaw (evt_Challenge evt)),
       (''attempt_expires_at'', JTime expiresAt)]))))"

definition handlePasskeyCode :: "nat \<Rightarrow> Event \<Rightarrow> (('s, 'z) worker_world_scheme, 'e, unit) io" where
  "handlePasskeyCode p evt = bindE (getsE (\<lambda>w. ms_instanceID (managed w p))) (\<lambda>i.
     bindE (pairingExpiry p) (\<lambda>expiresAt.
     bindE (ignoreE (SetPairing i \<lparr>ps_Method = method_text MethodQR, ps_Phase = PhasePasskeyCode,
       ps_Code = evt_Code evt, ps_ExpiresAt = expiresAt, ps_Challenge = []\<rparr>)) (\<lambda>_.
     bindE (record_event i ConnEventPasskeyResponded ReasonNone []) (\<lambda>_.
     publish p TypePairingPasskeyCode [(''code'', JStr (evt_Code evt)), (''attempt_expires_at'', JTime expiresAt)]))))"

definition handlePairSuccess :: "nat \<Rightarrow> Event \<Rightarrow> (('s, 'z) worker_world_scheme, 'e, unit) io" where
  "handlePairSuccess p evt = bindE (getsE (\<lambda>w. ms_instanceID (managed w p))) (\<lambda>i.
     bindE (cancelPairing p) (\<lambda>_.
     bindE (ignoreE (ClearPairing i)) (\<lambda>_.
     case evt_Device evt of None \<Rightarrow> ret ()
     | Some d \<Rightarrow>
        bindE (attempt (GetInstanceConnectionByID i)) (\<lambda>loaded. case loaded of
          Inl _ \<Rightarrow> ret ()
        | Inr previous \<Rightarrow>
            bindE (let phone = (case r_phone_number previous of None \<Rightarrow> [] | Some n \<Rightarrow> n) in
                   if phone = [] then lastPairedPhone i else ret phone) (\<lambda>previousPhone.
            let numberChanged = (previousPhone \<noteq> [] \<and> previousPhone \<noteq> PhoneNumber d) in
            bindE (attempt (SetDeviceIdentity i (device_params d))) (\<lambda>stored. case stored of
              Inl _ \<Rightarrow> ret ()
            | Inr _ \<Rightarrow>
                bindE (record_event i ConnEventPairingSucceeded ReasonNone
                  [(''phone_number'', JStr (PhoneNumber d))]) (\<lambda>_.
                bindE (whenE numberChanged (record_event i ConnEventNumberChanged ReasonNone
                  [(''previous_phone'', JStr previousPhone), (''new_phone'', JStr (PhoneNumber d))])) (\<lambda>_.
                publish p TypePairingSucceed
                  [(''device'', JObj [(''jid'', JStr (JID d)), (''phone_number'', JStr (PhoneNumber d)),
                     (''push_name'', JStr (PushName d)), (''platform'', JStr (Platform d))]),
                   (''number_changed'', JBool numberChanged)]))))))))"

text \<open>The verdict on a disconnect: the new state, the trail entry and the frame.\<close>

definition disconnect_verdict :: "Event \<Rightarrow> InstanceState \<times> ConnectionEventType \<times> Type" where
  "disconnect_verdict evt =
     (if evt_Reason evt = ReasonLoggedOutFromPhone then (InstanceLoggedOut, ConnEventLoggedOut, TypeLoggedOut)
      else if evt_Reason evt = ReasonTemporaryBan then (InstanceBanned, ConnEventBanned, TypeBanned)
      else (if evt_Permanent evt then InstanceDisconnected else InstanceConnecting,
            ConnEventDisconnected, TypeDisconnected))"

definition json_time :: "gotime option \<Rightarrow> json" where
  "json_time t = (case t of None \<Rightarrow> JNull | Some x \<Rightarrow> JTime x)"

definition disconnect_detail :: "Event \<Rightarrow> payload" where
  "disconnect_detail evt =
     (case evt_BanExpiresAt evt of None \<Rightarrow> [] | Some t \<Rightarrow> [(''expires_at'', JTime t)]) @
     (if evt_StreamErrorCode evt \<noteq> [] then [(''stream_error_code'', JStr (evt_StreamErrorCode evt))] else [])"

definition disconnect_data :: "Event \<Rightarrow> gotime \<Rightarrow> payload" where
  "disconnect_data evt t =
     [(''reason'', JStr (reason_text (evt_Reason evt))), (''permanent'', JBool (evt_Permanent evt)), (''at'', JTime t)] @
     (if evt_StreamErrorCode evt \<noteq> [] then
        [(''detail'', JObj [(''stream_error_code'', JStr (evt_StreamErrorCode evt))])] else []) @
     (if snd (snd (disconnect_verdict evt)) = TypeLoggedOut then [(''from_phone'', JBool True)] else []) @
     (if snd (snd (disconnect_verdict evt)) = TypeBanned then [(''expires_at'', json_time (evt_BanExpiresAt evt))] else [])"

definition handleDisconnect :: "'s Supervisor \<Rightarrow> nat \<Rightarrow> Event \<Rightarrow> (('s, 'z) worker_world_scheme, 'e, unit) io" where
  "handleDisconnect s p evt = bindE (getsE (\<lambda>w. ms_instanceID (managed w p))) (\<lambda>i.
     let (state, eventType, frameType) = disconnect_verdict evt in
     bindE (attempt (recordDisconnect i state (evt_Reason evt) (evt_BanExpiresAt evt))) (\<lambda>stored. case stored of
         Inl _ \<Rightarrow> ret ()
       | Inr _ \<Rightarrow>
          bindE (whenE (evt_Reason evt = ReasonLoggedOutFromPhone) (ignoreE (ClearDeviceMaterial i))) (\<lambda>_.
          bindE (record_event i eventType (evt_Reason evt) (disconnect_detail evt)) (\<lambda>_.
          bindE (getsE now) (\<lambda>t.
          bindE (publish p frameType (disconnect_data evt t)) (\<lambda>_.
          whenE (evt_Permanent evt)
            (bindE (stopFromPump s i) (\<lambda>_.
             bindE (ignoreE (SetDesired (sup_leases s) i DesiredStopped)) (\<lambda>_.
             ignoreE (Release (sup_leases s) i))))))))))"

definition pairing_ended ::
  "'s Supervisor \<Rightarrow> nat \<Rightarrow> ConnectionEventType \<Rightarrow> string \<Rightarrow> Type \<Rightarrow> payload \<Rightarrow> (('s, 'z) worker_world_scheme, 'e, unit) io" where
  "pairing_ended s p eventType reason frameType data = bindE (getsE (\<lambda>w. ms_instanceID (managed w p))) (\<lambda>i.
     bindE (cancelPairing p) (\<lambda>_.
     bindE (ignoreE (ClearPairing i)) (\<lambda>_.
     bindE (restoreStateAfterPairing s p) (\<lambda>_.
     bindE (record_event i eventType ReasonNone [(''reason'', JStr reason)]) (\<lambda>_.
     publish p frameType data)))))"

definition handleManualLoginReconnect :: "nat \<Rightarrow> (('s, 'z) worker_world_scheme, 'e, unit) io" where
  "handleManualLoginReconnect p = bindE (getsE (\<lambda>w. ms_instanceID (managed w p))) (\<lambda>i.
     bindE (record_event i ConnEventManualLoginReconnect ReasonNone []) (\<lambda>_.
     modifyE (\<lambda>w. w\<lparr>spawned := spawned w @ [p]\<rparr>)))"

definition handle :: "'s Supervisor \<Rightarrow> nat \<Rightarrow> Event \<Rightarrow> (('s, 'z) worker_world_scheme, 'e, unit) io" where
  "handle s p evt = (case evt_Kind evt of
       KindPairingCode \<Rightarrow> handlePairingCode p evt
     | KindPairingSucceeded \<Rightarrow> handlePairSuccess p evt
     | KindPairingExpired \<Rightarrow> pairing_ended s p ConnEventPairingExpired (expiry_text (evt_Expiry evt)) TypePairingExpired
         [(''method'', JStr (method_text (evt_Method evt))), (''reason'', JStr (expiry_text (evt_Expiry evt)))]
     | KindPairingFailed \<Rightarrow> pairing_ended s p ConnEventPairingFailed (failure_text (evt_Failure evt)) TypePairingFailed
         [(''reason'', JStr (failure_text (evt_Failure evt)))]
     | KindConnected \<Rightarrow> bindE (ensureDeviceIdentity s p) (\<lambda>_.
         bindE (getsE (\<lambda>w. ms_instanceID (managed w p))) (\<lambda>i.
         bindE (attempt (setState i InstanceConnected)) (\<lambda>stored. case stored of
           Inl _ \<Rightarrow> ret ()
         | Inr _ \<Rightarrow> bindE (record_event i ConnEventConnected ReasonNone []) (\<lambda>_.
             bindE (getsE now) (\<lambda>t.
             bindE (publish p TypeConnected [(''connected_at'', JTime t)]) (\<lambda>_.
             reapplyPassiveMode s p))))))
     | KindDisconnected \<Rightarrow> handleDisconnect s p evt
     | KindManualLoginReconnect \<Rightarrow> handleManualLoginReconnect p
     | KindPasskeyChallenge \<Rightarrow> handlePasskeyChallenge p evt
     | KindPasskeyCode \<Rightarrow> handlePasskeyCode p evt)"

subsection \<open>The runtime\<close>

definition heartbeatOnce :: "'s Supervisor \<Rightarrow> (('s, 'z) worker_world_scheme, worker_error, unit) io" where
  "heartbeatOnce s = bindE (attempt (Heartbeat (sup_leases s))) (\<lambda>r. case r of
       Inl _ \<Rightarrow> ret ()
     | Inr held \<Rightarrow> bindE Held (\<lambda>ids.
         forE ids (\<lambda>i. if held i = None then Drop s i else ret ())))"

text \<open>\<open>adopt\<close> logs every error of \<open>Adopt\<close>.\<close>

definition runtime_adopt :: "'s Supervisor \<Rightarrow> ID \<Rightarrow> (('s, 'z) worker_world_scheme, 'e, unit) io" where
  "runtime_adopt s i = ignoreE (Adopt s i)"

fun reconcile_loop :: "'s Supervisor \<Rightarrow> ID list \<Rightarrow> (('s, 'z) worker_world_scheme, 'e, unit) io" where
  "reconcile_loop s [] = ret ()"
| "reconcile_loop s (i # is) = bindE (HasCapacity s) (\<lambda>room.
     if \<not> room then ret () else bindE (runtime_adopt s i) (\<lambda>_. reconcile_loop s is))"

definition reconcileOnce :: "'s Supervisor \<Rightarrow> (('s, 'z) worker_world_scheme, 'e, unit) io" where
  "reconcileOnce s = bindE (HasCapacity s) (\<lambda>room. if \<not> room then ret () else
     bindE (Capacity s) (\<lambda>free.
     bindE (attempt (Adoptable (sup_leases s) (nat free))) (\<lambda>r. case r of
         Inl _ \<Rightarrow> ret ()
       | Inr candidates \<Rightarrow> reconcile_loop s candidates)))"

definition runtime_claim :: "'s Supervisor \<Rightarrow> ID \<Rightarrow> (('s, 'z) worker_world_scheme, 'e, unit) io" where
  "runtime_claim s i = bindE (HasCapacity s) (\<lambda>room. if \<not> room then ret () else runtime_adopt s i)"

definition runtime_stop :: "'s Supervisor \<Rightarrow> ID \<Rightarrow> (('s, 'z) worker_world_scheme, 'e, unit) io" where
  "runtime_stop s i = bindE (Owns i) (\<lambda>owns. if \<not> owns then ret () else StopOnRequest s i ReasonTenantSuspended)"

end
