(* ===== verification/Supervisor_Facts.thy ===== *)
theory Supervisor_Facts
  imports Supervisor
begin

text \<open>
  What the worker guarantees: the session map stays well formed and within capacity whatever
  fails, no managed session runs outside the map, frames carry the generation they were produced
  under, a heartbeat drops exactly the sessions whose lease is gone, and the effect of every
  command that ends a session on the session, the row and the lease.
\<close>

subsection \<open>Footprints\<close>

text \<open>
  A database statement touches the database only, a Redis call Redis only, and the bookkeeping
  of the supervisor neither.
\<close>

lemma same_run_statement:
  assumes "\<And>w d. f (w\<lparr>db := d\<rparr>) = f w" and "\<And>w fs. f (w\<lparr>faults := fs\<rparr>) = f w"
  shows "always (same f) (run_statement q)"
  by (rule always_run_statement) (simp_all only: same_def assms)

lemma same_redis_call:
  assumes "\<And>w r. f (w\<lparr>redis := r\<rparr>) = f w" and "\<And>w fs. f (w\<lparr>faults := fs\<rparr>) = f w"
  shows "always (same f) (redis_call q)"
proof (rule alwaysI)
  fix w
  show "same f w (snd (redis_call q w))"
    by (rule redis_call_cases [of q w]) (simp_all only: same_def assms snd_conv)
qed

definition sup_view :: "('s, 'z) worker_world_scheme \<Rightarrow> 's managedSession list \<times> (ID \<times> nat) list \<times> bool" where
  "sup_view w = (objects w, sessions w, draining w)"

lemma sup_view_run_statement: "always (same sup_view) (run_statement q)"
  by (rule same_run_statement) (simp_all add: sup_view_def)

lemma sup_view_redis_call: "always (same sup_view) (redis_call q)"
  by (rule same_redis_call) (simp_all add: sup_view_def)

lemmas statement_defs = EnsureLease_def SetDesiredState_def SetTenantDesiredState_def AcquireLease_def
  HeartbeatLeases_def ReleaseLease_def ReleaseWorkerLeases_def ListAdoptableLeases_def
  GetLeaseOwner_def GetLease_def CountLeasesByWorker_def SetConnectionIntent_def
  SetConnectionState_def RecordDisconnect_def SetDeviceIdentity_def ClearDeviceIdentity_def
  ClearDeviceMaterial_def SetInstanceProxy_def SetInstancePassiveMode_def
  GetInstanceConnection_def GetInstanceConnectionByID_def GetInstanceSettings_def
  ListActiveIntentInstancesByTenant_def ListInstanceIDsByTenant_def
  ListInstancesSharingNumber_def AppendConnectionEvent_def DeleteConnectionEventsBefore_def
  LastPairedPhone_def ListConnectionEvents_def CreateInstance_def DeleteInstance_def
  GetInstanceByIDAndTenant_def ListInstancesByTenant_def RenameInstance_def CountKeysByInstance_def

text \<open>A predicate on the supervisor's bookkeeping is kept by whatever leaves it alone.\<close>

definition on_sup :: "('s managedSession list \<times> (ID \<times> nat) list \<times> bool \<Rightarrow> bool) \<Rightarrow> ('s, 'z) worker_world_scheme \<Rightarrow> bool" where
  "on_sup P w \<longleftrightarrow> P (sup_view w)"

lemma kept_of_same: "always (same sup_view) m \<Longrightarrow> always (kept (on_sup P)) m"
  by (simp add: always_def same_def kept_def on_sup_def)

lemma keptD: "always (kept P) m \<Longrightarrow> P w \<Longrightarrow> P (snd (m w))"
  by (simp add: always_def kept_def)

lemma kept_statement: "always (kept (on_sup P)) (run_statement q)"
  by (rule kept_of_same [OF sup_view_run_statement])

lemma kept_redis: "always (kept (on_sup P)) (redis_call q)"
  by (rule kept_of_same [OF sup_view_redis_call])

subsection \<open>The session map\<close>

text \<open>
  Keys and pointers are unique, every entry points at a live object of its instance, every
  object outside the map has been cancelled, and the map is within capacity.
\<close>

definition sessions_ok :: "int \<Rightarrow> 's managedSession list \<times> (ID \<times> nat) list \<times> bool \<Rightarrow> bool" where
  "sessions_ok cap v = (case v of (objs, ses, dr) \<Rightarrow>
     distinct (map fst ses) \<and> distinct (map snd ses) \<and> int (length ses) \<le> max cap 0 \<and>
     (\<forall>i p. (i, p) \<in> set ses \<longrightarrow> p < length objs \<and> ms_instanceID (objs ! p) = i \<and> \<not> ms_cancelled (objs ! p)) \<and>
     (\<forall>p < length objs. p \<notin> snd ` set ses \<longrightarrow> ms_cancelled (objs ! p)))"

abbreviation worker_ok :: "'s Supervisor \<Rightarrow> ('s, 'z) worker_world_scheme \<Rightarrow> bool" where
  "worker_ok s \<equiv> on_sup (sessions_ok (sup_maxSessions s))"

lemma sessions_ok_update:
  assumes "sessions_ok cap (objs, ses, dr)" and "\<And>m. ms_instanceID (f m) = ms_instanceID m" "\<And>m. ms_cancelled (f m) = ms_cancelled m"
  shows "sessions_ok cap (objs[p := f (objs ! p)], ses, dr)"
proof -
  have "ms_instanceID (objs[p := f (objs ! p)] ! q) = ms_instanceID (objs ! q)"
    "ms_cancelled (objs[p := f (objs ! p)] ! q) = ms_cancelled (objs ! q)" if "q < length objs" for q
    using that assms(2,3) by (cases "p = q"; simp)+
  with assms(1) show ?thesis by (auto simp: sessions_ok_def)
qed

lemma kept_update_object:
  assumes "\<And>m. ms_instanceID (f m) = ms_instanceID m" "\<And>m. ms_cancelled (f m) = ms_cancelled m"
  shows "always (kept (worker_ok s)) (update_object p f)"
  unfolding update_object_def
  by (rule always_modifyE) (simp add: kept_def on_sup_def sup_view_def managed_def sessions_ok_update assms)

lemma kept_session_call: "always (kept (worker_ok s)) (session_call op p)"
proof (rule alwaysI)
  fix w :: "('a, 'b) worker_world_scheme"
  obtain r t where rt: "op (now w) (ms_session (managed w p)) = (r, t)" by (cases "op (now w) (ms_session (managed w p))")
  show "kept (worker_ok s) w (snd (session_call op p w))"
    using sessions_ok_update [where f = "\<lambda>m. m\<lparr>ms_session := t\<rparr>" and objs = "objects w" and p = p]
    by (simp add: session_call_def rt [unfolded managed_def] kept_def on_sup_def sup_view_def managed_def)
qed

lemma kept_session_do: "always (kept (worker_ok s)) (session_do f p)"
  unfolding session_do_def by (rule kept_update_object) simp_all

lemma kept_setPairing: "always (kept (worker_ok s)) (setPairing p t)"
  unfolding setPairing_def by (rule kept_update_object) simp_all

lemma kept_cancelPairing: "always (kept (worker_ok s)) (cancelPairing p)"
  unfolding cancelPairing_def by (rule kept_update_object) simp_all

lemma kept_spawn: "always (kept (worker_ok s)) (modifyE (\<lambda>w. w\<lparr>spawned := f w\<rparr>))"
  by (rule always_modifyE) (simp add: kept_def on_sup_def sup_view_def)

definition closed_session :: "'s Supervisor \<Rightarrow> 's managedSession \<Rightarrow> 's managedSession" where
  "closed_session s m = m\<lparr>ms_pairingCancel := False, ms_pairingExpires := 0, ms_cancelled := True,
     ms_session := api_Close (sup_api s) (ms_session m)\<rparr>"

text \<open>Stopping, in closed form.\<close>

lemma stop_eq:
  "stop s i w = (Inr (), case map_of (sessions w) i of None \<Rightarrow> w
     | Some p \<Rightarrow> w\<lparr>sessions := remove_session i (sessions w),
         objects := (objects w)[p := closed_session s (objects w ! p)]\<rparr>)"
proof (cases "map_of (sessions w) i")
  case None
  then show ?thesis by (simp add: stop_def lookup_def bindE_def getsE_def ret_def)
next
  case (Some p)
  show ?thesis
  proof (cases "p < length (objects w)")
    case True
    with Some show ?thesis
      by (simp add: stop_def lookup_def bindE_def getsE_def modifyE_def cancelPairing_def
        update_object_def session_do_def managed_def closed_session_def)
  next
    case False
    then have "(objects w)[p := x] = objects w" for x by (simp add: list_update_beyond)
    with Some show ?thesis
      by (simp add: stop_def lookup_def bindE_def getsE_def modifyE_def cancelPairing_def
        update_object_def session_do_def managed_def closed_session_def)
  qed
qed

lemma map_of_remove: "map_of (remove_session i ses) j = (if j = i then None else map_of ses j)"
  by (induction ses) (auto simp: remove_session_def)

lemma session_entry_unique:
  assumes "distinct (map fst ses)" and "distinct (map snd ses)" and "(i, p) \<in> set ses" and "x \<in> set ses"
    and "fst x = i \<or> snd x = p"
  shows "x = (i, p)"
  using assms(5)
proof
  assume "fst x = i"
  then show ?thesis using assms(1,3,4) inj_onD [of fst "set ses" x "(i, p)"] by (simp add: distinct_map)
next
  assume "snd x = p"
  then show ?thesis using assms(2-4) inj_onD [of snd "set ses" x "(i, p)"] by (simp add: distinct_map)
qed

lemma set_remove_session:
  assumes "distinct (map fst ses)" and "distinct (map snd ses)" and "(i, p) \<in> set ses"
  shows "set (remove_session i ses) = set ses - {(i, p)}"
proof (intro equalityI subsetI)
  fix x assume "x \<in> set ses - {(i, p)}"
  then have "x \<in> set ses" "fst x \<noteq> i" using session_entry_unique [OF assms, of x] by blast+
  then show "x \<in> set (remove_session i ses)" by (simp add: remove_session_def)
qed (auto simp: remove_session_def)

lemma sessions_ok_stop:
  assumes ok: "sessions_ok cap (objs, ses, dr)" and p: "map_of ses i = Some p" and m: "ms_cancelled m" 
  shows "sessions_ok cap (objs[p := m], remove_session i ses, dr)"
proof -
  from p have mem: "(i, p) \<in> set ses" by (rule map_of_SomeD)
  from ok have d1: "distinct (map fst ses)" and d2: "distinct (map snd ses)" by (simp_all add: sessions_ok_def)
  note uniq = session_entry_unique [OF d1 d2 mem] and set = set_remove_session [OF d1 d2 mem]
  have entry: "q < length objs \<and> ms_instanceID (objs ! q) = j \<and> \<not> ms_cancelled (objs ! q)"
    if "(j, q) \<in> set ses" for j q
    using ok that unfolding sessions_ok_def prod.case by blast
  have other: "q \<noteq> p" if "(j, q) \<in> set ses - {(i, p)}" for j q
  proof
    assume "q = p"
    with uniq [of "(j, q)"] that show False by simp
  qed
  have dead: "\<forall>q < length objs. q \<notin> snd ` (set ses - {(i, p)}) \<longrightarrow> ms_cancelled (objs[p := m] ! q)"
  proof (intro allI impI)
    fix q assume q: "q < length objs" "q \<notin> snd ` (set ses - {(i, p)})"
    show "ms_cancelled (objs[p := m] ! q)"
    proof (cases "q = p")
      case True
      with q m show ?thesis by simp
    next
      case False
      with q have "q \<notin> snd ` set ses" by force
      with ok q(1) have "ms_cancelled (objs ! q)" unfolding sessions_ok_def prod.case by blast
      with False show ?thesis by simp
    qed
  qed
  have "length (remove_session i ses) \<le> length ses" by (simp add: remove_session_def)
  moreover have "distinct (map fst (remove_session i ses))" "distinct (map snd (remove_session i ses))"
    using d1 d2 by (simp_all add: remove_session_def distinct_map_filter)
  moreover have "\<forall>j q. (j, q) \<in> set ses - {(i, p)} \<longrightarrow> q < length (objs[p := m]) \<and>
      ms_instanceID (objs[p := m] ! q) = j \<and> \<not> ms_cancelled (objs[p := m] ! q)"
  proof (intro allI impI)
    fix j q assume jq: "(j, q) \<in> set ses - {(i, p)}"
    then have "q \<noteq> p" by (rule other)
    with entry [of j q] jq show "q < length (objs[p := m]) \<and>
      ms_instanceID (objs[p := m] ! q) = j \<and> \<not> ms_cancelled (objs[p := m] ! q)" by simp
  qed
  moreover have "int (length ses) \<le> max cap 0" using ok by (simp add: sessions_ok_def)
  ultimately show ?thesis using dead unfolding sessions_ok_def set prod.case by (simp del: nth_list_update)
qed

lemma kept_stop: "always (kept (worker_ok s)) (stop s i)"
  by (rule alwaysI) (auto simp: stop_eq kept_def on_sup_def sup_view_def closed_session_def
    sessions_ok_stop split: option.split)

lemma sessions_ok_start:
  assumes ok: "sessions_ok cap (objs, ses, dr)" and new: "i \<notin> fst ` set ses" "int (length ses) < max cap 0"
    and m: "ms_instanceID m = i" "\<not> ms_cancelled m"
  shows "sessions_ok cap (objs @ [m], (i, length objs) # remove_session i ses, dr)"
proof -
  have rem: "remove_session i ses = ses"
    using new(1) unfolding remove_session_def by (intro filter_True) force
  have entry: "q < length objs \<and> ms_instanceID (objs ! q) = j \<and> \<not> ms_cancelled (objs ! q)"
    if "(j, q) \<in> set ses" for j q
    using ok that unfolding sessions_ok_def prod.case by blast
  then have "length objs \<notin> snd ` set ses" by fastforce
  moreover have "\<forall>q < length objs. q \<notin> snd ` set ses \<longrightarrow> ms_cancelled (objs ! q)"
    using ok unfolding sessions_ok_def prod.case by blast
  moreover have "distinct (map fst ses)" "distinct (map snd ses)" using ok by (simp_all add: sessions_ok_def)
  ultimately show ?thesis using new m entry
    unfolding sessions_ok_def rem prod.case by (auto simp: nth_append less_Suc_eq)
qed

text \<open>What \<open>start\<close> does to the bookkeeping: nothing if it fails, one new entry otherwise.\<close>

lemma same_viewD: "always (same sup_view) m \<Longrightarrow> m w = (r, w') \<Longrightarrow> sup_view w' = sup_view w"
  by (drule always_eqD) (auto simp: same_def)

lemma sup_view_queries:
  "always (same sup_view) (GetInstanceConnectionByID i)" "always (same sup_view) (Acquire m i)"
  "always (same sup_view) (Release m i)" "always (same sup_view) (record_event i ty reason detail)"
  unfolding Acquire_def Release_def record_event_def statement_defs
  by (intro same.always_intros sup_view_run_statement)+

lemma start_view:
  assumes "start s i g w = (r, w')"
  shows "case r of Inl e \<Rightarrow> sup_view w' = sup_view w
    | Inr _ \<Rightarrow> \<exists>m. ms_instanceID m = i \<and> ms_generation m = g \<and> \<not> ms_cancelled m \<and>
        sup_view w' = (objects w @ [m], (i, length (objects w)) # remove_session i (sessions w), draining w)"
proof -
  obtain r1 w1 where q: "GetInstanceConnectionByID i w = (r1, w1)" by (cases "GetInstanceConnectionByID i w")
  then have v: "sup_view w1 = sup_view w" by (rule same_viewD [OF sup_view_queries(1)])
  then have "objects w1 = objects w" "sessions w1 = sessions w" "draining w1 = draining w"
    by (simp_all add: sup_view_def)
  with assms q v show ?thesis
    by (auto simp: start_def bindE_def wrapE_def getsE_def throw_def modifyE_def Let_def sup_view_def
      split: sum.splits)
qed

lemma kept_Adopt: "always (kept (worker_ok s)) (Adopt s i)"
proof (rule alwaysI)
  fix w :: "('a, 'b) worker_world_scheme"
  have "worker_ok s (snd (Adopt s i w))" if ok: "worker_ok s w"
  proof (cases "\<not> draining w \<and> int (length (sessions w)) < sup_maxSessions s \<and> map_of (sessions w) i = None")
    case False
    then have "snd (Adopt s i w) = w"
      by (auto simp: Adopt_def bindE_def HasCapacity_def lookup_def getsE_def throw_def ret_def)
    with ok show ?thesis by simp
  next
    case True
    obtain r1 w1 where a: "Acquire (sup_leases s) i w = (r1, w1)" by (cases "Acquire (sup_leases s) i w")
    then have v1: "sup_view w1 = sup_view w" by (rule same_viewD [OF sup_view_queries(2)])
    show ?thesis
    proof (cases r1)
      case (Inl e)
      with True a have "snd (Adopt s i w) = w1"
        by (simp add: Adopt_def bindE_def HasCapacity_def lookup_def getsE_def wrapE_def)
      with ok v1 show ?thesis by (simp add: on_sup_def)
    next
      case (Inr g)
      obtain r2 w2 where st: "start s i g w1 = (r2, w2)" by (cases "start s i g w1")
      have rel: "sup_view (snd (Release (sup_leases s) i w2)) = sup_view w2"
        using alwaysD [OF sup_view_queries(3)] by (simp add: same_def)
      have rec: "sup_view (snd (record_event i ConnEventLeaseAcquired ReasonNone [] w2)) = sup_view w2"
        using alwaysD [OF sup_view_queries(4)] by (simp add: same_def)
      have "sup_view (snd (Adopt s i w)) = sup_view w2"
        using True a Inr st rel rec
        by (auto simp: Adopt_def bindE_def HasCapacity_def lookup_def getsE_def wrapE_def catchE_def
          ignoreE_def throw_def split: sum.split prod.split)
      moreover have "int (length (sessions w)) < max (sup_maxSessions s) 0" using True by simp
      then have "sessions_ok (sup_maxSessions s) (sup_view w2)"
        using start_view [OF st] ok v1 True
        by (auto simp: on_sup_def sup_view_def map_of_eq_None_iff less_max_iff_disj
          intro!: sessions_ok_start split: sum.splits)
      ultimately show ?thesis by (simp add: on_sup_def)
    qed
  qed
  then show "kept (worker_ok s) w (snd (Adopt s i w))" by (simp add: kept_def)
qed

text \<open>Everything that only persists and publishes leaves the bookkeeping alone.\<close>

lemma sup_view_bus:
  "always (same sup_view) (Incr i)" "always (same sup_view) (Expire i ttl)"
  "always (same sup_view) (ClearPairing i)" "always (same sup_view) (CurrentSeq i)"
  unfolding bus_defs by (rule sup_view_redis_call)+

lemma sup_view_Publish: "always (same sup_view) (Publish e)"
  unfolding Publish_def Let_def by (intro same.always_intros sup_view_bus sup_view_redis_call)

lemma sup_view_SetPairing: "always (same sup_view) (SetPairing i snap)"
  unfolding SetPairing_def Let_def by (intro same.always_intros sup_view_bus sup_view_redis_call)

lemma sup_view_publish: "always (same sup_view) (publish p ty data)"
  unfolding publish_def by (intro same.always_intros sup_view_Publish)

lemma sup_view_persist:
  "always (same sup_view) (setState i st)" "always (same sup_view) (recordDisconnect i st reason ban)"
  "always (same sup_view) (lastPairedPhone i)" "always (same sup_view) (SetDeviceIdentity i dp)"
  "always (same sup_view) (ClearDeviceMaterial i)" "always (same sup_view) (ClearDeviceIdentity i)"
  "always (same sup_view) (GetInstanceSettings i)" "always (same sup_view) (SetDesired m i d)"
  "always (same sup_view) (ReleaseAll m)" "always (same sup_view) (Heartbeat m)"
  "always (same sup_view) (Adoptable m n)"
  unfolding setState_def recordDisconnect_def lastPairedPhone_def SetDesired_def ReleaseAll_def
    Heartbeat_def Adoptable_def statement_defs
  by (intro same.always_intros sup_view_run_statement)+

lemma sup_view_publishPairingEnded: "always (same sup_view) (publishPairingEnded p reason)"
  unfolding publishPairingEnded_def by (intro same.always_intros sup_view_bus sup_view_queries sup_view_publish)

lemmas sup_view_facts = sup_view_queries sup_view_bus sup_view_Publish sup_view_SetPairing
  sup_view_publish sup_view_persist sup_view_publishPairingEnded

lemmas kept_view_facts = sup_view_facts [THEN kept_of_same]

text \<open>Steps that leave the bookkeeping alone can be skipped in a proof about what follows.\<close>

lemma bindE_through:
  assumes m: "always (same sup_view) m" and ok: "on_sup P w"
    and k: "\<And>x w'. sup_view w' = sup_view w \<Longrightarrow> on_sup P (snd (k x w'))"
  shows "on_sup P (snd (bindE m k w))"
proof (cases "m w")
  case (Pair r w')
  with m have "sup_view w' = sup_view w" by (rule same_viewD)
  with Pair ok k [of w'] show ?thesis by (auto simp: bindE_def on_sup_def split: sum.split)
qed

lemma bindE_getsE: "bindE (getsE f) k w = k (f w) w"
  by (simp add: bindE_def getsE_def)

lemma relink_core:
  fixes w :: "('s, 'z) worker_world_scheme"
  assumes ok: "worker_ok s w" and p: "map_of (sessions w) i = Some p"
  shows "worker_ok s (snd (bindE (stop s i) (\<lambda>_. bindE (start s i g) (\<lambda>_.
    with_session i (\<lambda>rebuilt. modifyE (\<lambda>w. w\<lparr>spawned := spawned w @ [rebuilt]\<rparr>)))) w))"
proof -
  obtain w1 where st0: "(stop s i w :: (worker_error + unit) \<times> ('s, 'z) worker_world_scheme) = (Inr (), w1)"
    by (simp add: stop_eq)
  have ok1: "worker_ok s w1" using keptD [OF kept_stop ok, of i] st0 by (metis snd_conv)
  have ses1: "sessions w1 = remove_session i (sessions w)" using st0 by (auto simp: stop_eq p)
  then have new: "i \<notin> fst ` set (sessions w1)" by (auto simp: remove_session_def)
  have "length (remove_session i (sessions w)) < length (sessions w)"
    unfolding remove_session_def using p by (intro length_filter_less [of "(i, p)"]) (auto dest: map_of_SomeD)
  then have room: "int (length (sessions w1)) < max (sup_maxSessions s) 0"
    using ok ses1 by (auto simp: on_sup_def sup_view_def sessions_ok_def)
  obtain r2 w2 where st: "start s i g w1 = (r2, w2)" by (cases "start s i g w1")
  have ok2: "worker_ok s w2"
    using start_view [OF st] ok1 new room
    by (auto simp: on_sup_def sup_view_def intro: sessions_ok_start split: sum.splits)
  have spawn: "worker_ok s (snd (with_session i (\<lambda>rebuilt. modifyE (\<lambda>w. w\<lparr>spawned := spawned w @ [rebuilt]\<rparr>)) w2))"
    using ok2 by (auto simp: with_session_def lookup_def bindE_def getsE_def throw_def modifyE_def on_sup_def sup_view_def split: option.split)
  show ?thesis using st ok2 spawn by (cases r2) (auto simp: bindE_def st0)
qed

lemma kept_relink:
  assumes "worker_ok s w" and "map_of (sessions w) i = Some p"
  shows "worker_ok s (snd (relink s p w))"
proof -
  from assms have i: "ms_instanceID (managed w p) = i"
    by (auto simp: on_sup_def sup_view_def sessions_ok_def managed_def dest: map_of_SomeD)
  have get: "always (same sup_view) (pairingActive p)" unfolding pairingActive_def by (rule same.always_getsE)
  have ignored: "always (same sup_view) (ignoreE (recordDisconnect i st reason ban))" for st reason ban
    by (intro same.always_ignoreE sup_view_facts)
  have ended: "always (same sup_view) (whenE b (publishPairingEnded p reason))" for b reason
    by (intro same.always_whenE sup_view_facts)
  show ?thesis unfolding relink_def Let_def bindE_getsE i
    by (intro bindE_through get ended ignored sup_view_facts relink_core)
      (use assms in \<open>auto simp: on_sup_def sup_view_def\<close>)
qed

lemma kept_with_session:
  assumes "\<And>p. map_of (sessions w) i = Some p \<Longrightarrow> worker_ok s (snd (k p w))" and "worker_ok s w"
  shows "worker_ok s (snd (with_session i k w))"
  using assms by (auto simp: with_session_def lookup_def bindE_def getsE_def throw_def split: option.split)

lemma kept_applyPassiveMode: "always (kept (worker_ok s)) (applyPassiveMode s p b)"
  unfolding applyPassiveMode_def session_Status_def
  by (intro kept.always_intros kept_session_call)

lemma kept_sup_Status: "always (kept (worker_ok s)) (sup_Status s i)"
  unfolding sup_Status_def with_session_def lookup_def session_Status_def
  by (intro kept.always_intros kept_view_facts)

lemma kept_ApplySettings: "always (kept (worker_ok s)) (ApplySettings s i proxyChanged passiveChanged)"
proof (rule alwaysI)
  fix w :: "('a, 'b) worker_world_scheme"
  have rest: "worker_ok s (snd (bindE (if passiveChanged then applyPassiveMode s p (snd settings) else ret False)
      (\<lambda>applied. bindE (attempt (sup_Status s i)) (\<lambda>snap. ret (f applied snap))) w'))"
    if "worker_ok s w'" for p settings f w'
  proof -
    have "always (kept (worker_ok s)) (bindE (if passiveChanged then applyPassiveMode s p (snd settings) else ret False)
      (\<lambda>applied. bindE (attempt (sup_Status s i)) (\<lambda>snap. ret (f applied snap))))"
      by (intro kept.always_intros kept_applyPassiveMode kept_sup_Status)
    from keptD [OF this that] show ?thesis .
  qed
  have re: "worker_ok s (snd (bindE (relink s p) (\<lambda>_. ret x) w'))"
    if "worker_ok s w'" "map_of (sessions w') i = Some p" for p x w'
    using kept_relink [OF that] by (cases "relink s p w'") (auto simp: bindE_def ret_def split: sum.split)
  have settings: "always (same sup_view) (wrapE load_error (GetInstanceSettings i))"
    by (intro same.always_wrapE sup_view_facts)
  have "worker_ok s (snd (ApplySettings s i proxyChanged passiveChanged w))" if ok: "worker_ok s w"
    unfolding ApplySettings_def
  proof (rule kept_with_session [OF _ ok], rule bindE_through [OF settings ok])
    fix p x w' assume p: "map_of (sessions w) i = Some p" and v: "sup_view w' = sup_view w"
    from p v have "map_of (sessions w') i = Some p" "worker_ok s w'" using ok by (simp_all add: sup_view_def on_sup_def)
    then show "worker_ok s (snd ((if proxyChanged then bindE (relink s p) (\<lambda>_.
       ret \<lparr>sr_State = InstanceConnecting, sr_Reconnecting = True, sr_PassiveApplied = False\<rparr>)
     else bindE (if passiveChanged then applyPassiveMode s p (snd x) else ret False) (\<lambda>applied.
       bindE (attempt (sup_Status s i)) (\<lambda>snap.
       ret \<lparr>sr_State = (case snap of Inl _ \<Rightarrow> InstanceConnecting | Inr x \<Rightarrow> ss_State x),
            sr_Reconnecting = False, sr_PassiveApplied = applied\<rparr>))) w'))"
      by (cases proxyChanged) (simp_all only: if_True if_False, rule re, assumption+, rule rest)
  qed
  then show "kept (worker_ok s) w (snd (ApplySettings s i proxyChanged passiveChanged w))" by (simp add: kept_def)
qed

subsection \<open>Every action of a worker\<close>

lemmas kept_steps = kept_view_facts kept_session_call kept_session_do kept_setPairing
  kept_cancelPairing kept_spawn kept_stop kept_Adopt kept_ApplySettings kept_applyPassiveMode
  kept_sup_Status

lemmas getter_defs = with_session_def lookup_def session_Status_def pairingActive_def pairingExpiry_def
  HasCapacity_def Capacity_def Held_def Owns_def

lemma kept_startPairing: "always (kept (worker_ok s)) (startPairing s p)"
  unfolding startPairing_def getter_defs by (intro kept.always_intros kept_steps)

lemma kept_sup_Connect: "always (kept (worker_ok s)) (sup_Connect s i)"
  unfolding sup_Connect_def getter_defs by (intro kept.always_intros kept_steps kept_startPairing)

lemma kept_sup_PairPhone: "always (kept (worker_ok s)) (sup_PairPhone s i phone rep)"
  unfolding sup_PairPhone_def getter_defs by (intro kept.always_intros kept_steps)

lemma kept_sup_Disconnect: "always (kept (worker_ok s)) (sup_Disconnect s i)"
  unfolding sup_Disconnect_def getter_defs by (intro kept.always_intros kept_steps)

lemma kept_sup_Logout: "always (kept (worker_ok s)) (sup_Logout s i allow)"
  unfolding sup_Logout_def getter_defs Let_def by (intro kept.always_intros kept_steps)

lemma kept_passkey:
  "always (kept (worker_ok s)) (SubmitPasskeyResponse s i payload)"
  "always (kept (worker_ok s)) (sup_ConfirmPasskey s i)"
  "always (kept (worker_ok s)) (IdentityVerificationCodes s i contact)"
  unfolding SubmitPasskeyResponse_def sup_ConfirmPasskey_def IdentityVerificationCodes_def getter_defs
  by (intro kept.always_intros kept_steps)+

lemma kept_StopOnRequest: "always (kept (worker_ok s)) (StopOnRequest s i reason)"
  unfolding StopOnRequest_def getter_defs by (intro kept.always_intros kept_steps)

lemma kept_Shutdown: "always (kept (worker_ok s)) (Shutdown s)"
proof -
  have drain: "always (kept (worker_ok s)) (modifyE (\<lambda>w. w\<lparr>draining := True\<rparr>))"
    by (rule always_modifyE) (auto simp: kept_def on_sup_def sup_view_def sessions_ok_def)
  show ?thesis unfolding Shutdown_def shutdown_one_def getter_defs
    by (intro kept.always_intros kept_steps drain)
qed

lemma kept_reconnect: "always (kept (worker_ok s)) (reconnect s p)"
  unfolding reconnect_def by (intro kept.always_intros kept_steps)

lemma kept_run_spawned: "always (kept (worker_ok s)) (run_spawned s)"
  unfolding run_spawned_def by (intro kept.always_intros kept_steps kept_reconnect)

lemma kept_handlers:
  "always (kept (worker_ok s)) (handlePairingCode p evt)"
  "always (kept (worker_ok s)) (handlePasskeyChallenge p evt)"
  "always (kept (worker_ok s)) (handlePasskeyCode p evt)"
  "always (kept (worker_ok s)) (handlePairSuccess p evt)"
  "always (kept (worker_ok s)) (handleDisconnect s p evt)"
  "always (kept (worker_ok s)) (pairing_ended s p ty reason frame data)"
  "always (kept (worker_ok s)) (ensureDeviceIdentity s p)"
  "always (kept (worker_ok s)) (reapplyPassiveMode s p)"
  unfolding handlePairingCode_def handlePasskeyChallenge_def handlePasskeyCode_def handlePairSuccess_def
    handleDisconnect_def pairing_ended_def restoreStateAfterPairing_def ensureDeviceIdentity_def
    reapplyPassiveMode_def stopFromPump_def getter_defs Let_def
  by (intro kept.always_intros kept_steps)+

lemma kept_handle: "always (kept (worker_ok s)) (handle s p evt)"
  unfolding handle_def handleManualLoginReconnect_def
  by (cases "evt_Kind evt") (simp_all, (intro kept.always_intros kept_steps kept_handlers)+)

lemma kept_heartbeatOnce: "always (kept (worker_ok s)) (heartbeatOnce s)"
  unfolding heartbeatOnce_def Drop_def getter_defs by (intro kept.always_intros kept_steps)

lemma kept_reconcile_loop: "always (kept (worker_ok s)) (reconcile_loop s ids)"
  by (induction ids) (auto simp: getter_defs runtime_adopt_def intro!: kept.always_intros kept_steps)

lemma kept_runtime:
  "always (kept (worker_ok s)) (reconcileOnce s)"
  "always (kept (worker_ok s)) (runtime_claim s i)"
  "always (kept (worker_ok s)) (runtime_stop s i)"
  unfolding reconcileOnce_def runtime_claim_def runtime_stop_def runtime_adopt_def getter_defs
  by (intro kept.always_intros kept_steps kept_reconcile_loop kept_StopOnRequest)+

text \<open>
  The actions of a worker process: gRPC commands, coordination messages, ticks, goroutines,
  events of a session, and what happens around it (the clock, the network, other processes
  writing to the database and to Redis).
\<close>

datatype worker_action =
    ActConnect ID | ActPairPhone ID string bool | ActDisconnect ID | ActLogout ID bool
  | ActStatus ID | ActApplySettings ID bool bool | ActSubmitPasskey ID string | ActConfirmPasskey ID
  | ActVerificationCodes ID string | ActClaim ID | ActStop ID | ActHeartbeat | ActReconcile
  | ActSpawned | ActEvent nat Event | ActShutdown
  | ActTick duration | ActNetwork "outcome list" | ActDatabase database | ActRedis redis_store

fun perform :: "'s Supervisor \<Rightarrow> worker_action \<Rightarrow> ('s, 'z) worker_world_scheme \<Rightarrow> ('s, 'z) worker_world_scheme" where
  "perform s (ActConnect i) w = snd (sup_Connect s i w)"
| "perform s (ActPairPhone i phone rep) w = snd (sup_PairPhone s i phone rep w)"
| "perform s (ActDisconnect i) w = snd (sup_Disconnect s i w)"
| "perform s (ActLogout i allow) w = snd (sup_Logout s i allow w)"
| "perform s (ActStatus i) w = snd (sup_Status s i w)"
| "perform s (ActApplySettings i proxy passive) w = snd (ApplySettings s i proxy passive w)"
| "perform s (ActSubmitPasskey i payload) w = snd (SubmitPasskeyResponse s i payload w)"
| "perform s (ActConfirmPasskey i) w = snd (sup_ConfirmPasskey s i w)"
| "perform s (ActVerificationCodes i contact) w = snd (IdentityVerificationCodes s i contact w)"
| "perform s (ActClaim i) w = final (runtime_claim s i :: (_, worker_error, _) io) w"
| "perform s (ActStop i) w = final (runtime_stop s i :: (_, worker_error, _) io) w"
| "perform s ActHeartbeat w = snd (heartbeatOnce s w)"
| "perform s ActReconcile w = final (reconcileOnce s :: (_, worker_error, _) io) w"
| "perform s ActSpawned w = final (run_spawned s :: (_, worker_error, _) io) w"
| "perform s (ActEvent p evt) w = final (handle s p evt :: (_, worker_error, _) io) w"
| "perform s ActShutdown w = snd (Shutdown s w)"
| "perform s (ActTick dt) w = w\<lparr>now := now w + dt\<rparr>"
| "perform s (ActNetwork fs) w = w\<lparr>faults := fs\<rparr>"
| "perform s (ActDatabase d) w = w\<lparr>db := d\<rparr>"
| "perform s (ActRedis r) w = w\<lparr>redis := r\<rparr>"

definition perform_all ::
  "'s Supervisor \<Rightarrow> worker_action list \<Rightarrow> ('s, 'z) worker_world_scheme \<Rightarrow> ('s, 'z) worker_world_scheme" where
  "perform_all s acts w = fold (perform s) acts w"

lemma perform_kept: "worker_ok s w \<Longrightarrow> worker_ok s (perform s act w)"
  by (cases act) (auto simp: final_def on_sup_def sup_view_def
    intro: keptD [OF kept_sup_Connect, unfolded on_sup_def sup_view_def]
      keptD [OF kept_sup_PairPhone, unfolded on_sup_def sup_view_def]
      keptD [OF kept_sup_Disconnect, unfolded on_sup_def sup_view_def]
      keptD [OF kept_sup_Logout, unfolded on_sup_def sup_view_def]
      keptD [OF kept_sup_Status, unfolded on_sup_def sup_view_def]
      keptD [OF kept_ApplySettings, unfolded on_sup_def sup_view_def]
      kept_passkey [THEN keptD, unfolded on_sup_def sup_view_def]
      kept_runtime [THEN keptD, unfolded on_sup_def sup_view_def]
      keptD [OF kept_heartbeatOnce, unfolded on_sup_def sup_view_def]
      keptD [OF kept_run_spawned, unfolded on_sup_def sup_view_def]
      keptD [OF kept_handle, unfolded on_sup_def sup_view_def]
      keptD [OF kept_Shutdown, unfolded on_sup_def sup_view_def])


definition demo_sup :: "FakeSession Supervisor" where
  "demo_sup = \<lparr>sup_api = fake_api, sup_leases = demo_manager ''w1'', sup_pairingWindow = 120 * second, sup_maxSessions = 2\<rparr>"

definition demo_worker :: "FakeSession worker_world" where
  "demo_worker = \<lparr>db = demo_db, now = 100, faults = [], redis = demo_redis, objects = [], sessions = [],
     draining = False, spawned = []\<rparr>"


subsection \<open>A heartbeat lets go of what was lost\<close>

lemma Drop_sessions:
  "\<exists>w'. Drop s i w = (Inr (), w') \<and> sessions w' = remove_session i (sessions w)"
proof -
  let ?w1 = "case map_of (sessions w) i of None \<Rightarrow> w
     | Some p \<Rightarrow> w\<lparr>sessions := remove_session i (sessions w),
         objects := (objects w)[p := closed_session s (objects w ! p)]\<rparr>"
  let ?w2 = "final (record_event i ConnEventLeaseLost ReasonWorkerLost [] :: (_, worker_error, _) io) ?w1"
  have "remove_session i (sessions w) = sessions w" if "map_of (sessions w) i = None"
    unfolding remove_session_def using that by (intro filter_True) (force simp: map_of_eq_None_iff)
  then have "sessions ?w1 = remove_session i (sessions w)" by (simp split: option.split)
  moreover have "sup_view ?w2 = sup_view ?w1"
    unfolding final_def using alwaysD [OF sup_view_queries(4)] unfolding same_def .
  moreover have "Drop s i w = (Inr (), ?w2)"
    by (simp add: Drop_def bindE_def stop_eq record_event_def ignoreE_def final_def)
  ultimately show ?thesis by (auto simp: sup_view_def)
qed

lemma drop_loop:
  fixes w :: "('s, 'z) worker_world_scheme"
  shows "\<exists>w'. (forE ids (\<lambda>i. if held i = None then Drop s i else ret ()) w :: (worker_error + unit) \<times> _) = (Inr (), w') \<and>
     sessions w' = filter (\<lambda>x. fst x \<notin> set ids \<or> held (fst x) \<noteq> None) (sessions w)"
proof (induction ids arbitrary: w)
  case Nil
  then show ?case by (simp add: ret_def)
next
  case (Cons i ids)
  obtain w1 where w1: "((if held i = None then Drop s i else ret ()) w :: (worker_error + unit) \<times> _) = (Inr (), w1)"
    and s1: "sessions w1 = (if held i = None then remove_session i (sessions w) else sessions w)"
    using Drop_sessions [of s i w] by (cases "held i") (auto simp: ret_def)
  have s1': "sessions w1 = filter (\<lambda>x. fst x \<noteq> i \<or> held (fst x) \<noteq> None) (sessions w)"
  proof (cases "held i")
    case None
    then show ?thesis by (auto simp: s1 remove_session_def intro!: filter_cong)
  next
    case (Some g)
    then show ?thesis by (auto simp: s1 intro!: filter_True [symmetric])
  qed
  from Cons [of w1] obtain w2 where "(forE ids (\<lambda>i. if held i = None then Drop s i else ret ()) w1 :: (worker_error + unit) \<times> _) = (Inr (), w2)"
    and "sessions w2 = filter (\<lambda>x. fst x \<notin> set ids \<or> held (fst x) \<noteq> None) (sessions w1)" by blast
  moreover have "filter (\<lambda>x. fst x \<notin> set ids \<or> held (fst x) \<noteq> None) (sessions w1) =
      filter (\<lambda>x. fst x \<notin> set (i # ids) \<or> held (fst x) \<noteq> None) (sessions w)"
    unfolding s1' filter_filter by (auto intro!: filter_cong)
  ultimately show ?case using w1 by (simp add: bindE_def)
qed

text \<open>
  C4. After a heartbeat that reached the database, the sessions still running are exactly those
  whose lease the worker still owns and that should be running: a session whose lease was taken
  over or stopped while this process believed to own it is closed before the next command.
\<close>

theorem heartbeat_drops_lost_sessions:
  assumes ok: "leases_ok (db w)" and hb: "Heartbeat (sup_leases s) w = (Inr held, w1)"
  shows "fst ` set (sessions (snd (heartbeatOnce s w))) =
    {i \<in> fst ` set (sessions w). \<exists>l. lease_of (db w) i = Some l \<and> heartbeat_guard (workerID (sup_leases s)) l}"
proof -
  have v: "sessions w1 = sessions w" using same_viewD [OF sup_view_persist(10) hb] by (simp add: sup_view_def)
  obtain w2 where "(forE (map fst (sessions w1)) (\<lambda>i. if held i = None then Drop s i else ret ()) w1 :: (worker_error + unit) \<times> _) = (Inr (), w2)"
    and s2: "sessions w2 = filter (\<lambda>x. fst x \<notin> set (map fst (sessions w1)) \<or> held (fst x) \<noteq> None) (sessions w1)"
    using drop_loop by blast
  then have "sessions (snd (heartbeatOnce s w)) = filter (\<lambda>x. held (fst x) \<noteq> None) (sessions w)"
    by (simp add: heartbeatOnce_def Held_def bindE_def attempt_def getsE_def hb v cong: filter_cong)
  moreover have "held i \<noteq> None \<longleftrightarrow> (\<exists>l. lease_of (db w) i = Some l \<and> heartbeat_guard (workerID (sup_leases s)) l)" for i
    using heartbeat_exact [OF ok hb, of i] by (auto split: option.splits)
  ultimately show ?thesis by auto
qed

definition demo_lost :: "FakeSession worker_world" where
  "demo_lost = demo_worker\<lparr>objects := [\<lparr>ms_instanceID = 7, ms_generation = 1, ms_session = NewFakeSession,
     ms_cancelled = False, ms_pairingCancel = False, ms_pairingExpires = 0\<rparr>], sessions := [(7, 0)]\<rparr>"

theorem heartbeat_drops_lost_sessions_witness:
  "(\<exists>w1. Heartbeat (sup_leases demo_sup) demo_lost = (Inr Map.empty, w1)) \<and>
   sessions (snd (heartbeatOnce demo_sup demo_lost)) = []"
proof -
  have hb: "\<exists>w1. Heartbeat (sup_leases demo_sup) demo_lost = (Inr Map.empty, w1)"
    by (simp add: Heartbeat_def HeartbeatLeases_def bindE_def wrapE_def ret_def run_statement_ok
      demo_lost_def demo_worker_def demo_sup_def demo_defs heartbeat_guard_def)
  then obtain w1 where w1: "Heartbeat (sup_leases demo_sup) demo_lost = (Inr Map.empty, w1)" by blast
  have ok: "leases_ok (db demo_lost)" by (simp add: leases_ok_def demo_lost_def demo_worker_def demo_defs)
  have "lease_of (db demo_lost) 7 = Some demo_lease"
    by (simp add: lease_of_def demo_lost_def demo_worker_def demo_defs)
  then have "fst ` set (sessions (snd (heartbeatOnce demo_sup demo_lost))) = {}"
    unfolding heartbeat_drops_lost_sessions [OF ok w1]
    by (auto simp: heartbeat_guard_def demo_lost_def demo_lease_def)
  with hb show ?thesis by simp
qed

subsection \<open>Frames carry the generation they were produced under\<close>

definition ident :: "nat \<Rightarrow> ('s, 'z) worker_world_scheme \<Rightarrow> ID \<times> int" where
  "ident p w = (ms_instanceID (managed w p), ms_generation (managed w p))"

definition own_frames :: "nat \<Rightarrow> ('s, 'z) worker_world_scheme \<Rightarrow> ('s, 'z) worker_world_scheme \<Rightarrow> bool" where
  "own_frames p w w' \<longleftrightarrow> (p < length (objects w) \<longrightarrow> p < length (objects w') \<and> ident p w' = ident p w \<and>
     (\<exists>fs. published (redis w') = published (redis w) @ fs \<and>
       (\<forall>f \<in> set fs. (env_InstanceID f, env_Generation f) = ident p w)))"

interpretation frames: world_rel "own_frames p"
proof
  show "own_frames p w w" for w by (simp add: own_frames_def)
  show "own_frames p u w" if "own_frames p u v" "own_frames p v w" for u v w
    using that by (fastforce simp: own_frames_def)
qed

lemma own_frames_statement: "always (own_frames p) (run_statement q)"
  by (rule always_run_statement) (simp_all add: own_frames_def ident_def managed_def)

text \<open>What a call adds to the published frames.\<close>

definition appends :: "ID \<Rightarrow> int \<Rightarrow> 'z bus_world_scheme \<Rightarrow> 'z bus_world_scheme \<Rightarrow> bool" where
  "appends i g w w' \<longleftrightarrow> (\<exists>fs. published (redis w') = published (redis w) @ fs \<and>
     (\<forall>f \<in> set fs. env_InstanceID f = i \<and> env_Generation f = g))"

interpretation appends: world_rel "appends i g"
proof
  show "appends i g w w" for w :: "'z bus_world_scheme" by (simp add: appends_def)
  show "appends i g u w" if "appends i g u v" "appends i g v w" for u v w :: "'z bus_world_scheme"
    using that by (fastforce simp: appends_def)
qed

lemma appends_redis_call:
  assumes "\<And>t r. \<exists>fs. published (snd (q t r)) = published r @ fs \<and>
    (\<forall>f \<in> set fs. env_InstanceID f = i \<and> env_Generation f = g)"
  shows "always (appends i g) (redis_call q)"
proof (rule alwaysI)
  fix w
  show "appends i g w (snd (redis_call q w))"
    by (rule redis_call_cases [of q w]) (use assms [of "now w" "redis w"] in \<open>simp_all add: appends_def\<close>)
qed

lemma appends_bus:
  "always (appends i g) (Incr j)" "always (appends i g) (Expire j ttl)" "always (appends i g) (ClearPairing j)"
  "always (appends i g) (SetPairing j snap)"
  unfolding bus_defs Let_def
  by ((intro appends.always_intros appends_redis_call; simp split: option.split))+

lemma appends_Publish: "always (appends (env_InstanceID e) (env_Generation e)) (Publish e)"
  unfolding Publish_def Let_def
  by (intro appends.always_intros appends_bus appends_redis_call) auto

lemma own_frames_of_appends:
  assumes m: "always (same sup_view) m" and a: "\<And>i g. ident p w = (i, g) \<Longrightarrow> appends i g w (snd (m w))"
  shows "own_frames p w (snd (m w))"
proof -
  have "objects (snd (m w)) = objects w" using alwaysD [OF m, of w] by (simp add: same_def sup_view_def)
  then have "ident p (snd (m w)) = ident p w" "length (objects (snd (m w))) = length (objects w)"
    by (simp_all add: ident_def managed_def)
  with a show ?thesis by (cases "ident p w") (auto simp: own_frames_def appends_def)
qed

lemma own_frames_publish: "always (own_frames p) (publish p ty data)"
proof (rule alwaysI, rule own_frames_of_appends [OF sup_view_publish])
  fix w :: "('a, 'b) worker_world_scheme" and i g assume "ident p w = (i, g)"
  then show "appends i g w (snd (publish p ty data w))"
    using alwaysD [OF appends_Publish [of "\<lparr>Seq = 0, env_Type = ty, env_InstanceID = i, env_Generation = g,
      env_OccurredAt = 0, env_Data = data\<rparr>"], of w]
    by (auto simp: publish_def bindE_getsE ignoreE_def ident_def)
qed

lemma own_frames_pairing_keys:
  "always (own_frames p) (ClearPairing j)" "always (own_frames p) (SetPairing j snap)"
  by (rule alwaysI, rule own_frames_of_appends [OF sup_view_bus(3)], rule alwaysD [OF appends_bus(3)],
      rule alwaysI, rule own_frames_of_appends [OF sup_view_SetPairing], rule alwaysD [OF appends_bus(4)])

lemma nth_update_field:
  "fld x = fld (xs ! q) \<Longrightarrow> p < length xs \<Longrightarrow> fld (xs[q := x] ! p) = fld (xs ! p)"
  by (cases "p = q") simp_all

lemma own_frames_update_object:
  assumes "\<And>m. ms_instanceID (f m) = ms_instanceID m" "\<And>m. ms_generation (f m) = ms_generation m"
  shows "always (own_frames p) (update_object q f)"
  unfolding update_object_def
  by (rule always_modifyE) (simp add: own_frames_def ident_def managed_def assms
    nth_update_field [where fld = ms_instanceID] nth_update_field [where fld = ms_generation])

lemma own_frames_local:
  "always (own_frames p) (session_do f q)" "always (own_frames p) (cancelPairing q)"
  "always (own_frames p) (setPairing q t)"
  unfolding session_do_def cancelPairing_def setPairing_def
  by (rule own_frames_update_object; simp)+

lemma own_frames_session_call: "always (own_frames p) (session_call op q)"
  by (rule alwaysI) (simp add: session_call_def own_frames_def ident_def managed_def split_beta
    nth_update_field [where fld = ms_instanceID] nth_update_field [where fld = ms_generation])

lemma own_frames_sessions:
  "always (own_frames p) (modifyE (\<lambda>w. w\<lparr>sessions := f w\<rparr>))" "always (own_frames p) (modifyE (\<lambda>w. w\<lparr>spawned := g w\<rparr>))"
  by (rule always_modifyE; simp add: own_frames_def ident_def managed_def)+

lemma own_frames_stop: "always (own_frames p) (stop s i)"
  unfolding stop_def lookup_def
  by (intro frames.always_intros own_frames_local own_frames_sessions own_frames_update_object) simp_all

lemma own_frames_persist:
  "always (own_frames p) (setState i st)" "always (own_frames p) (recordDisconnect i st reason ban)"
  "always (own_frames p) (lastPairedPhone i)" "always (own_frames p) (SetDeviceIdentity i dp)"
  "always (own_frames p) (ClearDeviceMaterial i)" "always (own_frames p) (GetInstanceConnectionByID i)"
  "always (own_frames p) (GetInstanceSettings i)" "always (own_frames p) (SetDesired m i d)"
  "always (own_frames p) (Release m i)" "always (own_frames p) (record_event i ty reason detail)"
  unfolding setState_def recordDisconnect_def lastPairedPhone_def SetDesired_def Release_def record_event_def
    statement_defs
  by (intro frames.always_intros own_frames_statement)+

lemmas own_frames_steps = own_frames_publish own_frames_pairing_keys own_frames_local
  own_frames_session_call own_frames_sessions own_frames_stop own_frames_persist

lemma own_frames_handlers:
  "always (own_frames p) (handlePairingCode p evt)"
  "always (own_frames p) (handlePasskeyChallenge p evt)"
  "always (own_frames p) (handlePasskeyCode p evt)"
  "always (own_frames p) (handlePairSuccess p evt)"
  "always (own_frames p) (handleDisconnect s p evt)"
  "always (own_frames p) (pairing_ended s p ty reason frame data)"
  "always (own_frames p) (ensureDeviceIdentity s p)"
  "always (own_frames p) (reapplyPassiveMode s p)"
  unfolding handlePairingCode_def handlePasskeyChallenge_def handlePasskeyCode_def handlePairSuccess_def
    handleDisconnect_def pairing_ended_def restoreStateAfterPairing_def ensureDeviceIdentity_def
    reapplyPassiveMode_def applyPassiveMode_def stopFromPump_def getter_defs Let_def
  by (intro frames.always_intros own_frames_steps)+

lemma own_frames_handle: "always (own_frames p) (handle s p evt)"
  unfolding handle_def handleManualLoginReconnect_def
  by (cases "evt_Kind evt") (simp_all, (intro frames.always_intros own_frames_steps own_frames_handlers)+)

text \<open>
  Every frame the pump publishes while handling an event of a session names that session's
  instance and the lease generation the session was started under, whatever else fails, so a
  client can recognise frames of a former owner.
\<close>

theorem pump_frames_carry_generation:
  assumes "p < length (objects w)"
  shows "\<exists>fs. published (redis (final (handle s p evt) w)) = published (redis w) @ fs \<and>
    (\<forall>f \<in> set fs. env_InstanceID f = ms_instanceID (managed w p) \<and> env_Generation f = ms_generation (managed w p))"
proof -
  have "own_frames p w (final (handle s p evt) w)" unfolding final_def by (rule alwaysD [OF own_frames_handle])
  with assms show ?thesis by (auto simp: own_frames_def ident_def)
qed

theorem pump_frames_carry_generation_witness:
  "list_all (\<lambda>f. env_InstanceID f = 7 \<and> env_Generation f = 1)
    (published (redis (final (handle demo_sup 0 (zero_Event KindConnected) :: (_, worker_error, _) io) demo_lost)))"
  using pump_frames_carry_generation [of 0 demo_lost demo_sup "zero_Event KindConnected"]
  by (auto simp: list_all_iff demo_lost_def demo_worker_def demo_redis_def managed_def)

subsection \<open>A permanent failure parks the instance\<close>

lemma noerr_helpers:
  "noerr (record_event i ety reason detail)" "noerr (publish p ty data)" "noerr (cancelPairing p)"
  "noerr (session_do f p)" "noerr (stop s i)" "noerr (lookup i)"
  unfolding record_event_def publish_def cancelPairing_def session_do_def update_object_def stop_def lookup_def
  by (intro noerr_intros)+

definition not_running :: "ID \<Rightarrow> ('s, 'z) worker_world_scheme \<Rightarrow> bool" where
  "not_running i w \<longleftrightarrow> map_of (sessions w) i = None"

lemma not_running_stop: "ends_in (not_running i) (stop s i)"
  unfolding ends_in_def not_running_def by (simp add: stop_eq map_of_remove split: option.split)

lemma not_running_kept: "always (same sup_view) m \<Longrightarrow> always (kept (not_running i)) m"
  by (simp add: always_def same_def kept_def not_running_def sup_view_def)

text \<open>The recorded reason of an instance, which only explicit commands change.\<close>

definition reason_of :: "ID \<Rightarrow> 'z world_scheme \<Rightarrow> DisconnectReason option option" where
  "reason_of i w = map_option r_last_disconnect_reason (instance_of (db w) i)"

lemma same_reason_statement:
  assumes "\<And>t d. map_option r_last_disconnect_reason (instance_of (snd (q t d)) i) = map_option r_last_disconnect_reason (instance_of d i)"
  shows "always (same (reason_of i)) (run_statement q)"
  by (rule always_run_statement) (simp_all add: same_def reason_of_def assms)

lemma instance_of_update:
  assumes "\<And>r. r_id (f t r) = r_id r"
  shows "instance_of (snd (update_instance j f t d)) i =
    map_option (\<lambda>r. if r_id r = j then (f t r)\<lparr>r_updated_at := t\<rparr> else r) (instance_of d i)"
  unfolding update_instance_def exec_on_instances_def instance_of_def
  by (simp add: by_key_update_where assms)

lemma instance_of_other_tables [simp]:
  "instance_of (d\<lparr>session_leases := x\<rparr>) i = instance_of d i"
  "instance_of (d\<lparr>connection_events := y\<rparr>) i = instance_of d i"
  "instance_of (d\<lparr>next_event_id := n\<rparr>) i = instance_of d i"
  by (simp_all add: instance_of_def)

lemma same_reason_statements:
  "always (same (reason_of i)) (ClearDeviceMaterial j)"
  "always (same (reason_of i)) (AppendConnectionEvent j ty reason detail)"
  "always (same (reason_of i)) (SetDesiredState j ds)"
  "always (same (reason_of i)) (ReleaseLease j wid)"
  unfolding ClearDeviceMaterial_def AppendConnectionEvent_def SetDesiredState_def ReleaseLease_def
  by (rule same_reason_statement;
      auto simp: instance_of_update exec_on_leases_def Let_def option.map_comp comp_def intro!: option.map_cong0)+

lemma same_reason_other:
  "always (same (reason_of i)) (publish p ty data)"
  "always (same (reason_of i)) (stop s j)"
  unfolding publish_def Publish_def Incr_def Expire_def Let_def stop_def cancelPairing_def session_do_def
    update_object_def lookup_def
  by (intro same.always_intros same_redis_call always_modifyE; simp add: same_def reason_of_def)+

lemma out_of_map_cancelled:
  assumes ok: "worker_ok s w" and "map_of (sessions w) (ms_instanceID (managed w p)) = None" and p: "p < length (objects w)"
  shows "ms_cancelled (managed w p)"
proof -
  have "p \<notin> snd ` set (sessions w)"
  proof
    assume "p \<in> snd ` set (sessions w)"
    then obtain j where j: "(j, p) \<in> set (sessions w)" by auto
    with ok have "ms_instanceID (managed w p) = j"
      unfolding on_sup_def sup_view_def sessions_ok_def managed_def prod.case by blast
    with j assms(2) show False by (auto simp: map_of_eq_None_iff image_iff)
  qed
  with ok p show ?thesis
    unfolding on_sup_def sup_view_def sessions_ok_def managed_def prod.case by blast
qed

text \<open>What the handler does once the disconnect is persisted.\<close>

definition after_disconnect :: "'s Supervisor \<Rightarrow> ID \<Rightarrow> nat \<Rightarrow> Event \<Rightarrow> (('s, 'z) worker_world_scheme, 'e, unit) io" where
  "after_disconnect s i p evt =
     bindE (whenE (evt_Reason evt = ReasonLoggedOutFromPhone) (ignoreE (ClearDeviceMaterial i))) (\<lambda>_.
     bindE (record_event i (fst (snd (disconnect_verdict evt))) (evt_Reason evt) (disconnect_detail evt)) (\<lambda>_.
     bindE (getsE now) (\<lambda>t.
     bindE (publish p (snd (snd (disconnect_verdict evt))) (disconnect_data evt t)) (\<lambda>_.
     whenE (evt_Permanent evt)
       (bindE (stopFromPump s i) (\<lambda>_.
        bindE (ignoreE (SetDesired (sup_leases s) i DesiredStopped)) (\<lambda>_.
        ignoreE (Release (sup_leases s) i))))))))"

lemma handleDisconnect_stored:
  assumes "recordDisconnect (ms_instanceID (managed w p)) (fst (disconnect_verdict evt)) (evt_Reason evt)
    (evt_BanExpiresAt evt) w = (Inr (), w1)"
  shows "handleDisconnect s p evt w = after_disconnect s (ms_instanceID (managed w p)) p evt w1"
  using assms by (simp add: handleDisconnect_def after_disconnect_def bindE_getsE attempt_def split_beta
    bindE_def [of "\<lambda>w. (Inr (f w), g w)" for f g])

lemma after_disconnect_stops: "evt_Permanent evt \<Longrightarrow> ends_in (not_running i) (after_disconnect s i p evt)"
  unfolding after_disconnect_def stopFromPump_def
  by (intro ends_in_later noerr_intros noerr_helpers)
    (simp add: whenE_def, intro ends_in_now [OF not_running_stop] not_running_kept same.always_intros sup_view_facts)

lemma after_disconnect_reason: "always (same (reason_of i)) (after_disconnect s j p evt)"
  unfolding after_disconnect_def stopFromPump_def record_event_def SetDesired_def Release_def
  by (intro same.always_intros same_reason_other same_reason_statements)

lemma recordDisconnect_reason:
  assumes "recordDisconnect i st reason ban w = (Inr (), w1)"
  shows "reason_of i w1 = map_option (\<lambda>_. Some reason) (instance_of (db w) i)"
proof -
  let ?f = "\<lambda>t r. r\<lparr>r_connection_state := st, r_connected_at := None, r_last_disconnect_at := Some t,
       r_last_disconnect_reason := Some reason, r_ban_expires_at := ban\<rparr>"
  from assms obtain fs where "checked_update (state_Valid st) i ?f (now w) (db w) = (Inr (), db w1)"
    unfolding recordDisconnect_def wrapE_Inr RecordDisconnect_def by (rule run_statement_Inr)
  then have "db w1 = snd (update_instance i ?f (now w) (db w))"
    by (auto simp: checked_update_def split: if_splits)
  then show ?thesis
    by (cases "instance_of (db w) i") (simp_all add: reason_of_def instance_of_update instance_of_id)
qed


definition demo_ban :: Event where
  "demo_ban = (zero_Event KindDisconnected)\<lparr>evt_Reason := ReasonTemporaryBan, evt_Permanent := True\<rparr>"

lemma demo_lost_ok: "worker_ok demo_sup demo_lost"
  by (simp add: on_sup_def sup_view_def sessions_ok_def demo_lost_def demo_worker_def demo_sup_def)


subsection \<open>Commands that end a session\<close>

text \<open>The lease as this worker sees it after handing it back.\<close>

definition lease_not_mine :: "'s Supervisor \<Rightarrow> ID \<Rightarrow> 'z world_scheme \<Rightarrow> bool" where
  "lease_not_mine s i w \<longleftrightarrow>
     (\<forall>l. lease_of (db w) i = Some l \<longrightarrow> l_worker_id l \<noteq> Some (workerID (sup_leases s)))"

lemma Release_ok:
  assumes "faults w = []"
  shows "lease_not_mine s i (snd (Release (sup_leases s) i w))"
proof -
  let ?p = "\<lambda>l. l_instance_id l = i \<and> l_worker_id l = Some (workerID (sup_leases s))"
  have "db (snd (Release (sup_leases s) i w)) =
      db w\<lparr>session_leases := update_where ?p (clear_owner (now w)) (session_leases (db w))\<rparr>"
    using assms by (simp add: Release_def ReleaseLease_def run_statement_ok exec_on_leases_def)
  then have "lease_of (db (snd (Release (sup_leases s) i w))) i =
      map_option (\<lambda>l. if ?p l then clear_owner (now w) l else l) (lease_of (db w) i)"
    by (simp add: lease_of_update_where clear_owner_def)
  then show ?thesis
    by (cases "lease_of (db w) i") (simp_all add: lease_not_mine_def clear_owner_def lease_of_id)
qed

definition quiet :: "'z world_scheme \<Rightarrow> bool" where
  "quiet w \<longleftrightarrow> faults w = []"

lemma quiet_run_statement: "always (kept quiet) (run_statement q)"
proof (rule alwaysI)
  fix w :: "'a world_scheme"
  show "kept quiet w (snd (run_statement q w))"
    by (cases "faults w = []") (simp_all add: kept_def quiet_def run_statement_ok)
qed

lemma quiet_redis_call: "always (kept quiet) (redis_call q)"
proof (rule alwaysI)
  fix w
  show "kept quiet w (snd (redis_call q w))"
    by (cases "faults w = []") (simp_all add: kept_def quiet_def redis_call_ok)
qed

lemma quiet_local:
  "always (kept quiet) (update_object p f)" "always (kept quiet) (modifyE (\<lambda>w. w\<lparr>sessions := g w\<rparr>))"
  unfolding update_object_def by (rule always_modifyE; simp add: kept_def quiet_def)+

lemma quiet_helpers:
  "always (kept quiet) (publish p ty data)" "always (kept quiet) (stop s i)"
  "always (kept quiet) (cancelPairing p)" "always (kept quiet) (session_do f p)"
  "always (kept quiet) (record_event i ety reason detail)" "always (kept quiet) (recordDisconnect i st reason ban)"
  "always (kept quiet) (ClearDeviceIdentity i)"
  unfolding publish_def Publish_def Incr_def Expire_def Let_def stop_def cancelPairing_def session_do_def
    lookup_def record_event_def recordDisconnect_def statement_defs
  by (intro kept.always_intros quiet_run_statement quiet_redis_call quiet_local)+

lemma same_reason_Release: "always (same (reason_of i)) (Release m j)"
  unfolding Release_def by (intro same.always_intros same_reason_statements)

lemma quiet_Release: "always (kept quiet) (Release m j)"
  unfolding Release_def ReleaseLease_def by (intro kept.always_intros quiet_run_statement)

text \<open>The common end of these commands: stop the session, hand the lease back.\<close>

lemma hand_back:
  assumes "quiet w"
  obtains w' where "bindE (stop s i) (\<lambda>_. bindE (ignoreE (Release (sup_leases s) i)) k) w = k () w'"
    and "not_running i w'" and "lease_not_mine s i w'" and "reason_of i w' = reason_of i w" and "quiet w'"
proof -
  let ?w1 = "final (stop s i :: (_, worker_error, _) io) w"
  let ?w2 = "snd (Release (sup_leases s) i ?w1)"
  have st: "stop s i w = (Inr (), ?w1)" by (simp add: stop_eq final_def)
  have q1: "quiet ?w1" unfolding final_def by (rule keptD [OF quiet_helpers(2) assms])
  have "bindE (stop s i) (\<lambda>_. bindE (ignoreE (Release (sup_leases s) i)) k) w = k () ?w2"
    by (simp add: bindE_def ignoreE_def st)
  moreover have "not_running i ?w1" by (rule ends_inD [OF not_running_stop st])
  then have "not_running i ?w2" by (rule keptD [OF not_running_kept [OF sup_view_queries(3)]])
  moreover have "lease_not_mine s i ?w2" using Release_ok q1 by (simp add: quiet_def)
  moreover have "reason_of i ?w1 = reason_of i w" using alwaysD [OF same_reason_other(2)] unfolding final_def same_def .
  then have "reason_of i ?w2 = reason_of i w" using alwaysD [OF same_reason_Release, of i ?w1] by (simp add: same_def)
  moreover have "quiet ?w2" by (rule keptD [OF quiet_Release q1])
  ultimately show thesis by (rule that)
qed

lemma recordDisconnect_ok:
  assumes "quiet w" and "state_Valid st"
  obtains w' where "recordDisconnect i st reason ban w = (Inr (), w')" and "quiet w'"
    and "reason_of i w' = map_option (\<lambda>_. Some reason) (instance_of (db w) i)" and "sup_view w' = sup_view w"
proof -
  from assms obtain w' where run: "recordDisconnect i st reason ban w = (Inr (), w')"
    by (simp add: recordDisconnect_def RecordDisconnect_def wrapE_def run_statement_ok quiet_def checked_update_def
      update_instance_def exec_on_instances_def)
  moreover have "quiet w'" using keptD [OF quiet_helpers(6) assms(1)] run by (metis snd_conv)
  moreover note recordDisconnect_reason [OF run] same_viewD [OF sup_view_persist(2) run]
  ultimately show thesis by (rule that)
qed

text \<open>
  An explicit disconnect (with the database and Redis reachable) takes the session out of
  this worker, hands its lease back and records \<open>user_requested\<close>, so nobody reconnects it on
  their own; repeating the command changes nothing and answers the same.
\<close>

theorem disconnect_command_effect:
  assumes q: "faults w = []" and p: "map_of (sessions w) i = Some p" and row: "instance_of (db w) i = Some row"
  shows "\<exists>w'. sup_Disconnect s i w = (Inr InstanceDisconnected, w') \<and> map_of (sessions w') i = None \<and>
    lease_not_mine s i w' \<and> reason_of i w' = Some (Some ReasonUserRequested) \<and>
    (\<forall>m. \<not> may_adopt m w' i) \<and> sup_Disconnect s i w' = (Inr InstanceDisconnected, w')"
proof -
  let ?pre = "bindE (cancelPairing p) (\<lambda>_. session_do (api_Disconnect (sup_api s)) p) :: (_, worker_error, _) io"
  obtain w1 where pre: "?pre w = (Inr (), w1)" and w1: "quiet w1" "db w1 = db w"
    using q by (auto simp: bindE_def cancelPairing_def session_do_def update_object_def modifyE_def quiet_def)
  obtain w2 where rec: "recordDisconnect i InstanceDisconnected ReasonUserRequested None w1 = (Inr (), w2)"
    and w2: "quiet w2" "reason_of i w2 = map_option (\<lambda>_. Some ReasonUserRequested) (instance_of (db w1) i)"
    by (rule recordDisconnect_ok [OF w1(1), of InstanceDisconnected i ReasonUserRequested None]) simp_all
  let ?data = "[(''reason'', JStr (reason_text ReasonUserRequested)), (''permanent'', JBool True)]"
  let ?w3 = "final (publish p TypeDisconnected ?data :: (_, worker_error, _) io) w2"
  have pub: "(publish p TypeDisconnected ?data :: (_, worker_error, _) io) w2 = (Inr (), ?w3)"
    by (simp add: publish_def bindE_getsE ignoreE_def final_def)
  have q3: "quiet ?w3" unfolding final_def by (rule keptD [OF quiet_helpers(1) w2(1)])
  have r3: "reason_of i ?w3 = reason_of i w2" using alwaysD [OF same_reason_other(1)] unfolding final_def same_def .
  obtain w4 where hb: "bindE (stop s i) (\<lambda>_. bindE (ignoreE (Release (sup_leases s) i)) (\<lambda>_. ret InstanceDisconnected)) ?w3
      = (ret InstanceDisconnected :: (_, worker_error, _) io) w4"
    and w4: "not_running i w4" "lease_not_mine s i w4" "reason_of i w4 = reason_of i ?w3"
    by (rule hand_back [OF q3, of s i "\<lambda>_. ret InstanceDisconnected"])
  have "sup_Disconnect s i w = (Inr InstanceDisconnected, w4)"
  proof -
    have "sup_Disconnect s i w = bindE ?pre (\<lambda>_.
        bindE (recordDisconnect i InstanceDisconnected ReasonUserRequested None) (\<lambda>_.
        bindE (publish p TypeDisconnected ?data) (\<lambda>_.
        bindE (stop s i) (\<lambda>_. bindE (ignoreE (Release (sup_leases s) i)) (\<lambda>_. ret InstanceDisconnected))))) w"
      by (simp add: sup_Disconnect_def lookup_def bindE_getsE p bindE_assoc)
    also have "\<dots> = (Inr InstanceDisconnected, w4)"
      by (simp add: bindE_Inr [of ?pre w "()" w1, OF pre]
        bindE_Inr [of "recordDisconnect i InstanceDisconnected ReasonUserRequested None" w1 "()" w2, OF rec]
        bindE_Inr [of "publish p TypeDisconnected ?data" w2 "()" ?w3, OF pub] hb
        del: reason_text.simps) (simp add: ret_def)
    finally show ?thesis .
  qed
  moreover have r4: "reason_of i w4 = Some (Some ReasonUserRequested)" using w4(3) r3 w2(2) w1(2) row by simp
  moreover have "\<not> may_adopt m w4 i" for m using r4 by (auto simp: may_adopt_def reason_of_def)
  moreover have "sup_Disconnect s i w4 = (Inr InstanceDisconnected, w4)"
    using w4(1) by (simp add: sup_Disconnect_def lookup_def bindE_getsE not_running_def ret_def)
  ultimately show ?thesis using w4 by (auto simp: not_running_def)
qed

theorem disconnect_command_effect_witness:
  "\<exists>w'. sup_Disconnect demo_sup 7 demo_lost = (Inr InstanceDisconnected, w') \<and> map_of (sessions w') 7 = None"
  using disconnect_command_effect [of demo_lost 7 0 "new_instance_row 1 7 1 ''shop''" demo_sup]
  by (auto simp: demo_lost_def demo_worker_def demo_db_def instance_of_def new_instance_row_def)

subsection \<open>Shutdown\<close>

lemma shutdown_one_sessions:
  "\<exists>w'. shutdown_one s i w = (Inr (), w') \<and> sessions w' = remove_session i (sessions w) \<and> draining w' = draining w"
proof -
  let ?pre = "(case map_of (sessions w) i of None \<Rightarrow> ret ()
       | Some p \<Rightarrow> bindE (pairingActive p) (\<lambda>active. whenE active (publishPairingEnded p ExpiryWorkerShutdown)))
       :: (_, worker_error, _) io"
  have ne: "noerr ?pre"
    unfolding pairingActive_def publishPairingEnded_def by (intro noerr_intros noerr_helpers)
  have "always (same sup_view) ?pre"
    unfolding pairingActive_def by (intro same.always_intros sup_view_facts)
  moreover from ne obtain w1 where w1: "?pre w = (Inr (), w1)" unfolding noerr_def by (metis unit.exhaust)
  ultimately have v: "sup_view w1 = sup_view w" by (rule same_viewD)
  obtain w2 where st: "(stop s i :: (_, worker_error, _) io) w1 = (Inr (), w2)" by (simp add: stop_eq)
  then have "sessions w2 = (case map_of (sessions w1) i of None \<Rightarrow> sessions w1 | Some _ \<Rightarrow> remove_session i (sessions w1))"
    and "draining w2 = draining w1" by (auto simp: stop_eq split: option.splits)
  moreover have "remove_session i (sessions w1) = sessions w1" if "map_of (sessions w1) i = None"
    unfolding remove_session_def using that by (intro filter_True) (force simp: map_of_eq_None_iff)
  moreover have "shutdown_one s i w = (Inr (), w2)"
    by (simp add: shutdown_one_def lookup_def bindE_getsE bindE_Inr [of ?pre w "()" w1, OF w1] st)
  ultimately show ?thesis using v by (auto simp: sup_view_def split: option.splits)
qed

lemma shutdown_loop:
  "\<exists>w'. forE ids (shutdown_one s) w = (Inr (), w') \<and>
     sessions w' = filter (\<lambda>x. fst x \<notin> set ids) (sessions w) \<and> draining w' = draining w"
proof (induction ids arbitrary: w)
  case Nil
  then show ?case by (simp add: ret_def)
next
  case (Cons i ids)
  obtain w1 where w1: "shutdown_one s i w = (Inr (), w1)" "sessions w1 = remove_session i (sessions w)"
    "draining w1 = draining w" using shutdown_one_sessions by blast
  from Cons.IH [of w1] obtain w2 where "forE ids (shutdown_one s) w1 = (Inr (), w2)"
    "sessions w2 = filter (\<lambda>x. fst x \<notin> set ids) (sessions w1)" "draining w2 = draining w1" by blast
  then show ?case using w1 by (auto simp: bindE_def remove_session_def intro: filter_cong)
qed

lemma Shutdown_drained:
  assumes "Shutdown s w = (r, w')"
  shows "sessions w' = [] \<and> (\<forall>i. Adopt s i w' = (Inl ErrDraining, w')) \<and>
    (r = Inr () \<longrightarrow> (\<forall>l \<in> set (session_leases (db w')). l_worker_id l \<noteq> Some (workerID (sup_leases s))))"
proof -
  let ?w0 = "w\<lparr>draining := True\<rparr>"
  obtain w1 where loop: "forE (map fst (sessions ?w0)) (shutdown_one s) ?w0 = (Inr (), w1)"
    and s1: "sessions w1 = filter (\<lambda>x. fst x \<notin> set (map fst (sessions ?w0))) (sessions ?w0)"
    and d1: "draining w1 = draining ?w0" using shutdown_loop by blast
  have rel: "wrapE WorkerLease (ReleaseAll (sup_leases s)) w1 = (r, w')"
    using assms loop by (simp add: Shutdown_def Held_def bindE_def modifyE_def getsE_def)
  have "sessions w1 = []" using s1 by (auto simp: filter_empty_conv)
  moreover have "sup_view w' = sup_view w1"
    by (rule same_viewD [OF same.always_wrapE [OF sup_view_persist(9)] rel])
  ultimately have "sessions w' = []" "draining w'" using d1 by (simp_all add: sup_view_def)
  moreover have "l_worker_id l \<noteq> Some (workerID (sup_leases s))"
    if "r = Inr ()" "l \<in> set (session_leases (db w'))" for l
  proof -
    have "ReleaseWorkerLeases (workerID (sup_leases s)) w1 = (Inr (), w')"
      using rel that(1) by (simp add: wrapE_Inr ReleaseAll_def)
    then have "session_leases (db w') = update_where (\<lambda>l. l_worker_id l = Some (workerID (sup_leases s)))
        (clear_owner (now w1)) (session_leases (db w1))"
      unfolding ReleaseWorkerLeases_def exec_on_leases_def by (rule run_statement_Inr) (auto dest: sym)
    with that(2) show ?thesis by (auto simp: set_update_where clear_owner_def)
  qed
  ultimately show ?thesis
    by (simp add: Adopt_def HasCapacity_def bindE_getsE throw_def)
qed

text \<open>
  Shutting a worker down leaves it with no session, refusing every further adoption; when the
  final statement went through, no lease names this worker any more, so the sessions are free to
  be adopted elsewhere without waiting for the expiry.
\<close>

theorem shutdown_drains:
  assumes "Shutdown s w = (r, w')"
  shows "sessions w' = [] \<and> (\<forall>i. Adopt s i w' = (Inl ErrDraining, w')) \<and>
    (r = Inr () \<longrightarrow> (\<forall>l \<in> set (session_leases (db w')). l_worker_id l \<noteq> Some (workerID (sup_leases s))))"
  using assms by (rule Shutdown_drained)

theorem shutdown_drains_witness:
  "\<exists>r w'. Shutdown demo_sup demo_lost = (r, w') \<and> sessions w' = [] \<and> Adopt demo_sup 7 w' = (Inl ErrDraining, w')"
proof -
  obtain r w' where run: "Shutdown demo_sup demo_lost = (r, w')" by (cases "Shutdown demo_sup demo_lost")
  from shutdown_drains [OF run] run show ?thesis by blast
qed

end
