(* ===== verification/GrpcServer.thy ===== *)
theory GrpcServer
  imports Supervisor_Facts
begin

text \<open>
  The private endpoint of a worker, \<open>internal/worker/grpcserver.go\<close>: the fence every command
  passes, the nine handlers, and the translation of the supervisor's errors and states into the
  vocabulary of the wire. Protobuf messages are records; an unset message field is \<open>None\<close>.
  Parsing and printing of UUIDs (\<open>google/uuid\<close>) and the text of an error value that is not a
  declared one (it comes from the WhatsApp library or the database driver) are parameters.
\<close>

subsection \<open>The wire\<close>

datatype SessionState =
    SESSION_STATE_UNSPECIFIED | SESSION_STATE_REGISTERED | SESSION_STATE_PAIRING
  | SESSION_STATE_CONNECTING | SESSION_STATE_CONNECTED | SESSION_STATE_DISCONNECTED
  | SESSION_STATE_LOGGED_OUT | SESSION_STATE_BANNED

datatype grpc_code = InvalidArgument | NotFound | Aborted | FailedPrecondition | Internal | Unavailable | OtherGrpcCode

record grpc_status =
  st_Code :: grpc_code
  st_Message :: string

definition status_error :: "grpc_code \<Rightarrow> string \<Rightarrow> grpc_status" where
  "status_error c msg = \<lparr>st_Code = c, st_Message = msg\<rparr>"

record Fence =
  f_InstanceId :: string
  f_Generation :: int

record codec =
  uuid_Parse :: "string \<Rightarrow> ID option"
  uuid_String :: "ID \<Rightarrow> string"
  worker_error_text :: "worker_error \<Rightarrow> string"

definition DetailWrongGeneration :: string where "DetailWrongGeneration = ''WRONG_GENERATION''"
definition DetailNotPaired :: string where "DetailNotPaired = ''NOT_PAIRED''"
definition DetailAlreadyPaired :: string where "DetailAlreadyPaired = ''ALREADY_PAIRED''"
definition DetailInvalidPhone :: string where "DetailInvalidPhone = ''INVALID_PHONE_NUMBER''"
definition DetailPairingRunning :: string where "DetailPairingRunning = ''PAIRING_IN_PROGRESS''"
definition DetailDraining :: string where "DetailDraining = ''DRAINING''"
definition DetailUpstreamFailure :: string where "DetailUpstreamFailure = ''UPSTREAM_FAILURE''"
definition DetailUnknownInstance :: string where "DetailUnknownInstance = ''UNKNOWN_INSTANCE''"
definition DetailNoPasskeyChallenge :: string where "DetailNoPasskeyChallenge = ''NO_PASSKEY_CHALLENGE''"
definition DetailNoPasskeyCode :: string where "DetailNoPasskeyCode = ''NO_PASSKEY_CODE''"
definition DetailNotConnected :: string where "DetailNotConnected = ''INSTANCE_NOT_CONNECTED''"
definition DetailInvalidContact :: string where "DetailInvalidContact = ''INVALID_CONTACT''"
definition DetailIdentityNotResolvable :: string where "DetailIdentityNotResolvable = ''IDENTITY_NOT_RESOLVABLE''"
definition DetailCannotVerifySelf :: string where "DetailCannotVerifySelf = ''CANNOT_VERIFY_SELF''"
definition DetailContactUnavailable :: string where "DetailContactUnavailable = ''CONTACT_UNAVAILABLE''"

lemmas detail_defs = DetailWrongGeneration_def DetailNotPaired_def DetailAlreadyPaired_def
  DetailInvalidPhone_def DetailPairingRunning_def DetailDraining_def DetailUpstreamFailure_def
  DetailUnknownInstance_def DetailNoPasskeyChallenge_def DetailNoPasskeyCode_def DetailNotConnected_def
  DetailInvalidContact_def DetailIdentityNotResolvable_def DetailCannotVerifySelf_def
  DetailContactUnavailable_def

record ConnectResponse =
  cn_State :: SessionState
  cn_PairingStarted :: bool
  cn_PairingExpiresAt :: "gotime option"

record PairPhoneResponse =
  pp_PairingCode :: string
  pp_ExpiresAt :: gotime

record LogoutResponse =
  lg_State :: SessionState
  lg_RemoteRemoved :: bool

record GetStatusResponse =
  gs_State :: SessionState
  gs_Connected :: bool
  gs_LoggedIn :: bool
  gs_Device :: "DeviceIdentity option"
  gs_ConnectedAt :: "gotime option"

record ApplySettingsResponse =
  as_State :: SessionState
  as_Reconnecting :: bool
  as_PassiveApplied :: bool

subsection \<open>Translations\<close>

fun stateToProto :: "InstanceState \<Rightarrow> SessionState" where
  "stateToProto InstanceRegistered = SESSION_STATE_REGISTERED"
| "stateToProto InstancePairing = SESSION_STATE_PAIRING"
| "stateToProto InstanceConnecting = SESSION_STATE_CONNECTING"
| "stateToProto InstanceConnected = SESSION_STATE_CONNECTED"
| "stateToProto InstanceDisconnected = SESSION_STATE_DISCONNECTED"
| "stateToProto InstanceLoggedOut = SESSION_STATE_LOGGED_OUT"
| "stateToProto InstanceBanned = SESSION_STATE_BANNED"
| "stateToProto (OtherState s) = SESSION_STATE_UNSPECIFIED"

fun StateFromProto :: "SessionState \<Rightarrow> InstanceState" where
  "StateFromProto SESSION_STATE_REGISTERED = InstanceRegistered"
| "StateFromProto SESSION_STATE_PAIRING = InstancePairing"
| "StateFromProto SESSION_STATE_CONNECTING = InstanceConnecting"
| "StateFromProto SESSION_STATE_CONNECTED = InstanceConnected"
| "StateFromProto SESSION_STATE_DISCONNECTED = InstanceDisconnected"
| "StateFromProto SESSION_STATE_LOGGED_OUT = InstanceLoggedOut"
| "StateFromProto SESSION_STATE_BANNED = InstanceBanned"
| "StateFromProto SESSION_STATE_UNSPECIFIED = OtherState []"

definition upstream_failure :: "codec \<Rightarrow> worker_error \<Rightarrow> grpc_status" where
  "upstream_failure c err = status_error Unavailable (DetailUpstreamFailure @ '': '' @ worker_error_text c err)"

fun translate :: "codec \<Rightarrow> worker_error \<Rightarrow> grpc_status" where
  "translate c ErrUnknownInstance = status_error FailedPrecondition DetailUnknownInstance"
| "translate c (WorkerWA WaNotPaired) = status_error FailedPrecondition DetailNotPaired"
| "translate c (WorkerWA WaAlreadyPaired) = status_error FailedPrecondition DetailAlreadyPaired"
| "translate c (WorkerWA WaInvalidPhoneNumber) = status_error InvalidArgument DetailInvalidPhone"
| "translate c (WorkerWA WaPairingRunning) = status_error Aborted DetailPairingRunning"
| "translate c ErrDraining = status_error Unavailable DetailDraining"
| "translate c (WorkerWA WaNoPasskeyChallenge) = status_error FailedPrecondition DetailNoPasskeyChallenge"
| "translate c (WorkerWA WaNoPasskeyCode) = status_error FailedPrecondition DetailNoPasskeyCode"
| "translate c (WorkerWA WaNotConnected) = status_error FailedPrecondition DetailNotConnected"
| "translate c (WorkerWA WaInvalidContact) = status_error InvalidArgument DetailInvalidContact"
| "translate c (WorkerWA WaInvalidPasskeyResponse) = status_error InvalidArgument DetailInvalidContact"
| "translate c (WorkerWA WaIdentityNotResolvable) = status_error NotFound DetailIdentityNotResolvable"
| "translate c (WorkerWA WaCannotVerifySelf) = status_error InvalidArgument DetailCannotVerifySelf"
| "translate c (WorkerWA WaContactUnavailable) = status_error NotFound DetailContactUnavailable"
| "translate c err = upstream_failure c err"

subsection \<open>The fence and the handlers\<close>

record 's GRPCServer =
  srv_supervisor :: "'s Supervisor"
  srv_leases :: Manager

definition fence_error :: "lease_error \<Rightarrow> grpc_status" where
  "fence_error err = (case err of
       ErrWrongGeneration \<Rightarrow> status_error FailedPrecondition DetailWrongGeneration
     | ErrNotAcquired \<Rightarrow> status_error FailedPrecondition DetailWrongGeneration
     | LeaseStore e \<Rightarrow> status_error Internal ''fencing check failed'')"

definition fence ::
  "codec \<Rightarrow> 's GRPCServer \<Rightarrow> Fence option \<Rightarrow> (('s, 'z) worker_world_scheme, grpc_status, ID) io" where
  "fence c srv f = (case f of
       None \<Rightarrow> throw (status_error InvalidArgument ''fence is required'')
     | Some f \<Rightarrow> (case uuid_Parse c (f_InstanceId f) of
          None \<Rightarrow> throw (status_error InvalidArgument ''instance_id is not a valid UUID'')
        | Some i \<Rightarrow> bindE (getsE draining) (\<lambda>drain.
            if drain then throw (status_error Unavailable DetailDraining)
            else bindE (wrapE fence_error (CheckGeneration (srv_leases srv) i (f_Generation f))) (\<lambda>_. ret i))))"

text \<open>What all handlers share: the fence, the supervisor's command, its error or its reply.\<close>

definition command ::
  "codec \<Rightarrow> 's GRPCServer \<Rightarrow> Fence option \<Rightarrow> (ID \<Rightarrow> (('s, 'z) worker_world_scheme, worker_error, 'a) io) \<Rightarrow>
   ('a \<Rightarrow> 'b) \<Rightarrow> (('s, 'z) worker_world_scheme, grpc_status, 'b) io" where
  "command c srv f run reply = bindE (fence c srv f) (\<lambda>i.
     bindE (wrapE (translate c) (run i)) (\<lambda>r. ret (reply r)))"

definition set_time :: "gotime \<Rightarrow> gotime option" where
  "set_time t = (if t = zero_time then None else Some t)"

definition srv_Connect ::
  "codec \<Rightarrow> 's GRPCServer \<Rightarrow> Fence option \<Rightarrow> (('s, 'z) worker_world_scheme, grpc_status, ConnectResponse) io" where
  "srv_Connect c srv f = command c srv f (sup_Connect (srv_supervisor srv)) (\<lambda>r.
     \<lparr>cn_State = stateToProto (cr_State r), cn_PairingStarted = cr_PairingStarted r,
      cn_PairingExpiresAt = set_time (cr_PairingExpiresAt r)\<rparr>)"

definition srv_PairPhone ::
  "codec \<Rightarrow> 's GRPCServer \<Rightarrow> Fence option \<Rightarrow> string \<Rightarrow> bool \<Rightarrow> (('s, 'z) worker_world_scheme, grpc_status, PairPhoneResponse) io" where
  "srv_PairPhone c srv f phoneNumber replaceActive =
     command c srv f (\<lambda>i. sup_PairPhone (srv_supervisor srv) i phoneNumber replaceActive)
       (\<lambda>r. \<lparr>pp_PairingCode = fst r, pp_ExpiresAt = snd r\<rparr>)"

definition srv_Disconnect ::
  "codec \<Rightarrow> 's GRPCServer \<Rightarrow> Fence option \<Rightarrow> (('s, 'z) worker_world_scheme, grpc_status, SessionState) io" where
  "srv_Disconnect c srv f = command c srv f (sup_Disconnect (srv_supervisor srv)) stateToProto"

definition srv_Logout ::
  "codec \<Rightarrow> 's GRPCServer \<Rightarrow> Fence option \<Rightarrow> bool \<Rightarrow> (('s, 'z) worker_world_scheme, grpc_status, LogoutResponse) io" where
  "srv_Logout c srv f allowTemporaryConnect =
     command c srv f (\<lambda>i. sup_Logout (srv_supervisor srv) i allowTemporaryConnect)
       (\<lambda>removed. \<lparr>lg_State = SESSION_STATE_REGISTERED, lg_RemoteRemoved = removed\<rparr>)"

text \<open>The wire's device record has no pairing time.\<close>

definition srv_GetStatus ::
  "codec \<Rightarrow> 's GRPCServer \<Rightarrow> Fence option \<Rightarrow> (('s, 'z) worker_world_scheme, grpc_status, GetStatusResponse) io" where
  "srv_GetStatus c srv f = command c srv f (sup_Status (srv_supervisor srv)) (\<lambda>snapshot.
     \<lparr>gs_State = stateToProto (ss_State snapshot), gs_Connected = st_Connected (ss_Status snapshot),
      gs_LoggedIn = st_LoggedIn (ss_Status snapshot),
      gs_Device = map_option (\<lambda>d. d\<lparr>PairedAt := zero_time\<rparr>) (st_Device (ss_Status snapshot)),
      gs_ConnectedAt = set_time (ss_ConnectedAt snapshot)\<rparr>)"

definition srv_ApplySettings ::
  "codec \<Rightarrow> 's GRPCServer \<Rightarrow> Fence option \<Rightarrow> bool \<Rightarrow> bool \<Rightarrow> (('s, 'z) worker_world_scheme, grpc_status, ApplySettingsResponse) io" where
  "srv_ApplySettings c srv f proxyChanged passiveChanged =
     command c srv f (\<lambda>i. ApplySettings (srv_supervisor srv) i proxyChanged passiveChanged)
       (\<lambda>r. \<lparr>as_State = stateToProto (sr_State r), as_Reconnecting = sr_Reconnecting r,
             as_PassiveApplied = sr_PassiveApplied r\<rparr>)"

definition srv_SubmitPasskeyResponse ::
  "codec \<Rightarrow> 's GRPCServer \<Rightarrow> Fence option \<Rightarrow> string \<Rightarrow> (('s, 'z) worker_world_scheme, grpc_status, SessionState) io" where
  "srv_SubmitPasskeyResponse c srv f webauthn =
     command c srv f (\<lambda>i. SubmitPasskeyResponse (srv_supervisor srv) i webauthn) stateToProto"

definition srv_ConfirmPasskey ::
  "codec \<Rightarrow> 's GRPCServer \<Rightarrow> Fence option \<Rightarrow> (('s, 'z) worker_world_scheme, grpc_status, SessionState) io" where
  "srv_ConfirmPasskey c srv f = command c srv f (sup_ConfirmPasskey (srv_supervisor srv)) stateToProto"

definition srv_VerificationCodes ::
  "codec \<Rightarrow> 's GRPCServer \<Rightarrow> Fence option \<Rightarrow> string \<Rightarrow> (('s, 'z) worker_world_scheme, grpc_status, VerificationCodes) io" where
  "srv_VerificationCodes c srv f contact =
     command c srv f (\<lambda>i. IdentityVerificationCodes (srv_supervisor srv) i contact) (\<lambda>codes. codes)"

lemmas srv_defs = srv_Connect_def srv_PairPhone_def srv_Disconnect_def srv_Logout_def srv_GetStatus_def
  srv_ApplySettings_def srv_SubmitPasskeyResponse_def srv_ConfirmPasskey_def srv_VerificationCodes_def

subsection \<open>The fence decides\<close>

text \<open>A refusal: an error, and nothing changed but the sequence of network outcomes.\<close>

definition refused :: "('z world_scheme, 'e, 'a) io \<Rightarrow> 'z world_scheme \<Rightarrow> bool" where
  "refused m w \<longleftrightarrow> (\<exists>e fs. m w = (Inl e, w\<lparr>faults := fs\<rparr>))"

lemma GetLease_frame: "\<exists>fs. snd (GetLease i w) = w\<lparr>faults := fs\<rparr>"
proof -
  let ?q = "select_one (\<lambda>t d. lease_of d i)"
  have same: "w\<lparr>db := snd (?q (now w) (db w)), faults := fs\<rparr> = w\<lparr>faults := fs\<rparr>" for fs
    by (simp add: select_one_def)
  show ?thesis unfolding GetLease_def
    by (rule run_statement_cases [of ?q w]) (auto simp: same)
qed

lemma CheckGeneration_frame: "\<exists>fs. snd (CheckGeneration m i g w) = w\<lparr>faults := fs\<rparr>"
proof -
  obtain fs where fs: "snd (GetLease i w) = w\<lparr>faults := fs\<rparr>" using GetLease_frame by blast
  obtain r w1 where g: "GetLease i w = (r, w1)" by (cases "GetLease i w")
  with fs have "w1 = w\<lparr>faults := fs\<rparr>" by simp
  then show ?thesis
    by (cases r) (auto simp: CheckGeneration_def bindE_def wrapE_def throw_def ret_def g)
qed

lemma fence_refuses:
  assumes "\<forall>i. uuid_Parse c (f_InstanceId f) = Some i \<longrightarrow>
    lease_token w i \<noteq> Some (f_Generation f, Some (workerID (srv_leases srv)))"
  shows "refused (fence c srv (Some f)) w"
proof (cases "uuid_Parse c (f_InstanceId f)")
  case None
  moreover have "w = w\<lparr>faults := faults w\<rparr>" by simp
  ultimately show ?thesis unfolding refused_def fence_def throw_def by (auto intro: exI [of _ "faults w"])
next
  case (Some i)
  obtain r w1 where run: "CheckGeneration (srv_leases srv) i (f_Generation f) w = (r, w1)"
    by (cases "CheckGeneration (srv_leases srv) i (f_Generation f) w")
  with CheckGeneration_Inr [of "srv_leases srv" i "f_Generation f" w w1] assms Some
  obtain e where r: "r = Inl e" by (cases r) auto
  obtain fs where "w1 = w\<lparr>faults := fs\<rparr>" using CheckGeneration_frame [of "srv_leases srv" i "f_Generation f" w] run by auto
  moreover have "w = w\<lparr>faults := faults w\<rparr>" by simp
  ultimately show ?thesis
    unfolding refused_def fence_def using Some run r
    by (cases "draining w") (auto simp: bindE_def getsE_def throw_def wrapE_def intro: exI [of _ "faults w"])
qed

lemma fence_passes:
  assumes "faults w = []" and "\<not> draining w" and "uuid_Parse c (f_InstanceId f) = Some i"
    and "lease_token w i = Some (f_Generation f, Some (workerID (srv_leases srv)))"
  shows "fence c srv (Some f) w = (Inr i, w)"
proof -
  from assms(4) obtain l where "lease_of (db w) i = Some l" "l_generation l = f_Generation f"
    "l_worker_id l = Some (workerID (srv_leases srv))" by (auto simp: lease_token_def)
  then have "CheckGeneration (srv_leases srv) i (f_Generation f) w = (Inr (), w)"
    using assms(1) by (simp add: CheckGeneration_def GetLease_def select_one_def run_statement_ok bindE_def wrapE_def ret_def)
  with assms show ?thesis by (simp add: fence_def bindE_def getsE_def wrapE_def ret_def)
qed

lemma command_refuses: "refused (fence c srv f) w \<Longrightarrow> refused (command c srv f run reply) w"
  by (auto simp: refused_def command_def bindE_def)

lemma command_passes:
  "fence c srv f w = (Inr i, w) \<Longrightarrow>
   command c srv f run reply w = (case run i w of (Inl e, w') \<Rightarrow> (Inl (translate c e), w') | (Inr r, w') \<Rightarrow> (Inr (reply r), w'))"
  by (simp add: command_def bindE_def wrapE_def ret_def split: prod.split sum.split)

text \<open>
  C24. Exclusive ownership at the worker: a command that reaches a process which does not hold the
  lease under the generation the caller names is refused by every handler, whatever calls fail,
  and changes nothing: not the session, not the database, not the published events.
\<close>

theorem stale_command_touches_nothing:
  assumes "\<forall>i. uuid_Parse c (f_InstanceId f) = Some i \<longrightarrow>
    lease_token w i \<noteq> Some (f_Generation f, Some (workerID (srv_leases srv)))"
  shows "refused (srv_Connect c srv (Some f)) w \<and> refused (srv_PairPhone c srv (Some f) phone replace) w \<and>
    refused (srv_Disconnect c srv (Some f)) w \<and> refused (srv_Logout c srv (Some f) allow) w \<and>
    refused (srv_GetStatus c srv (Some f)) w \<and> refused (srv_ApplySettings c srv (Some f) proxy passive) w \<and>
    refused (srv_SubmitPasskeyResponse c srv (Some f) webauthn) w \<and>
    refused (srv_ConfirmPasskey c srv (Some f)) w \<and> refused (srv_VerificationCodes c srv (Some f) contact) w"
  unfolding srv_defs by (intro conjI command_refuses fence_refuses assms)

definition demo_codec :: codec where
  "demo_codec = \<lparr>uuid_Parse = (\<lambda>s. parse_nat s), uuid_String = (\<lambda>i. digits_nat i), worker_error_text = (\<lambda>_. ''failed'')\<rparr>"

definition demo_server :: "FakeSession GRPCServer" where
  "demo_server = \<lparr>srv_supervisor = demo_sup, srv_leases = demo_manager ''w1''\<rparr>"

text \<open>The worker of the demonstration still runs a session whose lease nobody holds any more.\<close>

theorem stale_command_touches_nothing_witness:
  "refused (srv_Disconnect demo_codec demo_server (Some \<lparr>f_InstanceId = ''7'', f_Generation = 1\<rparr>)) demo_lost"
proof -
  have "\<forall>i. uuid_Parse demo_codec (f_InstanceId \<lparr>f_InstanceId = ''7'', f_Generation = 1\<rparr>) = Some i \<longrightarrow>
    lease_token demo_lost i \<noteq> Some (f_Generation \<lparr>f_InstanceId = ''7'', f_Generation = 1\<rparr>, Some (workerID (srv_leases demo_server)))"
    by (auto simp: demo_codec_def lease_token_def lease_of_def demo_lost_def demo_worker_def demo_defs)
  from stale_command_touches_nothing [OF this] show ?thesis by blast
qed

text \<open>
  The wire vocabulary loses no state: exactly the declared states (and the empty one) survive
  the way to the wire and back.
\<close>

lemma state_round_trip: "StateFromProto (stateToProto s) = s \<longleftrightarrow> state_Valid s \<or> s = OtherState []"
  by (cases s) auto

end
