(* ===== verification/SessionClient.thy ===== *)
theory SessionClient
  imports GrpcServer
begin

text \<open>
  \<open>internal/api/sessionclient/client.go\<close>: how the stateless API finds the worker that holds a
  session. The owner comes from a short-lived Redis entry or from the lease; a command that shows
  the owner to be stale is retried once against the lease. The generated gRPC stub is a record of
  functions from an address and a request to an outcome. The second part puts the workers of the
  previous theories behind such a stub, so that a command can be followed from the API into the
  process that executes it.
\<close>

subsection \<open>The client\<close>

definition leaseCacheTTL :: duration where "leaseCacheTTL = 5 * second"

datatype client_error = ErrNoOwner | ResolveOwner lease_error | DialWorker string | GrpcError grpc_status

text \<open>
  The connection pool is the list of addresses that have one; whether \<open>grpc.NewClient\<close> accepts an
  address and whether closing a connection succeeds are parameters.
\<close>

record api_world = bus_world +
  conns :: "string list"

record Client =
  cl_leases :: Manager
  cl_codec :: codec
  cl_dials :: "string \<Rightarrow> bool"
  cl_closes :: "string \<Rightarrow> bool"

definition client_Close :: "Client \<Rightarrow> ('z api_world_scheme, string, unit) io" where
  "client_Close c = (\<lambda>w. ((case find (\<lambda>addr. \<not> cl_closes c addr) (conns w) of
       None \<Rightarrow> Inr () | Some addr \<Rightarrow> Inl addr), w\<lparr>conns := []\<rparr>))"

record owner =
  ow_Addr :: string
  ow_Generation :: int

definition cached_owner :: "ID \<Rightarrow> ('z bus_world_scheme, redis_error, owner) io" where
  "cached_owner i = redis_call (\<lambda>t r. (case live t (owner_keys r i) of
       None \<Rightarrow> Inl RedisNil | Some (a, g) \<Rightarrow> Inr \<lparr>ow_Addr = a, ow_Generation = g\<rparr>, r))"

definition cache_owner :: "ID \<Rightarrow> owner \<Rightarrow> ('z bus_world_scheme, redis_error, unit) io" where
  "cache_owner i ow = redis_call (\<lambda>t r. (Inr (),
     r\<lparr>owner_keys := (owner_keys r)(i := Some ((ow_Addr ow, ow_Generation ow), Some (t + leaseCacheTTL)))\<rparr>))"

definition resolve_error :: "lease_error \<Rightarrow> client_error" where
  "resolve_error err = (if err = ErrNotAcquired then ErrNoOwner else ResolveOwner err)"

definition resolve_lease :: "Client \<Rightarrow> ID \<Rightarrow> ('z api_world_scheme, client_error, owner) io" where
  "resolve_lease c i = bindE (wrapE resolve_error (lease_Owner (cl_leases c) i)) (\<lambda>current.
     if \<not> o_Live current \<or> o_GRPCAddr current = [] then throw ErrNoOwner
     else let resolved = \<lparr>ow_Addr = o_GRPCAddr current, ow_Generation = o_Generation current\<rparr> in
       bindE (ignoreE (cache_owner i resolved)) (\<lambda>_. ret resolved))"

definition resolve :: "Client \<Rightarrow> ID \<Rightarrow> bool \<Rightarrow> ('z api_world_scheme, client_error, owner) io" where
  "resolve c i useCache =
     (if useCache then bindE (attempt (cached_owner i)) (\<lambda>cached. case cached of
          Inr ow \<Rightarrow> if ow_Addr ow \<noteq> [] then ret ow else resolve_lease c i
        | Inl _ \<Rightarrow> resolve_lease c i)
      else resolve_lease c i)"

definition invalidate :: "ID \<Rightarrow> ('z bus_world_scheme, 'e, unit) io" where
  "invalidate i = ignoreE (redis_call (\<lambda>t r. (Inr (), r\<lparr>owner_keys := (owner_keys r)(i := None)\<rparr>)))"

definition conn :: "Client \<Rightarrow> string \<Rightarrow> ('z api_world_scheme, client_error, unit) io" where
  "conn c addr = bindE (getsE conns) (\<lambda>pool. if addr \<in> set pool then ret ()
     else if \<not> cl_dials c addr then throw (DialWorker addr)
     else modifyE (\<lambda>w. w\<lparr>conns := addr # conns w\<rparr>))"

definition shouldRetry :: "grpc_status \<Rightarrow> bool" where
  "shouldRetry err = (case st_Code err of
       Unavailable \<Rightarrow> True
     | FailedPrecondition \<Rightarrow> st_Message err = ''WRONG_GENERATION''
     | _ \<Rightarrow> False)"

text \<open>\<open>for attempt := range 2\<close>: the list holds the attempts still to make.\<close>

fun call_loop ::
  "Client \<Rightarrow> ID \<Rightarrow> (string \<Rightarrow> Fence \<Rightarrow> ('z api_world_scheme, grpc_status, 'a) io) \<Rightarrow> nat list \<Rightarrow>
   ('z api_world_scheme, client_error, 'a) io" where
  "call_loop c i fn [] = throw ErrNoOwner"
| "call_loop c i fn (attempt_no # rest) =
     bindE (resolve c i (attempt_no = 0)) (\<lambda>current.
     bindE (conn c (ow_Addr current)) (\<lambda>_.
     bindE (attempt (fn (ow_Addr current)
        \<lparr>f_InstanceId = uuid_String (cl_codec c) i, f_Generation = ow_Generation current\<rparr>)) (\<lambda>outcome.
     case outcome of
       Inr r \<Rightarrow> ret r
     | Inl err \<Rightarrow>
         if attempt_no = 0 \<and> shouldRetry err then bindE (invalidate i) (\<lambda>_. call_loop c i fn rest)
         else throw (GrpcError err))))"

declare call_loop.simps [simp del]

definition call ::
  "Client \<Rightarrow> ID \<Rightarrow> (string \<Rightarrow> Fence \<Rightarrow> ('z api_world_scheme, grpc_status, 'a) io) \<Rightarrow>
   ('z api_world_scheme, client_error, 'a) io" where
  "call c i fn = call_loop c i fn [0, 1]"

record 'w SessionServiceClient =
  stub_Connect :: "string \<Rightarrow> Fence \<Rightarrow> ('w, grpc_status, ConnectResponse) io"
  stub_PairPhone :: "string \<Rightarrow> Fence \<Rightarrow> string \<Rightarrow> bool \<Rightarrow> ('w, grpc_status, PairPhoneResponse) io"
  stub_Disconnect :: "string \<Rightarrow> Fence \<Rightarrow> ('w, grpc_status, SessionState) io"
  stub_Logout :: "string \<Rightarrow> Fence \<Rightarrow> bool \<Rightarrow> ('w, grpc_status, LogoutResponse) io"
  stub_GetStatus :: "string \<Rightarrow> Fence \<Rightarrow> ('w, grpc_status, GetStatusResponse) io"
  stub_ApplySettings :: "string \<Rightarrow> Fence \<Rightarrow> bool \<Rightarrow> bool \<Rightarrow> ('w, grpc_status, ApplySettingsResponse) io"
  stub_SubmitPasskeyResponse :: "string \<Rightarrow> Fence \<Rightarrow> string \<Rightarrow> ('w, grpc_status, SessionState) io"
  stub_ConfirmPasskey :: "string \<Rightarrow> Fence \<Rightarrow> ('w, grpc_status, SessionState) io"
  stub_VerificationCodes :: "string \<Rightarrow> Fence \<Rightarrow> string \<Rightarrow> ('w, grpc_status, VerificationCodes) io"

type_synonym 'z stub = "'z api_world_scheme SessionServiceClient"

definition client_Connect :: "Client \<Rightarrow> 'z stub \<Rightarrow> ID \<Rightarrow> ('z api_world_scheme, client_error, ConnectResponse) io" where
  "client_Connect c stub i = call c i (stub_Connect stub)"

definition client_PairPhone ::
  "Client \<Rightarrow> 'z stub \<Rightarrow> ID \<Rightarrow> string \<Rightarrow> bool \<Rightarrow> ('z api_world_scheme, client_error, PairPhoneResponse) io" where
  "client_PairPhone c stub i phoneNumber replaceActive =
     call c i (\<lambda>addr f. stub_PairPhone stub addr f phoneNumber replaceActive)"

definition client_Disconnect :: "Client \<Rightarrow> 'z stub \<Rightarrow> ID \<Rightarrow> ('z api_world_scheme, client_error, SessionState) io" where
  "client_Disconnect c stub i = call c i (stub_Disconnect stub)"

definition client_Logout ::
  "Client \<Rightarrow> 'z stub \<Rightarrow> ID \<Rightarrow> bool \<Rightarrow> ('z api_world_scheme, client_error, LogoutResponse) io" where
  "client_Logout c stub i allowTemporaryConnect =
     call c i (\<lambda>addr f. stub_Logout stub addr f allowTemporaryConnect)"

definition client_Status :: "Client \<Rightarrow> 'z stub \<Rightarrow> ID \<Rightarrow> ('z api_world_scheme, client_error, GetStatusResponse) io" where
  "client_Status c stub i = call c i (stub_GetStatus stub)"

definition client_ApplySettings ::
  "Client \<Rightarrow> 'z stub \<Rightarrow> ID \<Rightarrow> bool \<Rightarrow> bool \<Rightarrow> ('z api_world_scheme, client_error, ApplySettingsResponse) io" where
  "client_ApplySettings c stub i proxyChanged passiveChanged =
     call c i (\<lambda>addr f. stub_ApplySettings stub addr f proxyChanged passiveChanged)"

definition client_SubmitPasskeyResponse ::
  "Client \<Rightarrow> 'z stub \<Rightarrow> ID \<Rightarrow> string \<Rightarrow> ('z api_world_scheme, client_error, SessionState) io" where
  "client_SubmitPasskeyResponse c stub i webauthn =
     call c i (\<lambda>addr f. stub_SubmitPasskeyResponse stub addr f webauthn)"

definition client_ConfirmPasskey :: "Client \<Rightarrow> 'z stub \<Rightarrow> ID \<Rightarrow> ('z api_world_scheme, client_error, SessionState) io" where
  "client_ConfirmPasskey c stub i = call c i (stub_ConfirmPasskey stub)"

definition client_VerificationCodes ::
  "Client \<Rightarrow> 'z stub \<Rightarrow> ID \<Rightarrow> string \<Rightarrow> ('z api_world_scheme, client_error, VerificationCodes) io" where
  "client_VerificationCodes c stub i contact =
     call c i (\<lambda>addr f. stub_VerificationCodes stub addr f contact)"

subsection \<open>The workers behind the stub\<close>

text \<open>
  Every worker shares the database, Redis and the clock with the API and has a state of its own.
  A request may be lost on the way, and so may the reply of a command that was executed; either
  way the caller sees \<open>Unavailable\<close>, as it does for an address nobody listens on.
\<close>

record 's worker_local =
  lo_objects :: "'s managedSession list"
  lo_sessions :: "(ID \<times> nat) list"
  lo_draining :: bool
  lo_spawned :: "nat list"

record 's fleet_world = api_world +
  fleet :: "string \<Rightarrow> ('s GRPCServer \<times> 's worker_local) option"

definition enter :: "('s, 'z) fleet_world_scheme \<Rightarrow> 's worker_local \<Rightarrow> 's worker_world" where
  "enter w l = \<lparr>db = db w, now = now w, faults = faults w, redis = redis w, objects = lo_objects l,
     sessions = lo_sessions l, draining = lo_draining l, spawned = lo_spawned l\<rparr>"

definition local_of :: "'s worker_world \<Rightarrow> 's worker_local" where
  "local_of v = \<lparr>lo_objects = objects v, lo_sessions = sessions v, lo_draining = draining v, lo_spawned = spawned v\<rparr>"

definition leave ::
  "string \<Rightarrow> 's GRPCServer \<Rightarrow> 's worker_world \<Rightarrow> ('s, 'z) fleet_world_scheme \<Rightarrow> ('s, 'z) fleet_world_scheme" where
  "leave addr srv v w = w\<lparr>db := db v, faults := faults v, redis := redis v,
     fleet := (fleet w)(addr := Some (srv, local_of v))\<rparr>"

definition unreachable :: grpc_status where
  "unreachable = status_error Unavailable ''connection error''"

definition at_worker ::
  "string \<Rightarrow> ('s GRPCServer \<Rightarrow> ('s worker_world, 'e, 'a) io) \<Rightarrow> (('s, 'z) fleet_world_scheme, 'e, 'a option) io" where
  "at_worker addr m = (\<lambda>w. case fleet w addr of
       None \<Rightarrow> (Inr None, w)
     | Some (srv, l) \<Rightarrow> (case m srv (enter w l) of
           (Inl e, v) \<Rightarrow> (Inl e, leave addr srv v w)
         | (Inr x, v) \<Rightarrow> (Inr (Some x), leave addr srv v w)))"

definition rpc ::
  "string \<Rightarrow> ('s GRPCServer \<Rightarrow> ('s worker_world, grpc_status, 'a) io) \<Rightarrow> (('s, 'z) fleet_world_scheme, grpc_status, 'a) io" where
  "rpc addr m = (\<lambda>w. case next_outcome w of
       (Delivered, w') \<Rightarrow> bindE (at_worker addr m) (\<lambda>r. case r of None \<Rightarrow> throw unreachable | Some x \<Rightarrow> ret x) w'
     | (RequestLost, w') \<Rightarrow> (Inl unreachable, w')
     | (ReplyLost, w') \<Rightarrow> (Inl unreachable, snd (at_worker addr m w')))"

definition fleet_stub :: "codec \<Rightarrow> ('s, 'z) fleet_world_scheme SessionServiceClient" where
  "fleet_stub c = \<lparr>
     stub_Connect = (\<lambda>addr f. rpc addr (\<lambda>srv. srv_Connect c srv (Some f))),
     stub_PairPhone = (\<lambda>addr f phone repl. rpc addr (\<lambda>srv. srv_PairPhone c srv (Some f) phone repl)),
     stub_Disconnect = (\<lambda>addr f. rpc addr (\<lambda>srv. srv_Disconnect c srv (Some f))),
     stub_Logout = (\<lambda>addr f allow. rpc addr (\<lambda>srv. srv_Logout c srv (Some f) allow)),
     stub_GetStatus = (\<lambda>addr f. rpc addr (\<lambda>srv. srv_GetStatus c srv (Some f))),
     stub_ApplySettings = (\<lambda>addr f px pv. rpc addr (\<lambda>srv. srv_ApplySettings c srv (Some f) px pv)),
     stub_SubmitPasskeyResponse = (\<lambda>addr f js. rpc addr (\<lambda>srv. srv_SubmitPasskeyResponse c srv (Some f) js)),
     stub_ConfirmPasskey = (\<lambda>addr f. rpc addr (\<lambda>srv. srv_ConfirmPasskey c srv (Some f))),
     stub_VerificationCodes = (\<lambda>addr f contact. rpc addr (\<lambda>srv. srv_VerificationCodes c srv (Some f) contact))\<rparr>"

subsection \<open>One retry\<close>

lemma more_resolve: "always (same api_world.more) (resolve c i useCache)"
  unfolding resolve_def resolve_lease_def lease_Owner_def GetLeaseOwner_def cached_owner_def cache_owner_def Let_def
  by (intro same.always_intros same_run_statement same_redis_call) simp_all

lemma more_conn: "always (same api_world.more) (conn c addr)"
  unfolding conn_def by (intro same.always_intros always_modifyE) (simp add: same_def)

lemma more_invalidate: "always (same api_world.more) (invalidate i)"
  unfolding invalidate_def by (intro same.always_intros same_redis_call) simp_all

text \<open>
  A cost is counted in the part of the state the client itself does not touch, such as the
  commands a remote worker has executed.
\<close>

definition costs :: "('z \<Rightarrow> nat) \<Rightarrow> nat \<Rightarrow> ('z api_world_scheme, 'e, 'a) io \<Rightarrow> bool" where
  "costs cnt n m \<longleftrightarrow> (\<forall>w. cnt (api_world.more (snd (m w))) \<le> cnt (api_world.more w) + n)"

lemma costs_free: "always (same api_world.more) m \<Longrightarrow> costs cnt 0 m"
  by (simp add: costs_def always_def same_def)

lemma costs_bindE:
  assumes m: "costs cnt a m" and k: "\<And>x. costs cnt b (k x)"
  shows "costs cnt (a + b) (bindE m k)"
  unfolding costs_def
proof
  fix w
  obtain r w1 where mw: "m w = (r, w1)" by (cases "m w")
  with m have m1: "cnt (api_world.more w1) \<le> cnt (api_world.more w) + a" unfolding costs_def by (metis snd_conv)
  show "cnt (api_world.more (snd (bindE m k w))) \<le> cnt (api_world.more w) + (a + b)"
  proof (cases r)
    case (Inl e)
    with mw m1 show ?thesis by (simp add: bindE_def)
  next
    case (Inr x)
    have "cnt (api_world.more (snd (k x w1))) \<le> cnt (api_world.more w1) + b" using k unfolding costs_def by blast
    with m1 Inr mw show ?thesis by (simp add: bindE_def)
  qed
qed

lemma costs_attempt: "costs cnt n m \<Longrightarrow> costs cnt n (attempt m)"
  by (simp add: costs_def attempt_def split_beta)

lemma costs_mono: "costs cnt a m \<Longrightarrow> a \<le> b \<Longrightarrow> costs cnt b m"
  by (auto simp: costs_def intro: order_trans)

lemma costs_ret: "costs cnt 0 (ret x)" "costs cnt 0 (throw e)"
  by (simp_all add: costs_def ret_def throw_def)

lemma costs_call_loop:
  assumes fn: "\<And>addr f. costs cnt 1 (fn addr f)"
  shows "costs cnt (length attempts) (call_loop c i fn attempts)"
proof (induction attempts)
  case Nil
  show ?case by (simp add: costs_ret call_loop.simps)
next
  case (Cons attempt_no rest)
  have "costs cnt (0 + (0 + (1 + length rest))) (call_loop c i fn (attempt_no # rest))"
    unfolding call_loop.simps
  proof (intro costs_bindE costs_free [OF more_resolve] costs_free [OF more_conn] costs_attempt fn)
    fix outcome
    have later: "costs cnt (0 + length rest) (bindE (invalidate i) (\<lambda>_. call_loop c i fn rest))"
      by (intro costs_bindE costs_free [OF more_invalidate] Cons.IH)
    show "costs cnt (length rest) (case outcome of Inr r \<Rightarrow> ret r | Inl err \<Rightarrow>
        if attempt_no = 0 \<and> shouldRetry err then bindE (invalidate i) (\<lambda>_. call_loop c i fn rest)
        else throw (GrpcError err))"
      using later by (cases outcome) (auto intro: costs_mono [OF costs_ret(1)] costs_mono [OF costs_ret(2)])
  qed
  then show ?case by simp
qed

text \<open>
  A command of the API makes two remote calls at most, however ownership moves and whatever
  fails on the way: any quantity that one remote call raises by at most one (the commands a fleet
  has executed, say) is raised by at most two.
\<close>

theorem at_most_one_retry:
  assumes "\<forall>addr f v. cnt (api_world.more (snd (fn addr f v))) \<le> cnt (api_world.more v) + (1 :: nat)"
  shows "cnt (api_world.more (snd (call c i fn w))) \<le> cnt (api_world.more w) + 2"
proof -
  have "costs cnt (length [0, 1 :: nat]) (call_loop c i fn [0, 1])"
    by (rule costs_call_loop) (use assms in \<open>simp add: costs_def\<close>)
  then show ?thesis by (simp add: call_def costs_def)
qed

definition demo_client :: Client where
  "demo_client = \<lparr>cl_leases = demo_manager ''api'', cl_codec = demo_codec, cl_dials = (\<lambda>_. True), cl_closes = (\<lambda>_. True)\<rparr>"

text \<open>A remote that is always unreachable and counts the calls.\<close>

definition counting_remote :: "string \<Rightarrow> Fence \<Rightarrow> (nat api_world_scheme, grpc_status, unit) io" where
  "counting_remote addr f = (\<lambda>w. (Inl unreachable, api_world.more_update Suc w))"

definition demo_api :: api_world where
  "demo_api = \<lparr>db = demo_db\<lparr>session_leases := [acquire_set 100 ''w1'' ''w1:9090'' demo_lease]\<rparr>, now = 100, faults = [],
     redis = demo_redis, conns = []\<rparr>"

theorem at_most_one_retry_witness:
  "api_world.more (snd (call demo_client 7 counting_remote (api_world.extend demo_api (0 :: nat)))) \<le> 2"
proof -
  have "\<forall>addr f v. api_world.more (snd (counting_remote addr f v)) \<le> api_world.more v + 1"
    by (simp add: counting_remote_def)
  from at_most_one_retry [of "\<lambda>n. n" counting_remote, OF this, of demo_client 7 "api_world.extend demo_api 0"]
  show ?thesis by (simp add: api_world.defs)
qed

subsection \<open>A stale owner costs one retry\<close>

definition remembered :: "ID \<Rightarrow> string \<Rightarrow> int \<Rightarrow> 'z bus_world_scheme \<Rightarrow> 'z bus_world_scheme" where
  "remembered i a g w = w\<lparr>redis := (redis w)\<lparr>owner_keys :=
     (owner_keys (redis w))(i := Some ((a, g), Some (now w + leaseCacheTTL)))\<rparr>\<rparr>"

definition pooled :: "string \<Rightarrow> 'z api_world_scheme \<Rightarrow> 'z api_world_scheme" where
  "pooled a w = (if a \<in> set (conns w) then w else w\<lparr>conns := a # conns w\<rparr>)"

lemma pooled_simps [simp]:
  "db (pooled a w) = db w" "now (pooled a w) = now w" "faults (pooled a w) = faults w"
  "redis (pooled a w) = redis w" "fleet (pooled a v) = fleet v"
  by (simp_all add: pooled_def)

lemma conn_ok: "cl_dials c a \<Longrightarrow> conn c a w = (Inr (), pooled a w)"
  by (simp add: conn_def bindE_def getsE_def ret_def modifyE_def pooled_def)

lemma resolve_lease_ok:
  assumes "faults w = []" and "lease_of (db w) i = Some l"
    and "is_live (now w) (Interval (m_expiry (cl_leases c))) l = Some True"
    and "l_grpc_addr l = Some a" and "a \<noteq> []"
  shows "resolve_lease c i w = (Inr \<lparr>ow_Addr = a, ow_Generation = l_generation l\<rparr>, remembered i a (l_generation l) w)"
  using assms
  by (simp add: resolve_lease_def lease_Owner_def GetLeaseOwner_def select_one_def run_statement_ok bindE_def
    wrapE_def ret_def Let_def ignoreE_def cache_owner_def redis_call_ok remembered_def)

lemma resolve_cached:
  assumes "faults w = []" and "live (now w) (owner_keys (redis w) i) = Some (a, g)" and "a \<noteq> []"
  shows "resolve c i True w = (Inr \<lparr>ow_Addr = a, ow_Generation = g\<rparr>, w)"
  using assms by (simp add: resolve_def bindE_def attempt_def cached_owner_def redis_call_ok ret_def)

text \<open>The stale worker refuses, and the API sees a refusal that is worth a retry.\<close>

lemma stale_fence:
  assumes "faults v = []" and "uuid_Parse c (f_InstanceId f) = Some i"
    and "lease_token v i \<noteq> Some (f_Generation f, Some (workerID (srv_leases srv)))"
  shows "\<exists>st. fence c srv (Some f) v = (Inl st, v) \<and> shouldRetry st"
proof (cases "draining v")
  case True
  with assms show ?thesis
    by (simp add: fence_def bindE_def getsE_def throw_def shouldRetry_def status_error_def)
next
  case False
  have "CheckGeneration (srv_leases srv) i (f_Generation f) v = (Inl ErrWrongGeneration, v) \<or>
    CheckGeneration (srv_leases srv) i (f_Generation f) v = (Inl ErrNotAcquired, v)"
    using assms by (auto simp: CheckGeneration_def GetLease_def select_one_def run_statement_ok bindE_def wrapE_def
      throw_def lease_token_def no_rows_as_not_acquired_def IsNoRows_def split: option.splits)
  with False assms(2) show ?thesis
    by (auto simp: fence_def bindE_def getsE_def wrapE_def fence_error_def shouldRetry_def status_error_def
      DetailWrongGeneration_def)
qed

lemma enter_simps [simp]:
  "db (enter w l) = db w" "now (enter w l) = now w" "faults (enter w l) = faults w" "redis (enter w l) = redis w"
  "draining (enter w l) = lo_draining l"
  by (simp_all add: enter_def)

lemma leave_enter: "fleet w a = Some (srv, l) \<Longrightarrow> leave a srv (enter w l) w = w"
  by (simp add: leave_def enter_def local_of_def fun_upd_idem)

lemma stale_rpc:
  assumes "faults w = []" and "uuid_Parse c (f_InstanceId f) = Some i"
    and "\<forall>srv l. fleet w a = Some (srv, l) \<longrightarrow>
      lease_token w i \<noteq> Some (f_Generation f, Some (workerID (srv_leases srv)))"
  shows "\<exists>st. rpc a (\<lambda>srv. command c srv (Some f) (run srv) reply) w = (Inl st, w) \<and> shouldRetry st"
proof (cases "fleet w a")
  case None
  with assms(1) show ?thesis
    by (simp add: rpc_def next_outcome_def at_worker_def bindE_def throw_def unreachable_def shouldRetry_def status_error_def)
next
  case (Some entry)
  then obtain srv l where e: "fleet w a = Some (srv, l)" by (cases entry) auto
  then have "lease_token (enter w l) i \<noteq> Some (f_Generation f, Some (workerID (srv_leases srv)))"
    using assms(3) by (simp add: lease_token_def)
  then obtain st where "fence c srv (Some f) (enter w l) = (Inl st, enter w l)" "shouldRetry st"
    using stale_fence [of "enter w l" c f i srv] assms(1,2) by auto
  then show ?thesis using e assms(1) leave_enter [OF e]
    by (simp add: rpc_def next_outcome_def at_worker_def bindE_def command_def)
qed

lemma call_loop_step:
  assumes "resolve c i (n = 0) w = (Inr ow, w1)" and "conn c (ow_Addr ow) w1 = (Inr (), w2)"
    and "fn (ow_Addr ow) \<lparr>f_InstanceId = uuid_String (cl_codec c) i, f_Generation = ow_Generation ow\<rparr> w2 = (res, w3)"
  shows "call_loop c i fn (n # rest) w = (case res of
      Inr r \<Rightarrow> (Inr r, w3)
    | Inl err \<Rightarrow> if n = 0 \<and> shouldRetry err then bindE (invalidate i) (\<lambda>_. call_loop c i fn rest) w3
               else (Inl (GrpcError err), w3))"
  using assms by (simp add: call_loop.simps bindE_def attempt_def ret_def throw_def split: sum.split)

lemma owner_rpc:
  assumes "faults w = []" and "uuid_Parse c (f_InstanceId f) = Some i" and "fleet w a = Some (srv, l)"
    and "\<not> lo_draining l" and "lease_token w i = Some (f_Generation f, Some (workerID (srv_leases srv)))"
  shows "rpc a (\<lambda>srv. command c srv (Some f) (run srv) reply) w =
    (case run srv i (enter w l) of (Inl e, v) \<Rightarrow> (Inl (translate c e), leave a srv v w)
     | (Inr r, v) \<Rightarrow> (Inr (reply r), leave a srv v w))"
proof -
  have "fence c srv (Some f) (enter w l) = (Inr i, enter w l)"
    using assms by (intro fence_passes) (simp_all add: lease_token_def)
  note cmd = command_passes [OF this, of "run srv" reply]
  obtain res v where rv: "run srv i (enter w l) = (res, v)" by (cases "run srv i (enter w l)")
  show ?thesis using assms(1,3) cmd rv
    by (cases res) (simp_all add: rpc_def next_outcome_def at_worker_def bindE_def throw_def ret_def)
qed

text \<open>
  A failover is invisible to the caller: when the cached owner is stale (it lost the lease, is
  draining or is gone), its session is not touched, and the command is executed once, by the worker
  the lease names, exactly as that worker's supervisor executes it; only the cached owner and the
  connection pool change besides. This holds for every command, since every handler has this shape.
\<close>

lemma failover_is_transparent:
  assumes quiet: "faults w = []" and codec: "uuid_Parse (cl_codec c) (uuid_String (cl_codec c) i) = Some i"
    and cached: "live (now w) (owner_keys (redis w) i) = Some (a0, g0)" "a0 \<noteq> []"
    and stale: "\<forall>srv l. fleet w a0 = Some (srv, l) \<longrightarrow> lease_token w i \<noteq> Some (g0, Some (workerID (srv_leases srv)))"
    and lease: "lease_of (db w) i = Some l" "is_live (now w) (Interval (m_expiry (cl_leases c))) l = Some True"
      "l_grpc_addr l = Some a" "a \<noteq> []"
    and owner: "fleet w a = Some (srv, lo)" "\<not> lo_draining lo" "l_worker_id l = Some (workerID (srv_leases srv))"
    and dial: "cl_dials c a0" "cl_dials c a"
  shows "call c i (\<lambda>addr f. rpc addr (\<lambda>srv. command (cl_codec c) srv (Some f) (run srv) reply)) w =
    (let w1 = pooled a (remembered i a (l_generation l) (pooled a0 w)) in
     case run srv i (enter w1 lo) of
       (Inl e, v) \<Rightarrow> (Inl (GrpcError (translate (cl_codec c) e)), leave a srv v w1)
     | (Inr r, v) \<Rightarrow> (Inr (reply r), leave a srv v w1))"
proof -
  let ?fn = "\<lambda>addr f. rpc addr (\<lambda>srv. command (cl_codec c) srv (Some f) (run srv) reply)"
  let ?f = "\<lambda>g. \<lparr>f_InstanceId = uuid_String (cl_codec c) i, f_Generation = g\<rparr>"
  let ?w0 = "pooled a0 w" and ?w1 = "pooled a (remembered i a (l_generation l) (pooled a0 w))"
  have r0: "resolve c i True w = (Inr \<lparr>ow_Addr = a0, ow_Generation = g0\<rparr>, w)"
    by (rule resolve_cached [OF quiet cached])
  obtain st where st: "?fn a0 (?f g0) ?w0 = (Inl st, ?w0)" "shouldRetry st"
    using stale_rpc [of ?w0 "cl_codec c" "?f g0" i a0 run reply] quiet codec stale by (auto simp: lease_token_def)
  let ?wi = "snd (invalidate i ?w0 :: (client_error + unit) \<times> _)"
  have wi: "?wi = ?w0\<lparr>redis := (redis ?w0)\<lparr>owner_keys := (owner_keys (redis ?w0))(i := None)\<rparr>\<rparr>"
    using quiet by (simp add: invalidate_def ignoreE_def redis_call_ok)
  have inv: "invalidate i ?w0 = (Inr (), ?wi)" by (simp add: invalidate_def ignoreE_def)
  have r1: "resolve c i False ?wi = (Inr \<lparr>ow_Addr = a, ow_Generation = l_generation l\<rparr>, remembered i a (l_generation l) ?w0)"
    using resolve_lease_ok [of ?wi i l c a] quiet lease by (simp add: resolve_def wi remembered_def)
  have "lease_token ?w1 i = Some (l_generation l, Some (workerID (srv_leases srv)))"
    using lease owner by (simp add: lease_token_def remembered_def)
  then have o: "?fn a (?f (l_generation l)) ?w1 = (case run srv i (enter ?w1 lo) of
      (Inl e, v) \<Rightarrow> (Inl (translate (cl_codec c) e), leave a srv v ?w1) | (Inr r, v) \<Rightarrow> (Inr (reply r), leave a srv v ?w1))"
    using quiet codec owner by (intro owner_rpc) (simp_all add: remembered_def)
  obtain res w3 where res: "?fn a (?f (l_generation l)) ?w1 = (res, w3)" by (cases "?fn a (?f (l_generation l)) ?w1")
  have second: "call_loop c i ?fn [1] ?wi = (case res of Inr r \<Rightarrow> (Inr r, w3) | Inl err \<Rightarrow> (Inl (GrpcError err), w3))"
    using call_loop_step [of c i 1 ?wi "\<lparr>ow_Addr = a, ow_Generation = l_generation l\<rparr>" "remembered i a (l_generation l) ?w0"
      ?w1 ?fn res w3 "[]"] r1 res by (simp add: conn_ok [OF dial(2)] split: sum.split)
  have "call c i ?fn w = bindE (invalidate i) (\<lambda>_. call_loop c i ?fn [1]) ?w0"
    using call_loop_step [of c i 0 w "\<lparr>ow_Addr = a0, ow_Generation = g0\<rparr>" w ?w0 ?fn "Inl st" ?w0 "[1]"]
      r0 st by (simp add: conn_ok [OF dial(1)] call_def)
  also have "\<dots> = call_loop c i ?fn [1] ?wi" using bindE_Inr [of "invalidate i" ?w0 "()" ?wi, OF inv] by simp
  finally show ?thesis unfolding second Let_def using o res
    by (cases "run srv i (enter ?w1 lo)") (auto split: sum.splits)
qed

text \<open>Where a command is executed: the owner the lease names, behind the address it names.\<close>

definition owned_at ::
  "Client \<Rightarrow> ID \<Rightarrow> string \<Rightarrow> 's GRPCServer \<Rightarrow> 's worker_local \<Rightarrow> SessionLease \<Rightarrow> ('s, 'z) fleet_world_scheme \<Rightarrow> bool" where
  "owned_at c i a srv lo l w \<longleftrightarrow> lease_of (db w) i = Some l \<and>
     is_live (now w) (Interval (m_expiry (cl_leases c))) l = Some True \<and> l_grpc_addr l = Some a \<and> a \<noteq> [] \<and>
     fleet w a = Some (srv, lo) \<and> \<not> lo_draining lo \<and> l_worker_id l = Some (workerID (srv_leases srv))"

text \<open>No two processes of the fleet go by the name of that owner.\<close>

definition sole_name :: "string \<Rightarrow> 's GRPCServer \<Rightarrow> ('s, 'z) fleet_world_scheme \<Rightarrow> bool" where
  "sole_name a srv w \<longleftrightarrow> (\<forall>b srv' lo'. fleet w b = Some (srv', lo') \<and>
     workerID (srv_leases srv') = workerID (srv_leases srv) \<longrightarrow> b = a)"

text \<open>What the client itself may change on the way: the cached owner and the connection pool.\<close>

definition routed :: "('s, 'z) fleet_world_scheme \<Rightarrow> ('s, 'z) fleet_world_scheme \<Rightarrow> bool" where
  "routed w w1 \<longleftrightarrow> db w1 = db w \<and> now w1 = now w \<and> faults w1 = faults w \<and> fleet w1 = fleet w \<and>
     (\<forall>keys. (redis w1)\<lparr>owner_keys := keys\<rparr> = (redis w)\<lparr>owner_keys := keys\<rparr>)"

lemma routed_refl: "routed w w"
  by (simp add: routed_def)

lemma routed_pooled: "routed w w1 \<Longrightarrow> routed w (pooled a w1)"
  by (simp add: routed_def)

lemma routed_remembered: "routed w w1 \<Longrightarrow> routed w (remembered i a g w1)"
  by (simp add: routed_def remembered_def)

lemma owned_routed: "routed w w1 \<Longrightarrow> owned_at c i a srv lo l w \<Longrightarrow> owned_at c i a srv lo l w1"
  by (simp add: routed_def owned_at_def)

lemma first_attempt:
  fixes w :: "('s, 'z) fleet_world_scheme"
  assumes quiet: "faults w = []" and codec: "uuid_Parse (cl_codec c) (uuid_String (cl_codec c) i) = Some i"
    and own: "owned_at c i a srv lo l w" and dial: "cl_dials c a"
    and res: "resolve c i True w = (Inr \<lparr>ow_Addr = a, ow_Generation = l_generation l\<rparr>, w0)" and w0: "routed w w0"
    and run: "\<And>e v. run srv i (enter (pooled a w0) lo) = (Inl e, v) \<Longrightarrow> \<not> shouldRetry (translate (cl_codec c) e)"
  shows "call c i (\<lambda>addr f. rpc addr (\<lambda>srv. command (cl_codec c) srv (Some f) (run srv) reply)) w =
    (case run srv i (enter (pooled a w0) lo) of
       (Inl e, v) \<Rightarrow> (Inl (GrpcError (translate (cl_codec c) e)), leave a srv v (pooled a w0))
     | (Inr r, v) \<Rightarrow> (Inr (reply r), leave a srv v (pooled a w0)))"
proof -
  let ?fn = "\<lambda>addr f. rpc addr (\<lambda>srv. command (cl_codec c) srv (Some f) (run srv) reply)"
  let ?f = "\<lparr>f_InstanceId = uuid_String (cl_codec c) i, f_Generation = l_generation l\<rparr>" and ?w1 = "pooled a w0"
  have "owned_at c i a srv lo l ?w1" and q: "faults ?w1 = []"
    using owned_routed [OF routed_pooled [OF w0] own] w0 quiet by (auto simp: routed_def)
  then have rpc: "?fn a ?f ?w1 = (case run srv i (enter ?w1 lo) of
      (Inl e, v) \<Rightarrow> (Inl (translate (cl_codec c) e), leave a srv v ?w1) | (Inr r, v) \<Rightarrow> (Inr (reply r), leave a srv v ?w1))"
    using codec by (intro owner_rpc) (auto simp: owned_at_def lease_token_def)
  obtain out w3 where out: "?fn a ?f ?w1 = (out, w3)" by (cases "?fn a ?f ?w1")
  have "call c i ?fn w = (case out of Inr r \<Rightarrow> (Inr r, w3)
      | Inl err \<Rightarrow> if shouldRetry err then bindE (invalidate i) (\<lambda>_. call_loop c i ?fn [1]) w3 else (Inl (GrpcError err), w3))"
    using call_loop_step [of c i 0 w "\<lparr>ow_Addr = a, ow_Generation = l_generation l\<rparr>" w0 ?w1 ?fn out w3 "[1]"] res out
    by (simp add: call_def conn_ok [OF dial] split: sum.split)
  then show ?thesis using rpc out run by (cases "run srv i (enter ?w1 lo)") (auto split: sum.splits)
qed

lemma call_reaches_owner:
  fixes w :: "('s, 'z) fleet_world_scheme"
  assumes quiet: "faults w = []" and codec: "uuid_Parse (cl_codec c) (uuid_String (cl_codec c) i) = Some i"
    and own: "owned_at c i a srv lo l w" and sole: "sole_name a srv w" and dial: "\<forall>b. cl_dials c b"
    and run: "\<And>w1 e v. routed w w1 \<Longrightarrow> run srv i (enter w1 lo) = (Inl e, v) \<Longrightarrow> \<not> shouldRetry (translate (cl_codec c) e)"
  shows "\<exists>w1. routed w w1 \<and>
    call c i (\<lambda>addr f. rpc addr (\<lambda>srv. command (cl_codec c) srv (Some f) (run srv) reply)) w =
      (case run srv i (enter w1 lo) of
         (Inl e, v) \<Rightarrow> (Inl (GrpcError (translate (cl_codec c) e)), leave a srv v w1)
       | (Inr r, v) \<Rightarrow> (Inr (reply r), leave a srv v w1))"
proof -
  let ?cached = "live (now w) (owner_keys (redis w) i)"
  from own have lease: "resolve_lease c i w =
      (Inr \<lparr>ow_Addr = a, ow_Generation = l_generation l\<rparr>, remembered i a (l_generation l) w)"
    using quiet by (intro resolve_lease_ok) (auto simp: owned_at_def)
  have lookup: "cached_owner i w = (case ?cached of None \<Rightarrow> (Inl RedisNil, w)
      | Some (b, g) \<Rightarrow> (Inr \<lparr>ow_Addr = b, ow_Generation = g\<rparr>, w))"
    using quiet by (simp add: cached_owner_def redis_call_ok split: option.split)
  note direct = first_attempt [OF quiet codec own dial [rule_format]]
  have via: ?thesis if "resolve c i True w = (Inr \<lparr>ow_Addr = a, ow_Generation = l_generation l\<rparr>, w0)" "routed w w0" for w0
    using direct [of w0 run reply, OF that] run [OF routed_pooled [OF that(2)]] routed_pooled [OF that(2)] by blast
  have fresh: "resolve c i True w = resolve_lease c i w" if "\<forall>b g. ?cached = Some (b, g) \<longrightarrow> b = []"
    using lookup that by (cases ?cached) (auto simp: resolve_def bindE_def attempt_def ret_def)
  consider (miss) "resolve c i True w = resolve_lease c i w" | (hit) b g where "?cached = Some (b, g)" "b \<noteq> []"
    using fresh by blast
  then show ?thesis
  proof cases
    case miss
    show ?thesis by (rule via [OF _ routed_remembered [OF routed_refl]]) (simp add: miss lease)
  next
    case hit
    show ?thesis
    proof (cases "b = a \<and> g = l_generation l")
      case True
      show ?thesis by (rule via [OF _ routed_refl]) (use True resolve_cached [OF quiet hit] in simp)
    next
      case False
      have "\<forall>srv' lo'. fleet w b = Some (srv', lo') \<longrightarrow> lease_token w i \<noteq> Some (g, Some (workerID (srv_leases srv')))"
        using own sole False by (auto simp: owned_at_def sole_name_def lease_token_def)
      then have "call c i (\<lambda>addr f. rpc addr (\<lambda>srv. command (cl_codec c) srv (Some f) (run srv) reply)) w =
          (let w1 = pooled a (remembered i a (l_generation l) (pooled b w)) in case run srv i (enter w1 lo) of
             (Inl e, v) \<Rightarrow> (Inl (GrpcError (translate (cl_codec c) e)), leave a srv v w1)
           | (Inr r, v) \<Rightarrow> (Inr (reply r), leave a srv v w1))"
        using own dial by (intro failover_is_transparent [OF quiet codec hit]) (auto simp: owned_at_def)
      then show ?thesis unfolding Let_def
        by (intro exI conjI) (rule routed_pooled [OF routed_remembered [OF routed_pooled [OF routed_refl]]])
    qed
  qed
qed


text \<open>Worker \<open>w1\<close> held generation 1 and is still cached; the lease has moved to \<open>w2\<close>.\<close>

definition demo_moved :: SessionLease where
  "demo_moved = demo_lease\<lparr>l_worker_id := Some ''w2'', l_grpc_addr := Some ''w2:9090'', l_generation := 2,
     l_heartbeat_at := Some 100\<rparr>"

definition demo_idle :: "FakeSession worker_local" where
  "demo_idle = \<lparr>lo_objects = [], lo_sessions = [], lo_draining = False, lo_spawned = []\<rparr>"

definition demo_worker_server :: "string \<Rightarrow> FakeSession GRPCServer" where
  "demo_worker_server name = \<lparr>srv_supervisor = demo_sup\<lparr>sup_leases := demo_manager name\<rparr>, srv_leases = demo_manager name\<rparr>"

definition demo_fleet :: "FakeSession fleet_world" where
  "demo_fleet = \<lparr>db = demo_db\<lparr>session_leases := [demo_moved]\<rparr>, now = 100, faults = [],
     redis = demo_redis\<lparr>owner_keys := (\<lambda>_. Some ((''w1:9090'', 1), Some 200))\<rparr>, conns = [],
     fleet = [''w1:9090'' \<mapsto> (demo_worker_server ''w1'', demo_idle), ''w2:9090'' \<mapsto> (demo_worker_server ''w2'', demo_idle)]\<rparr>"


end
