(* ===== verification/Proxy.thy ===== *)
theory Proxy
  imports Errors
begin

text \<open>
  Egress proxies, \<open>internal/domain/proxy.go\<close>: validation, normalisation and the masked form that
  may be shown. The grammar of \<open>net/url\<close> is a parameter: a parser, a printer, and the parts of a
  parsed URL the code looks at.
\<close>

record Userinfo =
  ui_Username :: string
  ui_Password :: "string option"

record URL =
  url_Scheme :: string
  url_User :: "Userinfo option"
  url_Host :: string
  url_Hostname :: string
  url_Rest :: string

record url_lib =
  url_Parse :: "string \<Rightarrow> URL option"
  url_String :: "URL \<Rightarrow> string"

definition MaxProxyURLLength :: nat where "MaxProxyURLLength = 1024"

definition proxySchemes :: "string list" where "proxySchemes = [''http'', ''https'', ''socks5'']"

definition NormalizeProxyURL :: "string \<Rightarrow> string" where
  "NormalizeProxyURL raw = TrimSpace raw"

definition ValidateProxyURL :: "url_lib \<Rightarrow> string \<Rightarrow> string \<Rightarrow> Error option" where
  "ValidateProxyURL lib location raw =
     (let trimmed = NormalizeProxyURL raw in
      if trimmed = [] then Some (ErrValidation location ''must not be empty'')
      else if length trimmed > MaxProxyURLLength then Some (ErrValidation location ''proxy URL is too long'')
      else case url_Parse lib trimmed of
        None \<Rightarrow> Some ErrInvalidProxyURL
      | Some parsed \<Rightarrow>
          (let scheme = ToLower (url_Scheme parsed) in
           if scheme = [] \<or> url_Host parsed = [] then Some ErrInvalidProxyURL
           else if scheme \<notin> set proxySchemes then Some ErrUnsupportedProxyScheme
           else if url_Hostname parsed = [] then Some ErrInvalidProxyURL
           else None))"

text \<open>\<open>strings.Replace(s, old, new, 1)\<close>.\<close>

fun replace_first :: "string \<Rightarrow> string \<Rightarrow> string \<Rightarrow> string" where
  "replace_first old new [] = (if old = [] then new else [])"
| "replace_first old new (x # xs) =
     (if HasPrefix (x # xs) old then new @ drop (length old) (x # xs) else x # replace_first old new xs)"

definition mask_user :: "URL \<Rightarrow> URL" where
  "mask_user u = (case url_User u of None \<Rightarrow> u
     | Some info \<Rightarrow> (case ui_Password info of None \<Rightarrow> u
         | Some _ \<Rightarrow> u\<lparr>url_User := Some \<lparr>ui_Username = ui_Username info, ui_Password = Some ''***''\<rparr>\<rparr>))"

definition MaskProxyURL :: "url_lib \<Rightarrow> string \<Rightarrow> string" where
  "MaskProxyURL lib raw =
     (let trimmed = NormalizeProxyURL raw in
      if trimmed = [] then []
      else case url_Parse lib trimmed of
        None \<Rightarrow> ''***''
      | Some parsed \<Rightarrow> if url_Host parsed = [] then ''***''
          else replace_first ''%2A%2A%2A'' ''***'' (url_String lib (mask_user parsed)))"

subsection \<open>Facts\<close>

text \<open>Two proxies that differ at most in the password they carry.\<close>

definition same_but_password :: "URL \<Rightarrow> URL \<Rightarrow> bool" where
  "same_but_password u v \<longleftrightarrow> (\<exists>name p q.
     url_User u = Some \<lparr>ui_Username = name, ui_Password = Some p\<rparr> \<and>
     v = u\<lparr>url_User := Some \<lparr>ui_Username = name, ui_Password = Some q\<rparr>\<rparr>)"

lemma mask_same_but_password: "same_but_password u v \<Longrightarrow> mask_user u = mask_user v \<and> url_Host u = url_Host v"
  by (auto simp: same_but_password_def mask_user_def)

text \<open>
  The form of a proxy that leaves the domain says nothing about its password: two accepted
  proxy URLs that differ only in the password have the same masked form, and one that does not
  parse is replaced by a fixed placeholder.
\<close>

theorem masked_proxy_hides_password:
  assumes "url_Parse lib (NormalizeProxyURL a) = Some u" and "url_Parse lib (NormalizeProxyURL b) = Some v"
    and "same_but_password u v" and "ValidateProxyURL lib loc a = None" and "ValidateProxyURL lib loc b = None"
  shows "MaskProxyURL lib a = MaskProxyURL lib b \<and>
    (\<forall>raw. NormalizeProxyURL raw \<noteq> [] \<and> url_Parse lib (NormalizeProxyURL raw) = None \<longrightarrow> MaskProxyURL lib raw = ''***'')"
  using assms mask_same_but_password [OF assms(3)]
  by (auto simp: MaskProxyURL_def ValidateProxyURL_def Let_def split: if_splits)

definition demo_url :: "string \<Rightarrow> URL" where
  "demo_url p = \<lparr>url_Scheme = ''http'', url_User = Some \<lparr>ui_Username = ''u'', ui_Password = Some p\<rparr>,
     url_Host = ''h:1'', url_Hostname = ''h'', url_Rest = []\<rparr>"

definition demo_urls :: url_lib where
  "demo_urls = \<lparr>url_Parse = (\<lambda>s. if s = ''http://u:a@h:1'' then Some (demo_url ''a'')
      else if s = ''http://u:b@h:1'' then Some (demo_url ''b'') else None),
     url_String = (\<lambda>u. url_Scheme u @ ''://'' @ (case url_User u of None \<Rightarrow> [] | Some i \<Rightarrow>
       ui_Username i @ (case ui_Password i of None \<Rightarrow> [] | Some p \<Rightarrow> '':'' @ p) @ ''@'') @ url_Host u @ url_Rest u)\<rparr>"

theorem masked_proxy_hides_password_witness:
  "MaskProxyURL demo_urls ''http://u:a@h:1'' = MaskProxyURL demo_urls ''http://u:b@h:1'' \<and>
   ValidateProxyURL demo_urls ''body.url'' ''http://u:a@h:1'' = None"
proof -
  have n: "NormalizeProxyURL ''http://u:a@h:1'' = ''http://u:a@h:1''" "NormalizeProxyURL ''http://u:b@h:1'' = ''http://u:b@h:1''"
    by (simp_all add: NormalizeProxyURL_def TrimSpace_def is_space_def)
  have p: "url_Parse demo_urls ''http://u:a@h:1'' = Some (demo_url ''a'')" "url_Parse demo_urls ''http://u:b@h:1'' = Some (demo_url ''b'')"
    by (simp_all add: demo_urls_def)
  have s: "same_but_password (demo_url ''a'') (demo_url ''b'')" by (simp add: same_but_password_def demo_url_def)
  have v: "ValidateProxyURL demo_urls ''body.url'' ''http://u:a@h:1'' = None" "ValidateProxyURL demo_urls ''body.url'' ''http://u:b@h:1'' = None"
    by (simp_all add: ValidateProxyURL_def n p Let_def MaxProxyURLLength_def demo_url_def proxySchemes_def ToLower_def lower_char_def)
  from masked_proxy_hides_password [of demo_urls "''http://u:a@h:1''" "demo_url ''a''" "''http://u:b@h:1''" "demo_url ''b''" "''body.url''"]
  show ?thesis using n p s v by simp
qed

end
