(* ===== verification/Base64.thy ===== *)
theory Base64
  imports Domain_Accounts
begin

text \<open>
  The unpadded encodings of \<open>encoding/base64\<close> the program uses: \<open>RawURLEncoding\<close> (trail cursors,
  temporary passwords) and \<open>RawStdEncoding\<close> (salts and keys of password hashes). The decoder is written
  out with its leniency: line breaks are skipped, and the unused low bits of the last digit are not
  looked at. The locale states what an alphabet has to be for decoding to undo encoding.
\<close>

definition RawURLEncoding :: string where
  "RawURLEncoding = ''ABCDEFGHIJKLMNOPQRSTUVWXYZabcdefghijklmnopqrstuvwxyz0123456789-_''"

definition RawStdEncoding :: string where
  "RawStdEncoding = ''ABCDEFGHIJKLMNOPQRSTUVWXYZabcdefghijklmnopqrstuvwxyz0123456789+/''"

definition b64_digit :: "string \<Rightarrow> char \<Rightarrow> nat option" where
  "b64_digit alphabet c = (let i = index_of c alphabet in if i < length alphabet then Some i else None)"

fun b64_pack :: "nat list \<Rightarrow> nat list" where
  "b64_pack [] = []"
| "b64_pack [a] = [a div 4, a mod 4 * 16]"
| "b64_pack [a, b] = [a div 4, a mod 4 * 16 + b div 16, b mod 16 * 4]"
| "b64_pack (a # b # c # rest) =
     [a div 4, a mod 4 * 16 + b div 16, b mod 16 * 4 + c div 64, c mod 64] @ b64_pack rest"

fun b64_unpack :: "nat list \<Rightarrow> nat list option" where
  "b64_unpack [] = Some []"
| "b64_unpack [a] = None"
| "b64_unpack [a, b] = Some [a * 4 + b div 16]"
| "b64_unpack [a, b, c] = Some [a * 4 + b div 16, b mod 16 * 16 + c div 4]"
| "b64_unpack (a # b # c # d # rest) =
     map_option (\<lambda>bytes. [a * 4 + b div 16, b mod 16 * 16 + c div 4, c mod 4 * 64 + d] @ bytes) (b64_unpack rest)"

definition EncodeToString :: "string \<Rightarrow> string \<Rightarrow> string" where
  "EncodeToString alphabet src = map (\<lambda>n. alphabet ! n) (b64_pack (map of_char src))"

definition DecodeString :: "string \<Rightarrow> string \<Rightarrow> string option" where
  "DecodeString alphabet s =
     (let digits = map (b64_digit alphabet) (filter (\<lambda>c. c \<noteq> char_of (10 :: nat) \<and> c \<noteq> char_of (13 :: nat)) s) in
      if None \<in> set digits then None
      else map_option (map char_of) (b64_unpack (map the digits)))"

subsection \<open>Bytes and digits\<close>

lemma digit_bounds:
  fixes a :: nat
  assumes "a < 256"
  shows "a div 4 < 64" "a div 16 < 16" "a div 64 < 4" "a mod 4 < 4" "a mod 16 < 16" "a mod 64 < 64"
  using assms by (simp_all add: div_less_iff_less_mult)

lemma div_mod_digit:
  fixes q x n :: nat
  assumes "q < n"
  shows "(x * n + q) div n = x" "(x * n + q) mod n = q"
  using assms by simp_all

lemma b64_sextets:
  fixes a b c :: nat
  assumes "a < 256" and "b < 256" and "c < 256"
  shows "a div 4 < 64" "a mod 4 * 16 < 64" "a mod 4 * 16 + b div 16 < 64" "b mod 16 * 4 < 64"
    "b mod 16 * 4 + c div 64 < 64" "c mod 64 < 64"
  using digit_bounds [OF assms(1)] digit_bounds [OF assms(2)] digit_bounds [OF assms(3)] by linarith+

lemma b64_octets:
  fixes a b c :: nat
  assumes "a < 256" and "b < 256" and "c < 256"
  shows "a div 4 * 4 + (a mod 4 * 16) div 16 = a" "a div 4 * 4 + (a mod 4 * 16 + b div 16) div 16 = a"
    "(a mod 4 * 16 + b div 16) mod 16 * 16 + b mod 16 * 4 div 4 = b"
    "(a mod 4 * 16 + b div 16) mod 16 * 16 + (b mod 16 * 4 + c div 64) div 4 = b"
    "(b mod 16 * 4 + c div 64) mod 4 * 64 + c mod 64 = c"
  by (simp_all only: div_mod_digit [OF digit_bounds(2) [OF assms(2)]] div_mod_digit [OF digit_bounds(3) [OF assms(3)]]
    div_mult_mod_eq div_mult_self_is_m [of 16] div_mult_self_is_m [of 4] zero_less_numeral)

lemma b64_pack_range: "\<forall>x \<in> set bytes. x < 256 \<Longrightarrow> x \<in> set (b64_pack bytes) \<Longrightarrow> x < 64"
proof (induction bytes rule: b64_pack.induct)
  case (2 a)
  then show ?case using b64_sextets [of a a a] by auto
next
  case (3 a b)
  then show ?case using b64_sextets [of a b b] by auto
next
  case (4 a b c rest)
  then show ?case using b64_sextets [of a b c] by auto
qed simp

lemma b64_unpack_pack: "\<forall>x \<in> set bytes. x < 256 \<Longrightarrow> b64_unpack (b64_pack bytes) = Some bytes"
proof (induction bytes rule: b64_pack.induct)
  case (2 a)
  then have "a < 256" by simp
  then show ?case using b64_octets(1) [of a a a] by (simp only: b64_pack.simps b64_unpack.simps)
next
  case (3 a b)
  then have "a < 256" "b < 256" by simp_all
  then show ?case using b64_octets [of a b b] by (simp only: b64_pack.simps b64_unpack.simps)
next
  case (4 a b c rest)
  then have lt: "a < 256" "b < 256" "c < 256" and ih: "b64_unpack (b64_pack rest) = Some rest" by simp_all
  show ?case using b64_octets [OF lt]
    by (simp only: b64_pack.simps append_Cons append_Nil b64_unpack.simps ih option.map)
qed simp

lemma b64_pack_length: "length (b64_pack bytes) = (4 * length bytes + 2) div 3"
  by (induction bytes rule: b64_pack.induct) auto

subsection \<open>Alphabets\<close>

locale b64_encoding =
  fixes alphabet :: string
  assumes alphabet_length: "length alphabet = 64"
    and alphabet_distinct: "distinct alphabet"
    and alphabet_no_breaks: "char_of (10 :: nat) \<notin> set alphabet" "char_of (13 :: nat) \<notin> set alphabet"
begin

lemma digit_char: "n < 64 \<Longrightarrow> b64_digit alphabet (alphabet ! n) = Some n"
  by (simp add: b64_digit_def index_of_nth alphabet_distinct alphabet_length)

lemma char_printable: "n < 64 \<Longrightarrow> alphabet ! n \<noteq> char_of (10 :: nat) \<and> alphabet ! n \<noteq> char_of (13 :: nat)"
  using alphabet_no_breaks alphabet_length by (metis nth_mem)

lemma EncodeToString_digits: "set (EncodeToString alphabet src) \<subseteq> set alphabet"
proof -
  have "\<forall>x \<in> set (map of_char src :: nat list). x < 256" by (auto simp: nat_of_char_less_256)
  from b64_pack_range [OF this] show ?thesis
    by (auto simp: EncodeToString_def alphabet_length)
qed

lemma DecodeString_EncodeToString: "DecodeString alphabet (EncodeToString alphabet src) = Some src"
proof -
  let ?bytes = "map of_char src :: nat list"
  have bytes: "\<forall>x \<in> set ?bytes. x < 256" by (auto simp: nat_of_char_less_256)
  note range = b64_pack_range [OF bytes]
  have "filter (\<lambda>c. c \<noteq> char_of (10 :: nat) \<and> c \<noteq> char_of (13 :: nat)) (EncodeToString alphabet src) =
      EncodeToString alphabet src"
    unfolding EncodeToString_def by (rule filter_True) (auto dest: range char_printable)
  moreover have "map (b64_digit alphabet) (EncodeToString alphabet src) = map Some (b64_pack ?bytes)"
    unfolding EncodeToString_def by (auto dest: range intro: digit_char)
  ultimately show ?thesis
    by (simp add: DecodeString_def b64_unpack_pack [OF bytes] comp_def)
qed

end

interpretation raw_url: b64_encoding RawURLEncoding
  by unfold_locales (simp add: RawURLEncoding_def, code_simp, code_simp, code_simp)

interpretation raw_std: b64_encoding RawStdEncoding
  by unfold_locales (simp add: RawStdEncoding_def, code_simp, code_simp, code_simp)

end
