(* ===== verification/Cursor.thy ===== *)
theory Cursor
  imports Base64
begin

text \<open>
  The opaque cursor of the connection trail (\<open>encodeCursor\<close> and \<open>DecodeCursor\<close> of
  \<open>internal/domain/services/connection.go\<close>): a decimal number in \<open>base64.RawURLEncoding\<close>.
\<close>

subsection \<open>The cursor\<close>

definition encodeCursor :: "int \<Rightarrow> string" where
  "encodeCursor i = EncodeToString RawURLEncoding (FormatInt i)"

definition DecodeCursor :: "string \<Rightarrow> Error + int" where
  "DecodeCursor raw = (case DecodeString RawURLEncoding raw of
       None \<Rightarrow> Inl (ErrValidation ''query.before'' ''cursor is not valid'')
     | Some decoded \<Rightarrow> (case ParseInt64 decoded of
          None \<Rightarrow> Inl (ErrValidation ''query.before'' ''cursor is not valid'')
        | Some i \<Rightarrow> Inr i))"

text \<open>
  A cursor handed out by the trail is read back as the row it names, for every identifier a
  BIGINT can hold.
\<close>

lemma cursor_round_trip:
  assumes "- (2 ^ 63) \<le> i" and "i < 2 ^ 63"
  shows "DecodeCursor (encodeCursor i) = Inr i"
  using assms by (simp add: DecodeCursor_def encodeCursor_def raw_url.DecodeString_EncodeToString ParseInt64_FormatInt)

end
