(* ===== verification/Connection.thy ===== *)
theory Connection
  imports SessionClient Proxy Cursor
begin

text \<open>
  The API side of a session, \<open>internal/domain/services/connection.go\<close>: commands record the
  caller's intent in the database, then reach the owning worker through the session client or wake
  the fleet and wait for an owner. Parameters: the gRPC stub, the URL library, the text of an
  internal cause (it is only logged), and \<open>elapse\<close>, what the rest of the deployment does while
  a command sleeps (with whether the request was cancelled meanwhile). Instants that are formatted
  into a response are instants of second precision.
\<close>

datatype internal_cause =
    CauseLease lease_error | CauseStore db_error | CauseRedis redis_error | CauseClient client_error

record ConnectionService =
  cs_leases :: Manager
  cs_sessions :: Client
  cs_claimWait :: duration
  cs_urls :: url_lib
  cs_cause :: "internal_cause \<Rightarrow> string"

type_synonym 'w sleep = "'w \<Rightarrow> bool \<times> 'w"

definition internal :: "ConnectionService \<Rightarrow> internal_cause \<Rightarrow> Error" where
  "internal s why = ErrInternal (cs_cause s why)"

subsection \<open>What comes back from a worker\<close>

definition translateSessionError :: "ConnectionService \<Rightarrow> client_error \<Rightarrow> Error" where
  "translateSessionError s err = (case err of
       ErrNoOwner \<Rightarrow> ErrSessionUnavailable
     | GrpcError st \<Rightarrow>
        (let msg = st_Message st in
         if HasPrefix msg ''UPSTREAM_FAILURE'' then ErrWhatsAppUnavailable
         else if msg = ''UNKNOWN_INSTANCE'' then ErrSessionNotRunning
         else if msg = ''NOT_PAIRED'' then ErrInstanceNotPaired
         else if msg = ''ALREADY_PAIRED'' then ErrAlreadyPaired
         else if msg = ''INVALID_PHONE_NUMBER'' then ErrInvalidPhoneNumber
         else if msg = ''PAIRING_IN_PROGRESS'' then ErrPairingInProgress
         else if msg = ''NO_PASSKEY_CHALLENGE'' then ErrNoPasskeyChallenge
         else if msg = ''NO_PASSKEY_CODE'' then ErrNoPasskeyCode
         else if msg = ''INSTANCE_NOT_CONNECTED'' then ErrInstanceNotConnected
         else if msg = ''INVALID_CONTACT'' then ErrInvalidContact
         else if msg = ''IDENTITY_NOT_RESOLVABLE'' then ErrIdentityNotResolvable
         else if msg = ''CANNOT_VERIFY_SELF'' then ErrCannotVerifySelf
         else if msg = ''CONTACT_UNAVAILABLE'' then ErrContactUnavailable
         else if st_Code st = Unavailable \<or> st_Code st = FailedPrecondition then ErrSessionUnavailable
         else internal s (CauseClient err))
     | _ \<Rightarrow> internal s (CauseClient err))"

fun stateFromProto :: "SessionState \<Rightarrow> InstanceState" where
  "stateFromProto SESSION_STATE_REGISTERED = InstanceRegistered"
| "stateFromProto SESSION_STATE_PAIRING = InstancePairing"
| "stateFromProto SESSION_STATE_CONNECTING = InstanceConnecting"
| "stateFromProto SESSION_STATE_CONNECTED = InstanceConnected"
| "stateFromProto SESSION_STATE_DISCONNECTED = InstanceDisconnected"
| "stateFromProto SESSION_STATE_LOGGED_OUT = InstanceLoggedOut"
| "stateFromProto SESSION_STATE_BANNED = InstanceBanned"
| "stateFromProto SESSION_STATE_UNSPECIFIED = InstanceConnecting"

subsection \<open>Waiting for an owner\<close>

definition claimPoll :: duration where "claimPoll = 100000000"

text \<open>
  The polling loop both commands share. \<open>clock\<close> is the monotonic reading Go's \<open>time.Now\<close> carries:
  it never runs backwards, and a timer of 100 ms moves it by at least that much.
\<close>

function claim_loop ::
  "ConnectionService \<Rightarrow> 'z world_scheme sleep \<Rightarrow> ('z world_scheme, client_error, 'a) io \<Rightarrow>
   gotime \<Rightarrow> gotime \<Rightarrow> ('z world_scheme, Error, 'a) io" where
  "claim_loop s elapse cmd deadline clock w = (case cmd w of
       (Inr r, w1) \<Rightarrow> (Inr r, w1)
     | (Inl err, w1) \<Rightarrow>
         if err \<noteq> ErrNoOwner then (Inl (translateSessionError s err), w1)
         else if deadline < max clock (now w1) then (Inl ErrSessionUnavailable, w1)
         else if fst (elapse w1) then (Inl ErrSessionUnavailable, snd (elapse w1))
         else claim_loop s elapse cmd deadline
           (max (max clock (now w1) + claimPoll) (now (snd (elapse w1)))) (snd (elapse w1)))"
  by pat_completeness auto

termination claim_loop
proof (relation "measure (\<lambda>(s, elapse, cmd, deadline, clock, w). nat (deadline + 1 - clock))", goal_cases)
  case 1
  then show ?case by simp
next
  case (2 s elapse cmd deadline clock w x y z)
  then show ?case by (simp add: claimPoll_def max_def split: if_splits)
qed

declare claim_loop.simps [simp del]

definition claimAndRetry ::
  "ConnectionService \<Rightarrow> 'z api_world_scheme sleep \<Rightarrow> ID \<Rightarrow> ('z api_world_scheme, client_error, 'a) io \<Rightarrow>
   ('z api_world_scheme, Error, 'a) io" where
  "claimAndRetry s elapse i cmd = bindE (wrapE (\<lambda>e. internal s (CauseRedis e)) (Claim i)) (\<lambda>_.
     bindE (getsE now) (\<lambda>t. claim_loop s elapse cmd (t + cs_claimWait s) t))"

definition claimAndRetryConnect ::
  "ConnectionService \<Rightarrow> 'z stub \<Rightarrow> 'z api_world_scheme sleep \<Rightarrow> ID \<Rightarrow> ('z api_world_scheme, Error, ConnectResponse) io" where
  "claimAndRetryConnect s stub elapse i = claimAndRetry s elapse i (client_Connect (cs_sessions s) stub i)"

definition claimAndRetryPairPhone ::
  "ConnectionService \<Rightarrow> 'z stub \<Rightarrow> 'z api_world_scheme sleep \<Rightarrow> ID \<Rightarrow> string \<Rightarrow> bool \<Rightarrow>
   ('z api_world_scheme, Error, PairPhoneResponse) io" where
  "claimAndRetryPairPhone s stub elapse i phoneNumber replaceActive =
     claimAndRetry s elapse i (client_PairPhone (cs_sessions s) stub i phoneNumber replaceActive)"

subsection \<open>Commands\<close>

definition setStateDirect :: "ConnectionService \<Rightarrow> ID \<Rightarrow> InstanceState \<Rightarrow> ('z world_scheme, Error, unit) io" where
  "setStateDirect s i state = wrapE (\<lambda>e. internal s (CauseStore e)) (SetConnectionState i state)"

text \<open>Ensure the lease, record the intent, set the desired state: how every command starts.\<close>

definition record_intent ::
  "ConnectionService \<Rightarrow> ID \<Rightarrow> ConnectionIntent \<Rightarrow> bool \<Rightarrow> Desired \<Rightarrow> ('z world_scheme, Error, unit) io" where
  "record_intent s i intent clearReason desired =
     bindE (wrapE (\<lambda>e. internal s (CauseLease e)) (Ensure (cs_leases s) i)) (\<lambda>_.
     bindE (wrapE (\<lambda>e. internal s (CauseStore e)) (SetConnectionIntent i intent clearReason)) (\<lambda>_.
     wrapE (\<lambda>e. internal s (CauseLease e)) (SetDesired (cs_leases s) i desired)))"

text \<open>The command, then the answer to a missing owner, then the translation of other failures.\<close>

definition deliver ::
  "ConnectionService \<Rightarrow> ('z api_world_scheme, client_error, 'a) io \<Rightarrow> ('z api_world_scheme, Error, 'a) io \<Rightarrow>
   ('z api_world_scheme, Error, 'a) io" where
  "deliver s cmd no_owner = catchE cmd (\<lambda>err.
     if err = ErrNoOwner then no_owner else throw (translateSessionError s err))"

record ConnectAnswer =
  ca_State :: InstanceState
  ca_Intent :: ConnectionIntent
  ca_PairingStarted :: bool
  ca_PairingExpires :: "gotime option"

definition svc_Connect ::
  "ConnectionService \<Rightarrow> 'z stub \<Rightarrow> 'z api_world_scheme sleep \<Rightarrow> ID \<Rightarrow> ('z api_world_scheme, Error, ConnectAnswer) io" where
  "svc_Connect s stub elapse i =
     bindE (record_intent s i IntentActive True DesiredRunning) (\<lambda>_.
     bindE (deliver s (client_Connect (cs_sessions s) stub i) (claimAndRetryConnect s stub elapse i)) (\<lambda>resp.
     ret \<lparr>ca_State = stateFromProto (cn_State resp), ca_Intent = IntentActive,
          ca_PairingStarted = cn_PairingStarted resp,
          ca_PairingExpires = map_option truncate_second (cn_PairingExpiresAt resp)\<rparr>))"

definition svc_Disconnect ::
  "ConnectionService \<Rightarrow> 'z stub \<Rightarrow> ID \<Rightarrow> ('z api_world_scheme, Error, InstanceState) io" where
  "svc_Disconnect s stub i =
     bindE (record_intent s i IntentStopped False DesiredStopped) (\<lambda>_.
     deliver s (bindE (client_Disconnect (cs_sessions s) stub i) (\<lambda>_. ret InstanceDisconnected))
       (bindE (setStateDirect s i InstanceDisconnected) (\<lambda>_. ret InstanceDisconnected)))"

definition svc_PairPhone ::
  "ConnectionService \<Rightarrow> 'z stub \<Rightarrow> 'z api_world_scheme sleep \<Rightarrow> ID \<Rightarrow> string \<Rightarrow> bool \<Rightarrow>
   ('z api_world_scheme, Error, string \<times> gotime) io" where
  "svc_PairPhone s stub elapse i phoneNumber replaceActive =
     bindE (record_intent s i IntentActive True DesiredRunning) (\<lambda>_.
     bindE (deliver s (client_PairPhone (cs_sessions s) stub i phoneNumber replaceActive)
       (claimAndRetryPairPhone s stub elapse i phoneNumber replaceActive)) (\<lambda>resp.
     ret (pp_PairingCode resp, truncate_second (pp_ExpiresAt resp))))"

definition not_found_or_internal :: "ConnectionService \<Rightarrow> db_error \<Rightarrow> Error" where
  "not_found_or_internal s e = (if IsNoRows e then ErrNotFound else internal s (CauseStore e))"

definition svc_Logout ::
  "ConnectionService \<Rightarrow> 'z stub \<Rightarrow> ID \<Rightarrow> ('z api_world_scheme, Error, InstanceState \<times> bool) io" where
  "svc_Logout s stub i =
     bindE (wrapE (not_found_or_internal s) (GetInstanceConnectionByID i)) (\<lambda>instance.
     if r_wa_jid instance = None then ret (InstanceRegistered, False)
     else bindE (wrapE (\<lambda>e. internal s (CauseStore e)) (SetConnectionIntent i IntentStopped False)) (\<lambda>_.
       deliver s
         (bindE (client_Logout (cs_sessions s) stub i True) (\<lambda>resp.
          bindE (ignoreE (SetDesired (cs_leases s) i DesiredStopped)) (\<lambda>_.
          ret (InstanceRegistered, lg_RemoteRemoved resp))))
         (bindE (wrapE (\<lambda>e. internal s (CauseStore e)) (ClearDeviceIdentity i)) (\<lambda>_.
          bindE (ignoreE (SetDesired (cs_leases s) i DesiredStopped)) (\<lambda>_.
          ret (InstanceRegistered, False))))))"

definition svc_SubmitPasskeyResponse ::
  "ConnectionService \<Rightarrow> 'z stub \<Rightarrow> ID \<Rightarrow> string \<Rightarrow> ('z api_world_scheme, Error, unit) io" where
  "svc_SubmitPasskeyResponse s stub i webauthn = wrapE (translateSessionError s)
     (bindE (client_SubmitPasskeyResponse (cs_sessions s) stub i webauthn) (\<lambda>_. ret ()))"

definition svc_ConfirmPasskey :: "ConnectionService \<Rightarrow> 'z stub \<Rightarrow> ID \<Rightarrow> ('z api_world_scheme, Error, unit) io" where
  "svc_ConfirmPasskey s stub i = wrapE (translateSessionError s)
     (bindE (client_ConfirmPasskey (cs_sessions s) stub i) (\<lambda>_. ret ()))"

definition svc_VerificationCodes ::
  "ConnectionService \<Rightarrow> 'z stub \<Rightarrow> ID \<Rightarrow> string \<Rightarrow> ('z api_world_scheme, Error, VerificationCodes) io" where
  "svc_VerificationCodes s stub i contact = wrapE (translateSessionError s)
     (client_VerificationCodes (cs_sessions s) stub i contact)"

subsection \<open>Settings\<close>

record SettingsAnswer =
  sa_ProxyURL :: string
  sa_Reconnecting :: bool
  sa_PassiveMode :: bool
  sa_PassiveApplied :: bool

definition zero_settings :: SettingsAnswer where
  "zero_settings = \<lparr>sa_ProxyURL = [], sa_Reconnecting = False, sa_PassiveMode = False, sa_PassiveApplied = False\<rparr>"

definition svc_applySettings ::
  "ConnectionService \<Rightarrow> 'z stub \<Rightarrow> ID \<Rightarrow> bool \<Rightarrow> bool \<Rightarrow> ('z api_world_scheme, 'e, SettingsAnswer) io" where
  "svc_applySettings s stub i proxyChanged passiveChanged =
     bindE (attempt (client_ApplySettings (cs_sessions s) stub i proxyChanged passiveChanged)) (\<lambda>r. case r of
         Inl _ \<Rightarrow> ret zero_settings
       | Inr resp \<Rightarrow> ret (zero_settings\<lparr>sa_Reconnecting := as_Reconnecting resp, sa_PassiveApplied := as_PassiveApplied resp\<rparr>))"

definition recordSettingsChange :: "ID \<Rightarrow> ConnectionEventType \<Rightarrow> payload \<Rightarrow> ('z world_scheme, 'e, unit) io" where
  "recordSettingsChange i ty detail = ignoreE (AppendConnectionEvent i ty None (Some detail))"

definition svc_SetProxy ::
  "ConnectionService \<Rightarrow> 'z stub \<Rightarrow> ID \<Rightarrow> string \<Rightarrow> ('z api_world_scheme, Error, SettingsAnswer) io" where
  "svc_SetProxy s stub i rawURL = (case ValidateProxyURL (cs_urls s) ''body.url'' rawURL of
       Some err \<Rightarrow> throw err
     | None \<Rightarrow> (let normalized = NormalizeProxyURL rawURL; masked = MaskProxyURL (cs_urls s) normalized in
         bindE (wrapE (\<lambda>e. internal s (CauseStore e)) (SetInstanceProxy i (Some normalized))) (\<lambda>_.
         bindE (recordSettingsChange i ConnEventProxyUpdated [(''proxy'', JStr masked)]) (\<lambda>_.
         bindE (svc_applySettings s stub i True False) (\<lambda>r.
         ret (zero_settings\<lparr>sa_ProxyURL := masked, sa_Reconnecting := sa_Reconnecting r\<rparr>))))))"

definition svc_ClearProxy :: "ConnectionService \<Rightarrow> 'z stub \<Rightarrow> ID \<Rightarrow> ('z api_world_scheme, Error, SettingsAnswer) io" where
  "svc_ClearProxy s stub i =
     bindE (wrapE (\<lambda>e. internal s (CauseStore e)) (SetInstanceProxy i None)) (\<lambda>_.
     bindE (recordSettingsChange i ConnEventProxyUpdated [(''proxy'', JNull)]) (\<lambda>_.
     bindE (svc_applySettings s stub i True False) (\<lambda>r.
     ret (zero_settings\<lparr>sa_Reconnecting := sa_Reconnecting r\<rparr>))))"

definition svc_SetPassiveMode ::
  "ConnectionService \<Rightarrow> 'z stub \<Rightarrow> ID \<Rightarrow> bool \<Rightarrow> ('z api_world_scheme, Error, SettingsAnswer) io" where
  "svc_SetPassiveMode s stub i enabled =
     bindE (wrapE (\<lambda>e. internal s (CauseStore e)) (SetInstancePassiveMode i enabled)) (\<lambda>_.
     bindE (recordSettingsChange i ConnEventPassiveModeUpdated [(''passive'', JBool enabled)]) (\<lambda>_.
     bindE (svc_applySettings s stub i False True) (\<lambda>r.
     ret (zero_settings\<lparr>sa_PassiveMode := enabled, sa_PassiveApplied := sa_PassiveApplied r\<rparr>))))"

subsection \<open>Tenants and deletions\<close>

datatype resume_error = ListToResume db_error | ResumeLease lease_error | ClaimOnResume redis_error

definition resumeTenant :: "ConnectionService \<Rightarrow> ID \<Rightarrow> ('z bus_world_scheme, resume_error, unit) io" where
  "resumeTenant s tenant =
     bindE (wrapE ListToResume (ListActiveIntentInstancesByTenant tenant)) (\<lambda>active.
     forE active (\<lambda>i. bindE (wrapE ResumeLease (SetDesired (cs_leases s) i DesiredRunning)) (\<lambda>_.
       wrapE ClaimOnResume (Claim i))))"

definition ApplyTenantStatus :: "ConnectionService \<Rightarrow> ID \<Rightarrow> TenantStatus \<Rightarrow> ('z bus_world_scheme, 'e, unit) io" where
  "ApplyTenantStatus s tenant status =
     (if status = TenantActive then ignoreE (resumeTenant s tenant)
      else bindE (attempt (SetTenantDesired (cs_leases s) tenant DesiredStopped)) (\<lambda>stopped. case stopped of
          Inl _ \<Rightarrow> ret ()
        | Inr _ \<Rightarrow> bindE (attempt (ListInstanceIDsByTenant tenant)) (\<lambda>listed. case listed of
            Inl _ \<Rightarrow> ret ()
          | Inr ids \<Rightarrow> forE ids (\<lambda>i. ignoreE (Stop i)))))"

datatype terminate_error = LogoutBeforeDeletion client_error | StopLeaseBeforeDeletion lease_error | SignalStop redis_error

definition Terminate :: "ConnectionService \<Rightarrow> 'z stub \<Rightarrow> ID \<Rightarrow> ('z api_world_scheme, terminate_error, unit) io" where
  "Terminate s stub i =
     bindE (catchE (bindE (client_Logout (cs_sessions s) stub i True) (\<lambda>_. ret ())) (\<lambda>err.
       if err = ErrNoOwner then ret () else throw (LogoutBeforeDeletion err))) (\<lambda>_.
     bindE (wrapE StopLeaseBeforeDeletion (SetDesired (cs_leases s) i DesiredStopped)) (\<lambda>_.
     wrapE SignalStop (Stop i)))"

subsection \<open>Reading\<close>

record ConnectionStatus =
  cst_InstanceID :: ID
  cst_State :: InstanceState
  cst_Intent :: ConnectionIntent
  cst_ConnectedAt :: "gotime option"
  cst_Device :: "DeviceIdentity option"
  cst_LastDisconnectAt :: "gotime option"
  cst_LastReason :: DisconnectReason
  cst_BanExpiresAt :: "gotime option"
  cst_SharesNumberWith :: "ID list"
  cst_ProxyURL :: string
  cst_PassiveMode :: bool

definition deref :: "string option \<Rightarrow> string" where
  "deref v = (case v of None \<Rightarrow> [] | Some x \<Rightarrow> x)"

definition device_of_row :: "InstanceRow \<Rightarrow> DeviceIdentity option" where
  "device_of_row row = map_option (\<lambda>jid.
     \<lparr>JID = jid, LID = deref (r_wa_lid row), PhoneNumber = deref (r_phone_number row),
      PushName = deref (r_push_name row), Platform = deref (r_platform row),
      BusinessName = deref (r_business_name row),
      PairedAt = (case r_paired_at row of None \<Rightarrow> zero_time | Some t \<Rightarrow> t)\<rparr>) (r_wa_jid row)"

definition svc_Status :: "ConnectionService \<Rightarrow> ID \<Rightarrow> ID \<Rightarrow> ('z world_scheme, Error, ConnectionStatus) io" where
  "svc_Status s tenant i =
     bindE (wrapE (not_found_or_internal s) (GetInstanceConnection i tenant)) (\<lambda>row.
     bindE (if deref (r_phone_number row) \<noteq> [] then
         wrapE (\<lambda>e. internal s (CauseStore e)) (ListInstancesSharingNumber tenant (r_phone_number row) i)
       else ret []) (\<lambda>siblings.
     ret \<lparr>cst_InstanceID = i, cst_State = r_connection_state row, cst_Intent = r_connection_intent row,
          cst_ConnectedAt = r_connected_at row, cst_Device = device_of_row row,
          cst_LastDisconnectAt = r_last_disconnect_at row,
          cst_LastReason = (case r_last_disconnect_reason row of None \<Rightarrow> ReasonNone | Some r \<Rightarrow> r),
          cst_BanExpiresAt = r_ban_expires_at row, cst_SharesNumberWith = siblings,
          cst_ProxyURL = (case r_proxy_url row of None \<Rightarrow> [] | Some u \<Rightarrow> MaskProxyURL (cs_urls s) u),
          cst_PassiveMode = r_passive_mode row\<rparr>))"

definition maxTrailPage :: int where "maxTrailPage = 200"

record EventPage =
  ep_Events :: "ConnectionEvent list"
  ep_NextBefore :: string

definition event_of_row :: "TrailRow \<Rightarrow> ConnectionEvent" where
  "event_of_row row =
     \<lparr>ce_ID = e_id row, ce_InstanceID = e_instance_id row, ce_Type = e_type row,
      ce_Reason = (case e_reason row of None \<Rightarrow> ReasonNone | Some r \<Rightarrow> r),
      ce_Detail = (case e_detail row of None \<Rightarrow> [] | Some d \<Rightarrow> d), ce_OccurredAt = e_occurred_at row\<rparr>"

definition page_limit :: "int \<Rightarrow> int" where
  "page_limit limit = (let l = if limit < 1 then 50 else limit in if l > maxTrailPage then maxTrailPage else l)"

definition page_of :: "int \<Rightarrow> TrailRow list \<Rightarrow> EventPage" where
  "page_of limit rows = \<lparr>ep_Events = map event_of_row rows,
     ep_NextBefore = (if int (length rows) = limit \<and> rows \<noteq> [] then encodeCursor (e_id (last rows)) else [])\<rparr>"

definition svc_Events ::
  "ConnectionService \<Rightarrow> ID \<Rightarrow> ID \<Rightarrow> int \<Rightarrow> int option \<Rightarrow> ConnectionEventType list option \<Rightarrow> ('z world_scheme, Error, EventPage) io" where
  "svc_Events s tenant i limit before types =
     bindE (wrapE (not_found_or_internal s) (GetInstanceConnection i tenant)) (\<lambda>_.
     bindE (wrapE (\<lambda>e. internal s (CauseStore e)) (ListConnectionEvents i before types (nat (page_limit limit)))) (\<lambda>rows.
     ret (page_of (page_limit limit) rows)))"

end
