(* ===== verification/Connection_Facts.thy ===== *)
theory Connection_Facts
  imports Connection
begin

text \<open>
  What the API promises about sessions: which error a worker's failure becomes, that waiting for an
  owner ends and how often it asks, what the recorded intent means for adoption, that a suspension
  and a reactivation touch exactly the tenant they name, and that paging through the connection
  trail misses nothing.
\<close>

subsection \<open>The error contract\<close>

text \<open>What a caller should learn from each error of the supervisor.\<close>

fun answer_for :: "worker_error \<Rightarrow> Error" where
  "answer_for ErrUnknownInstance = ErrSessionNotRunning"
| "answer_for ErrDraining = ErrSessionUnavailable"
| "answer_for (WorkerWA WaNotPaired) = ErrInstanceNotPaired"
| "answer_for (WorkerWA WaAlreadyPaired) = ErrAlreadyPaired"
| "answer_for (WorkerWA WaInvalidPhoneNumber) = ErrInvalidPhoneNumber"
| "answer_for (WorkerWA WaPairingRunning) = ErrPairingInProgress"
| "answer_for (WorkerWA WaNoPasskeyChallenge) = ErrNoPasskeyChallenge"
| "answer_for (WorkerWA WaNoPasskeyCode) = ErrNoPasskeyCode"
| "answer_for (WorkerWA WaNotConnected) = ErrInstanceNotConnected"
| "answer_for (WorkerWA WaInvalidContact) = ErrInvalidContact"
| "answer_for (WorkerWA WaInvalidPasskeyResponse) = ErrInvalidContact"
| "answer_for (WorkerWA WaIdentityNotResolvable) = ErrIdentityNotResolvable"
| "answer_for (WorkerWA WaCannotVerifySelf) = ErrCannotVerifySelf"
| "answer_for (WorkerWA WaContactUnavailable) = ErrContactUnavailable"
| "answer_for (WorkerWA _) = ErrWhatsAppUnavailable"
| "answer_for (WorkerLease _) = ErrWhatsAppUnavailable"
| "answer_for (WorkerStore _) = ErrWhatsAppUnavailable"


subsection \<open>Waiting for an owner ends\<close>

definition polls_left :: "gotime \<Rightarrow> gotime \<Rightarrow> nat" where
  "polls_left deadline clock = (if deadline < clock then 1 else nat ((deadline - clock) div claimPoll) + 2)"

lemma polls_left_pos: "0 < polls_left deadline clock"
  by (simp add: polls_left_def)

lemma polls_left_step:
  assumes "clock \<le> t" and "t \<le> deadline" and "t + claimPoll \<le> clock'"
  shows "polls_left deadline clock' + 1 \<le> polls_left deadline clock"
proof (cases "deadline < clock'")
  case True
  with assms show ?thesis by (simp add: polls_left_def)
next
  case False
  have pos: "0 < claimPoll" by (simp add: claimPoll_def)
  have "(deadline - clock') div claimPoll + 1 = (deadline - clock' + claimPoll) div claimPoll"
    using pos by (simp add: div_add_self2)
  also have "\<dots> \<le> (deadline - clock) div claimPoll" using assms pos by (intro zdiv_mono1) auto
  finally have "(deadline - clock') div claimPoll + 1 \<le> (deadline - clock) div claimPoll" .
  moreover have "0 \<le> (deadline - clock') div claimPoll" using False pos by (simp add: pos_imp_zdiv_nonneg_iff)
  ultimately show ?thesis using False assms pos by (simp add: polls_left_def)
qed

lemma claim_loop_polls:
  assumes cmd: "\<And>v. cnt (snd (cmd v)) \<le> cnt v + 1" and idle: "\<And>v. cnt (snd (elapse v)) = cnt v"
  shows "cnt (snd (claim_loop s elapse cmd deadline clock w)) \<le> cnt w + polls_left deadline clock"
proof (induction "nat (deadline + 1 - clock)" arbitrary: clock w rule: less_induct)
  case less
  obtain r w1 where run: "cmd w = (r, w1)" by (cases "cmd w")
  with cmd [of w] have one: "cnt w1 \<le> cnt w + 1" by simp
  note unfold_loop = claim_loop.simps [of s elapse cmd deadline clock w]
  let ?t = "max clock (now w1)" and ?w2 = "snd (elapse w1)"
  let ?next = "max (?t + claimPoll) (now ?w2)"
  show ?case
  proof (cases "r = Inl ErrNoOwner \<and> \<not> deadline < ?t \<and> \<not> fst (elapse w1)")
    case True
    then have go: "claim_loop s elapse cmd deadline clock w = claim_loop s elapse cmd deadline ?next ?w2"
      by (subst unfold_loop) (simp add: run)
    have "nat (deadline + 1 - ?next) < nat (deadline + 1 - clock)" using True by (auto simp: claimPoll_def)
    from less [OF this, of ?w2] have "cnt (snd (claim_loop s elapse cmd deadline clock w)) \<le>
      cnt w1 + polls_left deadline ?next" unfolding go by (simp add: idle)
    moreover have "polls_left deadline ?next + 1 \<le> polls_left deadline clock"
      using True by (intro polls_left_step [of _ ?t]) auto
    ultimately show ?thesis using one by simp
  next
    case False
    then have "cnt (snd (claim_loop s elapse cmd deadline clock w)) = cnt w1"
      by (subst unfold_loop) (auto simp: run idle split: sum.split)
    then show ?thesis using one polls_left_pos [of deadline clock] by simp
  qed
qed

text \<open>
  C39. Waiting for a worker to take a session always ends, and asks a bounded number of times: the
  command is sent at most once per 100 ms of the configured wait and twice more (at once, and after
  the deadline has passed).
\<close>

theorem waiting_for_an_owner_is_bounded:
  fixes cnt :: "'z api_world_scheme \<Rightarrow> nat"
  assumes cmd: "\<forall>v. cnt (snd (cmd v)) \<le> cnt v + 1" and idle: "\<forall>v. cnt (snd (elapse v)) = cnt v"
    and claim: "\<forall>v. cnt (snd (Claim i v)) = cnt v" and wait: "0 \<le> cs_claimWait s"
    and run: "claimAndRetry s elapse i cmd w = (r, w')"
  shows "cnt w' \<le> cnt w + nat (cs_claimWait s div claimPoll) + 2"
proof -
  obtain rc w1 where cl: "Claim i w = (rc, w1)" by (cases "Claim i w")
  with claim have c1: "cnt w1 = cnt w" by (metis snd_conv)
  show ?thesis
  proof (cases rc)
    case (Inl e)
    with run cl c1 show ?thesis by (simp add: claimAndRetry_def bindE_def wrapE_def)
  next
    case (Inr x)
    with run cl have "w' = snd (claim_loop s elapse cmd (now w1 + cs_claimWait s) (now w1) w1)"
      by (simp add: claimAndRetry_def bindE_def wrapE_def getsE_def)
    then have "cnt w' \<le> cnt w1 + polls_left (now w1 + cs_claimWait s) (now w1)"
      using claim_loop_polls [of cnt cmd elapse] cmd idle by simp
    with c1 wait show ?thesis by (simp add: polls_left_def)
  qed
qed

text \<open>Counting the claims that arrive on the control channel together with the calls of a remote.\<close>

definition demo_service :: ConnectionService where
  "demo_service = \<lparr>cs_leases = demo_manager ''api'', cs_sessions = demo_client, cs_claimWait = 250000000,
     cs_urls = demo_urls, cs_cause = (\<lambda>_. ''cause'')\<rparr>"

definition demo_wait :: "nat api_world_scheme \<Rightarrow> bool \<times> nat api_world_scheme" where
  "demo_wait w = (False, w\<lparr>now := now w + claimPoll\<rparr>)"

definition no_owner_remote :: "(nat api_world_scheme, client_error, unit) io" where
  "no_owner_remote = (\<lambda>w. (Inl ErrNoOwner, api_world.more_update Suc w))"

theorem waiting_for_an_owner_is_bounded_witness:
  "api_world.more (snd (claimAndRetry demo_service demo_wait 7 no_owner_remote (api_world.extend demo_api (0 :: nat)))) \<le> 4"
proof -
  obtain r w' where run: "claimAndRetry demo_service demo_wait 7 no_owner_remote (api_world.extend demo_api (0 :: nat)) = (r, w')"
    by (cases "claimAndRetry demo_service demo_wait 7 no_owner_remote (api_world.extend demo_api (0 :: nat))")
  have claim: "\<forall>v :: nat api_world_scheme. api_world.more (snd (Claim 7 v)) = api_world.more v"
    unfolding Claim_def by (rule allI, rule same_redis_call [THEN alwaysD, unfolded same_def]) simp_all
  have "api_world.more w' \<le> api_world.more (api_world.extend demo_api (0 :: nat)) + nat (cs_claimWait demo_service div claimPoll) + 2"
    by (rule waiting_for_an_owner_is_bounded [where cnt = api_world.more, OF _ _ claim _ run])
      (simp_all add: no_owner_remote_def demo_wait_def demo_service_def)
  with run show ?thesis by (simp add: demo_service_def claimPoll_def api_world.defs)
qed

subsection \<open>The recorded intent decides adoption\<close>

lemma SetConnectionIntent_Inr:
  assumes "SetConnectionIntent i intent clear w = (Inr row, w')"
  shows "now w' = now w \<and> session_leases (db w') = session_leases (db w) \<and>
    instance_of (db w') i = Some row \<and> r_connection_intent row = intent \<and> (clear \<longrightarrow> r_last_disconnect_reason row = None)"
proof -
  let ?f = "\<lambda>t r. r\<lparr>r_connection_intent := intent,
    r_last_disconnect_reason := (if clear then None else r_last_disconnect_reason r)\<rparr>"
  let ?q = "\<lambda>t d. case checked_update (intent_Valid intent) i ?f t d of (Inl e, d') \<Rightarrow> (Inl e, d')
     | (Inr _, d') \<Rightarrow> (case instance_of d' i of None \<Rightarrow> (Inl ErrNoRows, d') | Some r \<Rightarrow> (Inr r, d'))"
  from assms obtain fs where q: "?q (now w) (db w) = (Inr row, db w')" and w': "w' = w\<lparr>db := db w', faults := fs\<rparr>"
    unfolding SetConnectionIntent_def by (rule run_statement_Inr)
  from q have d: "db w' = snd (update_instance i ?f (now w) (db w))" and row: "instance_of (db w') i = Some row"
    by (auto simp: checked_update_def update_instance_def exec_on_instances_def split: if_splits option.splits)
  from row obtain r0 where "instance_of (db w) i = Some r0" and "row = (?f (now w) r0)\<lparr>r_updated_at := now w\<rparr>"
    unfolding d by (auto simp: instance_of_update instance_of_id)
  moreover have "now w' = now w" by (subst w') simp
  moreover have "session_leases (db w') = session_leases (db w)"
    unfolding d by (simp add: update_instance_def exec_on_instances_def)
  ultimately show ?thesis using row by simp
qed

lemma Ensure_Inr:
  assumes "Ensure m i w = (Inr (), w')"
  shows "now w' = now w \<and> (\<forall>l. lease_of (db w) i = Some l \<longrightarrow> lease_of (db w') i = Some l) \<and>
    (lease_of (db w) i = None \<longrightarrow> (\<exists>l. lease_of (db w') i = Some l \<and> l_worker_id l = None))"
proof -
  from assms have run: "EnsureLease i w = (Inr (), w')" by (simp add: Ensure_def wrapE_Inr)
  let ?q = "\<lambda>t d. if i \<in> l_instance_id ` set (session_leases d) then (Inr (), d)
     else if i \<notin> r_id ` set (instances d) then (Inl ForeignKeyViolation, d)
     else (Inr (), d\<lparr>session_leases := session_leases d @
       [\<lparr>l_instance_id = i, l_worker_id = None, l_grpc_addr = None, l_generation = 0,
         l_heartbeat_at = None, l_desired_state = DesiredStopped, l_updated_at = t\<rparr>]\<rparr>)"
  from run obtain fs where q: "?q (now w) (db w) = (Inr (), db w')" and w': "w' = w\<lparr>db := db w', faults := fs\<rparr>"
    unfolding EnsureLease_def by (rule run_statement_Inr)
  have "now w' = now w" by (subst w') simp
  moreover have "db w' = db w" if "lease_of (db w) i \<noteq> None"
    using q that by (auto simp: lease_of_def by_key_None split: if_splits)
  moreover have "\<exists>l. lease_of (db w') i = Some l \<and> l_worker_id l = None" if "lease_of (db w) i = None"
  proof -
    have "i \<notin> l_instance_id ` set (session_leases (db w))" using that by (simp add: lease_of_def by_key_None)
    with q have "db w' = (db w)\<lparr>session_leases := session_leases (db w) @
       [\<lparr>l_instance_id = i, l_worker_id = None, l_grpc_addr = None, l_generation = 0,
         l_heartbeat_at = None, l_desired_state = DesiredStopped, l_updated_at = now w\<rparr>]\<rparr>"
      by (auto split: if_splits)
    then show ?thesis using that by (simp add: lease_of_def by_key_append)
  qed
  ultimately show ?thesis by auto
qed

lemma SetDesired_Inr:
  assumes "SetDesired m i s w = (Inr (), w')"
  shows "now w' = now w \<and> instances (db w') = instances (db w) \<and>
    lease_of (db w') j = map_option (\<lambda>l. if l_instance_id l = i then l\<lparr>l_desired_state := s, l_updated_at := now w\<rparr> else l)
      (lease_of (db w) j)"
proof -
  let ?q = "exec_on_leases (\<lambda>t. update_where (\<lambda>l. l_instance_id l = i) (\<lambda>l. l\<lparr>l_desired_state := s, l_updated_at := t\<rparr>))"
  from assms obtain fs where "?q (now w) (db w) = (Inr (), db w')" and w': "w' = w\<lparr>db := db w', faults := fs\<rparr>"
    unfolding SetDesired_def wrapE_Inr SetDesiredState_def by (rule run_statement_Inr)
  then have d: "db w' = (db w)\<lparr>session_leases := update_where (\<lambda>l. l_instance_id l = i)
      (\<lambda>l. l\<lparr>l_desired_state := s, l_updated_at := now w\<rparr>) (session_leases (db w))\<rparr>"
    by (simp add: exec_on_leases_def)
  have "now w' = now w" by (subst w') simp
  then show ?thesis unfolding d by (simp add: lease_of_update_where)
qed

text \<open>What a recorded intent leaves in the two rows of the instance.\<close>

lemma record_intent_Inr:
  assumes "record_intent s i intent clear desired w = (Inr (), w')"
  obtains row l where "now w' = now w" and "instance_of (db w') i = Some row" and "r_connection_intent row = intent"
    and "clear \<longrightarrow> r_last_disconnect_reason row = None"
    and "lease_of (db w') i = Some (l\<lparr>l_desired_state := desired, l_updated_at := now w\<rparr>)"
    and "lease_of (db w) i = None \<longrightarrow> l_worker_id l = None" and "\<forall>l0. lease_of (db w) i = Some l0 \<longrightarrow> l = l0"
proof -
  from assms obtain w1 row w2 where en: "Ensure (cs_leases s) i w = (Inr (), w1)"
    and si: "SetConnectionIntent i intent clear w1 = (Inr row, w2)"
    and sd: "SetDesired (cs_leases s) i desired w2 = (Inr (), w')"
    by (auto simp: record_intent_def bindE_def wrapE_def split: prod.splits sum.splits)
  note en = Ensure_Inr [OF en] and si = SetConnectionIntent_Inr [OF si] and sd = SetDesired_Inr [OF sd, of i]
  have l2: "lease_of (db w2) i = lease_of (db w1) i" using si by (simp add: lease_of_def)
  obtain l where l: "lease_of (db w1) i = Some l"
    "lease_of (db w) i = None \<Longrightarrow> l_worker_id l = None" "\<And>l0. lease_of (db w) i = Some l0 \<Longrightarrow> l = l0"
    using en by (cases "lease_of (db w) i") auto
  show thesis
  proof (rule that [of row l])
    show "lease_of (db w') i = Some (l\<lparr>l_desired_state := desired, l_updated_at := now w\<rparr>)"
      using en si sd l(1) l2 lease_of_id [OF l(1)] by simp
  qed (use en si sd l(2,3) in \<open>auto simp: instance_of_def\<close>)
qed

text \<open>
  Recording the intent is what decides about adoption, whatever happens to the command that
  follows: once \<open>Connect\<close> has recorded it, every worker's reconciliation may adopt an instance that
  has no live owner, even one parked by a permanent failure before; once \<open>Disconnect\<close> has, none
  may. A live owner keeps its lease and generation either way.
\<close>

theorem recorded_intent_decides_adoption:
  assumes "record_intent s i intent clear desired w = (Inr (), w')"
  shows "(desired \<noteq> DesiredRunning \<longrightarrow> \<not> may_adopt m w' i) \<and>
    (desired = DesiredRunning \<and> clear \<and>
       (\<forall>l. lease_of (db w) i = Some l \<longrightarrow> claimable (now w) (Interval (m_expiry m)) l) \<longrightarrow> may_adopt m w' i) \<and>
    (\<forall>l. lease_of (db w) i = Some l \<longrightarrow> lease_token w' i = lease_token w i)"
proof -
  from assms obtain row l where time: "now w' = now w" and row: "instance_of (db w') i = Some row"
    and "r_connection_intent row = intent" and si: "clear \<longrightarrow> r_last_disconnect_reason row = None"
    and l': "lease_of (db w') i = Some (l\<lparr>l_desired_state := desired, l_updated_at := now w\<rparr>)"
    and l: "lease_of (db w) i = None \<longrightarrow> l_worker_id l = None" "\<forall>l0. lease_of (db w) i = Some l0 \<longrightarrow> l = l0"
    by (rule record_intent_Inr)
  have "may_adopt m w' i" if "desired = DesiredRunning" "clear"
    "\<forall>l. lease_of (db w) i = Some l \<longrightarrow> claimable (now w) (Interval (m_expiry m)) l"
  proof -
    have "claimable (now w) (Interval (m_expiry m)) l" using l that(3) by (cases "lease_of (db w) i") (auto simp: claimable_def)
    then show ?thesis using l' row si time that by (simp add: may_adopt_def claimable_def expired_def)
  qed
  moreover have "\<not> may_adopt m w' i" if "desired \<noteq> DesiredRunning" using that l' by (simp add: may_adopt_def)
  moreover have "lease_token w' i = lease_token w i" if "lease_of (db w) i = Some l0" for l0
    using that l l' by (simp add: lease_token_def)
  ultimately show ?thesis by blast
qed

definition demo_parked :: world where
  "demo_parked = demo_world\<lparr>db := demo_db\<lparr>
     instances := [(new_instance_row 1 7 1 ''shop'')\<lparr>r_last_disconnect_reason := Some ReasonTemporaryBan\<rparr>],
     session_leases := [demo_lease\<lparr>l_desired_state := DesiredStopped\<rparr>]\<rparr>\<rparr>"

theorem recorded_intent_decides_adoption_witness:
  "\<exists>w'. record_intent demo_service 7 IntentActive True DesiredRunning demo_parked = (Inr (), w') \<and>
    may_adopt (demo_manager ''w2'') w' 7 \<and> \<not> may_adopt (demo_manager ''w2'') demo_parked 7"
proof -
  obtain w' where run: "record_intent demo_service 7 IntentActive True DesiredRunning demo_parked = (Inr (), w')"
    by (simp add: record_intent_def Ensure_def EnsureLease_def SetConnectionIntent_def SetDesired_def SetDesiredState_def
      bindE_def wrapE_def run_statement_ok checked_update_def update_instance_def exec_on_instances_def exec_on_leases_def
      intent_Valid_def instance_of_def demo_parked_def demo_defs)
  have "\<forall>l. lease_of (db demo_parked) 7 = Some l \<longrightarrow> claimable (now demo_parked) (Interval (m_expiry (demo_manager ''w2''))) l"
    by (simp add: demo_parked_def lease_of_def claimable_def demo_defs)
  moreover have "\<not> may_adopt (demo_manager ''w2'') demo_parked 7"
    by (simp add: may_adopt_def demo_parked_def lease_of_def demo_defs)
  ultimately show ?thesis
    using recorded_intent_decides_adoption [OF run, of "demo_manager ''w2''"] run by blast
qed

subsection \<open>Suspension and reactivation\<close>

text \<open>The leases of the instances of a tenant.\<close>

definition of_tenant :: "database \<Rightarrow> ID \<Rightarrow> ID \<Rightarrow> bool" where
  "of_tenant d tenant i \<longleftrightarrow> (\<exists>r \<in> set (instances d). r_id r = i \<and> r_tenant_id r = tenant)"

lemma forE_stop_signals:
  "faults w = [] \<Longrightarrow> forE ids (\<lambda>i. ignoreE (Stop i)) w =
    (Inr (), w\<lparr>redis := (redis w)\<lparr>stops := stops (redis w) @ ids\<rparr>\<rparr>)"
  by (induction ids arbitrary: w) (simp_all add: ret_def bindE_def ignoreE_def Stop_def redis_call_ok)

lemma suspend_effect:
  assumes "faults w = []" and "st \<noteq> TenantActive"
  shows "ApplyTenantStatus s tenant st w = (Inr (), w\<lparr>
     db := (db w)\<lparr>session_leases := update_where (\<lambda>l. of_tenant (db w) tenant (l_instance_id l))
       (\<lambda>l. l\<lparr>l_desired_state := DesiredStopped, l_updated_at := now w\<rparr>) (session_leases (db w))\<rparr>,
     redis := (redis w)\<lparr>stops := stops (redis w) @ map r_id (filter (\<lambda>r. r_tenant_id r = tenant) (instances (db w)))\<rparr>\<rparr>)"
  using assms
  by (simp add: ApplyTenantStatus_def SetTenantDesired_def SetTenantDesiredState_def ListInstanceIDsByTenant_def select_def
    bindE_def wrapE_def attempt_def run_statement_ok of_tenant_def forE_stop_signals)

text \<open>Reactivation: the loop over the instances that should run.\<close>

lemma resume_loop:
  assumes "faults w = []"
  shows "forE ids (\<lambda>i. bindE (wrapE ResumeLease (SetDesired m i DesiredRunning)) (\<lambda>_. wrapE ClaimOnResume (Claim i))) w =
    (Inr (), w\<lparr>
      db := (db w)\<lparr>session_leases := update_where (\<lambda>l. l_instance_id l \<in> set ids)
        (\<lambda>l. l\<lparr>l_desired_state := DesiredRunning, l_updated_at := now w\<rparr>) (session_leases (db w))\<rparr>,
      redis := (redis w)\<lparr>claims := claims (redis w) @ ids\<rparr>\<rparr>)"
  using assms
proof (induction ids arbitrary: w)
  case Nil
  then show ?case by (simp add: ret_def update_where_def)
next
  case (Cons i ids)
  have fuse: "update_where (\<lambda>l. l_instance_id l \<in> set ids) f (update_where (\<lambda>l. l_instance_id l = i) f ls) =
    update_where (\<lambda>l. l_instance_id l = i \<or> l_instance_id l \<in> set ids) f ls"
    if "\<And>l. f (f l) = f l" "\<And>l. l_instance_id (f l) = l_instance_id l" for f and ls :: "SessionLease list"
    using that by (auto simp: update_where_def)
  show ?case using Cons
    by (simp add: bindE_def wrapE_def SetDesired_def SetDesiredState_def exec_on_leases_def run_statement_ok Claim_def
      redis_call_ok fuse)
qed

lemma resume_effect:
  assumes "faults w = []"
  shows "ApplyTenantStatus s tenant TenantActive w = (Inr (), w\<lparr>
     db := (db w)\<lparr>session_leases := update_where
       (\<lambda>l. l_instance_id l \<in> r_id ` {r \<in> set (instances (db w)). r_tenant_id r = tenant \<and> r_connection_intent r = IntentActive})
       (\<lambda>l. l\<lparr>l_desired_state := DesiredRunning, l_updated_at := now w\<rparr>) (session_leases (db w))\<rparr>,
     redis := (redis w)\<lparr>claims := claims (redis w) @
       map r_id (filter (\<lambda>r. r_tenant_id r = tenant \<and> r_connection_intent r = IntentActive) (instances (db w)))\<rparr>\<rparr>)"
proof -
  let ?ids = "map r_id (filter (\<lambda>r. r_tenant_id r = tenant \<and> r_connection_intent r = IntentActive) (instances (db w)))"
  have listed: "wrapE ListToResume (ListActiveIntentInstancesByTenant tenant) w = (Inr ?ids, w)"
    using assms by (simp add: ListActiveIntentInstancesByTenant_def select_def wrapE_def run_statement_ok)
  have "resumeTenant s tenant w = forE ?ids (\<lambda>i. bindE (wrapE ResumeLease (SetDesired (cs_leases s) i DesiredRunning))
      (\<lambda>_. wrapE ClaimOnResume (Claim i))) w"
    unfolding resumeTenant_def
    by (rule bindE_Inr [of "wrapE ListToResume (ListActiveIntentInstancesByTenant tenant)" w ?ids w, OF listed])
  then show ?thesis
    unfolding resume_loop [OF assms, of ?ids "cs_leases s"] by (simp add: ApplyTenantStatus_def ignoreE_def)
qed

text \<open>What one row and one lease see of the two commands.\<close>

definition resumes :: "ID \<Rightarrow> database \<Rightarrow> ID \<Rightarrow> bool" where
  "resumes tenant d i \<longleftrightarrow> i \<in> r_id ` {r \<in> set (instances d). r_tenant_id r = tenant \<and> r_connection_intent r = IntentActive}"

lemma tenant_row:
  assumes "distinct (map r_id (instances d))" and "instance_of d i = Some r"
  shows "of_tenant d tenant i \<longleftrightarrow> r_tenant_id r = tenant"
    and "resumes tenant d i \<longleftrightarrow> r_tenant_id r = tenant \<and> r_connection_intent r = IntentActive"
proof -
  have "r \<in> set (instances d)" "r_id r = i" using assms(2) by (auto simp: instance_of_def dest: by_key_Some)
  moreover have "r' = r" if "r' \<in> set (instances d)" "r_id r' = i" for r'
    using by_key_distinct [OF assms(1) that(1)] assms(2) that(2) by (simp add: instance_of_def)
  ultimately show "of_tenant d tenant i \<longleftrightarrow> r_tenant_id r = tenant"
    and "resumes tenant d i \<longleftrightarrow> r_tenant_id r = tenant \<and> r_connection_intent r = IntentActive"
    unfolding of_tenant_def resumes_def by blast+
qed

lemma suspended_lease:
  assumes "faults w = []" and "ApplyTenantStatus s tenant TenantSuspended w = (Inr (), w1)" and "lease_of (db w) i = Some l"
  shows "lease_of (db w1) i = Some (if of_tenant (db w) tenant i then l\<lparr>l_desired_state := DesiredStopped, l_updated_at := now w\<rparr> else l)"
    and "of_tenant (db w) tenant i \<Longrightarrow> i \<in> set (stops (redis w1))"
    and "faults w1 = []" and "instances (db w1) = instances (db w)"
  using assms lease_of_id [OF assms(3)] by (auto simp: suspend_effect lease_of_update_where of_tenant_def image_iff) metis

lemma resumed_lease:
  assumes "faults w = []" and "ApplyTenantStatus s tenant TenantActive w = (Inr (), w1)" and "lease_of (db w) i = Some l"
  shows "lease_of (db w1) i = Some (if resumes tenant (db w) i then l\<lparr>l_desired_state := DesiredRunning, l_updated_at := now w\<rparr> else l)"
    and "resumes tenant (db w) i \<Longrightarrow> i \<in> set (claims (redis w1))"
  using assms lease_of_id [OF assms(3)] by (auto simp: resume_effect lease_of_update_where resumes_def)

text \<open>
  C29. A suspension stops every session of its tenant and nothing else, and lifting it restores what
  the tenant had asked for: afterwards the instances of the tenant that are meant to be online have
  a running lease and the others a stopped one, owners and generations are as they were, the leases
  of all other tenants are untouched, and the workers have been told about every instance in
  between.
\<close>

theorem suspension_is_scoped_and_reversible:
  assumes quiet: "faults w = []" and unique: "distinct (map r_id (instances (db w)))"
    and stopped: "ApplyTenantStatus s tenant TenantSuspended w = (Inr (), w1)"
    and resumed: "ApplyTenantStatus s tenant TenantActive w1 = (Inr (), w2)"
    and inst: "instance_of (db w) i = Some r" and lease: "lease_of (db w) i = Some l"
  shows "if r_tenant_id r = tenant then
      map_option l_desired_state (lease_of (db w1) i) = Some DesiredStopped \<and> i \<in> set (stops (redis w1)) \<and>
      (\<exists>l2. lease_of (db w2) i = Some l2 \<and> l_worker_id l2 = l_worker_id l \<and> l_generation l2 = l_generation l \<and>
        l_desired_state l2 = (if r_connection_intent r = IntentActive then DesiredRunning else DesiredStopped) \<and>
        (r_connection_intent r = IntentActive \<longrightarrow> i \<in> set (claims (redis w2))))
    else lease_of (db w1) i = Some l \<and> lease_of (db w2) i = Some l"
proof -
  note row = tenant_row [OF unique inst, of tenant] and susp = suspended_lease [OF quiet stopped lease]
  note res = resumed_lease [OF susp(3) resumed susp(1)]
  have "resumes tenant (db w1) i \<longleftrightarrow> resumes tenant (db w) i" by (simp add: resumes_def susp(4))
  then show ?thesis using res susp(1,2) by (simp add: row)
qed

definition demo_online :: bus_world where
  "demo_online = demo_bus\<lparr>db := demo_db\<lparr>
     instances := [(new_instance_row 1 7 1 ''shop'')\<lparr>r_connection_intent := IntentActive\<rparr>]\<rparr>\<rparr>"

theorem suspension_is_scoped_and_reversible_witness:
  "\<exists>w1 w2. (ApplyTenantStatus demo_service 1 TenantSuspended :: (_, unit, _) io) demo_online = (Inr (), w1) \<and>
    (ApplyTenantStatus demo_service 1 TenantActive :: (_, unit, _) io) w1 = (Inr (), w2) \<and>
    map_option l_desired_state (lease_of (db w1) 7) = Some DesiredStopped \<and>
    map_option l_desired_state (lease_of (db w2) 7) = Some DesiredRunning"
proof -
  have q: "faults demo_online = []" by (simp add: demo_online_def demo_bus_def)
  obtain w1 where w1: "(ApplyTenantStatus demo_service 1 TenantSuspended :: (_, unit, _) io) demo_online = (Inr (), w1)" "faults w1 = []"
    by (simp add: suspend_effect [OF q] q)
  obtain w2 where w2: "(ApplyTenantStatus demo_service 1 TenantActive :: (_, unit, _) io) w1 = (Inr (), w2)"
    by (simp add: resume_effect [OF w1(2)])
  have "distinct (map r_id (instances (db demo_online)))"
    "instance_of (db demo_online) 7 = Some ((new_instance_row 1 7 1 ''shop'')\<lparr>r_connection_intent := IntentActive\<rparr>)"
    "lease_of (db demo_online) 7 = Some demo_lease"
    by (simp_all add: demo_online_def instance_of_def lease_of_def demo_defs)
  from suspension_is_scoped_and_reversible [OF q this(1) w1(1) w2 this(2,3)] w1(1) w2 show ?thesis
    by (auto simp: new_instance_row_def)
qed

text \<open>What a worker records when it stops a session on request.\<close>

lemma StopOnRequest_reason:
  assumes "quiet w" and "map_of (sessions w) i = Some p" and "instance_of (db w) i = Some r"
  shows "reason_of i (snd ((StopOnRequest s i reason :: (_, 'e, _) io) w)) = Some (Some reason)"
proof -
  let ?w0 = "snd (bindE (cancelPairing p) (\<lambda>_. session_do (api_Disconnect (sup_api s)) p) w :: ('e + unit) \<times> _)"
  let ?rest = "bindE (record_event i ConnEventDisconnected reason []) (\<lambda>_.
        bindE (publish p TypeDisconnected [(''reason'', JStr (reason_text reason)), (''permanent'', JBool (Permanent reason))]) (\<lambda>_.
        bindE (stop s i) (\<lambda>_. ignoreE (Release (sup_leases s) i))))"
  have db0: "db ?w0 = db w" and f0: "faults ?w0 = faults w"
    by (simp_all add: bindE_def cancelPairing_def session_do_def update_object_def modifyE_def)
  obtain w1 where w1: "recordDisconnect i InstanceDisconnected reason None ?w0 = (Inr (), w1)"
    "reason_of i w1 = Some (Some reason)"
    using recordDisconnect_ok [of ?w0 InstanceDisconnected i reason None] assms(1,3) db0 f0 by (auto simp: quiet_def)
  have "snd ((StopOnRequest s i reason :: (_, 'e, _) io) w) = snd ((?rest :: (_, 'e, _) io) w1)"
    using assms(2) w1(1)
    by (simp add: StopOnRequest_def lookup_def getsE_def bindE_def cancelPairing_def session_do_def update_object_def
      modifyE_def ignoreE_def)
  moreover have "always (same (reason_of i)) (?rest :: (_, 'e, _) io)"
    unfolding record_event_def by (intro same.always_intros same_reason_statements same_reason_other same_reason_Release)
  ultimately show ?thesis using w1(2) alwaysD [of "same (reason_of i)" ?rest w1] by (simp add: same_def)
qed



subsection \<open>Paging through the trail\<close>

text \<open>A client that follows the cursors until there is none.\<close>

fun read_trail ::
  "nat \<Rightarrow> ConnectionService \<Rightarrow> ID \<Rightarrow> ID \<Rightarrow> int \<Rightarrow> int option \<Rightarrow> ConnectionEventType list option \<Rightarrow>
   'z world_scheme \<Rightarrow> ConnectionEvent list option" where
  "read_trail 0 s tenant i limit before types w = None"
| "read_trail (Suc k) s tenant i limit before types w = (case svc_Events s tenant i limit before types w of
       (Inl _, _) \<Rightarrow> None
     | (Inr page, w') \<Rightarrow> if ep_NextBefore page = [] then Some (ep_Events page)
         else (case DecodeCursor (ep_NextBefore page) of Inl _ \<Rightarrow> None
           | Inr b \<Rightarrow> map_option (\<lambda>rest. ep_Events page @ rest) (read_trail k s tenant i limit (Some b) types w')))"

definition matching :: "ID \<Rightarrow> int option \<Rightarrow> ConnectionEventType list option \<Rightarrow> TrailRow \<Rightarrow> bool" where
  "matching i before types e \<longleftrightarrow> e_instance_id e = i \<and>
     (case before of None \<Rightarrow> True | Some b \<Rightarrow> e_id e < b) \<and>
     (case types of None \<Rightarrow> True | Some ts \<Rightarrow> e_type e \<in> set ts)"

definition trail :: "database \<Rightarrow> ID \<Rightarrow> int option \<Rightarrow> ConnectionEventType list option \<Rightarrow> TrailRow list" where
  "trail d i before types = newest_first (filter (matching i before types) (connection_events d))"

text \<open>Identifiers are unique, fit a BIGINT, and were handed out in the order of the clock.\<close>

definition trail_ok :: "database \<Rightarrow> bool" where
  "trail_ok d \<longleftrightarrow> distinct (map e_id (connection_events d)) \<and>
     (\<forall>e \<in> set (connection_events d). - (2 ^ 63) \<le> e_id e \<and> e_id e < 2 ^ 63) \<and>
     (\<forall>e \<in> set (connection_events d). \<forall>e' \<in> set (connection_events d).
        e_id e < e_id e' \<longrightarrow> e_occurred_at e \<le> e_occurred_at e')"

lemma newest_first_by_id:
  assumes "\<forall>e \<in> set es. \<forall>e' \<in> set es. e_id e < e_id e' \<longrightarrow> e_occurred_at e \<le> e_occurred_at e'"
    and "distinct (map e_id es)"
  shows "newest_first es = rev (sort_key e_id es)"
proof -
  have d: "distinct (map e_id (sort_key e_id es))"
    using assms(2) by (simp add: distinct_map)
  have s: "sorted (map e_id (sort_key e_id es))" by simp
  have "sorted (map e_occurred_at (sort_key e_id es))"
    unfolding sorted_iff_nth_mono_less
  proof (intro allI impI)
    let ?l = "sort_key e_id es"
    fix a b assume "a < b" and "b < length (map e_occurred_at ?l)"
    then have ab: "a < b" "b < length ?l" by simp_all
    then have "e_id (?l ! a) \<le> e_id (?l ! b)" using s unfolding sorted_iff_nth_mono_less by simp
    moreover have "e_id (?l ! a) \<noteq> e_id (?l ! b)" using d ab by (auto simp: distinct_conv_nth)
    moreover have "?l ! a \<in> set es" "?l ! b \<in> set es"
      using ab nth_mem [of a ?l] nth_mem [of b ?l] by simp_all
    ultimately show "map e_occurred_at ?l ! a \<le> map e_occurred_at ?l ! b"
      using assms(1) ab by (simp add: order_le_less)
  qed
  then show ?thesis by (simp add: newest_first_def sort_key_id_if_sorted)
qed

lemma trail_by_id:
  assumes "trail_ok d"
  shows "trail d i before types = rev (sort_key e_id (filter (matching i before types) (connection_events d)))"
  unfolding trail_def using assms
  by (intro newest_first_by_id) (auto simp: trail_ok_def distinct_map inj_on_def)

lemma trail_decreasing:
  assumes "trail_ok d"
  shows "sorted_wrt (\<lambda>x y. e_id y < e_id x) (trail d i before types)"
proof -
  let ?es = "filter (matching i before types) (connection_events d)"
  have "distinct (map e_id ?es)" using assms by (auto simp: trail_ok_def distinct_map inj_on_def)
  then have "distinct (map e_id (sort_key e_id ?es))" by (simp add: distinct_map)
  then have "sorted_wrt (<) (map e_id (sort_key e_id ?es))" by (simp add: strict_sorted_iff)
  then show ?thesis unfolding trail_by_id [OF assms] sorted_wrt_rev by (simp add: sorted_wrt_map)
qed

lemma trail_filter:
  assumes "trail_ok d" and "case before of None \<Rightarrow> True | Some b \<Rightarrow> c \<le> b"
  shows "trail d i (Some c) types = filter (\<lambda>e. e_id e < c) (trail d i before types)"
proof -
  have m: "matching i (Some c) types e \<longleftrightarrow> e_id e < c \<and> matching i before types e" for e
    using assms(2) by (auto simp: matching_def split: option.splits)
  have "filter (matching i (Some c) types) (connection_events d) =
    filter (\<lambda>e. e_id e < c) (filter (matching i before types) (connection_events d))"
    unfolding m by (simp add: conj_commute)
  then show ?thesis unfolding trail_by_id [OF assms(1)] by (simp add: rev_filter [symmetric] filter_sort)
qed

text \<open>The cursor of a full page names exactly the rest of the trail.\<close>

lemma trail_next:
  assumes ok: "trail_ok d" and l: "0 < l" "l \<le> length (trail d i before types)"
  shows "trail d i (Some (e_id (last (take l (trail d i before types))))) types = drop l (trail d i before types)"
proof -
  let ?t = "trail d i before types"
  let ?c = "e_id (last (take l ?t))"
  have dec: "sorted_wrt (\<lambda>x y. e_id y < e_id x) (take l ?t @ drop l ?t)" using trail_decreasing [OF ok] by simp
  have ne: "take l ?t \<noteq> []" using l by auto
  have mem: "last (take l ?t) \<in> set (trail d i before types)" using ne by (meson in_set_takeD last_in_set)
  then have "matching i before types (last (take l ?t))" by (simp add: trail_by_id [OF ok])
  then have "case before of None \<Rightarrow> True | Some b \<Rightarrow> ?c \<le> b" by (auto simp: matching_def split: option.splits)
  from trail_filter [OF ok this] have "trail d i (Some ?c) types = filter (\<lambda>e. e_id e < ?c) (take l ?t @ drop l ?t)"
    by (simp only: append_take_drop_id)
  moreover have "e_id e < ?c" if "e \<in> set (drop l ?t)" for e
    using dec that last_in_set [OF ne] unfolding sorted_wrt_append by blast
  moreover have "\<not> e_id e < ?c" if "e \<in> set (take l ?t)" for e
  proof -
    have "sorted_wrt (\<lambda>x y. e_id y < e_id x) (butlast (take l ?t) @ [last (take l ?t)])"
      using dec ne unfolding sorted_wrt_append [of _ "take l ?t"] by simp
    moreover have "e \<in> set (butlast (take l ?t)) \<or> e = last (take l ?t)"
      using that append_butlast_last_id [OF ne] by (metis Un_iff empty_iff list.set(1) set_ConsD set_append)
    ultimately show ?thesis by (auto simp: sorted_wrt_append)
  qed
  ultimately show ?thesis unfolding filter_append by (simp add: filter_True filter_False del: append_take_drop_id)
qed

lemma encodeCursor_nonempty: "encodeCursor n \<noteq> []"
proof -
  have "FormatInt n \<noteq> []" by (simp add: FormatInt_def)
  then obtain x xs where "map of_char (FormatInt n) = x # (xs :: nat list)" by (cases "FormatInt n") auto
  moreover have "b64_pack (x # xs) \<noteq> []" for x xs by (cases "x # xs" rule: b64_pack.cases) auto
  ultimately show ?thesis by (simp add: encodeCursor_def EncodeToString_def)
qed

lemma svc_Events_ok:
  assumes "faults w = []" and "first_where (\<lambda>r. r_id r = i \<and> r_tenant_id r = tenant) (instances (db w)) = Some r"
  shows "svc_Events s tenant i limit before types w =
    (Inr (page_of (page_limit limit) (take (nat (page_limit limit)) (trail (db w) i before types))), w)"
  using assms
  by (simp add: svc_Events_def GetInstanceConnection_def select_one_def ListConnectionEvents_def select_def bindE_def wrapE_def
    run_statement_ok ret_def trail_def matching_def [abs_def])

lemma page_limit_pos: "1 \<le> page_limit limit"
  by (simp add: page_limit_def maxTrailPage_def Let_def)

lemma read_trail_complete:
  assumes quiet: "faults w = []" and ok: "trail_ok (db w)"
    and row: "first_where (\<lambda>r. r_id r = i \<and> r_tenant_id r = tenant) (instances (db w)) = Some r"
    and "length (trail (db w) i before types) \<le> n"
  shows "read_trail (Suc n) s tenant i limit before types w = Some (map event_of_row (trail (db w) i before types))"
  using assms(4)
proof (induction n arbitrary: before)
  case 0
  then show ?case by (simp add: svc_Events_ok [OF quiet row] page_of_def)
next
  case (Suc n)
  let ?t = "trail (db w) i before types" and ?l = "nat (page_limit limit)"
  have l: "0 < ?l" "int ?l = page_limit limit" using page_limit_pos [of limit] by simp_all
  show ?case
  proof (cases "?l \<le> length ?t")
    case False
    then have "int (length (take ?l ?t)) \<noteq> page_limit limit" using l by simp
    with False show ?thesis by (simp add: svc_Events_ok [OF quiet row] page_of_def)
  next
    case True
    let ?c = "e_id (last (take ?l ?t))"
    have next_page: "trail (db w) i (Some ?c) types = drop ?l ?t" by (rule trail_next [OF ok l(1) True])
    have "length (trail (db w) i (Some ?c) types) \<le> n" using Suc.prems l(1) next_page by simp
    note rest = Suc.IH [OF this]
    have ne: "take ?l ?t \<noteq> []" using True l by auto
    then have "last (take ?l ?t) \<in> set ?t" by (meson in_set_takeD last_in_set)
    then have "last (take ?l ?t) \<in> set (connection_events (db w))" by (simp add: trail_by_id [OF ok])
    then have "DecodeCursor (encodeCursor ?c) = Inr ?c"
      using ok by (simp add: trail_ok_def DecodeCursor_def encodeCursor_def raw_url.DecodeString_EncodeToString ParseInt64_FormatInt)
    moreover have "svc_Events s tenant i limit before types w =
      (Inr \<lparr>ep_Events = map event_of_row (take ?l ?t), ep_NextBefore = encodeCursor ?c\<rparr>, w)"
      using True l ne by (simp add: svc_Events_ok [OF quiet row] page_of_def)
    ultimately have "read_trail (Suc (Suc n)) s tenant i limit before types w =
      Some (map event_of_row (take ?l ?t) @ map event_of_row (drop ?l ?t))"
      using rest next_page encodeCursor_nonempty [of ?c] by (simp del: read_trail.simps(2) add: read_trail.simps(2) [of "Suc n"])
    then show ?thesis by (metis append_take_drop_id map_append)
  qed
qed


definition demo_event :: "int \<Rightarrow> gotime \<Rightarrow> TrailRow" where
  "demo_event n t = \<lparr>e_id = n, e_instance_id = 7, e_type = ConnEventConnected, e_reason = None, e_detail = None, e_occurred_at = t\<rparr>"

definition demo_trail :: world where
  "demo_trail = demo_world\<lparr>db := demo_db\<lparr>connection_events := [demo_event 1 10, demo_event 2 10, demo_event 3 20]\<rparr>\<rparr>"


end
