(* ===== verification/Fleet.thy ===== *)
theory Fleet
  imports Supervisor_Facts
begin

text \<open>
  What reconciliation achieves: instances left behind by a crashed worker are taken over. The worker is
  one supervisor over the shared tables, as in the runtime's reconciliation tick; the adapter to
  WhatsApp is only required to build sessions.
\<close>

subsection \<open>One adoption\<close>

definition builds_sessions :: "'s Supervisor \<Rightarrow> bool" where
  "builds_sessions s \<longleftrightarrow> (\<forall>t i cfg. \<exists>session. NewSession (sup_api s) t i cfg = Inr session)"

text \<open>The worker holds the lease of the next generation and runs a session under it.\<close>

definition took_over :: "'s Supervisor \<Rightarrow> ('s, 'z) worker_world_scheme \<Rightarrow> ID \<Rightarrow> ('s, 'z) worker_world_scheme \<Rightarrow> bool" where
  "took_over s w i w' \<longleftrightarrow> (\<exists>l p. lease_of (db w) i = Some l \<and>
     lease_of (db w') i = Some (acquire_set (now w) (workerID (sup_leases s)) (grpcAddr (sup_leases s)) l) \<and>
     map_of (sessions w') i = Some p \<and> p < length (objects w') \<and> ms_instanceID (managed w' p) = i \<and>
     ms_generation (managed w' p) = l_generation l + 1 \<and> \<not> ms_cancelled (managed w' p))"

text \<open>What an adoption of the instances \<open>ids\<close> leaves as it was.\<close>

definition only_touches :: "ID list \<Rightarrow> ('s, 'z) worker_world_scheme \<Rightarrow> ('s, 'z) worker_world_scheme \<Rightarrow> bool" where
  "only_touches ids w w' \<longleftrightarrow> now w' = now w \<and> faults w' = [] \<and> draining w' = draining w \<and> instances (db w') = instances (db w) \<and>
     leases_ok (db w') \<and> length (sessions w') = length (sessions w) + length ids \<and> (\<exists>xs. objects w' = objects w @ xs) \<and>
     (\<forall>j. j \<notin> set ids \<longrightarrow> lease_of (db w') j = lease_of (db w) j \<and> map_of (sessions w') j = map_of (sessions w) j)"

lemma record_event_ok:
  assumes "faults w = []"
  obtains d where "record_event i ty reason detail w = (Inr (), w\<lparr>db := d\<rparr>)" and "session_leases d = session_leases (db w)"
    and "instances d = instances (db w)"
  using assms by (simp add: record_event_def ignoreE_def AppendConnectionEvent_def run_statement_ok Let_def)

lemma Acquire_claimable:
  assumes "faults w = []" and "leases_ok (db w)" and "may_adopt m w i" and l: "lease_of (db w) i = Some l"
  defines "d \<equiv> (db w)\<lparr>session_leases := update_where (acquire_guard (now w) (Interval (m_expiry m)) i)
      (acquire_set (now w) (workerID m) (grpcAddr m)) (session_leases (db w))\<rparr>"
  shows "Acquire m i w = (Inr (l_generation l + 1), w\<lparr>db := d\<rparr>)" and "leases_ok d"
    and "lease_of d j = (if j = i then Some (acquire_set (now w) (workerID m) (grpcAddr m) l) else lease_of (db w) j)"
proof -
  have guard: "acquire_guard (now w) (Interval (m_expiry m)) i l"
    using assms(3) l by (auto simp: may_adopt_def acquire_guard_def lease_of_def dest: by_key_Some)
  then show "Acquire m i w = (Inr (l_generation l + 1), w\<lparr>db := d\<rparr>)"
    using assms(1,2) l by (simp add: Acquire_def AcquireLease_def wrapE_def run_statement_ok acquire_guard_lease leases_ok_def d_def)
  show "leases_ok d" using assms(2) by (simp add: leases_ok_def d_def acquire_set_def map_update_where)
  have "lease_of d j = map_option (\<lambda>l. if acquire_guard (now w) (Interval (m_expiry m)) i l
      then acquire_set (now w) (workerID m) (grpcAddr m) l else l) (lease_of (db w) j)"
    unfolding d_def by (rule lease_of_update_where) (simp add: acquire_set_def)
  moreover have "\<not> acquire_guard (now w) (Interval (m_expiry m)) i l'" if "lease_of (db w) j = Some l'" "j \<noteq> i" for l'
    using that by (auto simp: acquire_guard_def lease_of_def dest: by_key_Some)
  ultimately show "lease_of d j = (if j = i then Some (acquire_set (now w) (workerID m) (grpcAddr m) l) else lease_of (db w) j)"
    using guard l by (cases "lease_of (db w) j") auto
qed

lemma map_of_remove_session: "j \<noteq> i \<Longrightarrow> map_of (remove_session i xs) j = map_of xs j"
  by (induction xs) (auto simp: remove_session_def)

lemma remove_absent: "map_of xs i = None \<Longrightarrow> remove_session i xs = xs"
  by (auto simp: remove_session_def map_of_eq_None_iff filter_id_conv)

lemma Adopt_orphan:
  fixes w :: "('s, 'z) worker_world_scheme"
  assumes "faults w = []" and "leases_ok (db w)" and may: "may_adopt (sup_leases s) w i" and "builds_sessions s"
    and room: "\<not> draining w" "int (length (sessions w)) < sup_maxSessions s" and fresh: "map_of (sessions w) i = None"
  obtains w' where "Adopt s i w = (Inr (), w')" and "took_over s w i w'" and "only_touches [i] w w'"
proof -
  let ?m = "sup_leases s"
  from may obtain l r where l: "lease_of (db w) i = Some l" and r: "instance_of (db w) i = Some r" by (auto simp: may_adopt_def)
  define d where "d = (db w)\<lparr>session_leases := update_where (acquire_guard (now w) (Interval (m_expiry ?m)) i)
      (acquire_set (now w) (workerID ?m) (grpcAddr ?m)) (session_leases (db w))\<rparr>"
  note acquired = Acquire_claimable [OF assms(1,2) may l, folded d_def]
  obtain session where session: "NewSession (sup_api s) (now w) i \<lparr>StoredJID = (case r_wa_jid r of None \<Rightarrow> [] | Some j \<Rightarrow> j),
      cfg_ProxyURL = (case r_proxy_url r of None \<Rightarrow> [] | Some u \<Rightarrow> u)\<rparr> = Inr session"
    using assms(4) unfolding builds_sessions_def by blast
  define obj where "obj = \<lparr>ms_instanceID = i, ms_generation = l_generation l + 1, ms_session = session,
                ms_cancelled = False, ms_pairingCancel = False, ms_pairingExpires = zero_time\<rparr>"
  have inst: "instance_of d i = Some r" using r by (simp add: d_def instance_of_def)
  obtain q where start: "start s i (l_generation l + 1) (w\<lparr>db := d\<rparr>) = (Inr (), w\<lparr>db := d, objects := objects w @ [obj],
      sessions := (i, length (objects w)) # remove_session i (sessions w), spawned := q\<rparr>)" (is "_ = (_, ?w1)")
    using assms(1) inst session
    by (simp add: start_def bindE_def wrapE_def getsE_def modifyE_def GetInstanceConnectionByID_def run_statement_ok select_one_def
      Let_def obj_def)
  have "faults ?w1 = []" using assms(1) by simp
  then obtain d' where ev: "(record_event i ConnEventLeaseAcquired ReasonNone [] :: (('s, 'z) worker_world_scheme, worker_error, unit) io) ?w1 = (Inr (), ?w1\<lparr>db := d'\<rparr>)"
    and d': "session_leases d' = session_leases d" "instances d' = instances d"
    by (rule record_event_ok) simp
  have "Adopt s i w = (Inr (), ?w1\<lparr>db := d'\<rparr>)"
    using room fresh acquired(1) start ev
    by (simp add: Adopt_def HasCapacity_def lookup_def bindE_def getsE_def wrapE_def catchE_def)
  moreover have lease: "lease_of d' j = (if j = i then Some (acquire_set (now w) (workerID ?m) (grpcAddr ?m) l) else lease_of (db w) j)" for j
    using acquired(3) d'(1) by (simp add: lease_of_def)
  then have "took_over s w i (?w1\<lparr>db := d'\<rparr>)"
    using l by (simp add: took_over_def managed_def obj_def)
  moreover have "only_touches [i] w (?w1\<lparr>db := d'\<rparr>)"
    using assms(1) acquired(2) d' lease fresh
    by (simp add: only_touches_def leases_ok_def remove_absent d_def)
  ultimately show thesis by (rule that)
qed

subsection \<open>A reconciliation tick\<close>

lemma may_adopt_untouched:
  assumes "only_touches [i] w w'" and "may_adopt m w j" and "j \<noteq> i"
  shows "may_adopt m w' j"
  using assms by (auto simp: may_adopt_def only_touches_def instance_of_def)

lemma took_over_kept:
  assumes "took_over s w i w1" and "only_touches ids w1 w2" and "i \<notin> set ids"
  shows "took_over s w i w2"
  using assms by (auto simp: took_over_def only_touches_def managed_def nth_append)

lemma took_over_later:
  assumes "only_touches [i] w w1" and "took_over s w1 j w2" and "j \<noteq> i"
  shows "took_over s w j w2"
  using assms by (auto simp: took_over_def only_touches_def)

lemma only_touches_Cons:
  assumes "only_touches [i] w w1" and "only_touches ids w1 w2"
  shows "only_touches (i # ids) w w2"
  using assms by (auto simp: only_touches_def)

lemma reconcile_loop_adopts:
  fixes w :: "('s, 'z) worker_world_scheme"
  assumes "faults w = []" and "leases_ok (db w)" and "builds_sessions s" and "\<not> draining w"
    and "int (length (sessions w) + length ids) \<le> sup_maxSessions s" and "distinct ids"
    and "\<And>i. i \<in> set ids \<Longrightarrow> may_adopt (sup_leases s) w i \<and> map_of (sessions w) i = None"
  shows "\<exists>w'. (reconcile_loop s ids :: (('s, 'z) worker_world_scheme, 'e, unit) io) w = (Inr (), w') \<and>
    only_touches ids w w' \<and> (\<forall>i \<in> set ids. took_over s w i w')"
  using assms
proof (induction ids arbitrary: w)
  case Nil
  then show ?case by (simp add: ret_def only_touches_def)
next
  case (Cons i ids)
  obtain w1 where adopt: "Adopt s i w = (Inr (), w1)" and got: "took_over s w i w1" and frame: "only_touches [i] w w1"
    by (rule Adopt_orphan [of w s i]) (use Cons.prems in auto)
  have "may_adopt (sup_leases s) w1 j \<and> map_of (sessions w1) j = None" if "j \<in> set ids" for j
  proof -
    have "j \<noteq> i" using that Cons.prems(6) by auto
    then show ?thesis using Cons.prems(7) [of j] that may_adopt_untouched [OF frame] frame by (auto simp: only_touches_def)
  qed
  with Cons.IH [of w1] Cons.prems(3-6) frame obtain w2 where
    rest: "(reconcile_loop s ids :: (('s, 'z) worker_world_scheme, 'e, unit) io) w1 = (Inr (), w2)"
    and frame2: "only_touches ids w1 w2" and all: "\<forall>j \<in> set ids. took_over s w1 j w2"
    by (auto simp: only_touches_def)
  have "(reconcile_loop s (i # ids) :: (('s, 'z) worker_world_scheme, 'e, unit) io) w = (Inr (), w2)"
    using Cons.prems(4,5) adopt rest
    by (simp add: HasCapacity_def bindE_def getsE_def runtime_adopt_def ignoreE_def)
  moreover have "took_over s w i w2" using got frame2 Cons.prems(6) by (auto intro: took_over_kept)
  moreover have "\<forall>j \<in> set ids. took_over s w j w2" using all frame Cons.prems(6) by (auto intro: took_over_later)
  ultimately show ?case using only_touches_Cons [OF frame frame2] by auto
qed

lemma finite_adoptable: "finite {i. may_adopt m w i}"
proof -
  have "{i. may_adopt m w i} \<subseteq> l_instance_id ` set (session_leases (db w))"
    by (auto simp: may_adopt_def lease_of_def dest: by_key_Some)
  then show ?thesis by (rule finite_subset) simp
qed

lemma Adoptable_all:
  assumes "faults w = []" and "leases_ok (db w)" and "reasons_ok (db w)" and "card {i. may_adopt m w i} \<le> limit"
  obtains ids where "Adoptable m limit w = (Inr ids, w)" and "set ids = {i. may_adopt m w i}" and "distinct ids"
proof -
  obtain ids where run: "Adoptable m limit w = (Inr ids, w)"
    using assms(1) by (simp add: Adoptable_def ListAdoptableLeases_def select_def bindE_def wrapE_def ret_def run_statement_ok)
  from Adoptable_Inr [OF assms(2,3) run] have sub: "set ids \<subseteq> {i. may_adopt m w i}" and "distinct ids"
    and full: "length ids < limit \<Longrightarrow> {i. may_adopt m w i} \<subseteq> set ids" and "length ids \<le> limit" by auto
  have "{i. may_adopt m w i} \<subseteq> set ids"
  proof (cases "length ids < limit")
    case False
    with \<open>length ids \<le> limit\<close> \<open>distinct ids\<close> assms(4) have "card {i. may_adopt m w i} \<le> card (set ids)" by (simp add: distinct_card)
    with card_seteq [OF finite_adoptable sub] show ?thesis by simp
  qed (rule full)
  with run sub \<open>distinct ids\<close> show thesis by (intro that) auto
qed


text \<open>A worker that crashed a minute ago, and its successor.\<close>

definition demo_crash :: "FakeSession worker_world" where
  "demo_crash = demo_worker\<lparr>now := 100 * second, db := demo_db\<lparr>session_leases :=
     [demo_lease\<lparr>l_worker_id := Some ''w0'', l_generation := 4, l_heartbeat_at := Some (40 * second)\<rparr>]\<rparr>\<rparr>"


end
