(* ===== verification/EndToEnd.thy ===== *)
theory EndToEnd
  imports Connection_Facts Fleet
begin

text \<open>
  Commands followed through every process: from the connection service of the API
  (\<open>internal/domain/services/connection.go\<close>) through the session client, the wire and the fence into
  the supervisor of the worker that holds the session, and back, over one database, one Redis and a
  fleet of workers. The network is reachable throughout; what the calls do when it is not is stated
  component by component.
\<close>

subsection \<open>Recording the intent\<close>

lemma Ensure_ok:
  assumes "faults w = []" and "instance_of (db w) i = Some r"
  obtains d where "Ensure m i w = (Inr (), w\<lparr>db := d\<rparr>)" and "instances d = instances (db w)"
    and "leases_ok (db w) \<longrightarrow> leases_ok d"
proof -
  have "i \<in> r_id ` set (instances (db w))" using assms(2) by (auto simp: instance_of_def dest: by_key_Some)
  then show thesis using assms(1) that that [of "db w"]
    by (cases "i \<in> l_instance_id ` set (session_leases (db w))")
      (simp_all add: Ensure_def EnsureLease_def wrapE_def run_statement_ok leases_ok_def)
qed

lemma SetConnectionIntent_ok:
  assumes "faults w = []" and "instance_of (db w) i = Some r" and "intent_Valid intent"
  obtains row d where "SetConnectionIntent i intent clear w = (Inr row, w\<lparr>db := d\<rparr>)"
    and "session_leases d = session_leases (db w)"
proof -
  let ?f = "\<lambda>t r. r\<lparr>r_connection_intent := intent,
    r_last_disconnect_reason := (if clear then None else r_last_disconnect_reason r)\<rparr>"
  obtain row where "instance_of (snd (update_instance i ?f (now w) (db w))) i = Some row"
    using assms(2) by (simp add: instance_of_update)
  then show thesis using assms(1,3) that
    by (simp add: SetConnectionIntent_def checked_update_def run_statement_ok update_instance_def exec_on_instances_def)
qed

lemma SetDesired_ok:
  assumes "faults w = []"
  obtains d where "SetDesired m i desired w = (Inr (), w\<lparr>db := d\<rparr>)" and "leases_ok (db w) \<longrightarrow> leases_ok d"
  using assms by (simp add: SetDesired_def SetDesiredState_def wrapE_def run_statement_ok exec_on_leases_def leases_ok_def
    map_update_where)

lemma record_intent_ok:
  assumes "faults w = []" and "instance_of (db w) i = Some r" and "intent_Valid intent"
  obtains d where "record_intent s i intent clear desired w = (Inr (), w\<lparr>db := d\<rparr>)"
    and "leases_ok (db w) \<longrightarrow> leases_ok d"
proof -
  obtain d1 where d1: "Ensure (cs_leases s) i w = (Inr (), w\<lparr>db := d1\<rparr>)" "instances d1 = instances (db w)"
    "leases_ok (db w) \<longrightarrow> leases_ok d1" using assms(1,2) by (rule Ensure_ok)
  have "faults (w\<lparr>db := d1\<rparr>) = []" "instance_of (db (w\<lparr>db := d1\<rparr>)) i = Some r"
    using assms d1 by (simp_all add: instance_of_def)
  then obtain row d2 where d2: "SetConnectionIntent i intent clear (w\<lparr>db := d1\<rparr>) = (Inr row, w\<lparr>db := d2\<rparr>)"
    "session_leases d2 = session_leases d1"
    by (rule SetConnectionIntent_ok [OF _ _ assms(3)]) simp
  have "faults (w\<lparr>db := d2\<rparr>) = []" using assms(1) by simp
  then obtain d3 where "SetDesired (cs_leases s) i desired (w\<lparr>db := d2\<rparr>) = (Inr (), w\<lparr>db := d3\<rparr>)" "leases_ok d2 \<longrightarrow> leases_ok d3"
    by (rule SetDesired_ok) simp
  then show thesis using d1 d2 by (intro that [of d3]) (simp_all add: record_intent_def bindE_def wrapE_def leases_ok_def)
qed

subsection \<open>Disconnect\<close>

lemma leave_simps [simp]:
  "db (leave a srv v w) = db v" "now (leave a srv v w) = now w" "faults (leave a srv v w) = faults v"
  "fleet (leave a srv v w) = (fleet w)(a \<mapsto> (srv, local_of v))"
  by (simp_all add: leave_def)

lemma owned_after_intent:
  assumes "record_intent s i intent clear desired w = (Inr (), w\<lparr>db := d\<rparr>)" and "owned_at c i a srv lo l w"
  shows "owned_at c i a srv lo (l\<lparr>l_desired_state := desired, l_updated_at := now w\<rparr>) (w\<lparr>db := d\<rparr>)"
  using assms(2) by (rule_tac record_intent_Inr [OF assms(1)]) (auto simp: owned_at_def is_live_def)

lemma permanent_bars_adoption: "reason_of i w = Some (Some reason) \<Longrightarrow> Permanent reason \<Longrightarrow> \<not> may_adopt m w i"
  by (auto simp: reason_of_def may_adopt_def)

text \<open>
  C26. A disconnect, end to end. When the API asks for it, a live worker runs the session and everything
  answers, then, whatever owner was cached: the caller is told \<open>disconnected\<close>; that worker no longer has
  the session and no other worker changed; it gave the lease back; the row carries \<open>user_requested\<close>;
  and no reconciliation of any worker, now or at any later time, may bring the session back.
\<close>

theorem disconnect_stops_the_session:
  fixes w :: "('s, 'z) fleet_world_scheme"
  assumes api: "cs_sessions s = c" and quiet: "faults w = []"
    and codec: "uuid_Parse (cl_codec c) (uuid_String (cl_codec c) i) = Some i"
    and row: "instance_of (db w) i = Some r"
    and own: "owned_at c i a srv lo l w" and sole: "sole_name a srv w" and dial: "\<forall>b. cl_dials c b"
    and one: "sup_leases (srv_supervisor srv) = srv_leases srv" and p: "map_of (lo_sessions lo) i = Some p"
  shows "\<exists>w' lo'. svc_Disconnect s (fleet_stub (cl_codec c)) i w = (Inr InstanceDisconnected, w') \<and>
    fleet w' = (fleet w)(a \<mapsto> (srv, lo')) \<and> map_of (lo_sessions lo') i = None \<and>
    (\<forall>l'. lease_of (db w') i = Some l' \<longrightarrow> l_worker_id l' \<noteq> Some (workerID (srv_leases srv))) \<and>
    reason_of i w' = Some (Some ReasonUserRequested) \<and> (\<forall>m t. \<not> may_adopt m (w'\<lparr>now := t\<rparr>) i)"
proof -
  let ?run = "\<lambda>srv. sup_Disconnect (srv_supervisor srv)"
  obtain d where intent: "record_intent s i IntentStopped False DesiredStopped w = (Inr (), w\<lparr>db := d\<rparr>)"
    by (rule record_intent_ok [OF quiet row, of IntentStopped]) (simp_all add: intent_Valid_def)
  let ?w1 = "w\<lparr>db := d\<rparr>" and ?l1 = "l\<lparr>l_desired_state := DesiredStopped, l_updated_at := now w\<rparr>"
  obtain row' where row': "instance_of d i = Some row'" by (rule record_intent_Inr [OF intent]) simp
  have runs: "\<exists>v. ?run srv i (enter w2 lo) = (Inr InstanceDisconnected, v) \<and> map_of (sessions v) i = None \<and>
      lease_not_mine (srv_supervisor srv) i v \<and> reason_of i v = Some (Some ReasonUserRequested)" if "routed ?w1 w2" for w2
    using disconnect_command_effect [of "enter w2 lo" i p row' "srv_supervisor srv"] that quiet row' p
    by (auto simp: routed_def enter_def)
  have "\<exists>w2. routed ?w1 w2 \<and> call c i (\<lambda>addr f. rpc addr (\<lambda>srv. command (cl_codec c) srv (Some f) (?run srv) stateToProto)) ?w1 =
      (case ?run srv i (enter w2 lo) of
         (Inl e, v) \<Rightarrow> (Inl (GrpcError (translate (cl_codec c) e)), leave a srv v w2)
       | (Inr r, v) \<Rightarrow> (Inr (stateToProto r), leave a srv v w2))"
    using quiet codec sole dial runs owned_after_intent [OF intent own]
    by (intro call_reaches_owner [of _ _ _ _ _ _ ?l1]) (force simp: sole_name_def)+
  then obtain w2 where w2: "routed ?w1 w2" and call: "client_Disconnect c (fleet_stub (cl_codec c)) i ?w1 =
      (case ?run srv i (enter w2 lo) of
         (Inl e, v) \<Rightarrow> (Inl (GrpcError (translate (cl_codec c) e)), leave a srv v w2)
       | (Inr r, v) \<Rightarrow> (Inr (stateToProto r), leave a srv v w2))"
    by (auto simp: client_Disconnect_def fleet_stub_def srv_Disconnect_def)
  obtain v where v: "?run srv i (enter w2 lo) = (Inr InstanceDisconnected, v)" "map_of (sessions v) i = None"
    "lease_not_mine (srv_supervisor srv) i v" "reason_of i v = Some (Some ReasonUserRequested)" using runs [OF w2] by blast
  have "svc_Disconnect s (fleet_stub (cl_codec c)) i w = (Inr InstanceDisconnected, leave a srv v w2)"
    using intent call v(1) by (simp add: svc_Disconnect_def deliver_def catchE_def bindE_def ret_def api)
  moreover have "reason_of i ((leave a srv v w2)\<lparr>now := t\<rparr>) = Some (Some ReasonUserRequested)" for t
    using v(4) by (simp add: reason_of_def)
  then have "\<not> may_adopt m ((leave a srv v w2)\<lparr>now := t\<rparr>) i" for m t by (rule permanent_bars_adoption) simp
  moreover have "reason_of i (leave a srv v w2) = Some (Some ReasonUserRequested)" using v(4) by (simp add: reason_of_def)
  ultimately show ?thesis using v w2 one by (auto simp: routed_def local_of_def lease_not_mine_def)
qed

text \<open>The lease has moved to worker \<open>w2\<close>, which runs the session; the API still remembers \<open>w1\<close>.\<close>

definition demo_online :: "FakeSession fleet_world" where
  "demo_online = demo_fleet\<lparr>fleet := (fleet demo_fleet)(''w2:9090'' \<mapsto> (demo_worker_server ''w2'', local_of demo_lost))\<rparr>"

lemma demo_api_facts:
  "cs_sessions demo_service = demo_client" "\<forall>b. cl_dials demo_client b"
  "uuid_Parse (cl_codec demo_client) (uuid_String (cl_codec demo_client) 7) = Some 7"
  "sup_leases (srv_supervisor (demo_worker_server n)) = srv_leases (demo_worker_server n)"
  by (simp_all add: demo_service_def demo_client_def demo_codec_def parse_nat_def parse_digits_digits_nat demo_worker_server_def)

theorem disconnect_stops_the_session_witness:
  "\<exists>w' lo'. svc_Disconnect demo_service (fleet_stub (cl_codec demo_client)) 7 demo_online = (Inr InstanceDisconnected, w') \<and>
    fleet w' ''w2:9090'' = Some (demo_worker_server ''w2'', lo') \<and> map_of (lo_sessions lo') 7 = None \<and>
    reason_of 7 w' = Some (Some ReasonUserRequested)"
proof -
  have own: "owned_at demo_client 7 ''w2:9090'' (demo_worker_server ''w2'') (local_of demo_lost) demo_moved demo_online"
    by (simp add: owned_at_def lease_of_def demo_online_def demo_fleet_def demo_moved_def demo_client_def is_live_def Interval_def
      local_of_def demo_lost_def demo_worker_def demo_worker_server_def demo_defs)
  have sole: "sole_name ''w2:9090'' (demo_worker_server ''w2'') demo_online"
    by (auto simp: sole_name_def demo_online_def demo_fleet_def demo_worker_server_def demo_manager_def split: if_splits)
  have "faults demo_online = []" "instance_of (db demo_online) 7 = Some (new_instance_row 1 7 1 ''shop'')"
    "map_of (lo_sessions (local_of demo_lost)) 7 = Some 0"
    by (simp_all add: demo_online_def demo_fleet_def instance_of_def local_of_def demo_lost_def demo_defs)
  from disconnect_stops_the_session [OF demo_api_facts(1) this(1) demo_api_facts(3) this(2) own sole demo_api_facts(2,4) this(3)]
  show ?thesis by fastforce
qed

subsection \<open>Connect\<close>

text \<open>
  While a command sleeps for \<open>d\<close>, the process at address \<open>a\<close> receives the claim and handles it, as
  the control loop of its runtime does.
\<close>

definition wakes :: "string \<Rightarrow> duration \<Rightarrow> ID \<Rightarrow> ('s, 'z) fleet_world_scheme \<Rightarrow> bool \<times> ('s, 'z) fleet_world_scheme" where
  "wakes a d i w = (False, snd ((at_worker a (\<lambda>srv. runtime_claim (srv_supervisor srv) i) ::
     (('s, 'z) fleet_world_scheme, worker_error, unit option) io) (w\<lparr>now := now w + d\<rparr>)))"

lemma claimable_not_live: "claimable t e l \<Longrightarrow> is_live t e l \<noteq> Some True"
  by (auto simp: claimable_def is_live_def expired_def split: option.splits)

lemma claimable_later: "claimable t e l \<Longrightarrow> t \<le> t' \<Longrightarrow> claimable t' e l"
  by (auto simp: claimable_def expired_def split: option.splits)

lemma live_later: "live t k = None \<Longrightarrow> t \<le> t' \<Longrightarrow> live t' k = None"
  by (auto simp: live_def split: option.splits if_splits)

lemma call_no_owner:
  assumes "faults w = []" and "live (now w) (owner_keys (redis w) i) = None" and "lease_of (db w) i = Some l"
    and "is_live (now w) (Interval (m_expiry (cl_leases c))) l \<noteq> Some True"
  shows "call c i fn w = (Inl ErrNoOwner, w)"
  using assms by (simp add: call_def call_loop.simps resolve_def cached_owner_def redis_call_ok attempt_def bindE_def
    resolve_lease_def lease_Owner_def GetLeaseOwner_def select_one_def run_statement_ok wrapE_def ret_def throw_def)

lemma redis_Adopt: "always (same redis) (Adopt s i)"
  unfolding Adopt_def HasCapacity_def lookup_def Acquire_def AcquireLease_def start_def GetInstanceConnectionByID_def
    Release_def ReleaseLease_def record_event_def AppendConnectionEvent_def Let_def
  by (intro same.always_intros same_run_statement always_modifyE) (simp_all add: same_def)

text \<open>A claim that reaches a worker with room makes it the owner.\<close>

lemma claim_adopts:
  fixes w :: "('s, 'z) fleet_world_scheme"
  assumes "faults w = []" and "leases_ok (db w)" and at: "fleet w a = Some (srv, lo)" and one: "sup_leases (srv_supervisor srv) = srv_leases srv"
    and "may_adopt (srv_leases srv) w i" and "builds_sessions (srv_supervisor srv)" and "\<not> lo_draining lo"
    and "int (length (lo_sessions lo)) < sup_maxSessions (srv_supervisor srv)" and "map_of (lo_sessions lo) i = None"
  obtains v where "(at_worker a (\<lambda>srv. runtime_claim (srv_supervisor srv) i) ::
      (('s, 'z) fleet_world_scheme, worker_error, unit option) io) w = (Inr (Some ()), leave a srv v w)"
    and "took_over (srv_supervisor srv) (enter w lo) i v" and "faults v = []" and "\<not> draining v" and "redis v = redis w"
proof -
  let ?s = "srv_supervisor srv" and ?u = "enter w lo"
  have u: "sessions ?u = lo_sessions lo" "may_adopt (sup_leases ?s) ?u i" using assms(5) one by (simp_all add: enter_def may_adopt_def)
  obtain v where v: "Adopt ?s i ?u = (Inr (), v)" "took_over ?s ?u i v" "only_touches [i] ?u v"
    by (rule Adopt_orphan [of ?u ?s i]) (use assms u in simp_all)
  have "redis v = redis w" using alwaysD [OF redis_Adopt, of ?u ?s i] v(1) by (simp add: same_def)
  moreover have "(runtime_claim ?s i :: ('s worker_world, worker_error, unit) io) ?u = (Inr (), v)"
    using v(1) assms(7,8) u by (simp add: runtime_claim_def HasCapacity_def runtime_adopt_def ignoreE_def bindE_def getsE_def)
  ultimately show thesis using v at assms(7) by (intro that [of v]) (simp_all add: at_worker_def only_touches_def)
qed

definition connect_reply :: "ConnectResult \<Rightarrow> ConnectResponse" where
  "connect_reply r = \<lparr>cn_State = stateToProto (cr_State r), cn_PairingStarted = cr_PairingStarted r,
     cn_PairingExpiresAt = set_time (cr_PairingExpiresAt r)\<rparr>"

definition connect_answer :: "ConnectResult \<Rightarrow> ConnectAnswer" where
  "connect_answer r = \<lparr>ca_State = stateFromProto (stateToProto (cr_State r)), ca_Intent = IntentActive,
     ca_PairingStarted = cr_PairingStarted r,
     ca_PairingExpires = map_option truncate_second (set_time (cr_PairingExpiresAt r))\<rparr>"

lemma client_Connect_fleet:
  "client_Connect c (fleet_stub (cl_codec c)) i = call c i (\<lambda>addr f. rpc addr (\<lambda>srv.
     command (cl_codec c) srv (Some f) (sup_Connect (srv_supervisor srv)) connect_reply))"
  by (simp add: client_Connect_def fleet_stub_def srv_Connect_def connect_reply_def [abs_def])

text \<open>The state of the worker that answers a connect: it owns the instance and runs its session.\<close>

definition running_at ::
  "Client \<Rightarrow> ID \<Rightarrow> string \<Rightarrow> 's GRPCServer \<Rightarrow> 's worker_local \<Rightarrow> ('s, 'z) fleet_world_scheme \<Rightarrow> bool" where
  "running_at c i a srv lo w \<longleftrightarrow> (\<exists>l p. owned_at c i a srv lo l w \<and> map_of (lo_sessions lo) i = Some p \<and>
     p < length (lo_objects lo) \<and> ms_generation (lo_objects lo ! p) = l_generation l)"

text \<open>A worker that can take the instance on: it is up, has room, and agrees with the API about the lease's expiry.\<close>

definition can_take ::
  "Client \<Rightarrow> ID \<Rightarrow> string \<Rightarrow> 's GRPCServer \<Rightarrow> 's worker_local \<Rightarrow> ('s, 'z) fleet_world_scheme \<Rightarrow> bool" where
  "can_take c i a srv lo w \<longleftrightarrow> fleet w a = Some (srv, lo) \<and> a \<noteq> [] \<and> grpcAddr (srv_leases srv) = a \<and>
     sup_leases (srv_supervisor srv) = srv_leases srv \<and> m_expiry (srv_leases srv) = m_expiry (cl_leases c) \<and>
     0 \<le> m_expiry (cl_leases c) \<and> builds_sessions (srv_supervisor srv) \<and> \<not> lo_draining lo \<and>
     int (length (lo_sessions lo)) < sup_maxSessions (srv_supervisor srv) \<and> map_of (lo_sessions lo) i = None"

lemma claim_then_connect:
  fixes w :: "('s, 'z) fleet_world_scheme"
  assumes quiet: "faults w = []" and ok: "leases_ok (db w)" and take: "can_take c i a srv lo w"
    and may: "may_adopt (srv_leases srv) (w\<lparr>now := now w + d\<rparr>) i"
    and codec: "uuid_Parse (cl_codec c) (uuid_String (cl_codec c) i) = Some i" and dial: "cl_dials c a"
    and cold: "live (now w + d) (owner_keys (redis w) i) = None"
  shows "\<exists>w2 lo2. running_at c i a srv lo2 w2 \<and> (case sup_Connect (srv_supervisor srv) i (enter w2 lo2) of
      (Inr r, v) \<Rightarrow> client_Connect c (fleet_stub (cl_codec c)) i (snd (wakes a d i w)) = (Inr (connect_reply r), leave a srv v w2)
    | (Inl e, v) \<Rightarrow> \<not> shouldRetry (translate (cl_codec c) e) \<longrightarrow> client_Connect c (fleet_stub (cl_codec c)) i (snd (wakes a d i w)) =
        (Inl (GrpcError (translate (cl_codec c) e)), leave a srv v w2))"
proof -
  let ?u = "w\<lparr>now := now w + d\<rparr>"
  obtain v where run: "(at_worker a (\<lambda>srv. runtime_claim (srv_supervisor srv) i) ::
      (('s, 'z) fleet_world_scheme, worker_error, unit option) io) ?u = (Inr (Some ()), leave a srv v ?u)"
    and took: "took_over (srv_supervisor srv) (enter ?u lo) i v" and v: "faults v = []" "\<not> draining v" "redis v = redis w"
    by (rule claim_adopts [of ?u a srv lo i]) (use quiet ok may take in \<open>simp_all add: can_take_def\<close>)
  from take have at: "fleet w a = Some (srv, lo)" "a \<noteq> []" "grpcAddr (srv_leases srv) = a"
    and one: "sup_leases (srv_supervisor srv) = srv_leases srv" and same: "0 \<le> m_expiry (cl_leases c)"
    by (simp_all add: can_take_def)
  let ?w1 = "leave a srv v ?u" and ?lo = "local_of v"
  obtain l p where l: "lease_of (db v) i = Some (acquire_set (now w + d) (workerID (srv_leases srv)) a l)"
    and p: "map_of (sessions v) i = Some p" "p < length (objects v)" "ms_generation (objects v ! p) = l_generation l + 1"
    using took at(3) one by (auto simp: took_over_def managed_def)
  let ?l = "acquire_set (now w + d) (workerID (srv_leases srv)) a l"
  have "0 \<le> Interval (m_expiry (cl_leases c))" using same by (simp add: Interval_def)
  then have own: "owned_at c i a srv ?lo ?l ?w1"
    using l at v by (simp add: owned_at_def is_live_def acquire_set_def local_of_def)
  have w1: "snd (wakes a d i w) = ?w1" by (simp add: wakes_def run)
  have quiet1: "faults ?w1 = []" using v by simp
  have "cached_owner i ?w1 = (Inl RedisNil, ?w1)"
    using cold v by (simp add: cached_owner_def redis_call_ok leave_def)
  then have "resolve c i True ?w1 = resolve_lease c i ?w1" by (simp add: resolve_def attempt_def bindE_def)
  then have res: "resolve c i True ?w1 = (Inr \<lparr>ow_Addr = a, ow_Generation = l_generation ?l\<rparr>, remembered i a (l_generation ?l) ?w1)"
    using resolve_lease_ok [OF quiet1, of i ?l c a] own by (simp add: owned_at_def)
  let ?w2 = "pooled a (remembered i a (l_generation ?l) ?w1)"
  have r: "routed ?w1 ?w2" by (intro routed_pooled routed_remembered routed_refl)
  then have "running_at c i a srv ?lo ?w2"
    unfolding running_at_def using owned_routed [OF r own] p
    by (intro exI [of _ ?l] exI [of _ p]) (simp add: local_of_def acquire_set_def)
  moreover note first_attempt [OF quiet1 codec own dial res routed_remembered [OF routed_refl],
    of "\<lambda>srv. sup_Connect (srv_supervisor srv)" connect_reply]
  ultimately show ?thesis unfolding w1 client_Connect_fleet
    by (intro exI [of _ ?w2] exI [of _ ?lo] conjI) (auto split: prod.split sum.split)
qed

lemma claim_loop_second:
  assumes "cmd w = (Inl ErrNoOwner, w)" and "now w \<le> deadline" and "clock \<le> deadline" and "\<not> fst (elapse w)"
    and "cmd (snd (elapse w)) = (r, w')" and "r \<noteq> Inl ErrNoOwner"
  shows "claim_loop s elapse cmd deadline clock w = (case r of Inr x \<Rightarrow> (Inr x, w') | Inl e \<Rightarrow> (Inl (translateSessionError s e), w'))"
proof -
  have "claim_loop s elapse cmd deadline clock' (snd (elapse w)) =
      (case r of Inr x \<Rightarrow> (Inr x, w') | Inl e \<Rightarrow> (Inl (translateSessionError s e), w'))" for clock'
    using assms(5,6) by (subst claim_loop.simps) (auto split: sum.split)
  with assms(1-4) show ?thesis by (subst claim_loop.simps) (simp add: max_def)
qed


text \<open>An instance a ban parked, an empty cache and an idle worker \<open>w2\<close>.\<close>

definition demo_asleep :: "FakeSession fleet_world" where
  "demo_asleep = demo_fleet\<lparr>db := db demo_parked, redis := demo_redis\<rparr>"


end
