(* ===== verification/Password.thy ===== *)
theory Password
  imports Base64
begin

text \<open>
  Passwords, \<open>internal/domain/password.go\<close> and the password and email rules of \<open>validate.go\<close>: PHC
  strings around Argon2id, their parser (with what \<open>fmt.Sscanf\<close> accepts for \<open>%d\<close>), temporary
  passwords. \<open>golang.org/x/crypto/argon2\<close> is a parameter: its version number and \<open>IDKey\<close>, where
  \<open>None\<close> is the panic it documents for degenerate cost parameters. Random bytes are what
  \<open>crypto/rand\<close> returned, \<open>None\<close> its failure. The main fact is that a stored hash verifies exactly the
  passwords with the same derived key.
\<close>

subsection \<open>Hashes\<close>

record argon2_lib =
  argon2_Version :: int
  IDKey :: "string \<Rightarrow> string \<Rightarrow> nat \<Rightarrow> nat \<Rightarrow> nat \<Rightarrow> nat \<Rightarrow> string option"

record argon2Params =
  memoryKiB :: nat
  iterations :: nat
  parallelism :: nat
  saltLength :: nat
  keyLength :: nat

definition defaultArgon2Params :: argon2Params where
  "defaultArgon2Params = \<lparr>memoryKiB = 64 * 1024, iterations = 1, parallelism = 4, saltLength = 16, keyLength = 32\<rparr>"

datatype password_error = ErrInvalidPasswordHash | NoRandomness | IDKeyPanic

definition derive :: "argon2_lib \<Rightarrow> argon2Params \<Rightarrow> string \<Rightarrow> string \<Rightarrow> string option" where
  "derive lib params plain salt =
     IDKey lib plain salt (iterations params) (memoryKiB params) (parallelism params) (keyLength params)"

definition phc_string :: "argon2_lib \<Rightarrow> argon2Params \<Rightarrow> string \<Rightarrow> string \<Rightarrow> string" where
  "phc_string lib params salt key =
     ''$argon2id$v='' @ FormatInt (argon2_Version lib) @ ''$m='' @ FormatInt (int (memoryKiB params)) @
     '',t='' @ FormatInt (int (iterations params)) @ '',p='' @ FormatInt (int (parallelism params)) @
     ''$'' @ EncodeToString RawStdEncoding salt @ ''$'' @ EncodeToString RawStdEncoding key"

definition HashPassword :: "argon2_lib \<Rightarrow> string option \<Rightarrow> string \<Rightarrow> password_error + string" where
  "HashPassword lib randomness plain = (case randomness of
       None \<Rightarrow> Inl NoRandomness
     | Some salt \<Rightarrow> (case derive lib defaultArgon2Params plain salt of
          None \<Rightarrow> Inl IDKeyPanic
        | Some key \<Rightarrow> Inr (phc_string lib defaultArgon2Params salt key)))"

text \<open>
  \<open>fmt.Sscanf\<close> for \<open>%d\<close>: blanks (not line breaks) are skipped, signed operands may have a sign, at
  least one digit, within the operand's width; what follows is left. A literal has to match.
\<close>

definition scan_blanks :: "string \<Rightarrow> string" where
  "scan_blanks s = dropWhile (\<lambda>c. is_space c \<and> c \<noteq> char_of (10 :: nat)) s"

definition is_digit :: "char \<Rightarrow> bool" where
  "is_digit c \<longleftrightarrow> digit_val c \<noteq> None"

definition scan_uint :: "nat \<Rightarrow> string \<Rightarrow> (nat \<times> string) option" where
  "scan_uint bits s =
     (let t = scan_blanks s in
      case parse_nat (takeWhile is_digit t) of
        None \<Rightarrow> None
      | Some v \<Rightarrow> if v < 2 ^ bits then Some (v, dropWhile is_digit t) else None)"

definition scan_int :: "string \<Rightarrow> (int \<times> string) option" where
  "scan_int s =
     (let t = scan_blanks s;
          (sign, body) = (case t of [] \<Rightarrow> ([], [])
             | c # r \<Rightarrow> if c = CHR ''-'' \<or> c = CHR ''+'' then ([c], r) else ([], t)) in
      map_option (\<lambda>v. (v, dropWhile is_digit body)) (ParseInt64 (sign @ takeWhile is_digit body)))"

text \<open>\<open>fmt.Sscanf(s, "v=%d", ...)\<close> and \<open>fmt.Sscanf(s, "m=%d,t=%d,p=%d", ...)\<close>.\<close>

definition scan_version :: "string \<Rightarrow> int option" where
  "scan_version s = Option.bind (CutPrefix s ''v='') (\<lambda>r. map_option fst (scan_int r))"

definition scan_costs :: "string \<Rightarrow> (nat \<times> nat \<times> nat) option" where
  "scan_costs s =
     Option.bind (CutPrefix s ''m='') (\<lambda>r. Option.bind (scan_uint 32 r) (\<lambda>(m, r).
     Option.bind (CutPrefix r '',t='') (\<lambda>r. Option.bind (scan_uint 32 r) (\<lambda>(t, r).
     Option.bind (CutPrefix r '',p='') (\<lambda>r. Option.bind (scan_uint 8 r) (\<lambda>(p, r). Some (m, t, p)))))))"

definition decodePHC :: "argon2_lib \<Rightarrow> string \<Rightarrow> (argon2Params \<times> string \<times> string) option" where
  "decodePHC lib encoded = (case Split encoded CHR ''$'' of
       [p0, p1, p2, p3, p4, p5] \<Rightarrow>
         if p0 \<noteq> [] \<or> p1 \<noteq> ''argon2id'' \<or> scan_version p2 \<noteq> Some (argon2_Version lib) then None
         else (case scan_costs p3 of None \<Rightarrow> None
         | Some (m, t, p) \<Rightarrow> (case DecodeString RawStdEncoding p4 of None \<Rightarrow> None
           | Some salt \<Rightarrow> (case DecodeString RawStdEncoding p5 of None \<Rightarrow> None
             | Some key \<Rightarrow> if key = [] \<or> salt = [] then None
                 else Some (\<lparr>memoryKiB = m, iterations = t, parallelism = p,
                             saltLength = length salt, keyLength = length key\<rparr>, salt, key))))
     | _ \<Rightarrow> None)"

definition VerifyPassword :: "argon2_lib \<Rightarrow> string \<Rightarrow> string \<Rightarrow> password_error + bool" where
  "VerifyPassword lib encoded plain = (case decodePHC lib encoded of
       None \<Rightarrow> Inl ErrInvalidPasswordHash
     | Some (params, salt, want) \<Rightarrow> (case derive lib params plain salt of
          None \<Rightarrow> Inl IDKeyPanic
        | Some got \<Rightarrow> Inr (got = want)))"

subsection \<open>Temporary passwords and validation\<close>

definition temporaryPasswordBytes :: nat where "temporaryPasswordBytes = 18"
definition MinPasswordLength :: nat where "MinPasswordLength = 8"

definition GenerateTemporaryPassword :: "string option \<Rightarrow> password_error + string" where
  "GenerateTemporaryPassword randomness = (case randomness of
       None \<Rightarrow> Inl NoRandomness
     | Some buf \<Rightarrow> Inr (EncodeToString RawURLEncoding buf))"

definition ValidatePassword :: "string \<Rightarrow> string \<Rightarrow> Error option" where
  "ValidatePassword location password =
     (if RuneCountInString password < MinPasswordLength then
        Some (ErrValidation location (''expected length >= '' @ FormatInt (int MinPasswordLength)))
      else None)"

text \<open>\<open>mail.ParseAddress\<close> is a parameter: the address it extracts, if it accepts the text.\<close>

definition ValidateEmail :: "(string \<Rightarrow> string option) \<Rightarrow> string \<Rightarrow> string \<Rightarrow> Error option" where
  "ValidateEmail mail_ParseAddress location email =
     (let trimmed = NormalizeEmail email in
      if trimmed = [] then Some (ErrValidation location ''must not be empty'')
      else if mail_ParseAddress trimmed \<noteq> Some trimmed
        then Some (ErrValidation location ''must be a valid email address'')
      else None)"

subsection \<open>Reading back what was printed\<close>

lemma Split_cons: "sep \<notin> set p \<Longrightarrow> Split (p @ sep # s) sep = p # Split s sep"
  by (induction p) auto

lemma Split_single: "sep \<notin> set p \<Longrightarrow> Split p sep = [p]"
  by (induction p) auto

lemma CutPrefix_append [simp]: "CutPrefix (p @ r) p = Some r"
  by (simp add: CutPrefix_Some)

lemma digits_nat_digits: "\<forall>c \<in> set (digits_nat n). is_digit c"
proof (induction n rule: digits_nat.induct)
  case (1 n)
  have d: "is_digit (char_of (48 + k))" if "k < 10" for k :: nat
    using that by (simp add: is_digit_def digit_val_def)
  show ?case
  proof (cases "n < 10")
    case True
    then show ?thesis using d by (simp add: digits_nat.simps [of n])
  next
    case False
    with 1 d show ?thesis by (simp add: digits_nat.simps [of n])
  qed
qed

lemma is_digit_range: "is_digit c \<longleftrightarrow> 48 \<le> (of_char c :: nat) \<and> (of_char c :: nat) \<le> 57"
  by (simp add: is_digit_def digit_val_def Let_def)

lemma digits_take_drop:
  assumes "\<forall>c \<in> set d. is_digit c" and "r = [] \<or> \<not> is_digit (hd r)"
  shows "takeWhile is_digit (d @ r) = d" and "dropWhile is_digit (d @ r) = r"
  using assms by (cases r; simp add: takeWhile_append2 dropWhile_append2)+

lemma scan_blanks_digits: "d \<noteq> [] \<Longrightarrow> is_digit (hd d) \<Longrightarrow> scan_blanks (d @ r) = d @ r"
  by (cases d) (auto simp: scan_blanks_def is_space_def is_digit_range)

lemma hd_digits: "is_digit (hd (digits_nat n))"
  using digits_nat_digits [of n] digits_nat_nonempty [of n] by (meson hd_in_set)

lemma scan_uint_FormatInt:
  assumes "n < 2 ^ bits" and "r = [] \<or> \<not> is_digit (hd r)"
  shows "scan_uint bits (FormatInt (int n) @ r) = Some (n, r)"
proof -
  have "parse_nat (digits_nat n) = Some n"
    using parse_digits_digits_nat [of n] by (simp add: parse_nat_def digits_nat_nonempty)
  with assms(1) show ?thesis
    by (simp add: scan_uint_def FormatInt_def scan_blanks_digits hd_digits
      digits_take_drop [OF digits_nat_digits assms(2)] del: takeWhile_append2 dropWhile_append2)
qed

lemma scan_int_FormatInt:
  assumes "0 \<le> n" and "n < 2 ^ 63"
  shows "scan_int (FormatInt n) = Some (n, [])"
proof -
  let ?d = "digits_nat (nat n)"
  obtain c cs where d: "?d = c # cs" using digits_nat_nonempty [of "nat n"] by (cases ?d) auto
  have c: "is_digit c" using hd_digits [of "nat n"] d by simp
  then have "c \<noteq> CHR ''-''" "c \<noteq> CHR ''+''" by (auto simp: is_digit_range)
  moreover have "scan_blanks ?d = ?d"
    using scan_blanks_digits [of ?d "[]"] c d by simp
  moreover have "takeWhile is_digit ?d = ?d" "dropWhile is_digit ?d = []"
    using digits_take_drop [of ?d "[]"] digits_nat_digits by simp_all
  moreover have "ParseInt64 ?d = Some n"
    using ParseInt64_FormatInt [of n] assms by (simp add: FormatInt_def)
  ultimately show ?thesis using assms(1) d by (simp add: scan_int_def FormatInt_def)
qed

lemma scan_costs_printed:
  assumes "m < 2 ^ 32" and "t < 2 ^ 32" and "p < 2 ^ 8"
  shows "scan_costs (''m='' @ FormatInt (int m) @ '',t='' @ FormatInt (int t) @ '',p='' @ FormatInt (int p)) = Some (m, t, p)"
proof -
  have sep: "\<not> is_digit (hd ('',t='' @ r))" "\<not> is_digit (hd ('',p='' @ r))" for r
    by (simp_all add: is_digit_range)
  have "scan_uint 32 (FormatInt (int m) @ '',t='' @ r) = Some (m, '',t='' @ r)" for r
    using scan_uint_FormatInt [OF assms(1), of "'',t='' @ r"] sep(1) [of r] by blast
  moreover have "scan_uint 32 (FormatInt (int t) @ '',p='' @ r) = Some (t, '',p='' @ r)" for r
    using scan_uint_FormatInt [OF assms(2), of "'',p='' @ r"] sep(2) [of r] by blast
  moreover have "scan_uint 8 (FormatInt (int p)) = Some (p, [])"
    using scan_uint_FormatInt [OF assms(3), of "[]"] by simp
  ultimately show ?thesis unfolding scan_costs_def by (simp only: CutPrefix_append Option.bind.simps prod.case)
qed

lemma FormatInt_no_dollar: "0 \<le> n \<Longrightarrow> CHR ''$'' \<notin> set (FormatInt n)"
  using digits_nat_digits [of "nat n"] by (auto simp: FormatInt_def is_digit_range)

lemma EncodeToString_no_dollar: "CHR ''$'' \<notin> set (EncodeToString RawStdEncoding b)"
proof -
  have "CHR ''$'' \<notin> set RawStdEncoding" by code_simp
  with raw_std.EncodeToString_digits show ?thesis by blast
qed

lemma decodePHC_phc_string:
  assumes "0 \<le> argon2_Version lib" and "argon2_Version lib < 2 ^ 63"
    and "memoryKiB params < 2 ^ 32" and "iterations params < 2 ^ 32" and "parallelism params < 2 ^ 8"
    and "salt \<noteq> []" and "key \<noteq> []"
  shows "decodePHC lib (phc_string lib params salt key) =
    Some (params\<lparr>saltLength := length salt, keyLength := length key\<rparr>, salt, key)"
proof -
  let ?v = "''v='' @ FormatInt (argon2_Version lib)"
  let ?c = "''m='' @ FormatInt (int (memoryKiB params)) @ '',t='' @ FormatInt (int (iterations params)) @
     '',p='' @ FormatInt (int (parallelism params))"
  let ?s = "EncodeToString RawStdEncoding salt" and ?k = "EncodeToString RawStdEncoding key"
  have nd: "CHR ''$'' \<notin> set ?v" "CHR ''$'' \<notin> set ?c" "CHR ''$'' \<notin> set ''argon2id''" "CHR ''$'' \<notin> set ([] :: string)"
    using assms(1) by (simp_all add: FormatInt_no_dollar)
  have "phc_string lib params salt key =
      [] @ CHR ''$'' # ''argon2id'' @ CHR ''$'' # ?v @ CHR ''$'' # ?c @ CHR ''$'' # ?s @ CHR ''$'' # ?k"
    by (simp add: phc_string_def)
  then have "Split (phc_string lib params salt key) CHR ''$'' = [[], ''argon2id'', ?v, ?c, ?s, ?k]"
    by (simp only: Split_cons Split_single nd EncodeToString_no_dollar not_False_eq_True)
  moreover have "scan_version ?v = Some (argon2_Version lib)"
    unfolding scan_version_def by (simp only: CutPrefix_append Option.bind.simps scan_int_FormatInt [OF assms(1,2)] option.map fst_conv)
  moreover note scan_costs_printed [OF assms(3-5)]
  ultimately show ?thesis
    using assms(6,7) by (simp only: decodePHC_def list.case raw_std.DecodeString_EncodeToString option.case prod.case) simp
qed

text \<open>
  C35. A stored password hash verifies exactly the passwords that derive its key: the string
  \<open>HashPassword\<close> prints is read back by \<open>VerifyPassword\<close> with the same salt and cost parameters, so the
  password itself is accepted, a password with a different key is refused, and neither is reported as
  a corrupted hash. Argon2 enters with its documented contract: a key of the requested length.
\<close>

theorem stored_hash_verifies_its_password:
  assumes version: "0 \<le> argon2_Version lib" "argon2_Version lib < 2 ^ 63"
    and contract: "\<And>plain. \<exists>key. derive lib defaultArgon2Params plain salt = Some key \<and> length key = 32"
    and salt: "length salt = saltLength defaultArgon2Params"
    and hashed: "HashPassword lib (Some salt) plain = Inr encoded"
  shows "VerifyPassword lib encoded plain = Inr True \<and>
    VerifyPassword lib encoded other =
      Inr (derive lib defaultArgon2Params other salt = derive lib defaultArgon2Params plain salt)"
proof -
  let ?p = defaultArgon2Params
  obtain key where key: "derive lib ?p plain salt = Some key" "length key = 32" using contract by blast
  obtain key' where key': "derive lib ?p other salt = Some key'" using contract by blast
  have enc: "encoded = phc_string lib ?p salt key" using hashed key by (simp add: HashPassword_def)
  have "decodePHC lib encoded = Some (?p\<lparr>saltLength := length salt, keyLength := length key\<rparr>, salt, key)"
    unfolding enc
  proof (rule decodePHC_phc_string [OF version])
    show "salt \<noteq> []" "key \<noteq> []" using salt key(2) by (auto simp: defaultArgon2Params_def)
  qed (simp_all add: defaultArgon2Params_def)
  moreover have "?p\<lparr>saltLength := length salt, keyLength := length key\<rparr> = ?p"
    using salt key(2) by (simp add: defaultArgon2Params_def)
  ultimately show ?thesis using key(1) key' by (auto simp: VerifyPassword_def)
qed

definition demo_argon2 :: argon2_lib where
  "demo_argon2 = \<lparr>argon2_Version = 19, IDKey = (\<lambda>plain salt t m p len. Some (take len (plain @ replicate len CHR ''.'')))\<rparr>"

theorem stored_hash_verifies_its_password_witness:
  "\<exists>h. HashPassword demo_argon2 (Some (replicate 16 CHR ''s'')) ''correct horse'' = Inr h \<and>
     VerifyPassword demo_argon2 h ''correct horse'' = Inr True \<and>
     VerifyPassword demo_argon2 h ''battery staple'' = Inr False"
proof -
  let ?salt = "replicate 16 CHR ''s''"
  have total: "\<exists>key. derive demo_argon2 defaultArgon2Params q ?salt = Some key \<and> length key = 32" for q
    by (simp add: derive_def demo_argon2_def defaultArgon2Params_def)
  have differ: "derive demo_argon2 defaultArgon2Params ''battery staple'' ?salt \<noteq>
      derive demo_argon2 defaultArgon2Params ''correct horse'' ?salt"
    by (simp add: derive_def demo_argon2_def defaultArgon2Params_def)
  obtain h where h: "HashPassword demo_argon2 (Some ?salt) ''correct horse'' = Inr h"
    by (simp add: HashPassword_def derive_def demo_argon2_def)
  have "0 \<le> argon2_Version demo_argon2" "argon2_Version demo_argon2 < 2 ^ 63"
    "length ?salt = saltLength defaultArgon2Params"
    by (simp_all add: demo_argon2_def defaultArgon2Params_def)
  from stored_hash_verifies_its_password [OF this(1,2) total this(3) h, of "''battery staple''"] h differ
  show ?thesis by auto
qed

text \<open>A temporary password has 24 characters, all of them ASCII, so it passes the rule for passwords.\<close>

lemma RuneCountInString_ascii:
  "\<forall>c \<in> set s. (of_char c :: nat) < 128 \<Longrightarrow> RuneCountInString s = length s"
  by (induction s) (auto simp: RuneCountInString_def)

lemma temporary_password_valid:
  assumes "length buf = temporaryPasswordBytes" and "GenerateTemporaryPassword (Some buf) = Inr pw"
  shows "length pw = 24 \<and> ValidatePassword location pw = None"
proof -
  have pw: "pw = EncodeToString RawURLEncoding buf" using assms(2) by (simp add: GenerateTemporaryPassword_def)
  have len: "length pw = 24"
    using assms(1) by (simp add: pw EncodeToString_def b64_pack_length temporaryPasswordBytes_def)
  have "\<forall>c \<in> set RawURLEncoding. (of_char c :: nat) < 128" by code_simp
  then have "RuneCountInString pw = 24"
    using raw_url.EncodeToString_digits [of buf] len pw by (simp add: RuneCountInString_ascii subset_iff)
  with len show ?thesis by (simp add: ValidatePassword_def MinPasswordLength_def)
qed

end
