(* ===== verification/Token.thy ===== *)
theory Token
  imports Password
begin

text \<open>
  Access tokens, \<open>internal/domain/token.go\<close>. Parameters: \<open>golang-jwt\<close> (signing with HS256, and parsing
  with the options the code passes: only HS256, an expiry is required and must lie ahead) and
  \<open>google/uuid\<close>. A numeric date of a token has whole seconds, so both instants are truncated. The facts
  state that an issued token is read back as it was issued until it expires and never after, and that
  a token belongs to exactly one plane.
\<close>

definition audience_Valid :: "Audience \<Rightarrow> bool" where
  "audience_Valid a \<longleftrightarrow> a = AudiencePlatform \<or> a = AudienceTenant"

fun audience_text :: "Audience \<Rightarrow> string" where
  "audience_text AudiencePlatform = ''platform''"
| "audience_text AudienceTenant = ''tenant''"
| "audience_text (OtherAudience s) = s"

text \<open>\<open>Audience(s)\<close>: the conversion of a string.\<close>

definition to_audience :: "string \<Rightarrow> Audience" where
  "to_audience s = (if s = ''platform'' then AudiencePlatform else if s = ''tenant'' then AudienceTenant
     else OtherAudience s)"

record TokenClaims =
  c_Subject :: ID
  c_Audience :: Audience
  c_TenantID :: "ID option"
  c_PasswordChange :: bool
  c_IssuedAt :: gotime
  c_ExpiresAt :: gotime

record jwtClaims =
  j_Subject :: string
  j_Audience :: "string list"
  j_IssuedAt :: "gotime option"
  j_ExpiresAt :: "gotime option"
  j_TenantID :: string
  j_PasswordChange :: bool

record uuid_lib =
  parseUUID :: "string \<Rightarrow> ID option"
  id_String :: "ID \<Rightarrow> string"

text \<open>\<open>SignedString\<close> (\<open>None\<close>: its error) and \<open>ParseWithClaims\<close> (\<open>None\<close>: any rejection).\<close>

record jwt_lib =
  jwt_sign :: "string \<Rightarrow> jwtClaims \<Rightarrow> string option"
  jwt_parse :: "string \<Rightarrow> gotime \<Rightarrow> string \<Rightarrow> jwtClaims option"

record TokenIssuer =
  ti_key :: string
  ti_ttl :: duration
  ti_jwt :: jwt_lib
  ti_ids :: uuid_lib

datatype issue_error = UnknownAudience | TenantRequired | SignFailed

definition Issue ::
  "TokenIssuer \<Rightarrow> gotime \<Rightarrow> ID \<Rightarrow> Audience \<Rightarrow> ID option \<Rightarrow> bool \<Rightarrow> issue_error + string \<times> TokenClaims" where
  "Issue i t subject audience tenantID passwordChange =
     (if \<not> audience_Valid audience then Inl UnknownAudience
      else if audience = AudienceTenant \<and> tenantID = None then Inl TenantRequired
      else (let expiresAt = t + ti_ttl i;
                claims = \<lparr>j_Subject = id_String (ti_ids i) subject, j_Audience = [audience_text audience],
                  j_IssuedAt = Some (truncate_second t), j_ExpiresAt = Some (truncate_second expiresAt),
                  j_TenantID = (case tenantID of None \<Rightarrow> [] | Some tid \<Rightarrow> id_String (ti_ids i) tid),
                  j_PasswordChange = passwordChange\<rparr>
            in case jwt_sign (ti_jwt i) (ti_key i) claims of
                 None \<Rightarrow> Inl SignFailed
               | Some signed \<Rightarrow> Inr (signed,
                   \<lparr>c_Subject = subject, c_Audience = audience, c_TenantID = tenantID,
                    c_PasswordChange = passwordChange, c_IssuedAt = truncate_second t,
                    c_ExpiresAt = truncate_second expiresAt\<rparr>)))"

definition uuidFromString :: "uuid_lib \<Rightarrow> string \<Rightarrow> ID option" where
  "uuidFromString ids raw = (if raw = [] then None else parseUUID ids raw)"

text \<open>\<open>None\<close> is \<open>ErrInvalidToken\<close>, whatever it wraps; the unset instant is the zero time.\<close>

definition token_Parse :: "TokenIssuer \<Rightarrow> gotime \<Rightarrow> string \<Rightarrow> TokenClaims option" where
  "token_Parse i t raw = (case jwt_parse (ti_jwt i) (ti_key i) t raw of
       None \<Rightarrow> None
     | Some claims \<Rightarrow> (case uuidFromString (ti_ids i) (j_Subject claims) of
          None \<Rightarrow> None
        | Some subject \<Rightarrow>
            if length (j_Audience claims) \<noteq> 1 then None
            else (let audience = to_audience (hd (j_Audience claims));
                      out = \<lparr>c_Subject = subject, c_Audience = audience, c_TenantID = None,
                        c_PasswordChange = j_PasswordChange claims,
                        c_IssuedAt = (case j_IssuedAt claims of None \<Rightarrow> zero_time | Some x \<Rightarrow> x),
                        c_ExpiresAt = (case j_ExpiresAt claims of None \<Rightarrow> zero_time | Some x \<Rightarrow> x)\<rparr> in
                  if \<not> audience_Valid audience then None
                  else if audience = AudienceTenant then
                    map_option (\<lambda>tid. out\<lparr>c_TenantID := Some tid\<rparr>) (uuidFromString (ti_ids i) (j_TenantID claims))
                  else if j_TenantID claims \<noteq> [] then None
                  else Some out)))"

subsection \<open>Facts\<close>

text \<open>What the two libraries document, as far as the service relies on it.\<close>

definition uuid_contract :: "uuid_lib \<Rightarrow> bool" where
  "uuid_contract ids \<longleftrightarrow> (\<forall>i. id_String ids i \<noteq> [] \<and> parseUUID ids (id_String ids i) = Some i)"

definition jwt_contract :: "jwt_lib \<Rightarrow> string \<Rightarrow> bool" where
  "jwt_contract lib key \<longleftrightarrow>
     (\<forall>claims raw t e. jwt_sign lib key claims = Some raw \<and> j_ExpiresAt claims = Some e \<longrightarrow>
        jwt_parse lib key t raw = (if t < e then Some claims else None))"

lemma to_audience_text: "audience_Valid a \<Longrightarrow> to_audience (audience_text a) = a"
  by (auto simp: audience_Valid_def to_audience_def)

lemma token_Parse_plane:
  assumes "token_Parse i t raw = Some c"
  shows "c_Audience c = AudienceTenant \<and> c_TenantID c \<noteq> None \<or>
    c_Audience c = AudiencePlatform \<and> c_TenantID c = None"
  using assms by (auto simp: token_Parse_def Let_def audience_Valid_def split: option.splits if_splits)

text \<open>
  C34. An issued token is accepted until the second it expires, with exactly the claims it was issued
  with, and refused from then on; a token that is accepted belongs to one plane: a tenant token names
  its tenant and a platform token names none.
\<close>

theorem issued_token_is_read_back:
  assumes laws: "uuid_contract (ti_ids i)" "jwt_contract (ti_jwt i) (ti_key i)"
    and plane: "audience = AudiencePlatform \<Longrightarrow> tenantID = None"
    and issued: "Issue i t subject audience tenantID pwd = Inr (raw, claims)"
  shows "token_Parse i t' raw = (if t' < truncate_second (t + ti_ttl i) then Some claims else None) \<and>
    c_Subject claims = subject \<and> c_Audience claims = audience \<and> c_TenantID claims = tenantID \<and>
    (token_Parse i t' other = Some c \<longrightarrow> (c_Audience c = AudienceTenant) = (c_TenantID c \<noteq> None))"
proof -
  let ?j = "\<lparr>j_Subject = id_String (ti_ids i) subject, j_Audience = [audience_text audience],
      j_IssuedAt = Some (truncate_second t), j_ExpiresAt = Some (truncate_second (t + ti_ttl i)),
      j_TenantID = (case tenantID of None \<Rightarrow> [] | Some tid \<Rightarrow> id_String (ti_ids i) tid),
      j_PasswordChange = pwd\<rparr>"
  from issued have valid: "audience_Valid audience" and tenant: "audience = AudienceTenant \<Longrightarrow> tenantID \<noteq> None"
    and sign: "jwt_sign (ti_jwt i) (ti_key i) ?j = Some raw"
    and claims: "claims = \<lparr>c_Subject = subject, c_Audience = audience, c_TenantID = tenantID,
      c_PasswordChange = pwd, c_IssuedAt = truncate_second t, c_ExpiresAt = truncate_second (t + ti_ttl i)\<rparr>"
    by (auto simp: Issue_def Let_def split: if_splits option.splits)
  have parse: "jwt_parse (ti_jwt i) (ti_key i) t' raw = (if t' < truncate_second (t + ti_ttl i) then Some ?j else None)"
    using laws(2) sign unfolding jwt_contract_def by fastforce
  have ids: "uuidFromString (ti_ids i) (id_String (ti_ids i) x) = Some x" for x
    using laws(1) by (simp add: uuid_contract_def uuidFromString_def)
  have "token_Parse i t' raw = Some claims" if "t' < truncate_second (t + ti_ttl i)"
    using that parse ids valid tenant plane
    by (cases tenantID) (auto simp: token_Parse_def Let_def to_audience_text claims audience_Valid_def)
  then show ?thesis
    using parse claims token_Parse_plane [of i t' other c] by (auto simp: token_Parse_def)
qed

definition demo_uuids :: uuid_lib where
  "demo_uuids = \<lparr>parseUUID = parse_nat, id_String = digits_nat\<rparr>"

lemma demo_uuids_contract: "uuid_contract demo_uuids"
  by (simp add: uuid_contract_def demo_uuids_def parse_nat_def parse_digits_digits_nat)

text \<open>A token library for one signing key that knows a single token.\<close>

definition demo_claims :: jwtClaims where
  "demo_claims = \<lparr>j_Subject = ''5'', j_Audience = [''tenant''], j_IssuedAt = Some (100 * second),
     j_ExpiresAt = Some (160 * second), j_TenantID = ''3'', j_PasswordChange = False\<rparr>"

definition demo_jwt :: jwt_lib where
  "demo_jwt = \<lparr>jwt_sign = (\<lambda>key claims. if claims = demo_claims then Some ''token'' else None),
     jwt_parse = (\<lambda>key t raw. if raw = ''token'' \<and> t < 160 * second then Some demo_claims else None)\<rparr>"

definition demo_issuer :: TokenIssuer where
  "demo_issuer = \<lparr>ti_key = ''k'', ti_ttl = 60 * second, ti_jwt = demo_jwt, ti_ids = demo_uuids\<rparr>"

lemma demo_jwt_contract: "jwt_contract demo_jwt key"
  by (auto simp: jwt_contract_def demo_jwt_def demo_claims_def)

lemma demo_digits: "digits_nat 5 = ''5''" "digits_nat 3 = ''3''"
  by code_simp+

theorem issued_token_is_read_back_witness:
  "\<exists>claims. Issue demo_issuer (100 * second) 5 AudienceTenant (Some 3) False = Inr (''token'', claims) \<and>
     token_Parse demo_issuer (159 * second) ''token'' = Some claims \<and>
     token_Parse demo_issuer (160 * second) ''token'' = None"
proof -
  obtain claims where c: "Issue demo_issuer (100 * second) 5 AudienceTenant (Some 3) False = Inr (''token'', claims)"
    by (simp add: Issue_def audience_Valid_def Let_def demo_issuer_def demo_jwt_def demo_claims_def demo_uuids_def
      demo_digits truncate_second_def second_def)
  have laws: "uuid_contract (ti_ids demo_issuer)" "jwt_contract (ti_jwt demo_issuer) (ti_key demo_issuer)"
    by (simp_all add: demo_issuer_def demo_uuids_contract demo_jwt_contract)
  have e: "truncate_second (100 * second + ti_ttl demo_issuer) = 160 * second"
    by (simp add: truncate_second_def second_def demo_issuer_def)
  have "159 * second < 160 * second" by (simp add: second_def)
  with c e issued_token_is_read_back [OF laws _ c, of "159 * second"]
    issued_token_is_read_back [OF laws _ c, of "160 * second"]
  show ?thesis by simp
qed

end
