(* ===== verification/Account_Store.thy ===== *)
theory Account_Store
  imports Store
begin

text \<open>
  The statements on accounts (\<open>internal/store/tenants.sql.go\<close>, \<open>users.sql.go\<close>, \<open>api_keys.sql.go\<close>,
  \<open>security_events.sql.go\<close>) and transactions. Column types follow the migrations: tenant names and
  emails are \<open>citext\<close> and compare without case, names have 1 to 120 characters, a super-admin has no
  tenant and a tenant admin has one, deletions cascade. CHECK constraints are tested before unique
  indexes and these before foreign keys, as PostgreSQL does. A transaction is one step: its statements
  work on the database as it was at \<open>BEGIN\<close>, and either all of them are kept or none.
\<close>

subsection \<open>Transactions\<close>

text \<open>
  \<open>pool.Begin\<close>, the body, \<open>tx.Commit\<close>, with the deferred \<open>tx.Rollback\<close> on every early return. A lost
  commit request leaves nothing behind (the server rolls back); a lost reply leaves the transaction
  committed although the caller sees an error.
\<close>

definition transaction :: "(db_error \<Rightarrow> 'e) \<Rightarrow> (db_error \<Rightarrow> 'e) \<Rightarrow> ('z world_scheme, 'e, 'a) io \<Rightarrow> ('z world_scheme, 'e, 'a) io" where
  "transaction begin_error commit_error body =
     bindE (wrapE begin_error (run_statement (\<lambda>t d. (Inr (), d)))) (\<lambda>_ w.
       case body w of
         (Inl e, w') \<Rightarrow> (Inl e, w'\<lparr>db := db w\<rparr>)
       | (Inr x, w') \<Rightarrow> (case next_outcome w' of
           (Delivered, w'') \<Rightarrow> (Inr x, w'')
         | (RequestLost, w'') \<Rightarrow> (Inl (commit_error ConnectionFailure), w''\<lparr>db := db w\<rparr>)
         | (ReplyLost, w'') \<Rightarrow> (Inl (commit_error ConnectionFailure), w'')))"

subsection \<open>Statements on tenants\<close>

definition tenant_of :: "database \<Rightarrow> ID \<Rightarrow> Tenant option" where
  "tenant_of d i = by_key t_ID i (tenants d)"

definition tenant_status_Valid :: "TenantStatus \<Rightarrow> bool" where
  "tenant_status_Valid s \<longleftrightarrow> s = TenantActive \<or> s = TenantSuspended"

definition tenant_name_taken :: "database \<Rightarrow> ID \<Rightarrow> string \<Rightarrow> bool" where
  "tenant_name_taken d i name \<longleftrightarrow> (\<exists>t \<in> set (tenants d). t_ID t \<noteq> i \<and> ToLower (t_Name t) = ToLower name)"

definition CreateTenant :: "ID \<Rightarrow> string \<Rightarrow> ('z world_scheme, db_error, Tenant) io" where
  [query_defs]: "CreateTenant i name = run_statement (\<lambda>t d.
     if \<not> name_length_ok name then (Inl CheckViolation, d)
     else if i \<in> t_ID ` set (tenants d) then (Inl (UniqueViolation ''tenants_pkey''), d)
     else if tenant_name_taken d i name then (Inl (UniqueViolation ''tenants_name_key''), d)
     else (let row = \<lparr>t_ID = i, t_Name = name, t_Status = TenantActive, t_CreatedAt = t, t_UpdatedAt = t\<rparr> in
       (Inr row, d\<lparr>tenants := tenants d @ [row]\<rparr>)))"

definition GetTenantByID :: "ID \<Rightarrow> ('z world_scheme, db_error, Tenant) io" where
  [query_defs]: "GetTenantByID i = run_statement (select_one (\<lambda>t d. tenant_of d i))"

definition ListTenants :: "('z world_scheme, db_error, Tenant list) io" where
  [query_defs]: "ListTenants = run_statement (select (\<lambda>t d. sort_key t_CreatedAt (tenants d)))"

definition update_tenant :: "ID \<Rightarrow> (Tenant \<Rightarrow> Tenant) \<Rightarrow> database \<Rightarrow> database" where
  "update_tenant i f d = d\<lparr>tenants := update_where (\<lambda>r. t_ID r = i) f (tenants d)\<rparr>"

definition UpdateTenantName :: "ID \<Rightarrow> string \<Rightarrow> ('z world_scheme, db_error, Tenant) io" where
  [query_defs]: "UpdateTenantName i name = run_statement (\<lambda>t d. case tenant_of d i of
       None \<Rightarrow> (Inl ErrNoRows, d)
     | Some row \<Rightarrow>
        if \<not> name_length_ok name then (Inl CheckViolation, d)
        else if tenant_name_taken d i name then (Inl (UniqueViolation ''tenants_name_key''), d)
        else (Inr (row\<lparr>t_Name := name, t_UpdatedAt := t\<rparr>),
              update_tenant i (\<lambda>r. r\<lparr>t_Name := name, t_UpdatedAt := t\<rparr>) d))"

definition SetTenantStatus :: "ID \<Rightarrow> TenantStatus \<Rightarrow> ('z world_scheme, db_error, Tenant) io" where
  [query_defs]: "SetTenantStatus i s = run_statement (\<lambda>t d. case tenant_of d i of
       None \<Rightarrow> (Inl ErrNoRows, d)
     | Some row \<Rightarrow>
        if \<not> tenant_status_Valid s then (Inl CheckViolation, d)
        else (Inr (row\<lparr>t_Status := s, t_UpdatedAt := t\<rparr>),
              update_tenant i (\<lambda>r. r\<lparr>t_Status := s, t_UpdatedAt := t\<rparr>) d))"

definition tenant_owns :: "database \<Rightarrow> ID \<Rightarrow> ID \<Rightarrow> bool" where
  "tenant_owns d tenant i \<longleftrightarrow> (\<exists>r \<in> set (instances d). r_id r = i \<and> r_tenant_id r = tenant)"

record CountTenantCascadeRow =
  UserCount :: int
  InstanceCount :: int
  ApiKeyCount :: int

definition CountTenantCascade :: "ID \<Rightarrow> ('z world_scheme, db_error, CountTenantCascadeRow) io" where
  [query_defs]: "CountTenantCascade tenant = run_statement (select (\<lambda>t d.
     \<lparr>UserCount = int (length (filter (\<lambda>u. u_TenantID (usr_user u) = Some tenant) (users d))),
      InstanceCount = int (length (filter (\<lambda>r. r_tenant_id r = tenant) (instances d))),
      ApiKeyCount = int (length (filter (\<lambda>k. tenant_owns d tenant (k_InstanceID (key_meta k))) (api_keys d)))\<rparr>))"

text \<open>\<open>ON DELETE CASCADE\<close>: users and instances of the tenant, and what hangs on the instances.\<close>

definition drop_tenant :: "ID \<Rightarrow> database \<Rightarrow> database" where
  "drop_tenant tenant d =
     (drop_instances (tenant_owns d tenant) d)\<lparr>
       tenants := filter (\<lambda>t. t_ID t \<noteq> tenant) (tenants d),
       users := filter (\<lambda>u. u_TenantID (usr_user u) \<noteq> Some tenant) (users d)\<rparr>"

definition DeleteTenantByID :: "ID \<Rightarrow> ('z world_scheme, db_error, Tenant) io" where
  [query_defs]: "DeleteTenantByID i = run_statement (\<lambda>t d. case tenant_of d i of
       None \<Rightarrow> (Inl ErrNoRows, d)
     | Some row \<Rightarrow> (Inr row, drop_tenant i d))"

subsection \<open>Statements on users\<close>

definition user_of :: "database \<Rightarrow> ID \<Rightarrow> UserRow option" where
  "user_of d i = by_key (\<lambda>u. u_ID (usr_user u)) i (users d)"

definition user_by_email :: "database \<Rightarrow> string \<Rightarrow> UserRow option" where
  "user_by_email d email = first_where (\<lambda>u. ToLower (u_Email (usr_user u)) = ToLower email) (users d)"

text \<open>\<open>LEFT JOIN tenants t ON t.id = u.tenant_id\<close>, column \<open>t.status\<close>.\<close>

definition joined_status :: "database \<Rightarrow> User \<Rightarrow> TenantStatus option" where
  "joined_status d u = (case u_TenantID u of None \<Rightarrow> None
     | Some tid \<Rightarrow> map_option t_Status (tenant_of d tid))"

record CreateUserParams =
  cu_ID :: ID
  cu_Name :: string
  cu_Email :: string
  cu_PasswordHash :: string
  cu_Role :: Role
  cu_TenantID :: "ID option"
  cu_MustChangePassword :: bool

text \<open>\<open>users_role_tenant_ck\<close>\<close>

definition role_tenant_ok :: "Role \<Rightarrow> ID option \<Rightarrow> bool" where
  "role_tenant_ok role tenant \<longleftrightarrow>
     role = RoleSuperAdmin \<and> tenant = None \<or> role = RoleTenantAdmin \<and> tenant \<noteq> None"

definition new_user :: "gotime \<Rightarrow> CreateUserParams \<Rightarrow> User" where
  "new_user t p = \<lparr>u_ID = cu_ID p, u_Name = cu_Name p, u_Email = cu_Email p, u_Role = cu_Role p,
     u_TenantID = cu_TenantID p, u_MustChangePassword = cu_MustChangePassword p, u_FailedLoginCount = 0,
     u_LockedUntil = zero_time, u_PasswordChangedAt = t, u_CreatedAt = t, u_UpdatedAt = t\<rparr>"

definition CreateUser :: "CreateUserParams \<Rightarrow> ('z world_scheme, db_error, User) io" where
  [query_defs]: "CreateUser p = run_statement (\<lambda>t d.
     if \<not> name_length_ok (cu_Name p) \<or> \<not> role_tenant_ok (cu_Role p) (cu_TenantID p) then (Inl CheckViolation, d)
     else if user_of d (cu_ID p) \<noteq> None then (Inl (UniqueViolation ''users_pkey''), d)
     else if user_by_email d (cu_Email p) \<noteq> None then (Inl (UniqueViolation ''users_email_key''), d)
     else if (case cu_TenantID p of None \<Rightarrow> False | Some tid \<Rightarrow> tenant_of d tid = None)
       then (Inl ForeignKeyViolation, d)
     else (Inr (new_user t p),
           d\<lparr>users := users d @ [\<lparr>usr_user = new_user t p, usr_password_hash = cu_PasswordHash p\<rparr>]\<rparr>))"

definition GetUserCredentialByEmail ::
  "string \<Rightarrow> ('z world_scheme, db_error, UserRow \<times> TenantStatus option) io" where
  [query_defs]: "GetUserCredentialByEmail email = run_statement (select_one (\<lambda>t d.
     map_option (\<lambda>u. (u, joined_status d (usr_user u))) (user_by_email d email)))"

definition GetUserByID :: "ID \<Rightarrow> ('z world_scheme, db_error, User \<times> TenantStatus option) io" where
  [query_defs]: "GetUserByID i = run_statement (select_one (\<lambda>t d.
     map_option (\<lambda>u. (usr_user u, joined_status d (usr_user u))) (user_of d i)))"

definition GetUserPasswordHash :: "ID \<Rightarrow> ('z world_scheme, db_error, string) io" where
  [query_defs]: "GetUserPasswordHash i = run_statement (select_one (\<lambda>t d.
     map_option usr_password_hash (user_of d i)))"

definition GetTenantAdminByTenantID :: "ID \<Rightarrow> ('z world_scheme, db_error, User) io" where
  [query_defs]: "GetTenantAdminByTenantID tenant = run_statement (select_one (\<lambda>t d.
     case sort_key u_CreatedAt (filter (\<lambda>u. u_TenantID u = Some tenant \<and> u_Role u = RoleTenantAdmin)
       (map usr_user (users d))) of [] \<Rightarrow> None | u # _ \<Rightarrow> Some u))"

definition CountSuperAdmins :: "('z world_scheme, db_error, int) io" where
  [query_defs]: "CountSuperAdmins = run_statement (select (\<lambda>t d.
     int (length (filter (\<lambda>u. u_Role (usr_user u) = RoleSuperAdmin) (users d)))))"

text \<open>The advisory lock holds until the transaction ends: it is what makes that transaction one step.\<close>

definition LockBootstrap :: "('z world_scheme, db_error, unit) io" where
  [query_defs]: "LockBootstrap = run_statement (\<lambda>t d. (Inr (), d))"

definition update_user :: "ID \<Rightarrow> (UserRow \<Rightarrow> UserRow) \<Rightarrow> database \<Rightarrow> database" where
  "update_user i f d = d\<lparr>users := update_where (\<lambda>u. u_ID (usr_user u) = i) f (users d)\<rparr>"

definition on_user :: "(User \<Rightarrow> User) \<Rightarrow> UserRow \<Rightarrow> UserRow" where
  "on_user f u = u\<lparr>usr_user := f (usr_user u)\<rparr>"

definition ClearLoginFailures :: "ID \<Rightarrow> ('z world_scheme, db_error, unit) io" where
  [query_defs]: "ClearLoginFailures i = run_statement (\<lambda>t d. (Inr (), update_user i (on_user (\<lambda>u.
     u\<lparr>u_FailedLoginCount := 0, u_LockedUntil := zero_time, u_UpdatedAt := t\<rparr>)) d))"

text \<open>
  The counter and the lock move in one statement. The lock window reaches the database as seconds and
  is kept in microseconds; windows are whole microseconds here.
\<close>

definition failed_login :: "gotime \<Rightarrow> int \<Rightarrow> duration \<Rightarrow> User \<Rightarrow> User" where
  "failed_login t maxFailures lockWindow u =
     (if u_FailedLoginCount u + 1 \<ge> maxFailures
      then u\<lparr>u_FailedLoginCount := 0, u_LockedUntil := t + Interval lockWindow, u_UpdatedAt := t\<rparr>
      else u\<lparr>u_FailedLoginCount := u_FailedLoginCount u + 1, u_UpdatedAt := t\<rparr>)"

definition RegisterFailedLogin ::
  "int \<Rightarrow> duration \<Rightarrow> ID \<Rightarrow> ('z world_scheme, db_error, int \<times> gotime) io" where
  [query_defs]: "RegisterFailedLogin maxFailures lockWindow i = run_statement (\<lambda>t d. case user_of d i of
       None \<Rightarrow> (Inl ErrNoRows, d)
     | Some row \<Rightarrow> (let u = failed_login t maxFailures lockWindow (usr_user row) in
         (Inr (u_FailedLoginCount u, u_LockedUntil u),
          update_user i (on_user (failed_login t maxFailures lockWindow)) d)))"

definition UpdatePassword :: "ID \<Rightarrow> string \<Rightarrow> bool \<Rightarrow> ('z world_scheme, db_error, unit) io" where
  [query_defs]: "UpdatePassword i hash mustChange = run_statement (\<lambda>t d. (Inr (), update_user i (\<lambda>row.
     row\<lparr>usr_password_hash := hash, usr_user := (usr_user row)\<lparr>u_MustChangePassword := mustChange,
       u_PasswordChangedAt := t, u_FailedLoginCount := 0, u_LockedUntil := zero_time, u_UpdatedAt := t\<rparr>\<rparr>) d))"

subsection \<open>Statements on API keys\<close>

definition CountActiveAPIKeys :: "('z world_scheme, db_error, int) io" where
  [query_defs]: "CountActiveAPIKeys = run_statement (select (\<lambda>t d.
     int (length (filter (\<lambda>k. k_Status (key_meta k) = APIKeyActive) (api_keys d)))))"

definition label_length_ok :: "string option \<Rightarrow> bool" where
  "label_length_ok label = (case label of None \<Rightarrow> True | Some l \<Rightarrow> RuneCountInString l \<le> 60)"

definition CreateAPIKey ::
  "ID \<Rightarrow> ID \<Rightarrow> string option \<Rightarrow> string \<Rightarrow> string \<Rightarrow> ('z world_scheme, db_error, APIKey) io" where
  [query_defs]: "CreateAPIKey i instanceID label keyPrefix hash = run_statement (\<lambda>t d.
     if \<not> label_length_ok label then (Inl CheckViolation, d)
     else if \<exists>k \<in> set (api_keys d). k_ID (key_meta k) = i then (Inl (UniqueViolation ''api_keys_pkey''), d)
     else if \<exists>k \<in> set (api_keys d). key_secret_hash k = hash
       then (Inl (UniqueViolation ''api_keys_secret_hash_key''), d)
     else if instance_of d instanceID = None then (Inl ForeignKeyViolation, d)
     else (let row = \<lparr>k_ID = i, k_InstanceID = instanceID, k_Label = label, k_KeyPrefix = keyPrefix,
             k_Status = APIKeyActive, k_CreatedAt = t, k_RevokedAt = None\<rparr> in
       (Inr row, d\<lparr>api_keys := api_keys d @ [\<lparr>key_meta = row, key_secret_hash = hash\<rparr>]\<rparr>)))"

record GetKeyForAuthRow =
  ka_KeyID :: ID
  ka_InstanceID :: ID
  ka_Label :: "string option"
  ka_KeyPrefix :: string
  ka_KeyStatus :: APIKeyStatus
  ka_InstanceName :: string
  ka_InstanceState :: InstanceState
  ka_TenantID :: ID
  ka_TenantStatus :: TenantStatus

text \<open>The inner joins: a key without its instance or tenant is no row.\<close>

definition key_for_auth :: "database \<Rightarrow> string \<Rightarrow> GetKeyForAuthRow option" where
  "key_for_auth d hash =
     Option.bind (by_key key_secret_hash hash (api_keys d)) (\<lambda>k.
     Option.bind (instance_of d (k_InstanceID (key_meta k))) (\<lambda>r.
     Option.bind (tenant_of d (r_tenant_id r)) (\<lambda>t.
     Some \<lparr>ka_KeyID = k_ID (key_meta k), ka_InstanceID = r_id r, ka_Label = k_Label (key_meta k),
       ka_KeyPrefix = k_KeyPrefix (key_meta k), ka_KeyStatus = k_Status (key_meta k),
       ka_InstanceName = r_name r, ka_InstanceState = r_connection_state r,
       ka_TenantID = t_ID t, ka_TenantStatus = t_Status t\<rparr>)))"

definition GetKeyForAuth :: "string \<Rightarrow> ('z world_scheme, db_error, GetKeyForAuthRow) io" where
  [query_defs]: "GetKeyForAuth hash = run_statement (select_one (\<lambda>t d. key_for_auth d hash))"

definition ListKeysByInstance :: "ID \<Rightarrow> ('z world_scheme, db_error, APIKey list) io" where
  [query_defs]: "ListKeysByInstance i = run_statement (select (\<lambda>t d.
     sort_key k_CreatedAt (filter (\<lambda>k. k_InstanceID k = i) (map key_meta (api_keys d)))))"

definition revoked :: "gotime \<Rightarrow> APIKey \<Rightarrow> APIKey" where
  "revoked t k = k\<lparr>k_Status := APIKeyRevoked,
     k_RevokedAt := (case k_RevokedAt k of None \<Rightarrow> Some t | Some r \<Rightarrow> Some r)\<rparr>"

definition RevokeAPIKey :: "ID \<Rightarrow> ID \<Rightarrow> ID \<Rightarrow> ('z world_scheme, db_error, APIKey) io" where
  [query_defs]: "RevokeAPIKey i instanceID tenant = run_statement (\<lambda>t d.
     let hit = (\<lambda>k. k_ID (key_meta k) = i \<and> k_InstanceID (key_meta k) = instanceID \<and>
                  tenant_owns d tenant instanceID) in
     case first_where hit (api_keys d) of
       None \<Rightarrow> (Inl ErrNoRows, d)
     | Some k \<Rightarrow> (Inr (revoked t (key_meta k)),
         d\<lparr>api_keys := update_where hit (\<lambda>k. k\<lparr>key_meta := revoked t (key_meta k)\<rparr>) (api_keys d)\<rparr>))"

subsection \<open>The audit trail\<close>

definition InsertSecurityEvent :: "ID \<Rightarrow> SecurityEvent \<Rightarrow> ('z world_scheme, db_error, unit) io" where
  [query_defs]: "InsertSecurityEvent i event = run_statement (\<lambda>t d.
     if i \<in> au_id ` set (security_events d) then (Inl (UniqueViolation ''security_events_pkey''), d)
     else (Inr (), d\<lparr>security_events := security_events d @
       [\<lparr>au_id = i, au_event = event, au_created_at = t\<rparr>]\<rparr>))"

definition CountSecurityEventsByType :: "EventType \<Rightarrow> ('z world_scheme, db_error, int) io" where
  [query_defs]: "CountSecurityEventsByType ty = run_statement (select (\<lambda>t d.
     int (length (filter (\<lambda>e. se_Type (au_event e) = ty) (security_events d)))))"

end
