(* ===== verification/Accounts.thy ===== *)
theory Accounts
  imports Connection Token Account_Store
begin

text \<open>
  The account services of \<open>internal/domain/services\<close>: \<open>events.go\<close>, \<open>mapping.go\<close>, \<open>auth.go\<close>,
  \<open>passwords.go\<close>, \<open>tenants.go\<close>, \<open>instances.go\<close>, \<open>apikeys.go\<close> and \<open>bootstrap.go\<close>, every use case as a
  whole: validation, the transaction with its audit record, the translation of database errors, and
  what follows the commit. Identifiers drawn by \<open>domain.NewID\<close> and bytes drawn by \<open>crypto/rand\<close> are
  arguments (\<open>fresh\<close> holds the identifiers one request may draw). Log lines and
  counters have no state here.
\<close>

subsection \<open>Parameters and shared helpers\<close>

datatype account_cause =
    CauseDB db_error | CauseRecord db_error | CausePassword password_error | CauseIssue issue_error | CauseRandom

record account_lib =
  al_argon2 :: argon2_lib
  al_ids :: uuid_lib
  al_sha256 :: "string \<Rightarrow> string"
  al_mail :: "string \<Rightarrow> string option"
  al_cause :: "account_cause \<Rightarrow> string"

definition fail_internal :: "account_lib \<Rightarrow> account_cause \<Rightarrow> go_error" where
  "fail_internal lib c = DomainError (ErrInternal (al_cause lib c))"

definition db_internal :: "account_lib \<Rightarrow> db_error \<Rightarrow> go_error" where
  "db_internal lib e = fail_internal lib (CauseDB e)"

text \<open>An error of the password functions is returned; a panic leaves the handler as a plain failure.\<close>

definition password_failure :: "account_lib \<Rightarrow> password_error \<Rightarrow> go_error" where
  "password_failure lib e = (if e = IDKeyPanic then PlainError (al_cause lib (CausePassword e))
     else fail_internal lib (CausePassword e))"

definition or_not_found :: "account_lib \<Rightarrow> db_error \<Rightarrow> go_error" where
  "or_not_found lib e = (if IsNoRows e then DomainError ErrNotFound else db_internal lib e)"

definition ret_or_throw :: "('e \<Rightarrow> 'f) \<Rightarrow> 'e + 'a \<Rightarrow> ('w, 'f, 'a) io" where
  "ret_or_throw f r = (case r of Inl e \<Rightarrow> throw (f e) | Inr x \<Rightarrow> ret x)"

definition require :: "go_error option \<Rightarrow> ('w, go_error, unit) io" where
  "require err = (case err of None \<Rightarrow> ret () | Some e \<Rightarrow> throw e)"

definition conflictField :: "db_error \<Rightarrow> (string \<rightharpoonup> FieldError) \<Rightarrow> Error option" where
  "conflictField err constraints = (case err of
       UniqueViolation name \<Rightarrow> Some (case constraints name of
           Some field \<Rightarrow> ErrConflict (Location field) (FieldError.Message field)
         | None \<Rightarrow> ErrConflict ''body'' ''conflicts with an existing resource'')
     | _ \<Rightarrow> None)"

definition conflict_or :: "account_lib \<Rightarrow> (string \<rightharpoonup> FieldError) \<Rightarrow> db_error \<Rightarrow> go_error" where
  "conflict_or lib constraints e = (case conflictField e constraints of
       Some conflict \<Rightarrow> DomainError conflict
     | None \<Rightarrow> db_internal lib e)"

definition tenantStatusOf :: "TenantStatus option \<Rightarrow> TenantStatus" where
  "tenantStatusOf s = (case s of None \<Rightarrow> TenantActive | Some x \<Rightarrow> x)"

text \<open>The remaining fields of \<open>domain.Instance\<close> keep their zero values.\<close>

definition instanceFromRow :: "InstanceRow \<Rightarrow> Instance" where
  "instanceFromRow row = \<lparr>i_ID = r_id row, i_TenantID = r_tenant_id row, i_Name = r_name row,
     i_State = r_connection_state row, i_Intent = OtherIntent [], i_CreatedAt = r_created_at row, i_UpdatedAt = r_updated_at row,
     i_Device = None, i_ConnectedAt = None, i_LastDisconnectAt = None, i_LastDisconnectReason = ReasonNone,
     i_BanExpiresAt = None, i_ProxyURL = None, i_PassiveMode = False\<rparr>"

text \<open>\<open>EventRecorder.Record\<close>: the payloads of the services always encode, so only the insert can fail.\<close>

definition Record :: "ID \<Rightarrow> SecurityEvent \<Rightarrow> ('z world_scheme, db_error, unit) io" where
  "Record i event = InsertSecurityEvent i event"

definition record_or_fail :: "account_lib \<Rightarrow> ID \<Rightarrow> SecurityEvent \<Rightarrow> ('z world_scheme, go_error, unit) io" where
  "record_or_fail lib i event = wrapE (\<lambda>e. fail_internal lib (CauseRecord e)) (Record i event)"

definition audit ::
  "EventType \<Rightarrow> ID option \<Rightarrow> TargetType \<Rightarrow> ID option \<Rightarrow> EventResult \<Rightarrow> string option \<Rightarrow> payload \<Rightarrow> SecurityEvent" where
  "audit ty actor target_type target outcome ip metadata =
     \<lparr>se_Type = ty, se_ActorUserID = actor, se_TargetType = target_type, se_TargetID = target,
      se_Result = outcome, se_SourceIP = ip, se_Metadata = metadata\<rparr>"

definition in_tx :: "account_lib \<Rightarrow> ('z world_scheme, go_error, 'a) io \<Rightarrow> ('z world_scheme, go_error, 'a) io" where
  "in_tx lib body = transaction (db_internal lib) (db_internal lib) body"

text \<open>\<open>return tx.Commit(ctx)\<close>: the commit's error is returned as it is.\<close>

definition in_tx_raw :: "account_lib \<Rightarrow> ('z world_scheme, go_error, 'a) io \<Rightarrow> ('z world_scheme, go_error, 'a) io" where
  "in_tx_raw lib body = transaction (db_internal lib) (\<lambda>e. PlainError (al_cause lib (CauseDB e))) body"

subsection \<open>Authentication\<close>

record AuthService =
  as_issuer :: TokenIssuer
  as_maxFailures :: int
  as_lockWindow :: duration

record LoginInput =
  li_Email :: string
  li_Password :: string
  li_SourceIP :: "string option"

record LoginResult =
  lr_AccessToken :: string
  lr_ExpiresIn :: int
  lr_Audience :: Audience
  lr_MustChangePassword :: bool

definition recordEvent :: "ID \<Rightarrow> SecurityEvent \<Rightarrow> ('z world_scheme, 'e, unit) io" where
  "recordEvent i event = ignoreE (Record i event)"

definition recordLoginFailure :: "ID \<Rightarrow> ID option \<Rightarrow> string option \<Rightarrow> string \<Rightarrow> ('z world_scheme, 'e, unit) io" where
  "recordLoginFailure i actor ip reason = recordEvent i (case actor of
       None \<Rightarrow> audit EventLoginFailed None TargetNone None ResultFailure ip [(''reason'', JStr reason)]
     | Some a \<Rightarrow> audit EventLoginFailed (Some a) TargetUser (Some a) ResultFailure ip [(''reason'', JStr reason)])"

definition registerFailedAttempt ::
  "AuthService \<Rightarrow> (nat \<Rightarrow> ID) \<Rightarrow> User \<Rightarrow> string option \<Rightarrow> ('z world_scheme, 'e, unit) io" where
  "registerFailedAttempt s fresh user ip =
     bindE (attempt (RegisterFailedLogin (as_maxFailures s) (as_lockWindow s) (u_ID user))) (\<lambda>r. case r of
         Inl _ \<Rightarrow> recordLoginFailure (fresh 0) (Some (u_ID user)) ip ''bad_password''
       | Inr (count, lockedUntil) \<Rightarrow>
           bindE (recordLoginFailure (fresh 0) (Some (u_ID user)) ip ''bad_password'') (\<lambda>_.
           bindE (getsE now) (\<lambda>t.
           if lockedUntil \<noteq> zero_time \<and> lockedUntil > t then
             recordEvent (fresh 1) (audit EventAccountLocked (Some (u_ID user)) TargetUser (Some (u_ID user))
               ResultDenied ip
               [(''locked_until'', JTime (truncate_second lockedUntil)), (''max_failures'', JInt (as_maxFailures s)),
                (''window_second'', JInt (as_lockWindow s div second))])
           else ret ())))"

definition Login ::
  "account_lib \<Rightarrow> AuthService \<Rightarrow> (nat \<Rightarrow> ID) \<Rightarrow> LoginInput \<Rightarrow> ('z world_scheme, go_error, LoginResult) io" where
  "Login lib s fresh inp =
     bindE (attempt (GetUserCredentialByEmail (NormalizeEmail (li_Email inp)))) (\<lambda>found. case found of
       Inl e \<Rightarrow>
         if IsNoRows e then
           bindE (recordLoginFailure (fresh 0) None (li_SourceIP inp) ''unknown_email'') (\<lambda>_.
           throw (DomainError ErrInvalidCredentials))
         else throw (db_internal lib e)
     | Inr (row, status) \<Rightarrow>
         (let user = usr_user row; who = Some (u_ID user); ip = li_SourceIP inp in
          bindE (getsE now) (\<lambda>t.
          if IsLocked user t then
            bindE (recordLoginFailure (fresh 0) who ip ''account_locked'') (\<lambda>_.
            throw (DomainError ErrInvalidCredentials))
          else
          bindE (ret_or_throw (password_failure lib)
            (VerifyPassword (al_argon2 lib) (usr_password_hash row) (li_Password inp))) (\<lambda>matches.
          if \<not> matches then
            bindE (registerFailedAttempt s fresh user ip) (\<lambda>_. throw (DomainError ErrInvalidCredentials))
          else if tenantStatusOf status \<noteq> TenantActive then
            bindE (recordEvent (fresh 0) (audit EventLoginFailed who TargetUser who ResultDenied ip
              [(''reason'', JStr ''tenant_suspended'')])) (\<lambda>_.
            throw (DomainError ErrTenantSuspended))
          else
          bindE (wrapE (db_internal lib) (ClearLoginFailures (u_ID user))) (\<lambda>_.
          bindE (whenE (u_LockedUntil user \<noteq> zero_time)
            (recordEvent (fresh 0) (audit EventAccountUnlocked who TargetUser who ResultSuccess ip
              [(''reason'', JStr ''lockout_expired'')]))) (\<lambda>_.
          bindE (ret_or_throw (\<lambda>e. fail_internal lib (CauseIssue e))
            (Issue (as_issuer s) t (u_ID user) (role_Audience (u_Role user)) (u_TenantID user)
              (u_MustChangePassword user))) (\<lambda>(token, claims).
          bindE (recordEvent (fresh 1) (audit EventLoginSucceeded who TargetUser who ResultSuccess ip
            [(''audience'', JStr (audience_text (c_Audience claims)))])) (\<lambda>_.
          ret \<lparr>lr_AccessToken = token, lr_ExpiresIn = ti_ttl (as_issuer s) div second,
            lr_Audience = c_Audience claims, lr_MustChangePassword = u_MustChangePassword user\<rparr>))))))))"

subsection \<open>Passwords\<close>

record ChangePasswordInput =
  cp_UserID :: ID
  cp_CurrentPassword :: string
  cp_NewPassword :: string
  cp_SourceIP :: "string option"

definition password_Change ::
  "account_lib \<Rightarrow> (nat \<Rightarrow> ID) \<Rightarrow> string option \<Rightarrow> ChangePasswordInput \<Rightarrow> ('z world_scheme, go_error, unit) io" where
  "password_Change lib fresh randomness inp =
     bindE (require (map_option DomainError (ValidatePassword ''body.new_password'' (cp_NewPassword inp)))) (\<lambda>_.
     bindE (wrapE (\<lambda>e. if IsNoRows e then DomainError (ErrUnauthenticated ''The token is invalid or has expired'')
                       else db_internal lib e) (GetUserPasswordHash (cp_UserID inp))) (\<lambda>currentHash.
     bindE (ret_or_throw (password_failure lib)
       (VerifyPassword (al_argon2 lib) currentHash (cp_CurrentPassword inp))) (\<lambda>matches.
     if \<not> matches then throw (DomainError ErrInvalidCurrentPassword)
     else
     bindE (ret_or_throw (password_failure lib) (HashPassword (al_argon2 lib) randomness (cp_NewPassword inp))) (\<lambda>newHash.
     in_tx_raw lib
       (bindE (wrapE (db_internal lib) (UpdatePassword (cp_UserID inp) newHash False)) (\<lambda>_.
        record_or_fail lib (fresh 0) (audit EventPasswordChanged (Some (cp_UserID inp)) TargetUser
          (Some (cp_UserID inp)) ResultSuccess (cp_SourceIP inp) [])))))))"

record ResetTenantAdminInput =
  rt_TenantID :: ID
  rt_ActorID :: ID
  rt_SourceIP :: "string option"

text \<open>The draws: the temporary password first, then the salt of its hash.\<close>

definition ResetTenantAdmin ::
  "account_lib \<Rightarrow> (nat \<Rightarrow> ID) \<Rightarrow> string option \<Rightarrow> string option \<Rightarrow> ResetTenantAdminInput \<Rightarrow>
   ('z world_scheme, go_error, string \<times> ID) io" where
  "ResetTenantAdmin lib fresh pwBytes salt inp =
     bindE (wrapE (or_not_found lib) (GetTenantByID (rt_TenantID inp))) (\<lambda>_.
     bindE (wrapE (or_not_found lib) (GetTenantAdminByTenantID (rt_TenantID inp))) (\<lambda>admin.
     bindE (ret_or_throw (password_failure lib) (GenerateTemporaryPassword pwBytes)) (\<lambda>temporary.
     bindE (ret_or_throw (password_failure lib) (HashPassword (al_argon2 lib) salt temporary)) (\<lambda>hash.
     in_tx lib
       (bindE (wrapE (db_internal lib) (UpdatePassword (u_ID admin) hash True)) (\<lambda>_.
        bindE (record_or_fail lib (fresh 0) (audit EventPasswordReset (Some (rt_ActorID inp)) TargetUser
          (Some (u_ID admin)) ResultSuccess (rt_SourceIP inp)
          [(''tenant_id'', JStr (id_String (al_ids lib) (rt_TenantID inp)))])) (\<lambda>_.
        ret (temporary, u_ID admin))))))))"

subsection \<open>Tenants\<close>

definition tenantConstraints :: "string \<rightharpoonup> FieldError" where
  "tenantConstraints = [''tenants_name_key'' \<mapsto> \<lparr>Location = ''body.name'', Message = ''a tenant with this name already exists''\<rparr>,
     ''users_email_key'' \<mapsto> \<lparr>Location = ''body.admin.email'', Message = ''a user with this email already exists''\<rparr>]"

record CreateTenantInput =
  ct_Name :: string
  ct_AdminName :: string
  ct_AdminEmail :: string
  ct_AdminPassword :: string
  ct_ActorID :: ID
  ct_SourceIP :: "string option"

record TenantWithAdmin =
  ta_Tenant :: Tenant
  ta_Admin :: "User option"

definition tenant_Create ::
  "account_lib \<Rightarrow> (nat \<Rightarrow> ID) \<Rightarrow> string option \<Rightarrow> CreateTenantInput \<Rightarrow> ('z world_scheme, go_error, TenantWithAdmin) io" where
  "tenant_Create lib fresh salt inp =
     (let name = NormalizeName (ct_Name inp); adminName = NormalizeName (ct_AdminName inp);
          adminEmail = NormalizeEmail (ct_AdminEmail inp) in
      bindE (require (CollectErrors (map (map_option DomainError)
        [ValidateName ''body.name'' name, ValidateName ''body.admin.name'' adminName,
         ValidateEmail (al_mail lib) ''body.admin.email'' adminEmail,
         ValidatePassword ''body.admin.password'' (ct_AdminPassword inp)]))) (\<lambda>_.
      bindE (ret_or_throw (password_failure lib) (HashPassword (al_argon2 lib) salt (ct_AdminPassword inp))) (\<lambda>hash.
      in_tx lib
        (bindE (wrapE (conflict_or lib tenantConstraints) (CreateTenant (fresh 0) name)) (\<lambda>tenant.
         bindE (wrapE (conflict_or lib tenantConstraints) (CreateUser
           \<lparr>cu_ID = fresh 1, cu_Name = adminName, cu_Email = adminEmail, cu_PasswordHash = hash,
            cu_Role = RoleTenantAdmin, cu_TenantID = Some (t_ID tenant), cu_MustChangePassword = False\<rparr>)) (\<lambda>admin.
         bindE (record_or_fail lib (fresh 2) (audit EventTenantCreated (Some (ct_ActorID inp)) TargetTenant
           (Some (t_ID tenant)) ResultSuccess (ct_SourceIP inp)
           [(''tenant_name'', JStr (t_Name tenant)), (''admin_user_id'', JStr (id_String (al_ids lib) (u_ID admin)))])) (\<lambda>_.
         ret \<lparr>ta_Tenant = tenant, ta_Admin = Some admin\<rparr>)))))))"

definition tenant_List :: "account_lib \<Rightarrow> ('z world_scheme, go_error, Tenant list) io" where
  "tenant_List lib = wrapE (db_internal lib) ListTenants"

definition tenant_Get :: "account_lib \<Rightarrow> ID \<Rightarrow> ('z world_scheme, go_error, TenantWithAdmin) io" where
  "tenant_Get lib i =
     bindE (wrapE (or_not_found lib) (GetTenantByID i)) (\<lambda>tenant.
     bindE (attempt (GetTenantAdminByTenantID (t_ID tenant))) (\<lambda>r. case r of
         Inr admin \<Rightarrow> ret \<lparr>ta_Tenant = tenant, ta_Admin = Some admin\<rparr>
       | Inl e \<Rightarrow> if IsNoRows e then ret \<lparr>ta_Tenant = tenant, ta_Admin = None\<rparr> else throw (db_internal lib e)))"

record RenameTenantInput =
  rn_TenantID :: ID
  rn_Name :: string
  rn_ActorID :: ID
  rn_SourceIP :: "string option"

definition tenant_Rename ::
  "account_lib \<Rightarrow> (nat \<Rightarrow> ID) \<Rightarrow> RenameTenantInput \<Rightarrow> ('z world_scheme, go_error, Tenant) io" where
  "tenant_Rename lib fresh inp =
     (let name = NormalizeName (rn_Name inp) in
      bindE (require (map_option DomainError (ValidateName ''body.name'' name))) (\<lambda>_.
      in_tx lib
        (bindE (wrapE (\<lambda>e. if IsNoRows e then DomainError ErrNotFound else conflict_or lib tenantConstraints e)
           (UpdateTenantName (rn_TenantID inp) name)) (\<lambda>tenant.
         bindE (record_or_fail lib (fresh 0) (audit EventTenantUpdated (Some (rn_ActorID inp)) TargetTenant
           (Some (t_ID tenant)) ResultSuccess (rn_SourceIP inp) [(''tenant_name'', JStr (t_Name tenant))])) (\<lambda>_.
         ret tenant)))))"

record SetStatusInput =
  ss_TenantID :: ID
  ss_Status :: TenantStatus
  ss_ActorID :: ID
  ss_SourceIP :: "string option"

fun status_text :: "TenantStatus \<Rightarrow> string" where
  "status_text TenantActive = ''active''"
| "status_text TenantSuspended = ''suspended''"
| "status_text (OtherTenantStatus s) = s"

definition status_change ::
  "account_lib \<Rightarrow> (nat \<Rightarrow> ID) \<Rightarrow> SetStatusInput \<Rightarrow> ('z world_scheme, go_error, Tenant) io" where
  "status_change lib fresh inp = in_tx lib
     (bindE (wrapE (or_not_found lib) (SetTenantStatus (ss_TenantID inp) (ss_Status inp))) (\<lambda>tenant.
      bindE (record_or_fail lib (fresh 0)
        (audit (if t_Status tenant = TenantSuspended then EventTenantSuspended else EventTenantActivated)
          (Some (ss_ActorID inp)) TargetTenant (Some (t_ID tenant)) ResultSuccess (ss_SourceIP inp)
          [(''tenant_name'', JStr (t_Name tenant)), (''status'', JStr (status_text (t_Status tenant)))])) (\<lambda>_.
      ret tenant)))"

definition tenant_SetStatus ::
  "account_lib \<Rightarrow> ConnectionService option \<Rightarrow> (nat \<Rightarrow> ID) \<Rightarrow> SetStatusInput \<Rightarrow>
   ('z bus_world_scheme, go_error, Tenant) io" where
  "tenant_SetStatus lib projector fresh inp =
     (if \<not> tenant_status_Valid (ss_Status inp)
      then throw (DomainError (ErrValidation ''path.status'' ''must be active or suspended''))
      else bindE (status_change lib fresh inp) (\<lambda>tenant.
        bindE (case projector of None \<Rightarrow> ret ()
          | Some svc \<Rightarrow> ApplyTenantStatus svc (t_ID tenant) (t_Status tenant)) (\<lambda>_.
        ret tenant)))"

record DeleteTenantInput =
  dt_TenantID :: ID
  dt_ConfirmName :: string
  dt_ActorID :: ID
  dt_SourceIP :: "string option"

definition tenant_Delete ::
  "account_lib \<Rightarrow> (nat \<Rightarrow> ID) \<Rightarrow> DeleteTenantInput \<Rightarrow> ('z world_scheme, go_error, unit) io" where
  "tenant_Delete lib fresh inp = in_tx_raw lib
     (bindE (wrapE (or_not_found lib) (GetTenantByID (dt_TenantID inp))) (\<lambda>existing.
      if dt_ConfirmName inp \<noteq> t_Name existing
      then throw (DomainError (ErrValidation ''body.confirm_name'' ''must match the tenant name exactly''))
      else
      bindE (wrapE (db_internal lib) (CountTenantCascade (dt_TenantID inp))) (\<lambda>counts.
      bindE (wrapE (or_not_found lib) (DeleteTenantByID (dt_TenantID inp))) (\<lambda>tenant.
      record_or_fail lib (fresh 0) (audit EventTenantDeleted (Some (dt_ActorID inp)) TargetTenant
        (Some (t_ID tenant)) ResultSuccess (dt_SourceIP inp)
        [(''tenant_name'', JStr (t_Name tenant)), (''users_deleted'', JInt (UserCount counts)),
         (''instances_deleted'', JInt (InstanceCount counts)), (''api_keys_revoked'', JInt (ApiKeyCount counts)),
         (''cascade_irreversible'', JBool True)])))))"

subsection \<open>Instances\<close>

definition instanceConstraints :: "string \<rightharpoonup> FieldError" where
  "instanceConstraints = [''instances_tenant_id_name_uk'' \<mapsto>
     \<lparr>Location = ''body.name'', Message = ''an instance with this name already exists in this tenant''\<rparr>]"

record CreateInstanceInput =
  ci_TenantID :: ID
  ci_Name :: string
  ci_ActorID :: ID
  ci_SourceIP :: "string option"

definition instance_Create ::
  "account_lib \<Rightarrow> (nat \<Rightarrow> ID) \<Rightarrow> CreateInstanceInput \<Rightarrow> ('z world_scheme, go_error, Instance) io" where
  "instance_Create lib fresh inp =
     (let name = NormalizeName (ci_Name inp) in
      bindE (require (map_option DomainError (ValidateName ''body.name'' name))) (\<lambda>_.
      in_tx lib
        (bindE (wrapE (conflict_or lib instanceConstraints) (CreateInstance (fresh 0) (ci_TenantID inp) name)) (\<lambda>row.
         bindE (record_or_fail lib (fresh 1) (audit EventInstanceCreated (Some (ci_ActorID inp)) TargetInstance
           (Some (r_id row)) ResultSuccess (ci_SourceIP inp)
           [(''instance_name'', JStr (r_name row)), (''tenant_id'', JStr (id_String (al_ids lib) (ci_TenantID inp)))])) (\<lambda>_.
         ret (instanceFromRow row))))))"

definition instance_List :: "account_lib \<Rightarrow> ID \<Rightarrow> ('z world_scheme, go_error, Instance list) io" where
  "instance_List lib tenant =
     bindE (wrapE (db_internal lib) (ListInstancesByTenant tenant)) (\<lambda>rows. ret (map instanceFromRow rows))"

definition instance_Get :: "account_lib \<Rightarrow> ID \<Rightarrow> ID \<Rightarrow> ('z world_scheme, go_error, Instance) io" where
  "instance_Get lib tenant i =
     bindE (wrapE (or_not_found lib) (GetInstanceByIDAndTenant i tenant)) (\<lambda>row. ret (instanceFromRow row))"

record RenameInstanceInput =
  ri_TenantID :: ID
  ri_InstanceID :: ID
  ri_Name :: string
  ri_ActorID :: ID
  ri_SourceIP :: "string option"

definition instance_Rename ::
  "account_lib \<Rightarrow> (nat \<Rightarrow> ID) \<Rightarrow> RenameInstanceInput \<Rightarrow> ('z world_scheme, go_error, Instance) io" where
  "instance_Rename lib fresh inp =
     (let name = NormalizeName (ri_Name inp) in
      bindE (require (map_option DomainError (ValidateName ''body.name'' name))) (\<lambda>_.
      in_tx lib
        (bindE (wrapE (\<lambda>e. if IsNoRows e then DomainError ErrNotFound else conflict_or lib instanceConstraints e)
           (RenameInstance (ri_InstanceID inp) (ri_TenantID inp) name)) (\<lambda>row.
         bindE (record_or_fail lib (fresh 0) (audit EventInstanceUpdated (Some (ri_ActorID inp)) TargetInstance
           (Some (r_id row)) ResultSuccess (ri_SourceIP inp) [(''instance_name'', JStr (r_name row))])) (\<lambda>_.
         ret (instanceFromRow row))))))"

record DeleteInstanceInput =
  di_TenantID :: ID
  di_InstanceID :: ID
  di_ActorID :: ID
  di_SourceIP :: "string option"

definition remove_instance ::
  "account_lib \<Rightarrow> (nat \<Rightarrow> ID) \<Rightarrow> DeleteInstanceInput \<Rightarrow> ('z world_scheme, go_error, unit) io" where
  "remove_instance lib fresh inp = in_tx lib
     (bindE (wrapE (db_internal lib) (CountKeysByInstance (di_InstanceID inp))) (\<lambda>keyCount.
      bindE (wrapE (or_not_found lib) (DeleteInstance (di_InstanceID inp) (di_TenantID inp))) (\<lambda>row.
      record_or_fail lib (fresh 0) (audit EventInstanceDeleted (Some (di_ActorID inp)) TargetInstance
        (Some (r_id row)) ResultSuccess (di_SourceIP inp)
        [(''instance_name'', JStr (r_name row)), (''api_keys_revoked'', JInt keyCount),
         (''cascade_delete_scope'', JStr ''api_keys'')]))))"

text \<open>The session is ended first, before the tenant of the instance is looked at.\<close>

definition instance_Delete ::
  "account_lib \<Rightarrow> (ConnectionService \<times> 'z stub) option \<Rightarrow> (nat \<Rightarrow> ID) \<Rightarrow> DeleteInstanceInput \<Rightarrow>
   ('z api_world_scheme, go_error, unit) io" where
  "instance_Delete lib terminator fresh inp =
     bindE (case terminator of None \<Rightarrow> ret ()
       | Some (svc, stub) \<Rightarrow> ignoreE (Terminate svc stub (di_InstanceID inp))) (\<lambda>_.
     remove_instance lib fresh inp)"

subsection \<open>API keys\<close>

record CreateAPIKeyInput =
  ck_TenantID :: ID
  ck_InstanceID :: ID
  ck_Label :: string
  ck_ActorID :: ID
  ck_SourceIP :: "string option"

definition RefreshActiveKeyGauge :: "('z world_scheme, 'e, unit) io" where
  "RefreshActiveKeyGauge = ignoreE CountActiveAPIKeys"

definition key_Create ::
  "account_lib \<Rightarrow> (nat \<Rightarrow> ID) \<Rightarrow> string option \<Rightarrow> CreateAPIKeyInput \<Rightarrow> ('z world_scheme, go_error, APIKey \<times> string) io" where
  "key_Create lib fresh randomness inp =
     (let label = TrimSpace (ck_Label inp) in
      bindE (require (map_option DomainError (ValidateLabel ''body.label'' label))) (\<lambda>_.
      bindE (wrapE (or_not_found lib) (GetInstanceByIDAndTenant (ck_InstanceID inp) (ck_TenantID inp))) (\<lambda>_.
      case GenerateAPIKey (al_sha256 lib) randomness of
        None \<Rightarrow> throw (fail_internal lib CauseRandom)
      | Some generated \<Rightarrow>
        bindE (in_tx lib
          (bindE (wrapE (db_internal lib) (CreateAPIKey (fresh 0) (ck_InstanceID inp)
             (if label \<noteq> [] then Some label else None) (g_Prefix generated) (g_Hash generated))) (\<lambda>key.
           bindE (record_or_fail lib (fresh 1) (audit EventAPIKeyCreated (Some (ck_ActorID inp)) TargetAPIKey
             (Some (k_ID key)) ResultSuccess (ck_SourceIP inp)
             [(''key_prefix'', JStr (k_KeyPrefix key)), (''instance_id'', JStr (id_String (al_ids lib) (ck_InstanceID inp)))])) (\<lambda>_.
           ret key)))) (\<lambda>key.
        bindE RefreshActiveKeyGauge (\<lambda>_. ret (key, g_Secret generated))))))"

definition key_List :: "account_lib \<Rightarrow> ID \<Rightarrow> ID \<Rightarrow> ('z world_scheme, go_error, APIKey list) io" where
  "key_List lib tenant i =
     bindE (wrapE (or_not_found lib) (GetInstanceByIDAndTenant i tenant)) (\<lambda>_.
     wrapE (db_internal lib) (ListKeysByInstance i))"

record RevokeAPIKeyInput =
  rk_TenantID :: ID
  rk_InstanceID :: ID
  rk_KeyID :: ID
  rk_ActorID :: ID
  rk_SourceIP :: "string option"

definition key_Revoke ::
  "account_lib \<Rightarrow> (nat \<Rightarrow> ID) \<Rightarrow> RevokeAPIKeyInput \<Rightarrow> ('z world_scheme, go_error, unit) io" where
  "key_Revoke lib fresh inp =
     bindE (in_tx lib
       (bindE (wrapE (or_not_found lib) (RevokeAPIKey (rk_KeyID inp) (rk_InstanceID inp) (rk_TenantID inp))) (\<lambda>key.
        record_or_fail lib (fresh 0) (audit EventAPIKeyRevoked (Some (rk_ActorID inp)) TargetAPIKey
          (Some (k_ID key)) ResultSuccess (rk_SourceIP inp)
          [(''key_prefix'', JStr (k_KeyPrefix key)), (''instance_id'', JStr (id_String (al_ids lib) (rk_InstanceID inp)))])))) (\<lambda>_.
     RefreshActiveKeyGauge)"

subsection \<open>Bootstrap\<close>

record BootstrapCredentials =
  bc_Email :: string
  bc_Password :: string

definition Configured :: "BootstrapCredentials \<Rightarrow> bool" where
  "Configured c \<longleftrightarrow> bc_Email c \<noteq> [] \<and> bc_Password c \<noteq> []"

text \<open>An early \<open>return nil\<close> leaves the transaction through the deferred rollback, like an error.\<close>

datatype bootstrap_exit = NothingToDo | BootFailed go_error

definition boot_step :: "account_lib \<Rightarrow> string \<Rightarrow> db_error \<Rightarrow> bootstrap_exit" where
  "boot_step lib what e = BootFailed (Wrapped what (PlainError (al_cause lib (CauseDB e))))"

definition boot_password :: "account_lib \<Rightarrow> password_error \<Rightarrow> bootstrap_exit" where
  "boot_password lib e = BootFailed (Wrapped ''bootstrap: hash password'' (PlainError (al_cause lib (CausePassword e))))"

definition bootstrap_body ::
  "account_lib \<Rightarrow> (nat \<Rightarrow> ID) \<Rightarrow> string option \<Rightarrow> BootstrapCredentials \<Rightarrow> ('z world_scheme, bootstrap_exit, unit) io" where
  "bootstrap_body lib fresh salt creds =
       bindE (wrapE (boot_step lib ''bootstrap: acquire advisory lock'') LockBootstrap) (\<lambda>_.
        bindE (wrapE (boot_step lib ''bootstrap: count super-admins'') CountSuperAdmins) (\<lambda>existing.
        if existing > 0 \<or> \<not> Configured creds then throw NothingToDo
        else (let email = NormalizeEmail (bc_Email creds) in
        case CollectErrors (map (map_option DomainError)
          [ValidateEmail (al_mail lib) ''config.bootstrap_email'' email,
           ValidatePassword ''config.bootstrap_password'' (bc_Password creds)]) of
          Some err \<Rightarrow> throw (BootFailed (Wrapped ''bootstrap'' err))
        | None \<Rightarrow>
          bindE (ret_or_throw (boot_password lib) (HashPassword (al_argon2 lib) salt (bc_Password creds))) (\<lambda>hash.
          bindE (wrapE (boot_step lib ''bootstrap: create super-admin'') (CreateUser
            \<lparr>cu_ID = fresh 0, cu_Name = ''Super Admin'', cu_Email = email, cu_PasswordHash = hash,
             cu_Role = RoleSuperAdmin, cu_TenantID = None, cu_MustChangePassword = False\<rparr>)) (\<lambda>created.
          wrapE (boot_step lib ''bootstrap: record event'') (Record (fresh 1)
            (audit EventBootstrapAdminCreate (Some (u_ID created)) TargetUser (Some (u_ID created)) ResultSuccess
              None [(''role'', JStr ''super_admin'')])))))))"

definition bootstrap_Run ::
  "account_lib \<Rightarrow> (nat \<Rightarrow> ID) \<Rightarrow> string option \<Rightarrow> BootstrapCredentials \<Rightarrow> ('z world_scheme, go_error, unit) io" where
  "bootstrap_Run lib fresh salt creds = catchE
     (transaction (boot_step lib ''bootstrap: begin transaction'') (boot_step lib ''bootstrap: commit'')
       (bootstrap_body lib fresh salt creds))
     (\<lambda>exit. case exit of NothingToDo \<Rightarrow> ret () | BootFailed e \<Rightarrow> throw e)"

end
