(* ===== verification/Middleware.thy ===== *)
theory Middleware
  imports Accounts
begin

text \<open>
  The gates in front of the routes, \<open>internal/api/middleware\<close>: \<open>context.go\<close> (the values a request
  carries), \<open>auth.go\<close> (access tokens), \<open>auth_apikey.go\<close> (instance keys), \<open>auth_connection.go\<close> (either),
  \<open>ratelimit.go\<close> and the client address of \<open>logging.go\<close>. A middleware that answers with an error
  problem is \<open>Inl\<close> of that error; calling \<open>next\<close> is \<open>Inr\<close> of the context it passes on. The rate limiter
  library is a parameter.
\<close>

subsection \<open>Request contexts\<close>

record Admin =
  ad_User :: User
  ad_Tenant :: TenantStatus
  ad_Claims :: TokenClaims

definition admin_TenantID :: "Admin \<Rightarrow> ID option" where
  "admin_TenantID a = u_TenantID (ad_User a)"

record Operator =
  op_InstanceID :: ID
  op_TenantID :: ID
  op_InstanceName :: string
  op_InstanceState :: InstanceState
  op_KeyID :: ID
  op_KeyPrefix :: string
  op_KeyLabel :: "string option"

datatype PrincipalKind = PrincipalAPIKey | PrincipalTenantAdmin

record ConnectionPrincipal =
  pr_Kind :: PrincipalKind
  pr_InstanceID :: ID
  pr_TenantID :: ID
  pr_KeyID :: "ID option"

text \<open>The keys of \<open>context.WithValue\<close>; a fresh request has none of them.\<close>

record ReqContext =
  cx_TenantID :: "ID option"
  cx_InstanceID :: "ID option"
  cx_Admin :: "Admin option"
  cx_Operator :: "Operator option"
  cx_ClientIP :: "string option"
  cx_Connection :: "ConnectionPrincipal option"

definition WithTenantID :: "ID \<Rightarrow> ReqContext \<Rightarrow> ReqContext" where "WithTenantID i c = c\<lparr>cx_TenantID := Some i\<rparr>"
definition WithInstanceID :: "ID \<Rightarrow> ReqContext \<Rightarrow> ReqContext" where "WithInstanceID i c = c\<lparr>cx_InstanceID := Some i\<rparr>"
definition WithAdmin :: "Admin \<Rightarrow> ReqContext \<Rightarrow> ReqContext" where "WithAdmin a c = c\<lparr>cx_Admin := Some a\<rparr>"
definition WithOperator :: "Operator \<Rightarrow> ReqContext \<Rightarrow> ReqContext" where "WithOperator a c = c\<lparr>cx_Operator := Some a\<rparr>"
definition WithClientIP :: "string \<Rightarrow> ReqContext \<Rightarrow> ReqContext" where "WithClientIP a c = c\<lparr>cx_ClientIP := Some a\<rparr>"
definition WithConnectionPrincipal :: "ConnectionPrincipal \<Rightarrow> ReqContext \<Rightarrow> ReqContext" where
  "WithConnectionPrincipal p c = c\<lparr>cx_Connection := Some p\<rparr>"

lemmas context_defs = WithTenantID_def WithInstanceID_def WithAdmin_def WithOperator_def WithClientIP_def
  WithConnectionPrincipal_def

text \<open>What the gates read of a request: headers (empty when absent) and the route's instance id.\<close>

record Request =
  rq_Authorization :: string
  rq_APIKey :: string
  rq_InstanceParam :: string

subsection \<open>Access tokens\<close>

definition bearerToken :: "string \<Rightarrow> string option" where
  "bearerToken header =
     (if length header \<le> length ''bearer '' \<or> ToLower (take (length ''bearer '') header) \<noteq> ''bearer ''
      then None
      else (let token = TrimSpace (drop (length ''bearer '') header) in if token = [] then None else Some token))"

definition bad_token :: Error where
  "bad_token = ErrUnauthenticated ''The token is invalid or has expired''"

text \<open>\<open>want\<close> is \<open>None\<close> for the empty audience, which accepts either plane.\<close>

definition authenticate ::
  "TokenIssuer \<Rightarrow> Audience option \<Rightarrow> bool \<Rightarrow> Request \<Rightarrow> ReqContext \<Rightarrow> ('z world_scheme, Error, ReqContext) io" where
  "authenticate issuer want enforcePasswordChange rq cx = (case bearerToken (rq_Authorization rq) of
       None \<Rightarrow> throw (ErrUnauthenticated ''A bearer token is required'')
     | Some raw \<Rightarrow> bindE (getsE now) (\<lambda>t. case token_Parse issuer t raw of
         None \<Rightarrow> throw bad_token
       | Some tok \<Rightarrow>
           if want \<noteq> None \<and> want \<noteq> Some (c_Audience tok) then throw ErrWrongAudience
           else bindE (wrapE (\<lambda>_. bad_token) (GetUserByID (c_Subject tok))) (\<lambda>(user, status).
             if TokenPredatesPasswordChange user (c_IssuedAt tok) then throw bad_token
             else if enforcePasswordChange \<and> u_MustChangePassword user then throw ErrPasswordChangeRequired
             else if tenantStatusOf status \<noteq> TenantActive then throw ErrTenantSuspended
             else if c_Audience tok = AudienceTenant \<and>
                 (u_Role user \<noteq> RoleTenantAdmin \<or> u_TenantID user = None \<or> c_TenantID tok = None \<or>
                  u_TenantID user \<noteq> c_TenantID tok) then throw bad_token
             else (let cx' = WithAdmin \<lparr>ad_User = user, ad_Tenant = tenantStatusOf status, ad_Claims = tok\<rparr> cx in
               ret (case u_TenantID user of None \<Rightarrow> cx' | Some tid \<Rightarrow> WithTenantID tid cx')))))"

definition auth_Platform :: "TokenIssuer \<Rightarrow> Request \<Rightarrow> ReqContext \<Rightarrow> ('z world_scheme, Error, ReqContext) io" where
  "auth_Platform issuer = authenticate issuer (Some AudiencePlatform) True"

definition auth_Tenant :: "TokenIssuer \<Rightarrow> Request \<Rightarrow> ReqContext \<Rightarrow> ('z world_scheme, Error, ReqContext) io" where
  "auth_Tenant issuer = authenticate issuer (Some AudienceTenant) True"

definition auth_AnyAudience :: "TokenIssuer \<Rightarrow> Request \<Rightarrow> ReqContext \<Rightarrow> ('z world_scheme, Error, ReqContext) io" where
  "auth_AnyAudience issuer = authenticate issuer None False"

subsection \<open>Instance keys\<close>

definition bad_key :: Error where
  "bad_key = ErrUnauthenticated ''The API key is invalid or has been revoked''"

definition operator_of :: "GetKeyForAuthRow \<Rightarrow> Operator" where
  "operator_of row = \<lparr>op_InstanceID = ka_InstanceID row, op_TenantID = ka_TenantID row,
     op_InstanceName = ka_InstanceName row, op_InstanceState = ka_InstanceState row, op_KeyID = ka_KeyID row,
     op_KeyPrefix = ka_KeyPrefix row, op_KeyLabel = ka_Label row\<rparr>"

definition key_Authenticate ::
  "account_lib \<Rightarrow> Request \<Rightarrow> ReqContext \<Rightarrow> ('z world_scheme, Error, ReqContext) io" where
  "key_Authenticate lib rq cx =
     (if rq_APIKey rq = [] then throw (ErrUnauthenticated ''An API key is required'')
      else bindE (wrapE (\<lambda>_. bad_key) (GetKeyForAuth (al_sha256 lib (rq_APIKey rq)))) (\<lambda>row.
        if ka_KeyStatus row \<noteq> APIKeyActive then throw bad_key
        else if parseUUID (al_ids lib) (rq_InstanceParam rq) \<noteq> Some (ka_InstanceID row) then throw ErrNotFound
        else if ka_TenantStatus row \<noteq> TenantActive then throw ErrTenantSuspended
        else ret (WithInstanceID (ka_InstanceID row) (WithTenantID (ka_TenantID row)
          (WithOperator (operator_of row) cx)))))"

subsection \<open>Either credential\<close>

definition RateLimitKey :: "uuid_lib \<Rightarrow> ConnectionPrincipal \<Rightarrow> string" where
  "RateLimitKey ids p = (case (pr_Kind p, pr_KeyID p) of
       (PrincipalAPIKey, Some k) \<Rightarrow> ''rl:conn:key:'' @ id_String ids k
     | _ \<Rightarrow> ''rl:conn:tenant:'' @ id_String ids (pr_TenantID p))"

definition internal_nil :: Error where
  "internal_nil = plain_error CodeInternal ''Internal server error'' []"

definition connection_Authenticate ::
  "account_lib \<Rightarrow> TokenIssuer \<Rightarrow> Request \<Rightarrow> ReqContext \<Rightarrow> ('z world_scheme, Error, ReqContext) io" where
  "connection_Authenticate lib issuer rq cx =
     (if rq_APIKey rq \<noteq> [] then
        bindE (key_Authenticate lib rq cx) (\<lambda>inner. case cx_Operator inner of
            None \<Rightarrow> throw internal_nil
          | Some opr \<Rightarrow> ret (WithConnectionPrincipal \<lparr>pr_Kind = PrincipalAPIKey, pr_InstanceID = op_InstanceID opr,
              pr_TenantID = op_TenantID opr, pr_KeyID = Some (op_KeyID opr)\<rparr> inner))
      else
        bindE (auth_Tenant issuer rq cx) (\<lambda>inner. case Option.bind (cx_Admin inner) admin_TenantID of
            None \<Rightarrow> throw (ErrUnauthenticated ''A tenant token is required'')
          | Some tenant \<Rightarrow> (case parseUUID (al_ids lib) (rq_InstanceParam rq) of
              None \<Rightarrow> throw ErrNotFound
            | Some i \<Rightarrow> bindE (wrapE (\<lambda>_. ErrNotFound) (GetInstanceByIDAndTenant i tenant)) (\<lambda>row.
                ret (WithInstanceID (r_id row) (WithConnectionPrincipal \<lparr>pr_Kind = PrincipalTenantAdmin,
                  pr_InstanceID = r_id row, pr_TenantID = r_tenant_id row, pr_KeyID = None\<rparr> inner))))))"

subsection \<open>Rate limits\<close>

text \<open>\<open>limiter.Allow\<close>: how many of the requested units are allowed, or the failure of Redis.\<close>

type_synonym 'w allow = "string \<Rightarrow> ('w, redis_error, int) io"

definition Limit :: "'w allow \<Rightarrow> (ReqContext \<Rightarrow> string option) \<Rightarrow> ReqContext \<Rightarrow> ('w, Error, ReqContext) io" where
  "Limit allow keyFor cx = (case keyFor cx of
       None \<Rightarrow> ret cx
     | Some key \<Rightarrow> bindE (attempt (allow key)) (\<lambda>r. case r of
         Inl _ \<Rightarrow> ret cx
       | Inr allowed \<Rightarrow> if allowed < 1 then throw ErrRateLimited else ret cx))"

definition AllowKey :: "'w allow \<Rightarrow> string \<Rightarrow> ('w, 'e, bool) io" where
  "AllowKey allow key = bindE (attempt (allow key)) (\<lambda>r. case r of
       Inl _ \<Rightarrow> ret True
     | Inr allowed \<Rightarrow> ret (\<not> allowed < 1))"

definition login_key :: "ReqContext \<Rightarrow> string option" where
  "login_key cx = map_option (\<lambda>addr. ''rl:login:'' @ addr) (cx_ClientIP cx)"

definition operational_key :: "uuid_lib \<Rightarrow> ReqContext \<Rightarrow> string option" where
  "operational_key ids cx = map_option (\<lambda>opr. ''rl:op:'' @ id_String ids (op_KeyID opr)) (cx_Operator cx)"

definition connection_key :: "uuid_lib \<Rightarrow> ReqContext \<Rightarrow> string option" where
  "connection_key ids cx = map_option (RateLimitKey ids) (cx_Connection cx)"

subsection \<open>The client's address\<close>

definition index_byte :: "char \<Rightarrow> string \<Rightarrow> nat option" where
  "index_byte c s = (if c \<in> set s then Some (index_of c s) else None)"

definition last_index :: "char \<Rightarrow> string \<Rightarrow> nat option" where
  "last_index c s = map_option (\<lambda>i. length s - 1 - i) (index_byte c (rev s))"

text \<open>\<open>net.SplitHostPort\<close>, its host.\<close>

definition SplitHostPort :: "string \<Rightarrow> string option" where
  "SplitHostPort hp = (case last_index CHR '':'' hp of
       None \<Rightarrow> None
     | Some i \<Rightarrow>
        if hd hp = CHR ''['' then (case index_byte CHR '']'' hp of
            None \<Rightarrow> None
          | Some e \<Rightarrow> if e + 1 = i \<and> CHR ''['' \<notin> set (drop 1 hp) \<and> CHR '']'' \<notin> set (drop (e + 1) hp)
              then Some (drop 1 (take e hp)) else None)
        else if CHR '':'' \<in> set (take i hp) \<or> CHR ''['' \<in> set hp \<or> CHR '']'' \<in> set hp then None
        else Some (take i hp))"

definition ClientIP :: "string \<Rightarrow> string \<Rightarrow> string \<Rightarrow> bool \<Rightarrow> string" where
  "ClientIP remoteAddr forwardedFor realIPHeader trustProxyHeaders =
     (let direct = (case SplitHostPort remoteAddr of None \<Rightarrow> remoteAddr | Some host \<Rightarrow> host);
          forwarded = TrimSpace (hd (Split forwardedFor CHR '',''));
          realIP = TrimSpace realIPHeader in
      if \<not> trustProxyHeaders then direct
      else if forwarded \<noteq> [] then forwarded
      else if realIP \<noteq> [] then realIP
      else direct)"

text \<open>\<open>netip.ParseAddr\<close> is a parameter: the canonical text of the address.\<close>

definition ClientIPResolver :: "(string \<Rightarrow> string option) \<Rightarrow> string \<Rightarrow> ReqContext \<Rightarrow> ReqContext" where
  "ClientIPResolver netip_ParseAddr ip cx = (case netip_ParseAddr ip of
       None \<Rightarrow> cx
     | Some addr \<Rightarrow> WithClientIP addr cx)"

end
