(* ===== verification/Account_Facts.thy ===== *)
theory Account_Facts
  imports Accounts
begin

text \<open>
  Facts about the account services. First transactions: a command leaves the database as it was or
  with all of its changes and one audit record. Then the state the services keep: unique names and
  keys, roles that fit their tenants, references that resolve.
\<close>

subsection \<open>Transactions\<close>

lemma begin_ok:
  obtains fs where "run_statement (\<lambda>t d. (Inr (), d)) w = (Inr (), w\<lparr>faults := fs\<rparr>)"
  | fs where "run_statement (\<lambda>t d. (Inr (), d)) w = (Inl ConnectionFailure, w\<lparr>faults := fs\<rparr>)"
  by (rule run_statement_cases [of "\<lambda>t d. (Inr (), d)" w]) (auto intro: that)

lemma next_outcome_cases:
  obtains (Arrived) fs where "next_outcome w = (Delivered, w\<lparr>faults := fs\<rparr>)"
  | (NotSent) fs where "next_outcome w = (RequestLost, w\<lparr>faults := fs\<rparr>)" and "faults w \<noteq> []"
  | (Unconfirmed) fs where "next_outcome w = (ReplyLost, w\<lparr>faults := fs\<rparr>)" and "faults w \<noteq> []"
proof (cases "faults w")
  case Nil
  then show thesis by (intro Arrived [of "[]"]) (simp add: next_outcome_def)
next
  case (Cons f rest)
  then show thesis using that [of rest] by (cases f) (simp_all add: next_outcome_def)
qed

text \<open>
  The four ways out: the transaction never began or was rolled back, the body failed, the commit was
  confirmed, or only its confirmation was lost.
\<close>

lemma transaction_cases:
  obtains (NotBegun) e fs where "transaction b c body w = (Inl (b e), w\<lparr>faults := fs\<rparr>)" and "faults w \<noteq> []"
  | (Failed) e fs w1 where "body (w\<lparr>faults := fs\<rparr>) = (Inl e, w1)" and "transaction b c body w = (Inl e, w1\<lparr>db := db w\<rparr>)"
      and "faults w = [] \<Longrightarrow> fs = []"
  | (Committed) x fs fs' w1 where "body (w\<lparr>faults := fs\<rparr>) = (Inr x, w1)" and "transaction b c body w = (Inr x, w1\<lparr>faults := fs'\<rparr>)"
      and "faults w = [] \<Longrightarrow> fs = []"
  | (Lost) x fs fs' w1 d where "body (w\<lparr>faults := fs\<rparr>) = (Inr x, w1)" and "d = db w \<or> d = db w1"
      and "transaction b c body w = (Inl (c ConnectionFailure), w1\<lparr>db := d, faults := fs'\<rparr>)"
      and "faults w1 \<noteq> []" and "faults w = [] \<Longrightarrow> fs = []"
proof (rule begin_ok [of w])
  fix fs assume begun: "run_statement (\<lambda>t d. (Inr (), d)) w = (Inr (), w\<lparr>faults := fs\<rparr>)"
  have quiet: "faults w = [] \<Longrightarrow> fs = []"
    using arg_cong [OF begun, of "\<lambda>p. faults (snd p)"] by (simp add: run_statement_ok)
  let ?w = "w\<lparr>faults := fs\<rparr>"
  have tx: "transaction b c body w = (case body ?w of
         (Inl e, w') \<Rightarrow> (Inl e, w'\<lparr>db := db ?w\<rparr>)
       | (Inr x, w') \<Rightarrow> (case next_outcome w' of
           (Delivered, w'') \<Rightarrow> (Inr x, w'')
         | (RequestLost, w'') \<Rightarrow> (Inl (c ConnectionFailure), w''\<lparr>db := db ?w\<rparr>)
         | (ReplyLost, w'') \<Rightarrow> (Inl (c ConnectionFailure), w'')))"
    unfolding transaction_def by (simp add: bindE_def wrapE_def begun)
  show thesis
  proof (cases "body ?w")
    case (Pair r w1)
    show thesis
    proof (cases r)
      case (Inl e)
      with Pair tx quiet show thesis by (intro Failed [of fs e w1]) simp_all
    next
      case (Inr x)
      show thesis
      proof (rule next_outcome_cases [of w1])
        fix fs' assume "next_outcome w1 = (Delivered, w1\<lparr>faults := fs'\<rparr>)"
        with Inr Pair tx quiet show thesis by (intro Committed [of fs x w1 fs']) simp_all
      next
        fix fs' assume "next_outcome w1 = (RequestLost, w1\<lparr>faults := fs'\<rparr>)" and "faults w1 \<noteq> []"
        with Inr Pair tx quiet show thesis by (intro Lost [of fs x w1 "db w" fs']) simp_all
      next
        fix fs' assume "next_outcome w1 = (ReplyLost, w1\<lparr>faults := fs'\<rparr>)" and "faults w1 \<noteq> []"
        with Inr Pair tx quiet show thesis by (intro Lost [of fs x w1 "db w1" fs']) simp_all
      qed
    qed
  qed
next
  fix fs assume nb: "run_statement (\<lambda>t d. (Inr (), d)) w = (Inl ConnectionFailure, w\<lparr>faults := fs\<rparr>)"
  moreover from nb have "faults w \<noteq> []" by (auto simp: run_statement_ok)
  ultimately show thesis
    by (intro NotBegun [of ConnectionFailure fs]) (simp_all add: transaction_def bindE_def wrapE_def)
qed

text \<open>What the statements of a body guarantee about the database, the transaction guarantees.\<close>

lemma always_transaction:
  assumes refl: "\<And>d. R d d" and body: "always (on_db R) body"
  shows "always (on_db R) (transaction b c body)"
proof (rule alwaysI)
  fix w
  have body': "R (db w) (db w1)" if "body (w\<lparr>faults := fs\<rparr>) = (r, w1)" for fs r w1
    using always_eqD [OF body that] by (simp add: on_db_def)
  show "on_db R w (snd (transaction b c body w))"
    by (rule transaction_cases [of b c body w]) (auto simp: on_db_def refl dest: body')
qed

subsection \<open>Reads, audit records, atomic commands\<close>

text \<open>Three guarantees of a step: it only reads, it writes no audit record, it meets no fault of its own.\<close>

definition calm :: "'z world_scheme \<Rightarrow> 'z world_scheme \<Rightarrow> bool" where
  "calm w w' \<longleftrightarrow> now w' = now w \<and> (faults w = [] \<longrightarrow> faults w' = [])"

definition read_only :: "'z world_scheme \<Rightarrow> 'z world_scheme \<Rightarrow> bool" where
  "read_only w w' \<longleftrightarrow> calm w w' \<and> db w' = db w"

definition unlogged :: "'z world_scheme \<Rightarrow> 'z world_scheme \<Rightarrow> bool" where
  "unlogged w w' \<longleftrightarrow> calm w w' \<and> security_events (db w') = security_events (db w)"

interpretation calm: world_rel calm
  by unfold_locales (auto simp: calm_def)

interpretation read_only: world_rel read_only
  by unfold_locales (auto simp: read_only_def calm_def)

interpretation unlogged: world_rel unlogged
  by unfold_locales (auto simp: unlogged_def calm_def)

lemma calm_statement: "calm w (snd (run_statement q w))"
  by (cases "faults w = []", simp add: run_statement_ok calm_def)
    (rule run_statement_cases [of q w]; simp add: calm_def)

lemma always_read_only_statement:
  assumes "\<And>t d. snd (q t d) = d"
  shows "always read_only (run_statement q)"
proof (rule alwaysI)
  fix w
  have "db (snd (run_statement q w)) = db w" by (rule run_statement_cases [of q w]) (simp_all add: assms)
  with calm_statement show "read_only w (snd (run_statement q w))" by (simp add: read_only_def)
qed

lemma always_unlogged_statement:
  assumes "\<And>t d. security_events (snd (q t d)) = security_events d"
  shows "always unlogged (run_statement q)"
proof (rule alwaysI)
  fix w
  have "security_events (db (snd (run_statement q w))) = security_events (db w)"
    by (rule run_statement_cases [of q w]) (simp_all add: assms)
  with calm_statement show "unlogged w (snd (run_statement q w))" by (simp add: unlogged_def)
qed

lemma read_only_queries:
  "always read_only (GetTenantByID i)" "always read_only (GetTenantAdminByTenantID i)"
  "always read_only (GetUserPasswordHash i)" "always read_only (GetInstanceByIDAndTenant i j)"
  "always read_only CountActiveAPIKeys" "always read_only (CountTenantCascade i)" "always read_only (CountKeysByInstance i)"
  "always read_only CountSuperAdmins" "always read_only (GetUserCredentialByEmail e)" "always read_only (GetUserByID i)"
  "always read_only (GetKeyForAuth h)" "always read_only LockBootstrap"
  by (simp_all add: query_defs always_read_only_statement)

lemma read_only_checks: "always read_only (ret_or_throw f r)" "always read_only (require e)"
  by (auto simp: ret_or_throw_def require_def intro: read_only.always_intros split: sum.split option.split)

lemma unlogged_reads: "always read_only m \<Longrightarrow> always unlogged m"
  by (auto simp: read_only_def unlogged_def always_def)

lemma unlogged_statements:
  "always unlogged (CreateTenant i n)" "always unlogged (UpdateTenantName i n)" "always unlogged (SetTenantStatus i s)"
  "always unlogged (DeleteTenantByID i)" "always unlogged (CreateUser p)" "always unlogged (UpdatePassword i h b)"
  "always unlogged (CreateInstance i t n)" "always unlogged (RenameInstance i t n)" "always unlogged (DeleteInstance i t)"
  "always unlogged (CreateAPIKey i j l kp h)" "always unlogged (RevokeAPIKey i j t)"
  by (simp_all only: query_defs, (rule always_unlogged_statement;
    simp add: update_tenant_def update_user_def drop_tenant_def drop_instances_def Let_def split: option.split)+)

definition logged :: "EventType \<Rightarrow> gotime \<Rightarrow> database \<Rightarrow> database \<Rightarrow> bool" where
  "logged ty t d d' \<longleftrightarrow> (\<exists>row. security_events d' = security_events d @ [row] \<and> au_created_at row = t \<and>
     se_Type (au_event row) = ty \<and> se_Result (au_event row) = ResultSuccess)"

text \<open>A body that, when it succeeds, has written exactly one record of a type.\<close>

definition logs :: "EventType \<Rightarrow> ('z world_scheme, 'e, 'a) io \<Rightarrow> bool" where
  "logs ty m \<longleftrightarrow> always calm m \<and> (\<forall>w x w'. m w = (Inr x, w') \<longrightarrow> logged ty (now w) (db w) (db w'))"

text \<open>
  A command is atomic for an audit type if every outcome leaves the database alone or adds exactly one
  record of that type next to its changes; a success always does the latter, and an error does it only
  when a call was lost.
\<close>

definition all_or_nothing :: "EventType \<Rightarrow> ('z world_scheme, 'e, 'a) io \<Rightarrow> bool" where
  "all_or_nothing ty m \<longleftrightarrow> (\<forall>w r w'. m w = (r, w') \<longrightarrow>
     (db w' = db w \<or> logged ty (now w) (db w) (db w')) \<and>
     (case r of Inr _ \<Rightarrow> logged ty (now w) (db w) (db w') | Inl _ \<Rightarrow> faults w = [] \<longrightarrow> db w' = db w))"

lemma logs_bindE_result:
  assumes m: "always unlogged m" and k: "\<And>x w w'. m w = (Inr x, w') \<Longrightarrow> logs ty (k x)"
  shows "logs ty (bindE m k)"
  unfolding logs_def
proof (intro conjI allI impI)
  show "always calm (bindE m k)"
  proof (rule alwaysI)
    fix w
    obtain q w1 where mw: "m w = (q, w1)" by (cases "m w")
    have c1: "calm w w1" using always_eqD [OF m mw] by (simp add: unlogged_def)
    show "calm w (snd (bindE m k w))"
    proof (cases q)
      case (Inr x)
      then have "calm w1 (snd (k x w1))" using k [of w x w1] mw by (simp add: logs_def always_def)
      with c1 show ?thesis using mw Inr by (simp add: bindE_def) (rule calm.R_trans)
    qed (use mw c1 in \<open>simp add: bindE_def\<close>)
  qed
next
  fix w y w' assume "bindE m k w = (Inr y, w')"
  then obtain x w1 where m1: "m w = (Inr x, w1)" and k1: "k x w1 = (Inr y, w')"
    by (auto simp: bindE_def split: prod.splits sum.splits)
  have "unlogged w w1" by (rule always_eqD [OF m m1])
  moreover have "logged ty (now w1) (db w1) (db w')" using k [OF m1] k1 by (simp add: logs_def)
  ultimately show "logged ty (now w) (db w) (db w')" by (simp add: logged_def unlogged_def calm_def)
qed

lemma logs_bindE: "always unlogged m \<Longrightarrow> (\<And>x. logs ty (k x)) \<Longrightarrow> logs ty (bindE m k)"
  by (rule logs_bindE_result)

lemma logs_then_ret:
  assumes "logs ty m"
  shows "logs ty (bindE m (\<lambda>y. ret (g y)))"
  unfolding logs_def
proof (intro conjI allI impI)
  show "always calm (bindE m (\<lambda>y. ret (g y)))"
    using assms by (intro calm.always_intros) (simp add: logs_def)
next
  fix w x w' assume "bindE m (\<lambda>y. ret (g y)) w = (Inr x, w')"
  then obtain y where "m w = (Inr y, w')" by (auto simp: bindE_def ret_def split: prod.splits sum.splits)
  with assms show "logged ty (now w) (db w) (db w')" by (simp add: logs_def)
qed

lemma logs_if: "(b \<Longrightarrow> logs ty m) \<Longrightarrow> (\<not> b \<Longrightarrow> logs ty n) \<Longrightarrow> logs ty (if b then m else n)"
  by simp

lemma logs_throw: "logs ty (throw e)"
  by (simp add: logs_def throw_def calm.always_throw [unfolded throw_def])

lemma logs_Record: "se_Type e = ty \<Longrightarrow> se_Result e = ResultSuccess \<Longrightarrow> logs ty (wrapE f (Record i e))"
  unfolding logs_def
proof (intro conjI allI impI)
  show "always calm (wrapE f (Record i e))"
    by (intro calm.always_wrapE) (simp add: always_def Record_def InsertSecurityEvent_def calm_statement)
next
  fix w x w' assume ty: "se_Type e = ty" "se_Result e = ResultSuccess" and "wrapE f (Record i e) w = (Inr x, w')"
  then have "Record i e w = (Inr x, w')" by (auto simp: wrapE_def split: prod.splits sum.splits)
  then show "logged ty (now w) (db w) (db w')" unfolding Record_def InsertSecurityEvent_def
    by (rule run_statement_Inr) (auto simp: logged_def ty split: if_splits dest: sym)
qed

lemma atomic_transaction:
  assumes "logs ty body"
  shows "all_or_nothing ty (transaction b c body)"
  unfolding all_or_nothing_def
proof (intro allI impI)
  fix w r w' assume run: "transaction b c body w = (r, w')"
  have log: "logged ty (now w) (db w) (db w1)" if "body (w\<lparr>faults := fs\<rparr>) = (Inr x, w1)" for fs x w1
    using assms that unfolding logs_def by fastforce
  have quiet: "fs = [] \<Longrightarrow> faults w1 = []" if "body (w\<lparr>faults := fs\<rparr>) = (q, w1)" for fs q w1
  proof -
    have "always calm body" using assms by (simp add: logs_def)
    from always_eqD [OF this that] show "fs = [] \<Longrightarrow> faults w1 = []" by (simp add: calm_def)
  qed
  show "(db w' = db w \<or> logged ty (now w) (db w) (db w')) \<and>
      (case r of Inl _ \<Rightarrow> faults w = [] \<longrightarrow> db w' = db w | Inr _ \<Rightarrow> logged ty (now w) (db w) (db w'))"
    by (rule transaction_cases [of b c body w]) (use run in \<open>auto dest: log quiet\<close>)
qed

lemma atomic_after_reads:
  assumes m: "always read_only m" and k: "\<And>x. all_or_nothing ty (k x)"
  shows "all_or_nothing ty (bindE m k)"
  unfolding all_or_nothing_def
proof (intro allI impI)
  fix w r w' assume run: "bindE m k w = (r, w')"
  obtain q w1 where mw: "m w = (q, w1)" by (cases "m w")
  have ro: "db w1 = db w" "now w1 = now w" "faults w = [] \<longrightarrow> faults w1 = []"
    using always_eqD [OF m mw] by (simp_all add: read_only_def calm_def)
  show "(db w' = db w \<or> logged ty (now w) (db w) (db w')) \<and>
      (case r of Inl _ \<Rightarrow> faults w = [] \<longrightarrow> db w' = db w | Inr _ \<Rightarrow> logged ty (now w) (db w) (db w'))"
  proof (cases q)
    case (Inl e)
    with run mw ro show ?thesis by (auto simp: bindE_def)
  next
    case (Inr x)
    with run mw have "k x w1 = (r, w')" by (simp add: bindE_def)
    with k [of x] ro show ?thesis unfolding all_or_nothing_def by (fastforce split: sum.splits)
  qed
qed

lemma atomic_before_reads:
  assumes m: "all_or_nothing ty m" and k: "\<And>x. always read_only (k x)" "\<And>x. noerr (k x)"
  shows "all_or_nothing ty (bindE m k)"
  unfolding all_or_nothing_def
proof (intro allI impI)
  fix w r w' assume run: "bindE m k w = (r, w')"
  obtain q w1 where mw: "m w = (q, w1)" by (cases "m w")
  show "(db w' = db w \<or> logged ty (now w) (db w) (db w')) \<and>
      (case r of Inl _ \<Rightarrow> faults w = [] \<longrightarrow> db w' = db w | Inr _ \<Rightarrow> logged ty (now w) (db w) (db w'))"
  proof (cases q)
    case (Inl e)
    with run mw m show ?thesis unfolding all_or_nothing_def by (fastforce simp: bindE_def)
  next
    case (Inr x)
    with run mw have kx: "k x w1 = (r, w')" by (simp add: bindE_def)
    have "db w' = db w1" using always_eqD [OF k(1) kx] by (simp add: read_only_def)
    moreover obtain y where "r = Inr y" using k(2) [of x] kx unfolding noerr_def by (metis Pair_inject)
    ultimately show ?thesis using m mw Inr unfolding all_or_nothing_def by fastforce
  qed
qed

lemma atomic_refused: "all_or_nothing ty (throw e)"
  by (simp add: all_or_nothing_def throw_def)

lemma atomic_case_option:
  "(x = None \<Longrightarrow> all_or_nothing ty m) \<Longrightarrow> (\<And>y. x = Some y \<Longrightarrow> all_or_nothing ty (k y)) \<Longrightarrow>
   all_or_nothing ty (case x of None \<Rightarrow> m | Some y \<Rightarrow> k y)"
  by (cases x) auto

lemma atomic_if: "(b \<Longrightarrow> all_or_nothing ty m) \<Longrightarrow> (\<not> b \<Longrightarrow> all_or_nothing ty n) \<Longrightarrow> all_or_nothing ty (if b then m else n)"
  by simp

lemma gauge_reads: "always read_only (bindE RefreshActiveKeyGauge (\<lambda>_. ret x))" "always read_only RefreshActiveKeyGauge"
  "noerr (bindE RefreshActiveKeyGauge (\<lambda>_. ret x))" "noerr RefreshActiveKeyGauge"
  by (auto simp: RefreshActiveKeyGauge_def intro!: read_only.always_intros read_only_queries noerr_intros)

lemmas atomic_rules = atomic_transaction atomic_after_reads atomic_refused atomic_case_option atomic_if
  logs_bindE logs_if logs_throw

lemmas atomic_steps = read_only.always_wrapE read_only_queries read_only_checks unlogged.always_wrapE
  unlogged_statements unlogged_reads

lemma SetTenantStatus_status:
  assumes "wrapE f (SetTenantStatus i s) w = (Inr tenant, w')"
  shows "t_Status tenant = s"
proof -
  from assms have "SetTenantStatus i s w = (Inr tenant, w')" by (auto simp: wrapE_def split: prod.splits sum.splits)
  then show ?thesis unfolding SetTenantStatus_def
    by (rule run_statement_Inr) (auto split: option.splits if_splits)
qed

lemma logs_record: "logs ty (record_or_fail lib i (audit ty a tt tg ResultSuccess ip m))"
  by (simp add: record_or_fail_def logs_Record audit_def)

lemmas logs_record_ret = logs_then_ret [OF logs_record]

lemma atomic_tenant_commands:
  "all_or_nothing EventTenantCreated (tenant_Create lib fresh salt ct)"
  "all_or_nothing EventTenantUpdated (tenant_Rename lib fresh rn)"
  "all_or_nothing EventTenantDeleted (tenant_Delete lib fresh dt)"
  unfolding tenant_Create_def tenant_Rename_def tenant_Delete_def in_tx_def in_tx_raw_def Let_def
  by (intro atomic_rules atomic_steps logs_record logs_record_ret)+

lemma atomic_instance_commands:
  "all_or_nothing EventInstanceCreated (instance_Create lib fresh ci)"
  "all_or_nothing EventInstanceUpdated (instance_Rename lib fresh ri)"
  "all_or_nothing EventInstanceDeleted (remove_instance lib fresh di)"
  unfolding instance_Create_def instance_Rename_def remove_instance_def in_tx_def Let_def
  by (intro atomic_rules atomic_steps logs_record logs_record_ret)+

lemma atomic_key_commands:
  "all_or_nothing EventAPIKeyCreated (key_Create lib fresh salt ck)"
  "all_or_nothing EventAPIKeyRevoked (key_Revoke lib fresh rk)"
  unfolding key_Create_def key_Revoke_def in_tx_def Let_def
  by (intro atomic_rules atomic_before_reads atomic_steps logs_record logs_record_ret gauge_reads,
      intro atomic_before_reads atomic_rules atomic_steps logs_record gauge_reads)

lemma atomic_password_commands:
  "all_or_nothing EventPasswordChanged (password_Change lib fresh salt cp)"
  "all_or_nothing EventPasswordReset (ResetTenantAdmin lib fresh pw salt rt)"
  unfolding password_Change_def ResetTenantAdmin_def in_tx_def in_tx_raw_def
  by (intro atomic_rules atomic_steps logs_record logs_record_ret)+

definition status_event :: "TenantStatus \<Rightarrow> EventType" where
  "status_event s = (if s = TenantSuspended then EventTenantSuspended else EventTenantActivated)"

lemma atomic_status_change: "all_or_nothing (status_event (ss_Status ss)) (status_change lib fresh ss)"
  unfolding status_change_def in_tx_def
proof (rule atomic_transaction, rule logs_bindE_result)
  show "always unlogged (wrapE (or_not_found lib) (SetTenantStatus (ss_TenantID ss) (ss_Status ss)))"
    by (intro atomic_steps)
qed (auto dest!: SetTenantStatus_status simp: status_event_def intro: logs_record_ret)


subsection \<open>The account tables\<close>

definition tenants_ok :: "database \<Rightarrow> bool" where
  "tenants_ok d \<longleftrightarrow> distinct (map t_ID (tenants d)) \<and> distinct (map (\<lambda>t. ToLower (t_Name t)) (tenants d)) \<and>
     (\<forall>t \<in> set (tenants d). tenant_status_Valid (t_Status t))"

definition users_ok :: "database \<Rightarrow> bool" where
  "users_ok d \<longleftrightarrow> distinct (map (\<lambda>u. u_ID (usr_user u)) (users d)) \<and>
     distinct (map (\<lambda>u. ToLower (u_Email (usr_user u))) (users d)) \<and>
     (\<forall>u \<in> set (users d). role_tenant_ok (u_Role (usr_user u)) (u_TenantID (usr_user u)))"

definition instances_ok :: "database \<Rightarrow> bool" where
  "instances_ok d \<longleftrightarrow> distinct (map r_id (instances d)) \<and>
     distinct (map (\<lambda>r. (r_tenant_id r, ToLower (r_name r))) (instances d))"

definition keys_ok :: "database \<Rightarrow> bool" where
  "keys_ok d \<longleftrightarrow> distinct (map (\<lambda>k. k_ID (key_meta k)) (api_keys d)) \<and> distinct (map key_secret_hash (api_keys d))"

text \<open>The foreign keys between the account tables.\<close>

definition references_ok :: "database \<Rightarrow> bool" where
  "references_ok d \<longleftrightarrow>
     (\<forall>u \<in> set (users d). \<forall>tid. u_TenantID (usr_user u) = Some tid \<longrightarrow> tid \<in> set (map t_ID (tenants d))) \<and>
     (\<forall>r \<in> set (instances d). r_tenant_id r \<in> set (map t_ID (tenants d))) \<and>
     (\<forall>k \<in> set (api_keys d). k_InstanceID (key_meta k) \<in> set (map r_id (instances d)))"

definition accounts_ok :: "database \<Rightarrow> bool" where
  "accounts_ok d \<longleftrightarrow> tenants_ok d \<and> users_ok d \<and> instances_ok d \<and> keys_ok d \<and> references_ok d \<and>
     distinct (map au_id (security_events d))"

lemmas accounts_defs = accounts_ok_def tenants_ok_def users_ok_def instances_ok_def keys_ok_def references_ok_def

lemma distinct_update_where:
  assumes "distinct (map key rows)" and "distinct (map g rows)"
    and "\<And>r. r \<in> set rows \<Longrightarrow> p r \<Longrightarrow> key r = i \<and> g (f r) = v" and "\<And>r. r \<in> set rows \<Longrightarrow> \<not> p r \<Longrightarrow> g r \<noteq> v"
  shows "distinct (map g (update_where p f rows))"
  using assms
proof (induction rows)
  case (Cons a rows)
  have g: "g ` set (update_where p f rows) \<subseteq> g ` set rows \<union> (if \<exists>r \<in> set rows. p r then {v} else {})"
    using Cons.prems(3) by (auto simp: set_update_where)
  have new: "g a \<notin> g ` set (update_where p f rows)" if "\<not> p a"
    using g that Cons.prems(2) Cons.prems(4) [of a] by (auto split: if_splits)
  have upd: "g (f a) \<notin> g ` set (update_where p f rows)" if "p a"
  proof -
    have "\<not> p r" if "r \<in> set rows" for r
    proof
      assume "p r"
      then have "key r = key a" using Cons.prems(3) [of a] Cons.prems(3) [of r] that \<open>p a\<close> by simp
      then show False using Cons.prems(1) that by (metis distinct.simps(2) image_eqI list.set_map list.simps(9))
    qed
    then have "update_where p f rows = rows" by (simp add: update_where_def map_idI)
    moreover have "v \<notin> g ` set rows" using \<open>\<And>r. r \<in> set rows \<Longrightarrow> \<not> p r\<close> Cons.prems(4) by auto
    ultimately show ?thesis using Cons.prems(3) [of a] \<open>p a\<close> by simp
  qed
  have "distinct (map g (update_where p f rows))" using Cons by simp
  with new upd show ?case by simp
qed simp

lemma accounts_ok_update_tenant:
  assumes "accounts_ok d" and "\<And>r. t_ID (f r) = t_ID r" and "\<And>r. t_ID r = i \<Longrightarrow> tenant_status_Valid (t_Status r) \<Longrightarrow> tenant_status_Valid (t_Status (f r))"
    and "distinct (map (\<lambda>t. ToLower (t_Name t)) (update_where (\<lambda>r. t_ID r = i) f (tenants d)))"
  shows "accounts_ok (update_tenant i f d)"
proof -
  have ids: "map t_ID (update_where (\<lambda>r. t_ID r = i) f (tenants d)) = map t_ID (tenants d)"
    by (rule map_update_where) (simp add: assms(2))
  have "\<forall>t \<in> set (update_where (\<lambda>r. t_ID r = i) f (tenants d)). tenant_status_Valid (t_Status t)"
    using assms(1,3) by (auto simp: set_update_where accounts_defs)
  moreover note assms(1,4)
  ultimately show ?thesis
    unfolding accounts_defs update_tenant_def by (simp add: ids del: set_map)
qed

lemma accounts_ok_update_user:
  assumes ok: "accounts_ok d" and f: "\<And>u. u_ID (usr_user (f u)) = u_ID (usr_user u)" "\<And>u. u_Email (usr_user (f u)) = u_Email (usr_user u)"
    "\<And>u. u_Role (usr_user (f u)) = u_Role (usr_user u)" "\<And>u. u_TenantID (usr_user (f u)) = u_TenantID (usr_user u)"
  shows "accounts_ok (update_user i f d)"
proof -
  let ?us = "update_where (\<lambda>u. u_ID (usr_user u) = i) f (users d)"
  have ids: "map (\<lambda>u. u_ID (usr_user u)) ?us = map (\<lambda>u. u_ID (usr_user u)) (users d)"
    and mails: "map (\<lambda>u. ToLower (u_Email (usr_user u))) ?us = map (\<lambda>u. ToLower (u_Email (usr_user u))) (users d)"
    by (simp_all add: map_update_where f)
  have roles: "\<forall>u \<in> set (users d). P (u_Role (usr_user u)) (u_TenantID (usr_user u)) \<Longrightarrow>
      \<forall>v \<in> set ?us. P (u_Role (usr_user v)) (u_TenantID (usr_user v))" for P
    by (auto simp: set_update_where f)
  have "\<forall>v \<in> set ?us. role_tenant_ok (u_Role (usr_user v)) (u_TenantID (usr_user v))"
    using ok by (intro roles) (simp add: accounts_defs)
  moreover have "\<forall>v \<in> set ?us. \<forall>tid. u_TenantID (usr_user v) = Some tid \<longrightarrow> tid \<in> set (map t_ID (tenants d))"
    using ok by (intro roles) (simp add: accounts_defs)
  ultimately show ?thesis
    using ok unfolding accounts_defs update_user_def by (simp add: ids mails del: set_map)
qed

definition keeps_accounts :: "database \<Rightarrow> database \<Rightarrow> bool" where
  "keeps_accounts d d' \<longleftrightarrow> (accounts_ok d \<longrightarrow> accounts_ok d')"

interpretation accounts: world_rel "on_db keeps_accounts"
  by unfold_locales (auto simp: on_db_def keeps_accounts_def)

lemma accounts_statement:
  "(\<And>t d. accounts_ok d \<Longrightarrow> accounts_ok (snd (q t d))) \<Longrightarrow> always (on_db keeps_accounts) (run_statement q)"
  by (rule always_on_db) (simp_all add: keeps_accounts_def)

lemma accounts_reads: "always read_only m \<Longrightarrow> always (on_db keeps_accounts) m"
  by (auto simp: always_def read_only_def on_db_def keeps_accounts_def)

lemma accounts_UpdateTenantName: "always (on_db keeps_accounts) (UpdateTenantName i name)"
  unfolding UpdateTenantName_def
proof (rule accounts_statement)
  fix t d assume ok: "accounts_ok d"
  let ?f = "\<lambda>r. r\<lparr>t_Name := name, t_UpdatedAt := t\<rparr>"
  have "accounts_ok (update_tenant i ?f d)" if free: "\<not> tenant_name_taken d i name"
  proof (rule accounts_ok_update_tenant [OF ok])
    show "distinct (map (\<lambda>t. ToLower (t_Name t)) (update_where (\<lambda>r. t_ID r = i) ?f (tenants d)))"
      using ok free by (intro distinct_update_where [where key = t_ID and i = i and v = "ToLower name"])
        (auto simp: accounts_defs tenant_name_taken_def)
  qed simp_all
  with ok show "accounts_ok (snd (case tenant_of d i of None \<Rightarrow> (Inl ErrNoRows, d)
     | Some row \<Rightarrow> if \<not> name_length_ok name then (Inl CheckViolation, d)
        else if tenant_name_taken d i name then (Inl (UniqueViolation ''tenants_name_key''), d)
        else (Inr (row\<lparr>t_Name := name, t_UpdatedAt := t\<rparr>), update_tenant i ?f d)))"
    by (simp split: option.split)
qed

lemma accounts_SetTenantStatus: "always (on_db keeps_accounts) (SetTenantStatus i s)"
  unfolding SetTenantStatus_def
proof (rule accounts_statement)
  fix t d assume ok: "accounts_ok d"
  let ?f = "\<lambda>r. r\<lparr>t_Status := s, t_UpdatedAt := t\<rparr>"
  have "accounts_ok (update_tenant i ?f d)" if "tenant_status_Valid s"
  proof (rule accounts_ok_update_tenant [OF ok])
    have "map (\<lambda>t. ToLower (t_Name t)) (update_where (\<lambda>r. t_ID r = i) ?f (tenants d)) = map (\<lambda>t. ToLower (t_Name t)) (tenants d)"
      by (rule map_update_where) simp
    then show "distinct (map (\<lambda>t. ToLower (t_Name t)) (update_where (\<lambda>r. t_ID r = i) ?f (tenants d)))"
      using ok by (simp only: accounts_defs)
  qed (simp_all add: that)
  with ok show "accounts_ok (snd (case tenant_of d i of None \<Rightarrow> (Inl ErrNoRows, d)
     | Some row \<Rightarrow> if \<not> tenant_status_Valid s then (Inl CheckViolation, d)
        else (Inr (row\<lparr>t_Status := s, t_UpdatedAt := t\<rparr>), update_tenant i ?f d)))"
    by (simp split: option.split)
qed

lemma accounts_CreateTenant: "always (on_db keeps_accounts) (CreateTenant i name)"
  unfolding CreateTenant_def
  by (rule accounts_statement) (auto simp: accounts_defs tenant_name_taken_def tenant_status_Valid_def Let_def)

lemma accounts_CreateUser: "always (on_db keeps_accounts) (CreateUser p)"
  unfolding CreateUser_def
  by (rule accounts_statement)
    (auto simp: accounts_defs new_user_def user_of_def user_by_email_def tenant_of_def by_key_None first_where_None
      image_iff split: option.splits)

lemma accounts_CreateAPIKey: "always (on_db keeps_accounts) (CreateAPIKey i j l kp h)"
  unfolding CreateAPIKey_def
  by (rule accounts_statement) (auto simp: accounts_defs Let_def instance_of_def by_key_None)

lemma accounts_CreateInstance: "always (on_db keeps_accounts) (CreateInstance i tenant name)"
  unfolding CreateInstance_def
  by (rule accounts_statement) (auto simp: accounts_defs new_instance_row_def name_taken_def)

lemma accounts_user_updates:
  "always (on_db keeps_accounts) (ClearLoginFailures i)" "always (on_db keeps_accounts) (RegisterFailedLogin m w i)"
  "always (on_db keeps_accounts) (UpdatePassword i h b)"
  unfolding ClearLoginFailures_def RegisterFailedLogin_def UpdatePassword_def
  by (rule accounts_statement; simp add: accounts_ok_update_user on_user_def failed_login_def Let_def split: option.split)+

lemma accounts_audit: "always (on_db keeps_accounts) (InsertSecurityEvent i e)"
  unfolding InsertSecurityEvent_def by (rule accounts_statement) (auto simp: accounts_defs)

lemma accounts_RenameInstance: "always (on_db keeps_accounts) (RenameInstance i tenant name)"
  unfolding RenameInstance_def
proof (rule accounts_statement)
  fix t d assume ok: "accounts_ok d"
  let ?p = "\<lambda>r. r_id r = i \<and> r_tenant_id r = tenant" and ?f = "\<lambda>r. r\<lparr>r_name := name, r_updated_at := t\<rparr>"
  let ?rows = "update_where ?p ?f (instances d)"
  have ids: "map r_id ?rows = map r_id (instances d)" by (rule map_update_where) simp
  have owners: "\<forall>r \<in> set ?rows. r_tenant_id r \<in> set (map t_ID (tenants d))"
    using ok by (auto simp: accounts_defs set_update_where)
  have "distinct (map (\<lambda>r. (r_tenant_id r, ToLower (r_name r))) ?rows)" if "\<not> name_taken d i tenant name"
    using ok that by (intro distinct_update_where [where key = r_id and i = i and v = "(tenant, ToLower name)"])
      (auto simp: accounts_defs name_taken_def)
  with ok owners have "accounts_ok (d\<lparr>instances := ?rows\<rparr>)" if "\<not> name_taken d i tenant name"
    using that unfolding accounts_defs by (simp add: ids del: set_map)
  with ok show "accounts_ok (snd (case first_where ?p (instances d) of
       None \<Rightarrow> (Inl ErrNoRows, d)
     | Some r \<Rightarrow>
        if \<not> name_length_ok name then (Inl CheckViolation, d)
        else if name_taken d i tenant name then (Inl (UniqueViolation ''instances_tenant_id_name_uk''), d)
        else (Inr (r\<lparr>r_name := name, r_updated_at := t\<rparr>), d\<lparr>instances := ?rows\<rparr>)))"
    by (simp split: option.split)
qed

lemma accounts_ok_drop_instances: "accounts_ok d \<Longrightarrow> accounts_ok (drop_instances gone d)"
  by (auto simp: accounts_defs drop_instances_def distinct_map_filter)

lemma image_other: "x \<in> key ` {r \<in> S. key r \<noteq> i} \<longleftrightarrow> x \<in> key ` S \<and> x \<noteq> i"
  by auto

lemma accounts_ok_drop_tenant:
  assumes ok: "accounts_ok d"
  shows "accounts_ok (drop_tenant i d)"
proof -
  let ?d = "drop_instances (tenant_owns d i) d"
  have ok': "accounts_ok ?d" using ok by (rule accounts_ok_drop_instances)
  have "r_tenant_id r \<noteq> i" if "r \<in> set (instances ?d)" for r
    using that by (auto simp: drop_instances_def tenant_owns_def)
  with ok' have "accounts_ok (?d\<lparr>tenants := filter (\<lambda>t. t_ID t \<noteq> i) (tenants ?d),
      users := filter (\<lambda>u. u_TenantID (usr_user u) \<noteq> Some i) (users ?d)\<rparr>)"
    by (auto simp: accounts_defs distinct_map_filter image_other)
  moreover have "tenants ?d = tenants d" "users ?d = users d" by (simp_all add: drop_instances_def)
  ultimately show ?thesis by (simp add: drop_tenant_def)
qed

lemma accounts_deletions: "always (on_db keeps_accounts) (DeleteInstance i t)" "always (on_db keeps_accounts) (DeleteTenantByID i)"
  unfolding DeleteInstance_def DeleteTenantByID_def
  by (rule accounts_statement; simp add: accounts_ok_drop_instances accounts_ok_drop_tenant split: option.split)+

lemma accounts_RevokeAPIKey: "always (on_db keeps_accounts) (RevokeAPIKey i j t)"
  unfolding RevokeAPIKey_def
proof (rule accounts_statement)
  fix now d assume ok: "accounts_ok d"
  let ?hit = "\<lambda>k. k_ID (key_meta k) = i \<and> k_InstanceID (key_meta k) = j \<and> tenant_owns d t j"
  let ?f = "\<lambda>k. k\<lparr>key_meta := revoked now (key_meta k)\<rparr>"
  have ids: "map (\<lambda>k. k_ID (key_meta k)) (update_where ?hit ?f (api_keys d)) = map (\<lambda>k. k_ID (key_meta k)) (api_keys d)"
    and hashes: "map key_secret_hash (update_where ?hit ?f (api_keys d)) = map key_secret_hash (api_keys d)"
    by (rule map_update_where, simp add: revoked_def)+
  have "\<forall>k \<in> set (update_where ?hit ?f (api_keys d)). k_InstanceID (key_meta k) \<in> set (map r_id (instances d))"
    using ok by (auto simp: accounts_defs set_update_where revoked_def)
  then have "accounts_ok (d\<lparr>api_keys := update_where ?hit ?f (api_keys d)\<rparr>)"
    using ok unfolding accounts_defs by (simp add: ids hashes del: set_map)
  with ok show "accounts_ok (snd (let hit = ?hit in case first_where hit (api_keys d) of
       None \<Rightarrow> (Inl ErrNoRows, d)
     | Some k \<Rightarrow> (Inr (revoked now (key_meta k)),
         d\<lparr>api_keys := update_where hit (\<lambda>k. k\<lparr>key_meta := revoked now (key_meta k)\<rparr>) (api_keys d)\<rparr>)))"
    by (simp add: Let_def split: option.split)
qed

subsection \<open>Histories\<close>

text \<open>
  Every operation of the account services that writes, with its draws. The two that also touch sessions
  (suspending a tenant, deleting an instance) enter with their transaction; what happens to sessions is
  part of the second rule of a history.
\<close>

datatype account_op =
    DoLogin AuthService "nat \<Rightarrow> ID" LoginInput
  | DoChangePassword "nat \<Rightarrow> ID" "string option" ChangePasswordInput
  | DoResetPassword "nat \<Rightarrow> ID" "string option" "string option" ResetTenantAdminInput
  | DoCreateTenant "nat \<Rightarrow> ID" "string option" CreateTenantInput
  | DoRenameTenant "nat \<Rightarrow> ID" RenameTenantInput
  | DoSetStatus "nat \<Rightarrow> ID" SetStatusInput
  | DoDeleteTenant "nat \<Rightarrow> ID" DeleteTenantInput
  | DoCreateInstance "nat \<Rightarrow> ID" CreateInstanceInput
  | DoRenameInstance "nat \<Rightarrow> ID" RenameInstanceInput
  | DoDeleteInstance "nat \<Rightarrow> ID" DeleteInstanceInput
  | DoCreateKey "nat \<Rightarrow> ID" "string option" CreateAPIKeyInput
  | DoRevokeKey "nat \<Rightarrow> ID" RevokeAPIKeyInput
  | DoBootstrap "nat \<Rightarrow> ID" "string option" BootstrapCredentials

fun do_account :: "account_lib \<Rightarrow> account_op \<Rightarrow> 'z world_scheme \<Rightarrow> 'z world_scheme" where
  "do_account lib (DoLogin s fresh inp) w = snd (Login lib s fresh inp w)"
| "do_account lib (DoChangePassword fresh rnd inp) w = snd (password_Change lib fresh rnd inp w)"
| "do_account lib (DoResetPassword fresh pw rnd inp) w = snd (ResetTenantAdmin lib fresh pw rnd inp w)"
| "do_account lib (DoCreateTenant fresh rnd inp) w = snd (tenant_Create lib fresh rnd inp w)"
| "do_account lib (DoRenameTenant fresh inp) w = snd (tenant_Rename lib fresh inp w)"
| "do_account lib (DoSetStatus fresh inp) w = snd (status_change lib fresh inp w)"
| "do_account lib (DoDeleteTenant fresh inp) w = snd (tenant_Delete lib fresh inp w)"
| "do_account lib (DoCreateInstance fresh inp) w = snd (instance_Create lib fresh inp w)"
| "do_account lib (DoRenameInstance fresh inp) w = snd (instance_Rename lib fresh inp w)"
| "do_account lib (DoDeleteInstance fresh inp) w = snd (remove_instance lib fresh inp w)"
| "do_account lib (DoCreateKey fresh rnd inp) w = snd (key_Create lib fresh rnd inp w)"
| "do_account lib (DoRevokeKey fresh inp) w = snd (key_Revoke lib fresh inp w)"
| "do_account lib (DoBootstrap fresh rnd creds) w = snd (bootstrap_Run lib fresh rnd creds w)"

text \<open>What the rest of the system may not touch: the account tables, and who owns which instance.\<close>

definition account_view :: "database \<Rightarrow> Tenant list \<times> UserRow list \<times> KeyRow list \<times> AuditRow list \<times> (ID \<times> ID \<times> string) list" where
  "account_view d = (tenants d, users d, api_keys d, security_events d,
     map (\<lambda>r. (r_id r, r_tenant_id r, r_name r)) (instances d))"

inductive account_history :: "account_lib \<Rightarrow> (account_op \<Rightarrow> bool) \<Rightarrow> 'z world_scheme \<Rightarrow> 'z world_scheme \<Rightarrow> bool"
  for lib allowed w where
  start: "account_history lib allowed w w"
| account: "account_history lib allowed w w1 \<Longrightarrow> allowed action \<Longrightarrow> account_history lib allowed w (do_account lib action w1)"
| elsewhere: "account_history lib allowed w w1 \<Longrightarrow> account_view (db w2) = account_view (db w1) \<Longrightarrow> account_history lib allowed w w2"

lemma history_keeps:
  fixes w :: "'z world_scheme"
  assumes "account_history lib allowed w w'" and "P (db w)"
    and "\<And>action (w1 :: 'z world_scheme). allowed action \<Longrightarrow> P (db w1) \<Longrightarrow> P (db (do_account lib action w1))"
    and "\<And>d d'. account_view d' = account_view d \<Longrightarrow> P d \<Longrightarrow> P d'"
  shows "P (db w')"
  using assms(1,2) by (induction rule: account_history.induct) (auto intro: assms(3,4))

lemma accounts_ok_view: "account_view d' = account_view d \<Longrightarrow> accounts_ok d \<Longrightarrow> accounts_ok d'"
proof -
  assume view: "account_view d' = account_view d" and ok: "accounts_ok d"
  have inst: "map (\<lambda>r. (r_id r, r_tenant_id r, r_name r)) (instances d') = map (\<lambda>r. (r_id r, r_tenant_id r, r_name r)) (instances d)"
    and rest: "tenants d' = tenants d" "users d' = users d" "api_keys d' = api_keys d" "security_events d' = security_events d"
    using view by (simp_all add: account_view_def)
  have f: "map g (instances d') = map g (instances d)" if "\<And>r. g r = h (r_id r, r_tenant_id r, r_name r)" for g :: "InstanceRow \<Rightarrow> 'b" and h
  proof -
    have "g = (\<lambda>r. h (r_id r, r_tenant_id r, r_name r))" using that by (rule ext)
    then show ?thesis using arg_cong [OF inst, of "map h"] by (simp add: comp_def)
  qed
  have "map r_id (instances d') = map r_id (instances d)" by (rule f [of _ fst]) simp
  moreover have "map (\<lambda>r. (r_tenant_id r, ToLower (r_name r))) (instances d') = map (\<lambda>r. (r_tenant_id r, ToLower (r_name r))) (instances d)"
    by (rule f [of _ "\<lambda>(i, t, n). (t, ToLower n)"]) simp
  moreover have "map r_tenant_id (instances d') = map r_tenant_id (instances d)" by (rule f [of _ "\<lambda>(i, t, n). t"]) simp
  then have "(\<forall>r \<in> set (instances d'). r_tenant_id r \<in> S) \<longleftrightarrow> (\<forall>r \<in> set (instances d). r_tenant_id r \<in> S)" for S
    by (metis (no_types, opaque_lifting) image_iff list.set_map)
  ultimately show ?thesis using ok unfolding accounts_defs by (simp add: rest del: set_map)
qed

lemmas accounts_steps = accounts.always_wrapE accounts_UpdateTenantName accounts_SetTenantStatus accounts_CreateTenant
  accounts_CreateUser accounts_CreateAPIKey accounts_CreateInstance accounts_user_updates accounts_audit
  accounts_RenameInstance accounts_deletions accounts_RevokeAPIKey

lemma accounts_Record: "always (on_db keeps_accounts) (Record i e)" "always (on_db keeps_accounts) (record_or_fail lib i e)"
  "always (on_db keeps_accounts) (recordEvent i e)" "always (on_db keeps_accounts) (recordLoginFailure i a ip why)"
  unfolding Record_def record_or_fail_def recordEvent_def recordLoginFailure_def
  by (intro accounts_steps accounts.always_ignoreE)+

lemma accounts_tx: "always (on_db keeps_accounts) body \<Longrightarrow> always (on_db keeps_accounts) (transaction b c body)"
  by (rule always_transaction) (simp add: keeps_accounts_def)

lemma accounts_do: "always (on_db keeps_accounts) m \<Longrightarrow> accounts_ok (db w) \<Longrightarrow> accounts_ok (db (snd (m w)))"
  by (simp add: always_def on_db_def keeps_accounts_def)

lemma accounts_checks: "always (on_db keeps_accounts) (ret_or_throw f r)" "always (on_db keeps_accounts) (require e)"
  by (intro accounts_reads read_only_checks)+

lemmas accounts_queries = read_only_queries [THEN accounts_reads]

lemmas accounts_intros = accounts_tx accounts.always_ret accounts.always_throw accounts.always_getsE accounts.always_bindE
  accounts.always_wrapE accounts.always_attempt accounts.always_ignoreE accounts.always_whenE accounts.always_catchE
  accounts.always_if accounts.always_case_option accounts.always_case_sum accounts.always_case_prod
  accounts_checks accounts_queries accounts_steps accounts_Record

lemma accounts_services:
  "always (on_db keeps_accounts) (password_Change lib fresh rnd cp)" "always (on_db keeps_accounts) (ResetTenantAdmin lib fresh pw rnd rt)"
  "always (on_db keeps_accounts) (tenant_Create lib fresh rnd ct)" "always (on_db keeps_accounts) (tenant_Rename lib fresh rn)"
  "always (on_db keeps_accounts) (status_change lib fresh ss)" "always (on_db keeps_accounts) (tenant_Delete lib fresh dt)"
  "always (on_db keeps_accounts) (instance_Create lib fresh ci)" "always (on_db keeps_accounts) (instance_Rename lib fresh ri)"
  "always (on_db keeps_accounts) (remove_instance lib fresh di)" "always (on_db keeps_accounts) (key_Create lib fresh rnd ck)"
  "always (on_db keeps_accounts) (key_Revoke lib fresh rk)"
  unfolding password_Change_def ResetTenantAdmin_def tenant_Create_def tenant_Rename_def status_change_def tenant_Delete_def
    instance_Create_def instance_Rename_def remove_instance_def key_Create_def key_Revoke_def in_tx_def in_tx_raw_def Let_def
    RefreshActiveKeyGauge_def
  by (intro accounts_intros)+

lemma accounts_Login: "always (on_db keeps_accounts) (Login lib s fresh inp)"
  unfolding Login_def registerFailedAttempt_def Let_def by (intro accounts_intros)

lemma accounts_bootstrap: "always (on_db keeps_accounts) (bootstrap_Run lib fresh rnd creds)"
proof -
  have exit: "always (on_db keeps_accounts) (case e of NothingToDo \<Rightarrow> ret () | BootFailed x \<Rightarrow> throw x)" for e
    by (cases e) (simp_all add: accounts.always_ret accounts.always_throw)
  show ?thesis unfolding bootstrap_Run_def bootstrap_body_def Let_def by (intro accounts_intros exit)
qed

lemma accounts_action: "accounts_ok (db w) \<Longrightarrow> accounts_ok (db (do_account lib action w))"
  by (cases action) (simp_all add: accounts_do accounts_services accounts_Login accounts_bootstrap)

text \<open>
  C13. The account tables stay well formed: whatever sequence of account operations runs, with whatever
  lost calls and whatever the rest of the system does in between, identifiers, tenant names, emails,
  instance names within a tenant, key identifiers and key hashes stay unique (names and emails without
  regard to case), every super-admin has no tenant and every tenant admin has one, statuses are known,
  and users, instances and keys refer to rows that exist.
\<close>

theorem accounts_stay_well_formed:
  assumes "account_history lib allowed w w'" and "accounts_ok (db w)"
  shows "accounts_ok (db w')"
  using assms
  by (rule history_keeps) (simp_all add: accounts_action accounts_ok_view)

subsection \<open>A small deployment\<close>

definition demo_lib :: account_lib where
  "demo_lib = \<lparr>al_argon2 = demo_argon2, al_ids = demo_uuids, al_sha256 = id, al_mail = Some, al_cause = (\<lambda>_. ''failed'')\<rparr>"

definition demo_hash :: string where
  "demo_hash = phc_string demo_argon2 defaultArgon2Params (replicate 16 CHR ''s'') (''correct horse'' @ replicate 19 CHR ''.'')"

definition demo_user :: User where
  "demo_user = \<lparr>u_ID = 5, u_Name = ''Ana'', u_Email = ''ana@example.org'', u_Role = RoleTenantAdmin, u_TenantID = Some 3,
     u_MustChangePassword = False, u_FailedLoginCount = 0, u_LockedUntil = 0, u_PasswordChangedAt = 10 * second,
     u_CreatedAt = 10 * second, u_UpdatedAt = 10 * second\<rparr>"

definition demo_key :: KeyRow where
  "demo_key = \<lparr>key_meta = \<lparr>k_ID = 9, k_InstanceID = 7, k_Label = None, k_KeyPrefix = ''zmk_abcdefgh'', k_Status = APIKeyActive,
     k_CreatedAt = 10 * second, k_RevokedAt = None\<rparr>, key_secret_hash = ''zmk_abcdefghijk''\<rparr>"

definition demo_tenant :: Tenant where
  "demo_tenant = \<lparr>t_ID = 3, t_Name = ''ACME'', t_Status = TenantActive, t_CreatedAt = 10 * second, t_UpdatedAt = 10 * second\<rparr>"

definition demo_accounts :: database where
  "demo_accounts = \<lparr>tenants = [demo_tenant], users = [\<lparr>usr_user = demo_user, usr_password_hash = demo_hash\<rparr>],
     instances = [new_instance_row (10 * second) 7 3 ''shop''], api_keys = [demo_key], security_events = [],
     session_leases = [], connection_events = [], next_event_id = 1\<rparr>"

definition demo_office :: world where
  "demo_office = \<lparr>db = demo_accounts, now = 100 * second, faults = []\<rparr>"

lemmas demo_office_defs = demo_office_def demo_accounts_def demo_tenant_def demo_key_def demo_user_def new_instance_row_def

lemma demo_office_ok: "accounts_ok (db demo_office)"
  by (simp add: accounts_defs demo_office_defs tenant_status_Valid_def role_tenant_ok_def)

definition demo_revoke :: RevokeAPIKeyInput where
  "demo_revoke = \<lparr>rk_TenantID = 3, rk_InstanceID = 7, rk_KeyID = 9, rk_ActorID = 5, rk_SourceIP = None\<rparr>"

theorem accounts_stay_well_formed_witness:
  "accounts_ok (db (do_account demo_lib (DoRevokeKey (\<lambda>n. n) demo_revoke) demo_office))"
proof -
  have "account_history demo_lib (\<lambda>_. True) demo_office (do_account demo_lib (DoRevokeKey (\<lambda>n. n) demo_revoke) demo_office)"
    by (intro account_history.account account_history.start TrueI)
  then show ?thesis using demo_office_ok by (rule accounts_stay_well_formed)
qed

end
