(* ===== verification/Ws.thy ===== *)
theory Ws
  imports Middleware Account_Facts
begin

text \<open>
  The event socket of an instance: \<open>internal/api/ws/ws.go\<close> (handshake, stream loop) and
  \<open>internal/api/wsbridge.go\<close> (authorisation and the snapshot). Of the WebSocket library the model takes
  the outcomes of its calls: whether the upgrade, a write or a ping succeeded. The loop is run over a
  sequence of the \<open>select\<close> cases that became ready, each preceded by what the rest of the deployment
  did in the meantime.
\<close>

subsection \<open>Credentials\<close>

definition Subprotocol :: string where "Subprotocol = ''zappermeow.v1''"
definition bearerPrefix :: string where "bearerPrefix = ''bearer.''"

datatype ws_error = ErrNoCredential | ErrForbidden | WsNotFound

record Handshake =
  hs_Authorization :: string
  hs_APIKey :: string
  hs_Protocols :: "string list"

definition websocketProtocols :: "string list \<Rightarrow> string list" where
  "websocketProtocols raw = filter (\<lambda>p. p \<noteq> []) (map TrimSpace (concat (map (\<lambda>v. Split v CHR '','') raw)))"

text \<open>\<open>if token, ok := strings.CutPrefix(s, prefix); ok && token != ""\<close>\<close>

definition cut_token :: "string \<Rightarrow> string \<Rightarrow> string option" where
  "cut_token s p = (case CutPrefix s p of Some (c # cs) \<Rightarrow> Some (c # cs) | _ \<Rightarrow> None)"

fun first_token :: "string list \<Rightarrow> string option" where
  "first_token [] = None"
| "first_token (p # ps) = (case cut_token p bearerPrefix of Some t \<Rightarrow> Some t | None \<Rightarrow> first_token ps)"

definition credentialFrom :: "Handshake \<Rightarrow> string option" where
  "credentialFrom r = (case cut_token (hs_Authorization r) ''Bearer '' of
       Some token \<Rightarrow> Some token
     | None \<Rightarrow> if hs_APIKey r \<noteq> [] then Some (hs_APIKey r) else first_token (websocketProtocols (hs_Protocols r)))"

subsection \<open>Authorisation\<close>

record Principal =
  wp_TenantID :: ID
  wp_RateLimitKey :: string

definition authorizeKey :: "account_lib \<Rightarrow> string \<Rightarrow> ID \<Rightarrow> ('z world_scheme, ws_error, Principal) io" where
  "authorizeKey lib secret i =
     bindE (wrapE (\<lambda>_. ErrNoCredential) (GetKeyForAuth (al_sha256 lib secret))) (\<lambda>row.
     if ka_KeyStatus row \<noteq> APIKeyActive then throw ErrForbidden
     else if ka_InstanceID row \<noteq> i then throw WsNotFound
     else if ka_TenantStatus row \<noteq> TenantActive then throw ErrForbidden
     else ret \<lparr>wp_TenantID = ka_TenantID row, wp_RateLimitKey = ''rl:conn:key:'' @ id_String (al_ids lib) (ka_KeyID row)\<rparr>)"

definition authorizeToken ::
  "account_lib \<Rightarrow> TokenIssuer \<Rightarrow> string \<Rightarrow> ID \<Rightarrow> ('z world_scheme, ws_error, Principal) io" where
  "authorizeToken lib issuer raw i = bindE (getsE now) (\<lambda>t. case token_Parse issuer t raw of
       None \<Rightarrow> throw ErrForbidden
     | Some tok \<Rightarrow> (case (c_Audience tok, c_TenantID tok) of
         (AudienceTenant, Some tenant) \<Rightarrow>
           bindE (wrapE (\<lambda>_. ErrForbidden) (GetUserByID (c_Subject tok))) (\<lambda>(user, status).
           if status \<noteq> Some TenantActive then throw ErrForbidden
           else bindE (wrapE (\<lambda>_. WsNotFound) (GetInstanceByIDAndTenant i tenant)) (\<lambda>_.
             ret \<lparr>wp_TenantID = tenant, wp_RateLimitKey = ''rl:conn:tenant:'' @ id_String (al_ids lib) tenant\<rparr>))
       | _ \<Rightarrow> throw ErrForbidden))"

definition Authorize ::
  "account_lib \<Rightarrow> TokenIssuer \<Rightarrow> string \<Rightarrow> ID \<Rightarrow> ('z world_scheme, ws_error, Principal) io" where
  "Authorize lib issuer credential i =
     (if HasPrefix credential APIKeyPrefix then authorizeKey lib credential i
      else authorizeToken lib issuer credential i)"

subsection \<open>The snapshot\<close>

definition opt_field :: "string \<Rightarrow> ('a \<Rightarrow> json) \<Rightarrow> 'a option \<Rightarrow> payload" where
  "opt_field key f v = (case v of None \<Rightarrow> [] | Some x \<Rightarrow> [(key, f x)])"

definition or_null :: "('a \<Rightarrow> json) \<Rightarrow> 'a option \<Rightarrow> json" where
  "or_null f v = (case v of None \<Rightarrow> JNull | Some x \<Rightarrow> f x)"

definition deviceData :: "InstanceRow \<Rightarrow> json" where
  "deviceData row = or_null (\<lambda>jid. JObj ((''jid'', JStr jid) #
     opt_field ''phone_number'' JStr (r_phone_number row) @ opt_field ''push_name'' JStr (r_push_name row) @
     opt_field ''platform'' JStr (r_platform row) @ opt_field ''paired_at'' JTime (r_paired_at row))) (r_wa_jid row)"

definition attempt_data :: "PairingSnapshot \<Rightarrow> json" where
  "attempt_data p = JObj ([(''method'', JStr (ps_Method p)), (''phase'', JStr (phase_text (CurrentPhase p))),
     (''expires_at'', JTime (ps_ExpiresAt p))] @
     (if CurrentPhase p = PhasePasskeyChallenge then [(''public_key'', JRaw (ps_Challenge p))]
      else [(''code'', JStr (ps_Code p))]))"

datatype snapshot_error = LoadInstance db_error | SnapshotRedis redis_error

fun intent_text :: "ConnectionIntent \<Rightarrow> string" where
  "intent_text IntentActive = ''active''"
| "intent_text IntentStopped = ''stopped''"
| "intent_text (OtherIntent s) = s"

text \<open>The texts of the state, intent and reason columns are those of the vocabulary.\<close>

definition snapshot_data :: "InstanceRow \<Rightarrow> PairingSnapshot option \<Rightarrow> payload" where
  "snapshot_data row pairing =
     [(''state'', JStr (state_text (r_connection_state row))), (''intent'', JStr (intent_text (r_connection_intent row))),
      (''device'', deviceData row), (''connected_at'', or_null JTime (r_connected_at row)),
      (''last_disconnect'', or_null (\<lambda>at. JObj ((''at'', JTime at) #
         opt_field ''reason'' (\<lambda>r. JStr (reason_text r)) (r_last_disconnect_reason row))) (r_last_disconnect_at row)),
      (''pairing'', or_null attempt_data pairing)]"

definition Snapshot :: "ID \<Rightarrow> ('z bus_world_scheme, snapshot_error, Envelope) io" where
  "Snapshot i =
     bindE (wrapE LoadInstance (GetInstanceConnectionByID i)) (\<lambda>row.
     bindE (wrapE SnapshotRedis (CurrentSeq i)) (\<lambda>seq.
     bindE (wrapE SnapshotRedis (Pairing i)) (\<lambda>pairing.
     bindE (getsE now) (\<lambda>t.
     ret \<lparr>Seq = seq, env_Type = TypeStateSnapshot, env_InstanceID = i, env_Generation = 0,
       env_OccurredAt = t, env_Data = snapshot_data row pairing\<rparr>))))"

subsection \<open>The stream\<close>

datatype CloseCode =
    StatusNormalClosure | StatusPolicyViolation | StatusInternalError
  | CloseRevoked | CloseInstanceDeleted | CloseSlowConsumer

text \<open>
  The cases of the \<open>select\<close>: the request ended, the subscription overflowed, a frame (or the end of
  the subscription) with whether it could be written, a ping with whether it was answered, the
  revalidation tick.
\<close>

datatype socket_event = CtxDone | Overflowed | Incoming "Envelope option" bool | PingTick bool | RevalidateTick

datatype stream_end = StillOpen | Returned | Closed CloseCode string

text \<open>What was written, how the loop ended, and the state after it.\<close>

fun stream_loop ::
  "('w, ws_error, Principal) io \<Rightarrow> (('w \<Rightarrow> 'w) \<times> socket_event) list \<Rightarrow> int \<Rightarrow> 'w \<Rightarrow>
   Envelope list \<times> stream_end \<times> 'w" where
  "stream_loop auth [] lastSeq w = ([], StillOpen, w)"
| "stream_loop auth ((meanwhile, ev) # evs) lastSeq w = (let w = meanwhile w in case ev of
       CtxDone \<Rightarrow> ([], Closed StatusNormalClosure [], w)
     | Overflowed \<Rightarrow> ([], Closed CloseSlowConsumer ''consumer too slow'', w)
     | Incoming None _ \<Rightarrow> ([], Closed StatusNormalClosure [], w)
     | Incoming (Some envelope) wrote \<Rightarrow>
         if Seq envelope \<le> lastSeq then stream_loop auth evs lastSeq w
         else if wrote then (case stream_loop auth evs (Seq envelope) w of (es, r) \<Rightarrow> (envelope # es, r))
         else ([], Returned, w)
     | PingTick answered \<Rightarrow>
         if answered then stream_loop auth evs lastSeq w
         else ([], Closed StatusPolicyViolation ''ping timeout'', w)
     | RevalidateTick \<Rightarrow> (case auth w of
         (Inl _, w') \<Rightarrow> ([], Closed CloseRevoked ''credential revoked'', w')
       | (Inr _, w') \<Rightarrow> stream_loop auth evs lastSeq w'))"

text \<open>\<open>Subscribe\<close> asks Redis and waits for its confirmation; what it delivers are the \<open>Incoming\<close> frames.\<close>

definition Subscribe :: "ID \<Rightarrow> ('z bus_world_scheme, redis_error, unit) io" where
  "Subscribe i = redis_call (\<lambda>t r. (Inr (), r))"

definition stream ::
  "account_lib \<Rightarrow> TokenIssuer \<Rightarrow> ID \<Rightarrow> string \<Rightarrow> bool \<Rightarrow>
   (('z bus_world_scheme \<Rightarrow> 'z bus_world_scheme) \<times> socket_event) list \<Rightarrow> 'z bus_world_scheme \<Rightarrow>
   Envelope list \<times> stream_end \<times> 'z bus_world_scheme" where
  "stream lib issuer i credential wrote evs w = (case Subscribe i w of
       (Inl _, w1) \<Rightarrow> ([], Closed StatusInternalError ''subscribe failed'', w1)
     | (Inr _, w1) \<Rightarrow> (case Snapshot i w1 of
         (Inl _, w2) \<Rightarrow> ([], Closed StatusInternalError ''snapshot failed'', w2)
       | (Inr snapshot, w2) \<Rightarrow>
           if \<not> wrote then ([], Returned, w2)
           else (case stream_loop (Authorize lib issuer credential i) evs (Seq snapshot) w2 of
             (es, r) \<Rightarrow> (snapshot # es, r))))"

subsection \<open>The handshake\<close>

datatype handshake_outcome = Refused nat | UpgradeFailed | Streamed "Envelope list" stream_end

definition refusal :: "ws_error \<Rightarrow> nat" where
  "refusal e = (case e of ErrForbidden \<Rightarrow> 403 | WsNotFound \<Rightarrow> 404 | ErrNoCredential \<Rightarrow> 401)"

definition admit ::
  "account_lib \<Rightarrow> TokenIssuer \<Rightarrow> 'z world_scheme allow option \<Rightarrow> Handshake \<Rightarrow> ID \<Rightarrow> ('z world_scheme, nat, string) io" where
  "admit lib issuer limiter r i = (case credentialFrom r of
       None \<Rightarrow> throw 401
     | Some credential \<Rightarrow>
         bindE (wrapE refusal (Authorize lib issuer credential i)) (\<lambda>principal.
         bindE (case limiter of None \<Rightarrow> ret True | Some allow \<Rightarrow> AllowKey allow (wp_RateLimitKey principal)) (\<lambda>ok.
         if \<not> ok then throw 429 else ret credential)))"

text \<open>\<open>accepted\<close> is the subprotocol \<open>websocket.Accept\<close> negotiated, if the upgrade succeeded.\<close>

definition ServeHTTP ::
  "account_lib \<Rightarrow> TokenIssuer \<Rightarrow> 'z bus_world_scheme allow option \<Rightarrow> Handshake \<Rightarrow> ID \<Rightarrow> string option \<Rightarrow> bool \<Rightarrow>
   (('z bus_world_scheme \<Rightarrow> 'z bus_world_scheme) \<times> socket_event) list \<Rightarrow> 'z bus_world_scheme \<Rightarrow>
   handshake_outcome \<times> 'z bus_world_scheme" where
  "ServeHTTP lib issuer limiter r i accepted wrote evs w = (case admit lib issuer limiter r i w of
       (Inl status, w1) \<Rightarrow> (Refused status, w1)
     | (Inr credential, w1) \<Rightarrow> (case accepted of
         None \<Rightarrow> (UpgradeFailed, w1)
       | Some proto \<Rightarrow>
           if proto \<noteq> Subprotocol
           then (Streamed [] (Closed StatusPolicyViolation (''subprotocol '' @ Subprotocol @ '' is required'')), w1)
           else (case stream lib issuer i credential wrote evs w1 of
             (es, finish, w2) \<Rightarrow> (Streamed es finish, w2))))"

subsection \<open>Facts about the stream\<close>

definition incoming :: "(('w \<Rightarrow> 'w) \<times> socket_event) list \<Rightarrow> Envelope list" where
  "incoming evs = concat (map (\<lambda>(_, ev). case ev of Incoming (Some e) _ \<Rightarrow> [e] | _ \<Rightarrow> []) evs)"

lemma incoming_Cons: "incoming ((f, ev) # evs) = (case ev of Incoming (Some e) _ \<Rightarrow> [e] | _ \<Rightarrow> []) @ incoming evs"
  by (simp add: incoming_def)

text \<open>
  The reference for the order of frames: from a list of frames keep those whose number is above every
  number seen before.
\<close>

fun fresh_frames :: "int \<Rightarrow> Envelope list \<Rightarrow> Envelope list" where
  "fresh_frames n [] = []"
| "fresh_frames n (e # es) = (if Seq e \<le> n then fresh_frames n es else e # fresh_frames (Seq e) es)"

lemma fresh_frames_above: "e \<in> set (fresh_frames n es) \<Longrightarrow> n < Seq e"
  by (induction n es rule: fresh_frames.induct) (auto split: if_splits)

lemma fresh_frames_increase: "sorted_wrt (<) (map Seq (fresh_frames n es))"
  by (induction n es rule: fresh_frames.induct) (auto dest: fresh_frames_above)

lemma stream_loop_fresh:
  assumes "stream_loop auth evs n w = (sent, finish, w')"
  shows "prefix sent (fresh_frames n (incoming evs)) \<and>
    (finish = StillOpen \<longrightarrow> sent = fresh_frames n (incoming evs))"
  using assms
proof (induction auth evs n w arbitrary: sent rule: stream_loop.induct)
  case (1 auth lastSeq w)
  then show ?case by (simp add: incoming_def)
next
  case (2 auth meanwhile ev evs lastSeq w)
  show ?case
  proof (cases ev)
    case (Incoming msg wrote)
    then show ?thesis
      using "2.prems" "2.IH"(1,2) by (cases msg) (auto simp: incoming_Cons Let_def split: if_splits prod.splits)
  next
    case RevalidateTick
    then show ?thesis
      using "2.prems" "2.IH"(4) by (auto simp: incoming_Cons Let_def split: prod.splits sum.splits)
  qed (use "2.prems" "2.IH"(3) in \<open>auto simp: incoming_Cons Let_def split: if_splits\<close>)
qed

lemma stream_loop_append:
  "stream_loop auth (pre @ post) n w = (case stream_loop auth pre n w of
     (sent, finish, w') \<Rightarrow> if finish \<noteq> StillOpen then (sent, finish, w')
       else (case stream_loop auth post (last (n # map Seq sent)) w' of (es, r) \<Rightarrow> (sent @ es, r)))"
proof (induction auth pre n w rule: stream_loop.induct)
  case (1 auth lastSeq w)
  then show ?case by simp
next
  case (2 auth meanwhile ev evs lastSeq w)
  show ?case
  proof (cases ev)
    case (Incoming msg wrote)
    then show ?thesis
      using "2.IH"(1,2) by (cases msg) (auto simp: Let_def split: if_splits prod.splits)
  next
    case RevalidateTick
    then show ?thesis using "2.IH"(4) by (auto simp: Let_def split: prod.splits sum.splits)
  qed (use "2.IH"(3) in \<open>auto simp: Let_def split: if_splits\<close>)
qed

lemma failed_revalidation_ends_stream:
  assumes "stream_loop auth pre n w = (sent, StillOpen, w1)" and "auth (meanwhile w1) = (Inl e, w2)"
  shows "stream_loop auth (pre @ (meanwhile, RevalidateTick) # post) n w =
    (sent, Closed CloseRevoked ''credential revoked'', w2)"
  by (simp add: stream_loop_append assms Let_def)

lemma Snapshot_frame:
  assumes "Snapshot i w = (Inr snapshot, w')"
  shows "env_Type snapshot = TypeStateSnapshot" and "env_InstanceID snapshot = i"
  using assms by (auto simp: Snapshot_def bindE_def getsE_def ret_def split: prod.splits sum.splits)

text \<open>
  C32. A socket delivers in order and without repetition: what it writes is the snapshot of the instance
  followed by frames of strictly growing numbers, and as long as the socket is open these are exactly
  the received frames whose number is above every earlier one; when the socket ends early they are a
  prefix of those.
\<close>

theorem socket_frames_in_order:
  assumes "stream lib issuer i credential wrote evs w = (snapshot # sent, finish, w')"
  shows "env_Type snapshot = TypeStateSnapshot \<and> env_InstanceID snapshot = i \<and>
    sorted_wrt (<) (map Seq (snapshot # sent)) \<and>
    prefix sent (fresh_frames (Seq snapshot) (incoming evs)) \<and>
    (finish = StillOpen \<longrightarrow> sent = fresh_frames (Seq snapshot) (incoming evs))"
proof -
  from assms obtain w1 w2 where snap: "Snapshot i w1 = (Inr snapshot, w2)"
    and run: "stream_loop (Authorize lib issuer credential i) evs (Seq snapshot) w2 = (sent, finish, w')"
    by (auto simp: stream_def split: prod.splits sum.splits if_splits)
  have fresh: "prefix sent (fresh_frames (Seq snapshot) (incoming evs)) \<and>
      (finish = StillOpen \<longrightarrow> sent = fresh_frames (Seq snapshot) (incoming evs))"
    by (rule stream_loop_fresh [OF run])
  then obtain rest where split: "fresh_frames (Seq snapshot) (incoming evs) = sent @ rest" by (auto simp: prefix_def)
  have "Seq snapshot < Seq e" if "e \<in> set sent" for e
    using that fresh_frames_above [of e "Seq snapshot" "incoming evs"] split by simp
  moreover have "sorted_wrt (<) (map Seq sent)"
    using fresh_frames_increase [of "Seq snapshot" "incoming evs"] split by (simp add: sorted_wrt_append)
  ultimately have "sorted_wrt (<) (map Seq (snapshot # sent))" by simp
  with fresh Snapshot_frame [OF snap] show ?thesis by blast
qed

theorem socket_frames_in_order_witness:
  "\<exists>snapshot w'. stream demo_lib demo_issuer 7 ''zmk_x'' True
     [(id, Incoming (Some (demo_frame\<lparr>Seq := 2\<rparr>)) True), (id, Incoming (Some (demo_frame\<lparr>Seq := 1\<rparr>)) True)] demo_bus =
       ([snapshot, demo_frame\<lparr>Seq := 2\<rparr>], StillOpen, w') \<and> Seq snapshot < 2"
proof -
  let ?evs = "[(id :: bus_world \<Rightarrow> bus_world, Incoming (Some (demo_frame\<lparr>Seq := 2\<rparr>)) True), (id, Incoming (Some (demo_frame\<lparr>Seq := 1\<rparr>)) True)]"
  obtain snapshot w' where run: "stream demo_lib demo_issuer 7 ''zmk_x'' True ?evs demo_bus =
      (snapshot # [demo_frame\<lparr>Seq := 2\<rparr>], StillOpen, w')"
    by (auto simp: stream_def Subscribe_def Snapshot_def CurrentSeq_def Pairing_def bindE_def getsE_def ret_def wrapE_def
      query_defs run_statement_ok redis_call_ok demo_bus_def demo_redis_def demo_db_def instance_of_def new_instance_row_def
      live_def Let_def demo_frame_def)
  from socket_frames_in_order [OF run] run show ?thesis by auto
qed

end
