(* ===== verification/Login_Facts.thy ===== *)
theory Login_Facts
  imports Account_Facts
begin

text \<open>
  What a login promises: which answers reveal anything, what an access token certifies, and how long
  guessing a password is held up.
\<close>

subsection \<open>Steps of a login\<close>

lemma GetUserCredentialByEmail_Inr:
  assumes "GetUserCredentialByEmail e w = (Inr (row, status), w')"
  shows "user_by_email (db w) e = Some row" and "status = joined_status (db w) (usr_user row)"
    and "db w' = db w" and "now w' = now w"
proof -
  from assms obtain fs where "select_one (\<lambda>t d. map_option (\<lambda>u. (u, joined_status d (usr_user u))) (user_by_email d e))
      (now w) (db w) = (Inr (row, status), db w')" and w': "w' = w\<lparr>db := db w', faults := fs\<rparr>"
    unfolding GetUserCredentialByEmail_def by (rule run_statement_Inr)
  then show "user_by_email (db w) e = Some row" "status = joined_status (db w) (usr_user row)" "db w' = db w"
    by (auto simp: select_one_def split: option.splits)
  show "now w' = now w" by (subst w') simp
qed

lemma noerr_bind_throw: "noerr m \<Longrightarrow> fst (bindE m (\<lambda>_. throw e) w) = Inl e"
  unfolding noerr_def bindE_def throw_def by (metis (mono_tags, lifting) fst_conv old.prod.case old.sum.simps(6))

lemma noerr_recordings: "noerr (recordEvent i e)" "noerr (recordLoginFailure i a ip why)"
  "noerr (registerFailedAttempt s fresh user ip)"
proof -
  show rec: "noerr (recordEvent i e)" for i e by (simp add: recordEvent_def noerr_ignoreE)
  then show fail: "noerr (recordLoginFailure i a ip why)" for i a ip why by (simp add: recordLoginFailure_def)
  show "noerr (registerFailedAttempt s fresh user ip)"
    unfolding registerFailedAttempt_def
  proof (rule noerr_bindE [OF noerr_attempt])
    fix r :: "db_error + int \<times> gotime"
    show "noerr (case r of
         Inl _ \<Rightarrow> recordLoginFailure (fresh 0) (Some (u_ID user)) ip ''bad_password''
       | Inr (count, lockedUntil) \<Rightarrow>
           bindE (recordLoginFailure (fresh 0) (Some (u_ID user)) ip ''bad_password'') (\<lambda>_.
           bindE (getsE now) (\<lambda>t.
           if lockedUntil \<noteq> zero_time \<and> lockedUntil > t then
             recordEvent (fresh 1) (audit EventAccountLocked (Some (u_ID user)) TargetUser (Some (u_ID user))
               ResultDenied ip
               [(''locked_until'', JTime (truncate_second lockedUntil)), (''max_failures'', JInt (as_maxFailures s)),
                (''window_second'', JInt (as_lockWindow s div second))])
           else ret ())))"
      by (cases r) (auto intro!: noerr_intros rec fail)
  qed
qed

text \<open>The part of a login that runs once the row was found.\<close>

definition login_with ::
  "account_lib \<Rightarrow> AuthService \<Rightarrow> (nat \<Rightarrow> ID) \<Rightarrow> LoginInput \<Rightarrow> UserRow \<Rightarrow> TenantStatus option \<Rightarrow> gotime \<Rightarrow>
   ('z world_scheme, go_error, LoginResult) io" where
  "login_with lib s fresh inp row status t =
     (let user = usr_user row; who = Some (u_ID user); ip = li_SourceIP inp in
      bindE (wrapE (db_internal lib) (ClearLoginFailures (u_ID user))) (\<lambda>_.
      bindE (whenE (u_LockedUntil user \<noteq> zero_time)
        (recordEvent (fresh 0) (audit EventAccountUnlocked who TargetUser who ResultSuccess ip
          [(''reason'', JStr ''lockout_expired'')]))) (\<lambda>_.
      bindE (ret_or_throw (\<lambda>e. fail_internal lib (CauseIssue e))
        (Issue (as_issuer s) t (u_ID user) (role_Audience (u_Role user)) (u_TenantID user)
          (u_MustChangePassword user))) (\<lambda>(token, claims).
      bindE (recordEvent (fresh 1) (audit EventLoginSucceeded who TargetUser who ResultSuccess ip
        [(''audience'', JStr (audience_text (c_Audience claims)))])) (\<lambda>_.
      ret \<lparr>lr_AccessToken = token, lr_ExpiresIn = ti_ttl (as_issuer s) div second,
        lr_Audience = c_Audience claims, lr_MustChangePassword = u_MustChangePassword user\<rparr>)))))"

lemma throw_apply: "throw e w = (Inl e, w)"
  by (simp add: throw_def)

lemmas refused = noerr_bind_throw [OF noerr_recordings(1)] noerr_bind_throw [OF noerr_recordings(2)]
  noerr_bind_throw [OF noerr_recordings(3)]

lemma Login_found:
  assumes "GetUserCredentialByEmail (NormalizeEmail (li_Email inp)) w = (found, w1)"
  shows "bindE (attempt (GetUserCredentialByEmail (NormalizeEmail (li_Email inp)))) k w = k found w1"
  using assms by (simp add: bindE_def attempt_def)

lemma Login_unknown:
  assumes "GetUserCredentialByEmail (NormalizeEmail (li_Email inp)) w = (Inl e, w1)"
  shows "fst (Login lib s fresh inp w) =
    Inl (if IsNoRows e then DomainError ErrInvalidCredentials else db_internal lib e)"
  unfolding Login_def by (subst Login_found [OF assms]) (simp add: refused, simp add: throw_def)

lemma Login_known:
  assumes "GetUserCredentialByEmail (NormalizeEmail (li_Email inp)) w = (Inr (row, status), w1)"
  shows "Login lib s fresh inp w =
    (let user = usr_user row; who = Some (u_ID user); ip = li_SourceIP inp in
     if IsLocked user (now w1) then
       bindE (recordLoginFailure (fresh 0) who ip ''account_locked'') (\<lambda>_. throw (DomainError ErrInvalidCredentials)) w1
     else case VerifyPassword (al_argon2 lib) (usr_password_hash row) (li_Password inp) of
       Inl e \<Rightarrow> (Inl (password_failure lib e), w1)
     | Inr False \<Rightarrow> bindE (registerFailedAttempt s fresh user ip) (\<lambda>_. throw (DomainError ErrInvalidCredentials)) w1
     | Inr True \<Rightarrow>
         if tenantStatusOf status \<noteq> TenantActive then
           bindE (recordEvent (fresh 0) (audit EventLoginFailed who TargetUser who ResultDenied ip
             [(''reason'', JStr ''tenant_suspended'')])) (\<lambda>_. throw (DomainError ErrTenantSuspended)) w1
         else login_with lib s fresh inp row status (now w1) w1)"
proof -
  have get_now: "bindE (getsE now) k w1 = k (now w1) w1" for k :: "gotime \<Rightarrow> ('a world_scheme, go_error, LoginResult) io"
    by (simp add: bindE_def getsE_def)
  show ?thesis
    unfolding Login_def
    by (subst Login_found [OF assms])
      (simp add: get_now login_with_def Let_def ret_or_throw_def throw_apply split: sum.split bool.split)
qed

lemma login_with_result:
  assumes "login_with lib s fresh inp row status t w = (r, w')"
  shows "(\<exists>c. r = Inl (fail_internal lib c)) \<or> (\<exists>res claims. r = Inr res \<and>
    Issue (as_issuer s) t (u_ID (usr_user row)) (role_Audience (u_Role (usr_user row)))
      (u_TenantID (usr_user row)) (u_MustChangePassword (usr_user row)) = Inr (lr_AccessToken res, claims))"
  using assms
  by (auto simp: login_with_def Let_def bindE_def wrapE_def whenE_def ret_or_throw_def recordEvent_def ignoreE_def ret_def
    throw_def db_internal_def split: prod.splits sum.splits if_splits)

text \<open>
  C11. A login answers with anything but the generic refusal or an internal error only to a caller who
  presented the password of an existing, unlocked account; a suspended tenant is revealed to such a
  caller only. A token that is handed out certifies that account: its subject is the user, its plane
  follows from the user's role, and the tenant of the user is active.
\<close>

theorem login_reveals_only_after_password:
  assumes run: "Login lib s fresh inp w = (r, w')"
    and special: "r \<noteq> Inl (DomainError ErrInvalidCredentials)" "\<And>c. r \<noteq> Inl (fail_internal lib c)"
      "\<And>t. r \<noteq> Inl (PlainError t)"
  shows "\<exists>row. user_by_email (db w) (NormalizeEmail (li_Email inp)) = Some row \<and> \<not> IsLocked (usr_user row) (now w) \<and>
    VerifyPassword (al_argon2 lib) (usr_password_hash row) (li_Password inp) = Inr True \<and>
    (case r of
       Inl e \<Rightarrow> e = DomainError ErrTenantSuspended \<and>
         tenantStatusOf (joined_status (db w) (usr_user row)) \<noteq> TenantActive
     | Inr res \<Rightarrow> tenantStatusOf (joined_status (db w) (usr_user row)) = TenantActive \<and>
         (\<exists>claims. Issue (as_issuer s) (now w) (u_ID (usr_user row)) (role_Audience (u_Role (usr_user row)))
            (u_TenantID (usr_user row)) (u_MustChangePassword (usr_user row)) = Inr (lr_AccessToken res, claims)))"
proof -
  let ?email = "NormalizeEmail (li_Email inp)"
  obtain found w1 where get: "GetUserCredentialByEmail ?email w = (found, w1)" by (cases "GetUserCredentialByEmail ?email w")
  from run have r: "r = fst (Login lib s fresh inp w)" by simp
  show ?thesis
  proof (cases found)
    case (Inl e)
    with Login_unknown [of inp w e w1 lib s fresh] get r special show ?thesis
      by (auto simp: db_internal_def split: if_splits)
  next
    case (Inr found')
    then obtain row status where get': "GetUserCredentialByEmail ?email w = (Inr (row, status), w1)"
      using get by (cases found') simp
    note known = GetUserCredentialByEmail_Inr [OF get'] and eq = Login_known [OF get', of lib s fresh, unfolded Let_def]
    have unlocked: "\<not> IsLocked (usr_user row) (now w1)" using eq r special(1) by (auto simp: refused split: if_splits)
    obtain ok where verify: "VerifyPassword (al_argon2 lib) (usr_password_hash row) (li_Password inp) = Inr ok"
      using eq r special(2,3) unlocked
      by (cases "VerifyPassword (al_argon2 lib) (usr_password_hash row) (li_Password inp)")
        (auto simp: password_failure_def split: if_splits)
    have ok: ok using eq r special(1) unlocked verify by (cases ok) (auto simp: refused)
    show ?thesis
    proof (cases "tenantStatusOf status = TenantActive")
      case True
      with eq unlocked verify ok have "Login lib s fresh inp w = login_with lib s fresh inp row status (now w1) w1" by simp
      with run have "login_with lib s fresh inp row status (now w1) w1 = (r, w')" by simp
      from login_with_result [OF this] special(2) True known unlocked verify ok show ?thesis by auto
    next
      case False
      with eq r unlocked verify ok known show ?thesis by (auto simp: refused)
    qed
  qed
qed

lemma demo_verify:
  "VerifyPassword demo_argon2 demo_hash pw = Inr (take 32 (pw @ replicate 32 CHR ''.'') = ''correct horse'' @ replicate 19 CHR ''.'')"
proof -
  have "decodePHC demo_argon2 demo_hash = Some (defaultArgon2Params\<lparr>saltLength := 16, keyLength := 32\<rparr>,
      replicate 16 CHR ''s'', ''correct horse'' @ replicate 19 CHR ''.'')"
    unfolding demo_hash_def by (subst decodePHC_phc_string) (simp_all add: demo_argon2_def defaultArgon2Params_def)
  then show ?thesis
    by (simp add: VerifyPassword_def derive_def demo_argon2_def defaultArgon2Params_def)
qed

definition demo_auth :: AuthService where
  "demo_auth = \<lparr>as_issuer = demo_issuer, as_maxFailures = 2, as_lockWindow = 60 * second\<rparr>"

definition demo_login :: "string \<Rightarrow> LoginInput" where
  "demo_login pw = \<lparr>li_Email = '' Ana@Example.org'', li_Password = pw, li_SourceIP = None\<rparr>"

lemma demo_email: "NormalizeEmail (li_Email (demo_login pw)) = ''ana@example.org''"
  by (simp add: demo_login_def) code_simp

lemma demo_lookup: "user_by_email demo_accounts ''ana@example.org'' = Some \<lparr>usr_user = demo_user, usr_password_hash = demo_hash\<rparr>"
  by (simp add: user_by_email_def first_where_def demo_accounts_def demo_user_def)

lemma demo_get: "GetUserCredentialByEmail (NormalizeEmail (li_Email (demo_login pw))) demo_office =
    (Inr (\<lparr>usr_user = demo_user, usr_password_hash = demo_hash\<rparr>, Some TenantActive), demo_office)"
proof -
  have "joined_status demo_accounts demo_user = Some TenantActive"
    by (simp add: joined_status_def tenant_of_def demo_user_def demo_accounts_def demo_tenant_def)
  then show ?thesis
    by (simp add: demo_email GetUserCredentialByEmail_def run_statement_ok demo_office_def select_one_def demo_lookup)
qed

lemma demo_login_ok: "\<exists>res w'. Login demo_lib demo_auth (\<lambda>n. n) (demo_login ''correct horse'') demo_office = (Inr res, w')"
proof -
  have "VerifyPassword (al_argon2 demo_lib) demo_hash ''correct horse'' = Inr True"
    by (simp add: demo_lib_def demo_verify)
  moreover have "\<not> IsLocked demo_user (now demo_office)" by (simp add: IsLocked_def demo_user_def)
  ultimately have "Login demo_lib demo_auth (\<lambda>n. n) (demo_login ''correct horse'') demo_office =
      login_with demo_lib demo_auth (\<lambda>n. n) (demo_login ''correct horse'') \<lparr>usr_user = demo_user, usr_password_hash = demo_hash\<rparr>
        (Some TenantActive) (now demo_office) demo_office"
    by (subst Login_known [OF demo_get]) (simp add: demo_login_def tenantStatusOf_def)
  moreover have "Issue demo_issuer (100 * second) 5 AudienceTenant (Some 3) False = Inr (''token'',
      \<lparr>c_Subject = 5, c_Audience = AudienceTenant, c_TenantID = Some 3, c_PasswordChange = False,
       c_IssuedAt = 100 * second, c_ExpiresAt = 160 * second\<rparr>)"
    by (simp add: Issue_def audience_Valid_def Let_def demo_issuer_def demo_jwt_def demo_claims_def demo_uuids_def
      demo_digits truncate_second_def second_def)
  ultimately show ?thesis
    by (simp add: login_with_def Let_def demo_auth_def demo_user_def role_Audience_def demo_office_def whenE_def ret_or_throw_def
      ClearLoginFailures_def bindE_def wrapE_def ret_def run_statement_ok recordEvent_def ignoreE_def)
qed

theorem login_reveals_only_after_password_witness:
  "\<exists>res w'. Login demo_lib demo_auth (\<lambda>n. n) (demo_login ''correct horse'') demo_office = (Inr res, w') \<and>
     (\<exists>row. user_by_email (db demo_office) (NormalizeEmail (li_Email (demo_login ''correct horse''))) = Some row \<and>
        VerifyPassword (al_argon2 demo_lib) (usr_password_hash row) ''correct horse'' = Inr True)"
proof -
  obtain res w' where run: "Login demo_lib demo_auth (\<lambda>n. n) (demo_login ''correct horse'') demo_office = (Inr res, w')"
    using demo_login_ok by blast
  from login_reveals_only_after_password [OF run] run show ?thesis by (auto simp: demo_login_def)
qed

subsection \<open>Lockout\<close>

lemma first_where_update:
  assumes "\<And>r. q r \<Longrightarrow> p (f r) = p r"
  shows "first_where p (update_where q f rows) = map_option (\<lambda>r. if q r then f r else r) (first_where p rows)"
  by (induction rows) (auto simp: first_where_def assms)

lemma Record_tables: "users (db (snd (Record i e w))) = users (db w)" "faults w = [] \<Longrightarrow> faults (snd (Record i e w)) = []"
  "now (snd (Record i e w)) = now w"
proof -
  have "users (db (snd (run_statement q w))) = users (db w)" if "\<And>t d. users (snd (q t d)) = users d" for q :: "unit statement"
    by (rule run_statement_cases [of q w]) (simp_all add: that)
  then show "users (db (snd (Record i e w))) = users (db w)"
    unfolding Record_def InsertSecurityEvent_def by simp
  show "faults w = [] \<Longrightarrow> faults (snd (Record i e w)) = []" "now (snd (Record i e w)) = now w"
    using calm_statement unfolding Record_def InsertSecurityEvent_def calm_def by blast+
qed

lemma recordLoginFailure_tables:
  "users (db (snd (recordLoginFailure i a ip why w))) = users (db w)"
  "faults w = [] \<Longrightarrow> faults (snd (recordLoginFailure i a ip why w)) = []" "now (snd (recordLoginFailure i a ip why w)) = now w"
  "users (db (snd (recordEvent i e w))) = users (db w)"
  "faults w = [] \<Longrightarrow> faults (snd (recordEvent i e w)) = []" "now (snd (recordEvent i e w)) = now w"
  by (simp_all add: recordLoginFailure_def recordEvent_def ignoreE_def Record_tables)

definition login_failed :: "ID \<Rightarrow> string option \<Rightarrow> SecurityEvent" where
  "login_failed i ip = audit EventLoginFailed (Some i) TargetUser (Some i) ResultFailure ip [(''reason'', JStr ''bad_password'')]"

text \<open>A refused attempt with a wrong password moves the counter of the account, and nothing else of any account.\<close>

lemma registerFailedAttempt_users:
  fixes w :: "'z world_scheme" and m :: "('z world_scheme, go_error, unit) io"
  assumes m: "m = registerFailedAttempt s fresh user ip" and "faults w = []" and "user_of (db w) (u_ID user) = Some row"
  shows "users (db (snd (m w))) =
      update_where (\<lambda>u. u_ID (usr_user u) = u_ID user) (on_user (failed_login (now w) (as_maxFailures s) (as_lockWindow s))) (users (db w))"
    and "faults (snd (m w)) = []" and "now (snd (m w)) = now w"
proof -
  let ?d = "update_user (u_ID user) (on_user (failed_login (now w) (as_maxFailures s) (as_lockWindow s))) (db w)"
  let ?w = "w\<lparr>db := ?d\<rparr>"
  obtain count lock where reg: "RegisterFailedLogin (as_maxFailures s) (as_lockWindow s) (u_ID user) w = (Inr (count, lock), ?w)"
    using assms(2,3) by (simp add: RegisterFailedLogin_def run_statement_ok Let_def)
  have "m w = (if lock \<noteq> zero_time \<and> lock > now ?w
      then recordEvent (fresh 1) (audit EventAccountLocked (Some (u_ID user)) TargetUser (Some (u_ID user)) ResultDenied ip
        [(''locked_until'', JTime (truncate_second lock)), (''max_failures'', JInt (as_maxFailures s)),
         (''window_second'', JInt (as_lockWindow s div second))]) (snd (Record (fresh 0) (login_failed (u_ID user) ip) ?w))
      else (Inr (), snd (Record (fresh 0) (login_failed (u_ID user) ip) ?w)))"
    by (simp add: m registerFailedAttempt_def bindE_def attempt_def reg getsE_def recordLoginFailure_def login_failed_def
      recordEvent_def ignoreE_def Record_tables ret_def)
  then show "users (db (snd (m w))) =
      update_where (\<lambda>u. u_ID (usr_user u) = u_ID user) (on_user (failed_login (now w) (as_maxFailures s) (as_lockWindow s))) (users (db w))"
    "faults (snd (m w)) = []" "now (snd (m w)) = now w"
    using assms(2) by (simp_all add: recordEvent_def ignoreE_def Record_tables update_user_def)
qed

text \<open>What one login can do to the accounts: it moves the login fields of at most the account it names.\<close>

definition moves_account :: "ID \<Rightarrow> 'z world_scheme \<Rightarrow> 'z world_scheme \<Rightarrow> bool" where
  "moves_account i w w' \<longleftrightarrow> calm w w' \<and> (\<exists>f. (\<forall>u. u_ID (f u) = u_ID u \<and> u_Email (f u) = u_Email u) \<and>
     users (db w') = update_where (\<lambda>u. u_ID (usr_user u) = i) (on_user f) (users (db w)))"

lemma on_user_comp: "on_user g (on_user f u) = on_user (g \<circ> f) u"
  by (simp add: on_user_def)

lemma update_where_id: "update_where p (on_user id) rows = rows"
proof -
  have "on_user id u = u" for u by (simp add: on_user_def)
  then show ?thesis by (auto simp: update_where_def intro: map_idI)
qed

interpretation moves: world_rel "moves_account i" for i
proof
  show "moves_account i w w" for w :: "'z world_scheme"
    unfolding moves_account_def by (intro conjI exI [of _ id]) (simp_all add: update_where_id calm.R_refl)
  fix u v w :: "'z world_scheme"
  assume "moves_account i u v" and "moves_account i v w"
  then obtain f g where "calm u v" "calm v w" and keeps: "\<forall>u. u_ID (f u) = u_ID u \<and> u_Email (f u) = u_Email u"
      "\<forall>u. u_ID (g u) = u_ID u \<and> u_Email (g u) = u_Email u"
    and v: "users (db v) = update_where (\<lambda>u. u_ID (usr_user u) = i) (on_user f) (users (db u))"
    and w: "users (db w) = update_where (\<lambda>u. u_ID (usr_user u) = i) (on_user g) (users (db v))"
    unfolding moves_account_def by blast
  then have calm: "calm u w" by (metis calm.R_trans)
  have "update_where (\<lambda>u. u_ID (usr_user u) = i) (on_user g) (update_where (\<lambda>u. u_ID (usr_user u) = i) (on_user f) rows) =
      update_where (\<lambda>u. u_ID (usr_user u) = i) (on_user (g \<circ> f)) rows" for rows
    using keeps(1) by (simp add: update_where_def on_user_def)
  with calm keeps v w show "moves_account i u w"
    unfolding moves_account_def by (intro conjI exI [of _ "g \<circ> f"]) simp_all
qed

lemma moves_statement:
  assumes "\<And>t d. \<exists>f. (\<forall>u. u_ID (f u) = u_ID u \<and> u_Email (f u) = u_Email u) \<and>
    users (snd (q t d)) = update_where (\<lambda>u. u_ID (usr_user u) = i) (on_user f) (users d)"
  shows "always (moves_account i) (run_statement q)"
proof (rule alwaysI)
  fix w :: "'z world_scheme"
  have "\<exists>f. (\<forall>u. u_ID (f u) = u_ID u \<and> u_Email (f u) = u_Email u) \<and>
      users (db w) = update_where (\<lambda>u. u_ID (usr_user u) = i) (on_user f) (users (db w))"
    by (intro exI [of _ id]) (simp add: update_where_id)
  with assms [of "now w" "db w"] calm_statement [of w q] show "moves_account i w (snd (run_statement q w))"
    unfolding moves_account_def by (cases rule: run_statement_cases [of q w]) simp_all
qed

lemma moves_unchanged:
  "(\<And>t d. users (snd (q t d)) = users d) \<Longrightarrow> always (moves_account i) (run_statement q)"
  by (rule moves_statement) (intro exI [of _ id], simp add: update_where_id)

lemma moves_login_statements:
  "always (moves_account i) (RegisterFailedLogin n window i)" "always (moves_account i) (ClearLoginFailures i)"
  "always (moves_account j) (GetUserCredentialByEmail e)" "always (moves_account j) (Record k ev)"
proof -
  show "always (moves_account i) (RegisterFailedLogin n window i)"
    unfolding RegisterFailedLogin_def
  proof (rule moves_statement)
    fix t d
    show "\<exists>f. (\<forall>u. u_ID (f u) = u_ID u \<and> u_Email (f u) = u_Email u) \<and>
        users (snd (case user_of d i of None \<Rightarrow> (Inl ErrNoRows, d)
          | Some row \<Rightarrow> (let u = failed_login t n window (usr_user row) in
              (Inr (u_FailedLoginCount u, u_LockedUntil u), update_user i (on_user (failed_login t n window)) d)))) =
        update_where (\<lambda>u. u_ID (usr_user u) = i) (on_user f) (users d)"
      by (cases "user_of d i", intro exI [of _ id], simp add: update_where_id)
        (intro exI [of _ "failed_login t n window"], simp add: Let_def update_user_def failed_login_def)
  qed
  show "always (moves_account i) (ClearLoginFailures i)"
    unfolding ClearLoginFailures_def
    by (rule moves_statement) (auto simp: update_user_def intro!: exI [of _ "\<lambda>u. u\<lparr>u_FailedLoginCount := 0, u_LockedUntil := zero_time, u_UpdatedAt := _\<rparr>"])
  show "always (moves_account j) (GetUserCredentialByEmail e)" "always (moves_account j) (Record k ev)"
    unfolding GetUserCredentialByEmail_def Record_def InsertSecurityEvent_def by (simp_all add: moves_unchanged select_one_def)
qed

lemma moves_checks: "always (moves_account i) (ret_or_throw f r)"
  by (cases r) (simp_all add: ret_or_throw_def moves.always_ret moves.always_throw)

lemmas moves_intros = moves.always_ret moves.always_throw moves.always_getsE moves.always_bindE moves.always_wrapE
  moves.always_attempt moves.always_ignoreE moves.always_whenE moves.always_if moves.always_case_sum moves.always_case_prod
  moves_login_statements moves_checks

lemma moves_records: "always (moves_account j) (recordEvent k ev)" "always (moves_account j) (recordLoginFailure k a ip why)"
  "always (moves_account (u_ID user)) (registerFailedAttempt s fresh user ip)"
  unfolding recordLoginFailure_def recordEvent_def registerFailedAttempt_def by (intro moves_intros)+

lemma moves_login_with: "always (moves_account (u_ID (usr_user row))) (login_with lib s fresh inp row status t)"
  unfolding login_with_def Let_def by (intro moves_intros moves_records)

lemma moves_refusals: "always (moves_account j) (bindE (recordLoginFailure k a ip why) (\<lambda>_. throw e))"
  "always (moves_account j) (bindE (recordEvent k ev) (\<lambda>_. throw e))"
  "always (moves_account (u_ID user)) (bindE (registerFailedAttempt s fresh user ip) (\<lambda>_. throw e))"
  by (intro moves.always_bindE moves.always_throw moves_records)+

lemma moves_Login:
  assumes "user_by_email (db w) (NormalizeEmail (li_Email inp)) = Some row" and "faults w = []"
  shows "moves_account (u_ID (usr_user row)) w (snd (Login lib s fresh inp w))"
proof -
  have get: "GetUserCredentialByEmail (NormalizeEmail (li_Email inp)) w =
      (Inr (row, joined_status (db w) (usr_user row)), w)"
    using assms by (simp add: GetUserCredentialByEmail_def run_statement_ok select_one_def)
  have step: "moves_account (u_ID (usr_user row)) w (snd (m w))"
    if "always (moves_account (u_ID (usr_user row))) m" for m :: "('a world_scheme, go_error, LoginResult) io"
    using that by (simp add: always_def)
  show ?thesis
    unfolding Login_known [OF get] Let_def
    by (simp add: step moves_login_with moves_refusals moves.R_refl split: sum.split bool.split)
qed

lemma user_by_email_moved:
  assumes "moves_account j w w'" and "user_by_email (db w) e = Some row" and "j \<noteq> u_ID (usr_user row)"
  shows "user_by_email (db w') e = Some row"
proof -
  from assms(1) obtain f where "\<forall>u. u_ID (f u) = u_ID u \<and> u_Email (f u) = u_Email u"
    and "users (db w') = update_where (\<lambda>u. u_ID (usr_user u) = j) (on_user f) (users (db w))"
    unfolding moves_account_def by blast
  with assms(2,3) show ?thesis
    by (simp add: user_by_email_def first_where_update on_user_def)
qed

lemma user_of_by_email:
  assumes "accounts_ok d" and "user_by_email d e = Some row"
  shows "user_of d (u_ID (usr_user row)) = Some row"
  using assms first_where_Some [of _ "users d" row]
  by (auto simp: user_of_def user_by_email_def accounts_defs intro: by_key_distinct)

lemma snd_refusal: "noerr m \<Longrightarrow> snd (bindE m (\<lambda>_. throw e) w) = snd (m w)"
  unfolding noerr_def bindE_def throw_def by (metis (mono_tags, lifting) fst_conv old.prod.case old.sum.simps(6) snd_conv prod.collapse)

text \<open>One login seen from one account: an attempt for another address, one against a locked account, and a wrong password.\<close>

lemma login_elsewhere:
  assumes "faults w = []" and "accounts_ok (db w)" and "user_by_email (db w) e = Some row"
    and other: "ToLower (NormalizeEmail (li_Email inp)) \<noteq> ToLower e"
  shows "user_by_email (db (snd (Login lib s fresh inp w))) e = Some row"
proof (cases "user_by_email (db w) (NormalizeEmail (li_Email inp))")
  case None
  then have get: "GetUserCredentialByEmail (NormalizeEmail (li_Email inp)) w = (Inl ErrNoRows, w)"
    using assms(1) by (simp add: GetUserCredentialByEmail_def run_statement_ok select_one_def)
  have "Login lib s fresh inp w = bindE (recordLoginFailure (fresh 0) None (li_SourceIP inp) ''unknown_email'')
      (\<lambda>_. throw (DomainError ErrInvalidCredentials)) w"
    unfolding Login_def by (subst Login_found [OF get]) (simp add: IsNoRows_def)
  then show ?thesis using assms(3) by (simp add: user_by_email_def recordLoginFailure_tables noerr_recordings snd_refusal)
next
  case (Some row')
  then have "ToLower (u_Email (usr_user row')) \<noteq> ToLower (u_Email (usr_user row))"
    using other first_where_Some [OF Some [unfolded user_by_email_def]] first_where_Some [OF assms(3) [unfolded user_by_email_def]]
    by simp
  then have "u_ID (usr_user row') \<noteq> u_ID (usr_user row)"
    using user_of_by_email [OF assms(2,3)] user_of_by_email [OF assms(2) Some] by auto
  with moves_Login [OF Some assms(1)] assms(3) show ?thesis by (rule user_by_email_moved)
qed

lemma login_locked:
  assumes "faults w = []" and row: "user_by_email (db w) (NormalizeEmail (li_Email inp)) = Some row" and "IsLocked (usr_user row) (now w)"
  shows "fst (Login lib s fresh inp w) = Inl (DomainError ErrInvalidCredentials)"
    and "users (db (snd (Login lib s fresh inp w))) = users (db w)"
proof -
  have get: "GetUserCredentialByEmail (NormalizeEmail (li_Email inp)) w = (Inr (row, joined_status (db w) (usr_user row)), w)"
    using assms(1,2) by (simp add: GetUserCredentialByEmail_def run_statement_ok select_one_def)
  show "fst (Login lib s fresh inp w) = Inl (DomainError ErrInvalidCredentials)"
    "users (db (snd (Login lib s fresh inp w))) = users (db w)"
    unfolding Login_known [OF get] Let_def
    using assms(3) by (simp_all add: refused snd_refusal noerr_recordings recordLoginFailure_tables)
qed

lemma login_mistaken:
  assumes "faults w = []" and "accounts_ok (db w)" and row: "user_by_email (db w) (NormalizeEmail (li_Email inp)) = Some row"
    and "\<not> IsLocked (usr_user row) (now w)"
    and "VerifyPassword (al_argon2 lib) (usr_password_hash row) (li_Password inp) = Inr False"
  shows "fst (Login lib s fresh inp w) = Inl (DomainError ErrInvalidCredentials)"
    and "user_by_email (db (snd (Login lib s fresh inp w))) (NormalizeEmail (li_Email inp)) =
      Some (on_user (failed_login (now w) (as_maxFailures s) (as_lockWindow s)) row)"
proof -
  have get: "GetUserCredentialByEmail (NormalizeEmail (li_Email inp)) w = (Inr (row, joined_status (db w) (usr_user row)), w)"
    using assms(1,3) by (simp add: GetUserCredentialByEmail_def run_statement_ok select_one_def)
  have login: "Login lib s fresh inp w = bindE (registerFailedAttempt s fresh (usr_user row) (li_SourceIP inp))
      (\<lambda>_. throw (DomainError ErrInvalidCredentials)) w"
    unfolding Login_known [OF get] Let_def using assms(4,5) by simp
  then show "fst (Login lib s fresh inp w) = Inl (DomainError ErrInvalidCredentials)" by (simp add: refused)
  have keeps: "u_Email (failed_login t n window u) = u_Email u" for t n window u by (simp add: failed_login_def)
  from login registerFailedAttempt_users(1) [OF refl assms(1) user_of_by_email [OF assms(2,3)], of s fresh "li_SourceIP inp"]
  show "user_by_email (db (snd (Login lib s fresh inp w))) (NormalizeEmail (li_Email inp)) =
      Some (on_user (failed_login (now w) (as_maxFailures s) (as_lockWindow s)) row)"
    using row by (simp add: snd_refusal noerr_recordings user_by_email_def first_where_update on_user_def keeps)
qed

text \<open>
  A series of logins, each after a pause, and the number of those that get to have their password
  compared with the one of the account \<open>e\<close>.
\<close>

type_synonym login_attempt = "duration \<times> (nat \<Rightarrow> ID) \<times> LoginInput"

definition names_account :: "string \<Rightarrow> login_attempt \<Rightarrow> bool" where
  "names_account e guess \<longleftrightarrow> ToLower (NormalizeEmail (li_Email (snd (snd guess)))) = ToLower e"

definition login_step :: "account_lib \<Rightarrow> AuthService \<Rightarrow> login_attempt \<Rightarrow> 'z world_scheme \<Rightarrow> 'z world_scheme" where
  "login_step lib s guess w = snd (Login lib s (fst (snd guess)) (snd (snd guess)) (w\<lparr>now := now w + fst guess\<rparr>))"

definition compares :: "string \<Rightarrow> login_attempt \<Rightarrow> 'z world_scheme \<Rightarrow> bool" where
  "compares e guess w \<longleftrightarrow> names_account e guess \<and> (case user_by_email (db w) e of None \<Rightarrow> False
     | Some row \<Rightarrow> \<not> IsLocked (usr_user row) (now w + fst guess))"

fun login_series :: "account_lib \<Rightarrow> AuthService \<Rightarrow> login_attempt list \<Rightarrow> 'z world_scheme \<Rightarrow> 'z world_scheme" where
  "login_series lib s [] w = w"
| "login_series lib s (guess # guesses) w = login_series lib s guesses (login_step lib s guess w)"

fun comparisons :: "account_lib \<Rightarrow> AuthService \<Rightarrow> string \<Rightarrow> login_attempt list \<Rightarrow> 'z world_scheme \<Rightarrow> nat" where
  "comparisons lib s e [] w = 0"
| "comparisons lib s e (guess # guesses) w =
     (if compares e guess w then 1 else 0) + comparisons lib s e guesses (login_step lib s guess w)"

text \<open>
  The bookkeeping of a guessing attack that ends at \<open>until\<close>: after \<open>g\<close> guesses, \<open>j\<close> of them compared,
  either the counter still has room or the account is locked beyond the end.
\<close>

definition held_up :: "AuthService \<Rightarrow> string \<Rightarrow> string \<Rightarrow> gotime \<Rightarrow> bool \<Rightarrow> nat \<Rightarrow> nat \<Rightarrow> 'z world_scheme \<Rightarrow> bool" where
  "held_up s e hash until unlocked g j w \<longleftrightarrow> faults w = [] \<and> accounts_ok (db w) \<and> 0 \<le> now w \<and>
     (\<exists>row. user_by_email (db w) e = Some row \<and> usr_password_hash row = hash \<and>
       (int j \<le> u_FailedLoginCount (usr_user row) \<and> int j < as_maxFailures s \<and>
          (unlocked \<longrightarrow> \<not> IsLocked (usr_user row) (now w) \<and> g = j) \<or>
        int j \<le> as_maxFailures s \<and> until < u_LockedUntil (usr_user row) \<and> u_LockedUntil (usr_user row) \<noteq> zero_time))"

lemma calm_Login: "always calm (Login lib s fresh inp)"
proof -
  have statement: "always calm (run_statement q)" for q :: "'q statement" by (simp add: always_def calm_statement)
  then have queries: "always calm (GetUserCredentialByEmail e)" "always calm (Record i ev)" "always calm (ClearLoginFailures i)"
      "always calm (RegisterFailedLogin n window i)" for e i ev n window
    unfolding GetUserCredentialByEmail_def Record_def InsertSecurityEvent_def ClearLoginFailures_def RegisterFailedLogin_def by simp_all
  have checks: "always calm (ret_or_throw f r)" for f r
    by (cases r) (simp_all add: ret_or_throw_def calm.always_ret calm.always_throw)
  show ?thesis
    unfolding Login_def registerFailedAttempt_def Let_def recordLoginFailure_def recordEvent_def
    by (intro queries checks calm.always_ret calm.always_throw calm.always_getsE calm.always_bindE calm.always_wrapE
      calm.always_attempt calm.always_ignoreE calm.always_whenE calm.always_if calm.always_case_sum calm.always_case_prod)
qed

lemma login_step_frame:
  assumes "faults w = []" and "accounts_ok (db w)"
  shows "faults (login_step lib s guess w) = []" and "accounts_ok (db (login_step lib s guess w))"
    and "now (login_step lib s guess w) = now w + fst guess"
proof -
  let ?w = "w\<lparr>now := now w + fst guess\<rparr>"
  show "accounts_ok (db (login_step lib s guess w))"
    unfolding login_step_def by (rule accounts_do [OF accounts_Login]) (simp add: assms)
  have "calm ?w (login_step lib s guess w)" using alwaysD [OF calm_Login] by (simp add: login_step_def)
  then show "faults (login_step lib s guess w) = []" "now (login_step lib s guess w) = now w + fst guess"
    using assms(1) by (simp_all add: calm_def)
qed

lemma login_step_row:
  assumes "faults w = []" and "accounts_ok (db w)" and row: "user_by_email (db w) e = Some row"
    and wrong: "names_account e guess \<Longrightarrow>
      VerifyPassword (al_argon2 lib) (usr_password_hash row) (li_Password (snd (snd guess))) = Inr False"
  shows "user_by_email (db (login_step lib s guess w)) e = Some (if compares e guess w
    then on_user (failed_login (now w + fst guess) (as_maxFailures s) (as_lockWindow s)) row else row)"
proof (cases "names_account e guess")
  case False
  then show ?thesis
    using login_elsewhere [of "w\<lparr>now := now w + fst guess\<rparr>" e row "snd (snd guess)"] assms
    by (simp add: login_step_def compares_def names_account_def)
next
  case True
  let ?w = "w\<lparr>now := now w + fst guess\<rparr>" and ?inp = "snd (snd guess)"
  have same: "user_by_email d (NormalizeEmail (li_Email ?inp)) = user_by_email d e" for d
    using True by (simp add: user_by_email_def names_account_def)
  show ?thesis
  proof (cases "IsLocked (usr_user row) (now ?w)")
    case locked: True
    with login_locked(2) [of ?w ?inp row] assms(1) row same show ?thesis
      by (simp add: login_step_def compares_def user_by_email_def)
  next
    case False
    with login_mistaken(2) [of ?w ?inp row lib] assms(1,2) row same wrong True show ?thesis
      by (simp add: login_step_def compares_def)
  qed
qed

lemma held_up_step:
  assumes held: "held_up s e hash until unlocked g j w" and pause: "0 \<le> fst guess" "now w + fst guess \<le> until"
    and window: "until < now w + fst guess + Interval (as_lockWindow s)"
    and wrong: "names_account e guess \<Longrightarrow> VerifyPassword (al_argon2 lib) hash (li_Password (snd (snd guess))) = Inr False"
  shows "held_up s e hash until unlocked (g + (if names_account e guess then 1 else 0)) (j + (if compares e guess w then 1 else 0))
    (login_step lib s guess w)"
proof -
  from held obtain row where frame: "faults w = []" "accounts_ok (db w)" "0 \<le> now w" and row: "user_by_email (db w) e = Some row"
    and hash: "usr_password_hash row = hash"
    and phase: "int j \<le> u_FailedLoginCount (usr_user row) \<and> int j < as_maxFailures s \<and>
          (unlocked \<longrightarrow> \<not> IsLocked (usr_user row) (now w) \<and> g = j) \<or>
        int j \<le> as_maxFailures s \<and> until < u_LockedUntil (usr_user row) \<and> u_LockedUntil (usr_user row) \<noteq> zero_time"
    unfolding held_up_def by blast
  note after = login_step_row [OF frame(1,2) row, of guess lib s, unfolded hash, OF wrong]
  have later: "\<not> IsLocked (usr_user row) (now w) \<Longrightarrow> \<not> IsLocked (usr_user row) (now w + fst guess)"
    using pause by (auto simp: IsLocked_def)
  have shut: "IsLocked (usr_user row) (now w + fst guess)" if "until < u_LockedUntil (usr_user row)" "u_LockedUntil (usr_user row) \<noteq> zero_time"
    using that pause by (simp add: IsLocked_def)
  show ?thesis
  proof (cases "compares e guess w")
    case True
    then have open_now: "\<not> IsLocked (usr_user row) (now w + fst guess)" "names_account e guess"
      using row by (auto simp: compares_def)
    with phase shut have "int j \<le> u_FailedLoginCount (usr_user row)" "int j < as_maxFailures s" "unlocked \<longrightarrow> g = j" by auto
    with True open_now after frame login_step_frame [OF frame(1,2), of lib s guess] pause window hash show ?thesis
      by (auto simp: held_up_def on_user_def failed_login_def IsLocked_def)
  next
    case False
    with after phase row later frame login_step_frame [OF frame(1,2), of lib s guess] pause hash show ?thesis
      by (auto simp: held_up_def compares_def)
  qed
qed

lemma held_up_series:
  assumes "held_up s e hash until unlocked g j w" and "until = now w + sum_list (map fst guesses)"
    and "sum_list (map fst guesses) < Interval (as_lockWindow s)"
    and "\<And>guess. guess \<in> set guesses \<Longrightarrow> 0 \<le> fst guess \<and>
      (names_account e guess \<longrightarrow> VerifyPassword (al_argon2 lib) hash (li_Password (snd (snd guess))) = Inr False)"
  shows "held_up s e hash until unlocked (g + length (filter (names_account e) guesses)) (j + comparisons lib s e guesses w)
    (login_series lib s guesses w) \<and> now (login_series lib s guesses w) = until"
  using assms
proof (induction guesses arbitrary: g j w)
  case (Cons guess guesses)
  have first: "0 \<le> fst guess" "names_account e guess \<longrightarrow> VerifyPassword (al_argon2 lib) hash (li_Password (snd (snd guess))) = Inr False"
    using Cons.prems(4) [of guess] by simp_all
  have rest: "0 \<le> sum_list (map fst guesses)" by (rule sum_list_nonneg) (use Cons.prems(4) in fastforce)
  let ?w = "login_step lib s guess w"
  have time: "now ?w = now w + fst guess"
    using Cons.prems(1) login_step_frame [of w lib s guess] by (simp add: held_up_def)
  have "held_up s e hash until unlocked (g + (if names_account e guess then 1 else 0)) (j + (if compares e guess w then 1 else 0)) ?w"
    using Cons.prems(1-3) first rest by (intro held_up_step) auto
  moreover have "until = now ?w + sum_list (map fst guesses)" "sum_list (map fst guesses) < Interval (as_lockWindow s)"
    using Cons.prems(2,3) first time by simp_all
  ultimately show ?case
    using Cons.IH [of "g + (if names_account e guess then 1 else 0)" "j + (if compares e guess w then 1 else 0)" ?w, OF _ _ _ Cons.prems(4)]
    by (auto simp: ac_simps)
qed simp


definition demo_guesses :: "login_attempt list" where
  "demo_guesses = map (\<lambda>pw. (second, \<lambda>n. n, demo_login pw)) [''battery'', ''staple'', ''tr0ub4dor'']"


end
