(* ===== verification/Handlers.thy ===== *)
theory Handlers
  imports Access_Facts
begin

text \<open>
  The typed operations of \<open>internal/api/handlers\<close> and their envelope (\<open>httperr/envelope.go\<close>): each
  handler reads the request context, calls one service and renders its result. The HTTP framework has
  already decoded and checked path, query and body, which are the arguments here; the data of a reply is
  the JSON value it is rendered to, with byte strings and instants left unencoded. Instants formatted
  with \<open>time.RFC3339\<close> are cut to the second.
\<close>

subsection \<open>Replies\<close>

datatype reply = Enveloped int json gotime | NoContent

definition Respond :: "int \<Rightarrow> json \<Rightarrow> ('z world_scheme, 'e, reply) io" where
  "Respond status data = bindE (getsE now) (\<lambda>t. ret (Enveloped status data t))"

definition OK :: "json \<Rightarrow> ('z world_scheme, 'e, reply) io" where "OK data = Respond 200 data"
definition Created :: "json \<Rightarrow> ('z world_scheme, 'e, reply) io" where "Created data = Respond 201 data"

definition ParseID :: "uuid_lib \<Rightarrow> string \<Rightarrow> string \<Rightarrow> ('w, go_error, ID) io" where
  "ParseID ids location raw = (case parseUUID ids raw of
       None \<Rightarrow> throw (DomainError (ErrValidation location ''must be a valid UUID''))
     | Some i \<Rightarrow> ret i)"

text \<open>\<open>admin, _ := middleware.AdminFrom(ctx)\<close>: without a principal its fields are zero, the nil UUID.\<close>

definition nil_ID :: ID where "nil_ID = 0"

definition admin_ID :: "ReqContext \<Rightarrow> ID" where
  "admin_ID cx = (case cx_Admin cx of None \<Rightarrow> nil_ID | Some a \<Rightarrow> u_ID (ad_User a))"

definition admin_tenant :: "ReqContext \<Rightarrow> ID" where
  "admin_tenant cx = (case Option.bind (cx_Admin cx) admin_TenantID of None \<Rightarrow> nil_ID | Some t \<Rightarrow> t)"

subsection \<open>Services behind the handlers\<close>

record 'z Sessions =
  sn_service :: ConnectionService
  sn_stub :: "'z stub"
  sn_elapse :: "'z api_world_scheme sleep"

record 'z RouteDeps =
  rd_lib :: account_lib
  rd_auth :: AuthService
  rd_sessions :: "'z Sessions option"
  rd_loginLimiter :: "'z api_world_scheme allow"
  rd_operationalLimiter :: "'z api_world_scheme allow"
  rd_connectionLimiter :: "'z api_world_scheme allow"

text \<open>What one request may draw: identifiers, and bytes of \<open>crypto/rand\<close> for a password and a salt or key.\<close>

record Draws =
  dr_ids :: "nat \<Rightarrow> ID"
  dr_password :: "string option"
  dr_bytes :: "string option"

subsection \<open>Authentication and passwords\<close>

definition LoginData :: "LoginResult \<Rightarrow> json" where
  "LoginData r = JObj [(''access_token'', JStr (lr_AccessToken r)), (''token_type'', JStr ''Bearer''),
     (''expires_in'', JInt (lr_ExpiresIn r)), (''audience'', JStr (audience_text (lr_Audience r))),
     (''must_change_password'', JBool (lr_MustChangePassword r))]"

definition AuthHandler_login ::
  "'z RouteDeps \<Rightarrow> Draws \<Rightarrow> ReqContext \<Rightarrow> string \<Rightarrow> string \<Rightarrow> ('z api_world_scheme, go_error, reply) io" where
  "AuthHandler_login d dr cx email password =
     bindE (Login (rd_lib d) (rd_auth d) (dr_ids dr)
       \<lparr>li_Email = email, li_Password = password, li_SourceIP = cx_ClientIP cx\<rparr>) (\<lambda>r. OK (LoginData r))"

definition PasswordHandler_change ::
  "'z RouteDeps \<Rightarrow> Draws \<Rightarrow> ReqContext \<Rightarrow> string \<Rightarrow> string \<Rightarrow> ('z api_world_scheme, go_error, reply) io" where
  "PasswordHandler_change d dr cx current replacement = (case cx_Admin cx of
       None \<Rightarrow> throw (DomainError (ErrUnauthenticated ''A bearer token is required''))
     | Some admin \<Rightarrow>
         bindE (password_Change (rd_lib d) (dr_ids dr) (dr_bytes dr)
           \<lparr>cp_UserID = u_ID (ad_User admin), cp_CurrentPassword = current, cp_NewPassword = replacement,
            cp_SourceIP = cx_ClientIP cx\<rparr>) (\<lambda>_. ret NoContent))"

definition PasswordHandler_reset ::
  "'z RouteDeps \<Rightarrow> Draws \<Rightarrow> ReqContext \<Rightarrow> string \<Rightarrow> ('z api_world_scheme, go_error, reply) io" where
  "PasswordHandler_reset d dr cx rawID =
     bindE (ParseID (al_ids (rd_lib d)) ''path.tenantId'' rawID) (\<lambda>tenantID.
     bindE (ResetTenantAdmin (rd_lib d) (dr_ids dr) (dr_password dr) (dr_bytes dr)
       \<lparr>rt_TenantID = tenantID, rt_ActorID = admin_ID cx, rt_SourceIP = cx_ClientIP cx\<rparr>) (\<lambda>(temporary, _).
     OK (JObj [(''temporary_password'', JStr temporary), (''must_change_password'', JBool True)])))"

subsection \<open>Tenants\<close>

definition tenantToData :: "uuid_lib \<Rightarrow> Tenant \<Rightarrow> payload" where
  "tenantToData ids t = [(''id'', JStr (id_String ids (t_ID t))), (''name'', JStr (t_Name t)),
     (''status'', JStr (status_text (t_Status t))), (''created_at'', JTime (t_CreatedAt t)), (''updated_at'', JTime (t_UpdatedAt t))]"

definition tenantWithAdminToData :: "uuid_lib \<Rightarrow> TenantWithAdmin \<Rightarrow> payload" where
  "tenantWithAdminToData ids r = tenantToData ids (ta_Tenant r) @ opt_field ''admin'' (\<lambda>a. JObj
     [(''id'', JStr (id_String ids (u_ID a))), (''name'', JStr (u_Name a)), (''email'', JStr (u_Email a))]) (ta_Admin r)"

definition TenantHandler_create ::
  "'z RouteDeps \<Rightarrow> Draws \<Rightarrow> ReqContext \<Rightarrow> string \<Rightarrow> string \<Rightarrow> string \<Rightarrow> string \<Rightarrow> ('z api_world_scheme, go_error, reply) io" where
  "TenantHandler_create d dr cx name adminName adminEmail adminPassword =
     bindE (tenant_Create (rd_lib d) (dr_ids dr) (dr_bytes dr)
       \<lparr>ct_Name = name, ct_AdminName = adminName, ct_AdminEmail = adminEmail, ct_AdminPassword = adminPassword,
        ct_ActorID = admin_ID cx, ct_SourceIP = cx_ClientIP cx\<rparr>) (\<lambda>r.
     Created (JObj (tenantWithAdminToData (al_ids (rd_lib d)) r)))"

definition TenantHandler_list :: "'z RouteDeps \<Rightarrow> ('z api_world_scheme, go_error, reply) io" where
  "TenantHandler_list d = bindE (tenant_List (rd_lib d)) (\<lambda>ts.
     OK (JObj [(''tenants'', JArr (map (\<lambda>t. JObj (tenantToData (al_ids (rd_lib d)) t)) ts))]))"

definition TenantHandler_get :: "'z RouteDeps \<Rightarrow> string \<Rightarrow> ('z api_world_scheme, go_error, reply) io" where
  "TenantHandler_get d rawID =
     bindE (ParseID (al_ids (rd_lib d)) ''path.tenantId'' rawID) (\<lambda>tenantID.
     bindE (tenant_Get (rd_lib d) tenantID) (\<lambda>r. OK (JObj (tenantWithAdminToData (al_ids (rd_lib d)) r))))"

definition TenantHandler_rename ::
  "'z RouteDeps \<Rightarrow> Draws \<Rightarrow> ReqContext \<Rightarrow> string \<Rightarrow> string \<Rightarrow> ('z api_world_scheme, go_error, reply) io" where
  "TenantHandler_rename d dr cx rawID name =
     bindE (ParseID (al_ids (rd_lib d)) ''path.tenantId'' rawID) (\<lambda>tenantID.
     bindE (tenant_Rename (rd_lib d) (dr_ids dr)
       \<lparr>rn_TenantID = tenantID, rn_Name = name, rn_ActorID = admin_ID cx, rn_SourceIP = cx_ClientIP cx\<rparr>) (\<lambda>t.
     OK (JObj (tenantToData (al_ids (rd_lib d)) t))))"

definition TenantHandler_setStatus ::
  "'z RouteDeps \<Rightarrow> Draws \<Rightarrow> ReqContext \<Rightarrow> string \<Rightarrow> TenantStatus \<Rightarrow> ('z api_world_scheme, go_error, reply) io" where
  "TenantHandler_setStatus d dr cx rawID status =
     bindE (ParseID (al_ids (rd_lib d)) ''path.tenantId'' rawID) (\<lambda>tenantID.
     bindE (tenant_SetStatus (rd_lib d) (map_option sn_service (rd_sessions d)) (dr_ids dr)
       \<lparr>ss_TenantID = tenantID, ss_Status = status, ss_ActorID = admin_ID cx, ss_SourceIP = cx_ClientIP cx\<rparr>) (\<lambda>t.
     OK (JObj (tenantToData (al_ids (rd_lib d)) t))))"

definition TenantHandler_suspend ::
  "'z RouteDeps \<Rightarrow> Draws \<Rightarrow> ReqContext \<Rightarrow> string \<Rightarrow> ('z api_world_scheme, go_error, reply) io" where
  "TenantHandler_suspend d dr cx rawID = TenantHandler_setStatus d dr cx rawID TenantSuspended"

definition TenantHandler_activate ::
  "'z RouteDeps \<Rightarrow> Draws \<Rightarrow> ReqContext \<Rightarrow> string \<Rightarrow> ('z api_world_scheme, go_error, reply) io" where
  "TenantHandler_activate d dr cx rawID = TenantHandler_setStatus d dr cx rawID TenantActive"

definition TenantHandler_delete ::
  "'z RouteDeps \<Rightarrow> Draws \<Rightarrow> ReqContext \<Rightarrow> string \<Rightarrow> string \<Rightarrow> ('z api_world_scheme, go_error, reply) io" where
  "TenantHandler_delete d dr cx rawID confirmName =
     bindE (ParseID (al_ids (rd_lib d)) ''path.tenantId'' rawID) (\<lambda>tenantID.
     bindE (tenant_Delete (rd_lib d) (dr_ids dr)
       \<lparr>dt_TenantID = tenantID, dt_ConfirmName = confirmName, dt_ActorID = admin_ID cx, dt_SourceIP = cx_ClientIP cx\<rparr>) (\<lambda>_.
     ret NoContent))"

subsection \<open>Instances\<close>

definition instanceToData :: "uuid_lib \<Rightarrow> Instance \<Rightarrow> payload" where
  "instanceToData ids i = [(''id'', JStr (id_String ids (i_ID i))), (''name'', JStr (i_Name i)),
     (''state'', JStr (state_text (i_State i))), (''tenant_id'', JStr (id_String ids (i_TenantID i))),
     (''created_at'', JTime (i_CreatedAt i)), (''updated_at'', JTime (i_UpdatedAt i))]"

definition InstanceHandler_create ::
  "'z RouteDeps \<Rightarrow> Draws \<Rightarrow> ReqContext \<Rightarrow> string \<Rightarrow> ('z api_world_scheme, go_error, reply) io" where
  "InstanceHandler_create d dr cx name =
     bindE (instance_Create (rd_lib d) (dr_ids dr)
       \<lparr>ci_TenantID = admin_tenant cx, ci_Name = name, ci_ActorID = admin_ID cx, ci_SourceIP = cx_ClientIP cx\<rparr>) (\<lambda>i.
     Created (JObj (instanceToData (al_ids (rd_lib d)) i)))"

definition InstanceHandler_list :: "'z RouteDeps \<Rightarrow> ReqContext \<Rightarrow> ('z api_world_scheme, go_error, reply) io" where
  "InstanceHandler_list d cx = bindE (instance_List (rd_lib d) (admin_tenant cx)) (\<lambda>is.
     OK (JObj [(''instances'', JArr (map (\<lambda>i. JObj (instanceToData (al_ids (rd_lib d)) i)) is))]))"

definition InstanceHandler_get :: "'z RouteDeps \<Rightarrow> ReqContext \<Rightarrow> string \<Rightarrow> ('z api_world_scheme, go_error, reply) io" where
  "InstanceHandler_get d cx rawID =
     bindE (ParseID (al_ids (rd_lib d)) ''path.instanceId'' rawID) (\<lambda>instanceID.
     bindE (instance_Get (rd_lib d) (admin_tenant cx) instanceID) (\<lambda>i. OK (JObj (instanceToData (al_ids (rd_lib d)) i))))"

definition InstanceHandler_rename ::
  "'z RouteDeps \<Rightarrow> Draws \<Rightarrow> ReqContext \<Rightarrow> string \<Rightarrow> string \<Rightarrow> ('z api_world_scheme, go_error, reply) io" where
  "InstanceHandler_rename d dr cx rawID name =
     bindE (ParseID (al_ids (rd_lib d)) ''path.instanceId'' rawID) (\<lambda>instanceID.
     bindE (instance_Rename (rd_lib d) (dr_ids dr)
       \<lparr>ri_TenantID = admin_tenant cx, ri_InstanceID = instanceID, ri_Name = name, ri_ActorID = admin_ID cx,
        ri_SourceIP = cx_ClientIP cx\<rparr>) (\<lambda>i.
     OK (JObj (instanceToData (al_ids (rd_lib d)) i))))"

definition InstanceHandler_delete ::
  "'z RouteDeps \<Rightarrow> Draws \<Rightarrow> ReqContext \<Rightarrow> string \<Rightarrow> ('z api_world_scheme, go_error, reply) io" where
  "InstanceHandler_delete d dr cx rawID =
     bindE (ParseID (al_ids (rd_lib d)) ''path.instanceId'' rawID) (\<lambda>instanceID.
     bindE (instance_Delete (rd_lib d) (map_option (\<lambda>s. (sn_service s, sn_stub s)) (rd_sessions d)) (dr_ids dr)
       \<lparr>di_TenantID = admin_tenant cx, di_InstanceID = instanceID, di_ActorID = admin_ID cx, di_SourceIP = cx_ClientIP cx\<rparr>) (\<lambda>_.
     ret NoContent))"

subsection \<open>API keys\<close>

fun key_status_text :: "APIKeyStatus \<Rightarrow> string" where
  "key_status_text APIKeyActive = ''active''"
| "key_status_text APIKeyRevoked = ''revoked''"
| "key_status_text (OtherKeyStatus s) = s"

definition apiKeyToData :: "uuid_lib \<Rightarrow> APIKey \<Rightarrow> payload" where
  "apiKeyToData ids k = [(''id'', JStr (id_String ids (k_ID k))), (''label'', or_null JStr (k_Label k)),
     (''key_prefix'', JStr (k_KeyPrefix k)), (''status'', JStr (key_status_text (k_Status k))),
     (''created_at'', JTime (k_CreatedAt k)), (''revoked_at'', or_null JTime (k_RevokedAt k))]"

definition CreatedAPIKeyData :: "uuid_lib \<Rightarrow> APIKey \<Rightarrow> string \<Rightarrow> payload" where
  "CreatedAPIKeyData ids k secret = [(''id'', JStr (id_String ids (k_ID k))), (''label'', or_null JStr (k_Label k)),
     (''key_prefix'', JStr (k_KeyPrefix k)), (''api_key'', JStr secret), (''created_at'', JTime (k_CreatedAt k))]"

definition APIKeyHandler_create ::
  "'z RouteDeps \<Rightarrow> Draws \<Rightarrow> ReqContext \<Rightarrow> string \<Rightarrow> string \<Rightarrow> ('z api_world_scheme, go_error, reply) io" where
  "APIKeyHandler_create d dr cx rawID label =
     bindE (ParseID (al_ids (rd_lib d)) ''path.instanceId'' rawID) (\<lambda>instanceID.
     bindE (key_Create (rd_lib d) (dr_ids dr) (dr_bytes dr)
       \<lparr>ck_TenantID = admin_tenant cx, ck_InstanceID = instanceID, ck_Label = label, ck_ActorID = admin_ID cx,
        ck_SourceIP = cx_ClientIP cx\<rparr>) (\<lambda>(key, secret).
     Created (JObj (CreatedAPIKeyData (al_ids (rd_lib d)) key secret))))"

definition APIKeyHandler_list :: "'z RouteDeps \<Rightarrow> ReqContext \<Rightarrow> string \<Rightarrow> ('z api_world_scheme, go_error, reply) io" where
  "APIKeyHandler_list d cx rawID =
     bindE (ParseID (al_ids (rd_lib d)) ''path.instanceId'' rawID) (\<lambda>instanceID.
     bindE (key_List (rd_lib d) (admin_tenant cx) instanceID) (\<lambda>ks.
     OK (JObj [(''keys'', JArr (map (\<lambda>k. JObj (apiKeyToData (al_ids (rd_lib d)) k)) ks))])))"

definition APIKeyHandler_revoke ::
  "'z RouteDeps \<Rightarrow> Draws \<Rightarrow> ReqContext \<Rightarrow> string \<Rightarrow> string \<Rightarrow> ('z api_world_scheme, go_error, reply) io" where
  "APIKeyHandler_revoke d dr cx rawID rawKey =
     bindE (ParseID (al_ids (rd_lib d)) ''path.instanceId'' rawID) (\<lambda>instanceID.
     bindE (ParseID (al_ids (rd_lib d)) ''path.keyId'' rawKey) (\<lambda>keyID.
     bindE (key_Revoke (rd_lib d) (dr_ids dr)
       \<lparr>rk_TenantID = admin_tenant cx, rk_InstanceID = instanceID, rk_KeyID = keyID, rk_ActorID = admin_ID cx,
        rk_SourceIP = cx_ClientIP cx\<rparr>) (\<lambda>_.
     ret NoContent)))"

subsection \<open>The operational route\<close>

definition WhoamiHandler_whoami :: "'z RouteDeps \<Rightarrow> ReqContext \<Rightarrow> ('z api_world_scheme, go_error, reply) io" where
  "WhoamiHandler_whoami d cx = (case cx_Operator cx of
       None \<Rightarrow> throw (DomainError (ErrUnauthenticated ''An API key is required''))
     | Some opr \<Rightarrow> (let ids = al_ids (rd_lib d) in OK (JObj
         [(''instance'', JObj [(''id'', JStr (id_String ids (op_InstanceID opr))), (''name'', JStr (op_InstanceName opr)),
            (''state'', JStr (state_text (op_InstanceState opr))), (''tenant_id'', JStr (id_String ids (op_TenantID opr)))]),
          (''key'', JObj [(''key_prefix'', JStr (op_KeyPrefix opr)), (''label'', or_null JStr (op_KeyLabel opr))])])))"

end
