(* ===== verification/Connection_Handlers.thy ===== *)
theory Connection_Handlers
  imports Handlers
begin

text \<open>
  The handlers of the connection plane, \<open>handlers/connection.go\<close> and \<open>handlers/verification.go\<close>: every
  one acts for the principal the connection gate left in the context, on that principal's instance.
\<close>

subsection \<open>Texts of the trail vocabulary\<close>

fun event_text :: "ConnectionEventType \<Rightarrow> string" where
  "event_text ConnEventPairingStarted = ''pairing_started''"
| "event_text ConnEventPairingSucceeded = ''pairing_succeeded''"
| "event_text ConnEventPairingExpired = ''pairing_expired''"
| "event_text ConnEventPairingFailed = ''pairing_failed''"
| "event_text ConnEventConnected = ''connected''"
| "event_text ConnEventDisconnected = ''disconnected''"
| "event_text ConnEventLoggedOut = ''logged_out''"
| "event_text ConnEventBanned = ''banned''"
| "event_text ConnEventNumberChanged = ''number_changed''"
| "event_text ConnEventLeaseAcquired = ''lease_acquired''"
| "event_text ConnEventLeaseLost = ''lease_lost''"
| "event_text ConnEventDeleted = ''deleted''"
| "event_text ConnEventStreamError = ''stream_error''"
| "event_text ConnEventManualLoginReconnect = ''manual_login_reconnect''"
| "event_text ConnEventProxyUpdated = ''proxy_updated''"
| "event_text ConnEventPassiveModeUpdated = ''passive_mode_updated''"
| "event_text ConnEventPasskeyChallenge = ''passkey_challenge''"
| "event_text ConnEventPasskeyResponded = ''passkey_responded''"
| "event_text ConnEventPasskeyConfirmed = ''passkey_confirmed''"
| "event_text (OtherEventType s) = s"

definition declared_types :: "ConnectionEventType list" where
  "declared_types = [ConnEventPairingStarted, ConnEventPairingSucceeded, ConnEventPairingExpired, ConnEventPairingFailed,
     ConnEventConnected, ConnEventDisconnected, ConnEventLoggedOut, ConnEventBanned, ConnEventNumberChanged,
     ConnEventLeaseAcquired, ConnEventLeaseLost, ConnEventDeleted, ConnEventStreamError, ConnEventManualLoginReconnect,
     ConnEventProxyUpdated, ConnEventPassiveModeUpdated, ConnEventPasskeyChallenge, ConnEventPasskeyResponded,
     ConnEventPasskeyConfirmed]"

text \<open>The type a text of the query string names; a text that is none of them stays as it is.\<close>

definition event_type_of :: "string \<Rightarrow> ConnectionEventType" where
  "event_type_of s = (case find (\<lambda>t. event_text t = s) declared_types of Some t \<Rightarrow> t | None \<Rightarrow> OtherEventType s)"

lemma event_text_of [simp]: "event_text (event_type_of s) = s"
  by (auto simp: event_type_of_def find_Some_iff split: option.split)

subsection \<open>Commands\<close>

definition principalFrom :: "ReqContext \<Rightarrow> ('w, go_error, ConnectionPrincipal) io" where
  "principalFrom cx = (case cx_Connection cx of
       None \<Rightarrow> throw (DomainError (ErrUnauthenticated ''A credential is required''))
     | Some p \<Rightarrow> ret p)"

text \<open>\<open>omitempty\<close> on a string member.\<close>

definition nonempty_field :: "string \<Rightarrow> string \<Rightarrow> payload" where
  "nonempty_field key s = (if s = [] then [] else [(key, JStr s)])"

definition some_nonempty :: "string \<Rightarrow> json" where
  "some_nonempty s = (if s = [] then JNull else JStr s)"

definition ConnectionHandler_setProxy ::
  "'z Sessions \<Rightarrow> ReqContext \<Rightarrow> string \<Rightarrow> ('z api_world_scheme, go_error, reply) io" where
  "ConnectionHandler_setProxy s cx url = bindE (principalFrom cx) (\<lambda>p.
     bindE (wrapE DomainError (svc_SetProxy (sn_service s) (sn_stub s) (pr_InstanceID p) url)) (\<lambda>r.
     OK (JObj [(''proxy_url'', JStr (sa_ProxyURL r)), (''reconnecting'', JBool (sa_Reconnecting r))])))"

definition ConnectionHandler_clearProxy :: "'z Sessions \<Rightarrow> ReqContext \<Rightarrow> ('z api_world_scheme, go_error, reply) io" where
  "ConnectionHandler_clearProxy s cx = bindE (principalFrom cx) (\<lambda>p.
     bindE (wrapE DomainError (svc_ClearProxy (sn_service s) (sn_stub s) (pr_InstanceID p))) (\<lambda>r.
     OK (JObj [(''proxy_url'', JNull), (''reconnecting'', JBool (sa_Reconnecting r))])))"

definition passkey_step :: "uuid_lib \<Rightarrow> ConnectionPrincipal \<Rightarrow> ('z world_scheme, go_error, reply) io" where
  "passkey_step ids p = Respond 202 (JObj [(''instance_id'', JStr (id_String ids (pr_InstanceID p))),
     (''state'', JStr (state_text InstancePairing))])"

definition ConnectionHandler_submitPasskeyResponse ::
  "uuid_lib \<Rightarrow> 'z Sessions \<Rightarrow> ReqContext \<Rightarrow> string \<Rightarrow> ('z api_world_scheme, go_error, reply) io" where
  "ConnectionHandler_submitPasskeyResponse ids s cx response = bindE (principalFrom cx) (\<lambda>p.
     if response = [] then throw (DomainError (ErrValidation ''body.response'' ''must not be empty''))
     else bindE (wrapE DomainError (svc_SubmitPasskeyResponse (sn_service s) (sn_stub s) (pr_InstanceID p) response)) (\<lambda>_.
       passkey_step ids p))"

definition ConnectionHandler_confirmPasskey ::
  "uuid_lib \<Rightarrow> 'z Sessions \<Rightarrow> ReqContext \<Rightarrow> ('z api_world_scheme, go_error, reply) io" where
  "ConnectionHandler_confirmPasskey ids s cx = bindE (principalFrom cx) (\<lambda>p.
     bindE (wrapE DomainError (svc_ConfirmPasskey (sn_service s) (sn_stub s) (pr_InstanceID p))) (\<lambda>_. passkey_step ids p))"

definition ConnectionHandler_setPassiveMode ::
  "'z Sessions \<Rightarrow> ReqContext \<Rightarrow> bool \<Rightarrow> ('z api_world_scheme, go_error, reply) io" where
  "ConnectionHandler_setPassiveMode s cx enabled = bindE (principalFrom cx) (\<lambda>p.
     bindE (wrapE DomainError (svc_SetPassiveMode (sn_service s) (sn_stub s) (pr_InstanceID p) enabled)) (\<lambda>r.
     OK (JObj [(''passive_mode'', JBool (sa_PassiveMode r)), (''applied'', JBool (sa_PassiveApplied r))])))"

definition ConnectionHandler_connect ::
  "uuid_lib \<Rightarrow> 'z Sessions \<Rightarrow> ReqContext \<Rightarrow> ('z api_world_scheme, go_error, reply) io" where
  "ConnectionHandler_connect ids s cx = bindE (principalFrom cx) (\<lambda>p.
     bindE (wrapE DomainError (svc_Connect (sn_service s) (sn_stub s) (sn_elapse s) (pr_InstanceID p))) (\<lambda>r.
     Respond 202 (JObj ([(''instance_id'', JStr (id_String ids (pr_InstanceID p))), (''state'', JStr (state_text (ca_State r))),
       (''intent'', JStr (intent_text (ca_Intent r)))] @
       (if ca_PairingStarted r then [(''pairing'', JObj ((''method'', JStr ''qr'') #
          opt_field ''expires_at'' JTime (ca_PairingExpires r)))] else [])))))"

definition ConnectionHandler_pairPhone ::
  "'z Sessions \<Rightarrow> ReqContext \<Rightarrow> string \<Rightarrow> bool option \<Rightarrow> ('z api_world_scheme, go_error, reply) io" where
  "ConnectionHandler_pairPhone s cx phoneNumber replace = bindE (principalFrom cx) (\<lambda>p.
     let replaceActive = (case replace of None \<Rightarrow> True | Some b \<Rightarrow> b) in
     bindE (wrapE DomainError (svc_PairPhone (sn_service s) (sn_stub s) (sn_elapse s) (pr_InstanceID p) phoneNumber replaceActive))
       (\<lambda>(code, expires).
     OK (JObj [(''pairing_code'', JStr code), (''expires_at'', JTime expires), (''state'', JStr (state_text InstancePairing))])))"

definition ConnectionHandler_disconnect ::
  "uuid_lib \<Rightarrow> 'z Sessions \<Rightarrow> ReqContext \<Rightarrow> ('z api_world_scheme, go_error, reply) io" where
  "ConnectionHandler_disconnect ids s cx = bindE (principalFrom cx) (\<lambda>p.
     bindE (wrapE DomainError (svc_Disconnect (sn_service s) (sn_stub s) (pr_InstanceID p))) (\<lambda>state.
     Respond 202 (JObj [(''instance_id'', JStr (id_String ids (pr_InstanceID p))), (''state'', JStr (state_text state)),
       (''intent'', JStr (intent_text IntentStopped))])))"

definition ConnectionHandler_logout ::
  "uuid_lib \<Rightarrow> 'z Sessions \<Rightarrow> ReqContext \<Rightarrow> ('z api_world_scheme, go_error, reply) io" where
  "ConnectionHandler_logout ids s cx = bindE (principalFrom cx) (\<lambda>p.
     bindE (wrapE DomainError (svc_Logout (sn_service s) (sn_stub s) (pr_InstanceID p))) (\<lambda>(state, remoteRemoved).
     Respond 202 (JObj [(''instance_id'', JStr (id_String ids (pr_InstanceID p))), (''state'', JStr (state_text state)),
       (''intent'', JStr (intent_text IntentStopped)),
       (''logout_mode'', JStr (if remoteRemoved then ''remote'' else ''local_only''))])))"

subsection \<open>Queries\<close>

definition DeviceData :: "DeviceIdentity \<Rightarrow> json" where
  "DeviceData dev = JObj ((''jid'', JStr (JID dev)) # nonempty_field ''lid'' (LID dev) @ [(''phone_number'', JStr (PhoneNumber dev))] @
     nonempty_field ''push_name'' (PushName dev) @ nonempty_field ''platform'' (Platform dev) @
     nonempty_field ''business_name'' (BusinessName dev) @
     (if PairedAt dev = zero_time then [] else [(''paired_at'', JTime (truncate_second (PairedAt dev)))]))"

definition formatTime :: "gotime option \<Rightarrow> json" where
  "formatTime v = or_null (\<lambda>t. JTime (truncate_second t)) v"

definition ConnectionStatusData :: "uuid_lib \<Rightarrow> ConnectionStatus \<Rightarrow> json" where
  "ConnectionStatusData ids st = JObj [(''instance_id'', JStr (id_String ids (cst_InstanceID st))),
     (''state'', JStr (state_text (cst_State st))), (''intent'', JStr (intent_text (cst_Intent st))),
     (''connected_at'', formatTime (cst_ConnectedAt st)), (''device'', or_null DeviceData (cst_Device st)),
     (''last_disconnect'', or_null (\<lambda>at. JObj ((''at'', JTime (truncate_second at)) #
        nonempty_field ''reason'' (reason_text (cst_LastReason st)))) (cst_LastDisconnectAt st)),
     (''ban_expires_at'', formatTime (cst_BanExpiresAt st)),
     (''shares_number_with'', JArr (map (\<lambda>i. JStr (id_String ids i)) (cst_SharesNumberWith st))),
     (''proxy_url'', some_nonempty (cst_ProxyURL st)), (''passive_mode'', JBool (cst_PassiveMode st))]"

definition ConnectionHandler_status ::
  "uuid_lib \<Rightarrow> 'z Sessions \<Rightarrow> ReqContext \<Rightarrow> ('z api_world_scheme, go_error, reply) io" where
  "ConnectionHandler_status ids s cx = bindE (principalFrom cx) (\<lambda>p.
     bindE (wrapE DomainError (svc_Status (sn_service s) (pr_TenantID p) (pr_InstanceID p))) (\<lambda>st.
     OK (ConnectionStatusData ids st)))"

definition ConnectionEventData :: "ConnectionEvent \<Rightarrow> json" where
  "ConnectionEventData e = JObj ((''type'', JStr (event_text (ce_Type e))) # nonempty_field ''reason'' (reason_text (ce_Reason e)) @
     (if ce_Detail e = [] then [] else [(''detail'', JObj (ce_Detail e))]) @ [(''occurred_at'', JTime (truncate_second (ce_OccurredAt e)))])"

text \<open>\<open>limit\<close> has its default when absent; a missing \<open>type\<close> is a nil slice, which does not filter.\<close>

definition ConnectionHandler_events ::
  "'z Sessions \<Rightarrow> ReqContext \<Rightarrow> int \<Rightarrow> string \<Rightarrow> string list option \<Rightarrow> ('z api_world_scheme, go_error, reply) io" where
  "ConnectionHandler_events s cx limit before types = bindE (principalFrom cx) (\<lambda>p.
     bindE (if before = [] then ret None
       else ret_or_throw DomainError (map_sum id Some (DecodeCursor before))) (\<lambda>cursor.
     bindE (wrapE DomainError (svc_Events (sn_service s) (pr_TenantID p) (pr_InstanceID p) limit cursor
       (map_option (map event_type_of) types))) (\<lambda>page.
     OK (JObj ((''events'', JArr (map ConnectionEventData (ep_Events page))) # nonempty_field ''next_before'' (ep_NextBefore page))))))"

subsection \<open>Verification codes\<close>

definition VerificationHandler_codes ::
  "'z Sessions \<Rightarrow> ReqContext \<Rightarrow> string \<Rightarrow> ('z api_world_scheme, go_error, reply) io" where
  "VerificationHandler_codes s cx contact = bindE (principalFrom cx) (\<lambda>p.
     if pr_Kind p \<noteq> PrincipalAPIKey then throw (DomainError ErrNotFound)
     else bindE (wrapE DomainError (svc_VerificationCodes (sn_service s) (sn_stub s) (pr_InstanceID p) contact)) (\<lambda>c.
       OK (JObj [(''contact'', JObj [(''lid'', JStr (vc_LID c)), (''phone_number'', some_nonempty (vc_PhoneNumber c)),
            (''username'', some_nonempty (vc_Username c))]),
          (''numeric_code'', JStr (vc_NumericCode c)), (''display_qr'', JStr (vc_DisplayQR c)),
          (''verification_qr'', JStr (vc_VerificationQR c))])))"

end
