(* ===== verification/Registration.thy ===== *)
theory Registration
  imports Connection_Handlers
begin

text \<open>
  What the handlers register with the HTTP framework: the \<open>Register\<close> functions of
  \<open>internal/api/handlers\<close> and \<open>registerHealth\<close> of \<open>server.go\<close>, as the lists of operations they declare, in
  their order. Texts for the generated document (summaries, descriptions, tags) are left out; a security
  requirement is the list of the alternative schemes.
\<close>

record Operation =
  OperationID :: string
  Method :: string
  Path :: string
  Security :: "string list"
  DefaultStatus :: int

definition Op :: "string \<Rightarrow> string \<Rightarrow> string \<Rightarrow> string list \<Rightarrow> int \<Rightarrow> Operation" where
  "Op i httpMethod path security status =
     \<lparr>OperationID = i, Method = httpMethod, Path = path, Security = security, DefaultStatus = status\<rparr>"

subsection \<open>Planes of people\<close>

definition registerHealth :: "Operation list" where
  "registerHealth = [Op ''health-check'' ''GET'' ''/healthz'' [] 200]"

definition AuthHandler_Register :: "Operation list" where
  "AuthHandler_Register = [Op ''login'' ''POST'' ''/auth/login'' [] 200]"

definition PasswordHandler_RegisterChange :: "Operation list" where
  "PasswordHandler_RegisterChange = [Op ''change-password'' ''POST'' ''/auth/password'' [''bearerAuth''] 204]"

definition PasswordHandler_RegisterReset :: "Operation list" where
  "PasswordHandler_RegisterReset =
     [Op ''reset-tenant-admin-password'' ''POST'' ''/admin/tenants/{tenantId}/admin/reset-password'' [''bearerAuth''] 200]"

definition TenantHandler_Register :: "Operation list" where
  "TenantHandler_Register = (let security = [''bearerAuth''] in
     [Op ''create-tenant'' ''POST'' ''/admin/tenants'' security 201,
      Op ''list-tenants'' ''GET'' ''/admin/tenants'' security 200,
      Op ''get-tenant'' ''GET'' ''/admin/tenants/{tenantId}'' security 200,
      Op ''update-tenant'' ''PATCH'' ''/admin/tenants/{tenantId}'' security 200])"

definition TenantHandler_RegisterLifecycle :: "Operation list" where
  "TenantHandler_RegisterLifecycle = (let security = [''bearerAuth''] in
     [Op ''suspend-tenant'' ''POST'' ''/admin/tenants/{tenantId}/suspend'' security 200,
      Op ''activate-tenant'' ''POST'' ''/admin/tenants/{tenantId}/activate'' security 200,
      Op ''delete-tenant'' ''DELETE'' ''/admin/tenants/{tenantId}'' security 204])"

definition InstanceHandler_Register :: "Operation list" where
  "InstanceHandler_Register = (let security = [''bearerAuth''] in
     [Op ''create-instance'' ''POST'' ''/instances'' security 201,
      Op ''list-instances'' ''GET'' ''/instances'' security 200,
      Op ''get-instance'' ''GET'' ''/instances/{instanceId}'' security 200,
      Op ''update-instance'' ''PATCH'' ''/instances/{instanceId}'' security 200,
      Op ''delete-instance'' ''DELETE'' ''/instances/{instanceId}'' security 204])"

definition APIKeyHandler_Register :: "Operation list" where
  "APIKeyHandler_Register = (let security = [''bearerAuth''] in
     [Op ''create-api-key'' ''POST'' ''/instances/{instanceId}/keys'' security 201,
      Op ''list-api-keys'' ''GET'' ''/instances/{instanceId}/keys'' security 200,
      Op ''revoke-api-key'' ''DELETE'' ''/instances/{instanceId}/keys/{keyId}'' security 204])"

subsection \<open>Planes of instances\<close>

definition WhoamiHandler_Register :: "Operation list" where
  "WhoamiHandler_Register = [Op ''whoami'' ''GET'' ''/instances/{instanceId}/whoami'' [''apiKeyAuth''] 200]"

definition connectionSecurity :: "string list" where
  "connectionSecurity = [''bearerAuth'', ''apiKeyAuth'']"

definition ConnectionHandler_Register :: "Operation list" where
  "ConnectionHandler_Register =
     [Op ''set-instance-proxy'' ''PUT'' ''/instances/{instanceId}/proxy'' connectionSecurity 200,
      Op ''clear-instance-proxy'' ''DELETE'' ''/instances/{instanceId}/proxy'' connectionSecurity 200,
      Op ''submit-instance-passkey-response'' ''POST'' ''/instances/{instanceId}/pairing/passkey/response'' connectionSecurity 202,
      Op ''confirm-instance-passkey'' ''POST'' ''/instances/{instanceId}/pairing/passkey/confirm'' connectionSecurity 202,
      Op ''set-instance-passive-mode'' ''PUT'' ''/instances/{instanceId}/passive-mode'' connectionSecurity 200,
      Op ''connect-instance'' ''POST'' ''/instances/{instanceId}/connect'' connectionSecurity 202,
      Op ''pair-instance-by-phone'' ''POST'' ''/instances/{instanceId}/pair-phone'' connectionSecurity 200,
      Op ''disconnect-instance'' ''POST'' ''/instances/{instanceId}/disconnect'' connectionSecurity 202,
      Op ''logout-instance'' ''POST'' ''/instances/{instanceId}/logout'' connectionSecurity 202]"

definition ConnectionHandler_RegisterQueries :: "Operation list" where
  "ConnectionHandler_RegisterQueries =
     [Op ''get-instance-connection'' ''GET'' ''/instances/{instanceId}/connection'' connectionSecurity 200,
      Op ''list-instance-connection-events'' ''GET'' ''/instances/{instanceId}/connection/events'' connectionSecurity 200]"

definition apiKeyOnlySecurity :: "string list" where
  "apiKeyOnlySecurity = [''apiKeyAuth'']"

definition VerificationHandler_Register :: "Operation list" where
  "VerificationHandler_Register = [Op ''get-instance-identity-verification-codes'' ''GET''
     ''/instances/{instanceId}/identity-verification-codes'' apiKeyOnlySecurity 200]"

lemmas registration_defs = registerHealth_def AuthHandler_Register_def PasswordHandler_RegisterChange_def
  PasswordHandler_RegisterReset_def TenantHandler_Register_def TenantHandler_RegisterLifecycle_def
  InstanceHandler_Register_def APIKeyHandler_Register_def WhoamiHandler_Register_def connectionSecurity_def
  ConnectionHandler_Register_def ConnectionHandler_RegisterQueries_def apiKeyOnlySecurity_def
  VerificationHandler_Register_def Op_def

subsection \<open>Groups\<close>

text \<open>
  \<open>RegisterRoutes\<close>: the groups in the order they are built, and what is registered on each. The
  connection group exists only with a session plane.
\<close>

datatype group = Unguarded | Public | PlatformGroup | AnyAudienceGroup | TenantGroup | OperationalGroup | ConnectionGroup

definition group_operations :: "group \<Rightarrow> Operation list" where
  "group_operations g = (case g of
       Unguarded \<Rightarrow> registerHealth
     | Public \<Rightarrow> AuthHandler_Register
     | PlatformGroup \<Rightarrow> TenantHandler_Register @ TenantHandler_RegisterLifecycle @ PasswordHandler_RegisterReset
     | AnyAudienceGroup \<Rightarrow> PasswordHandler_RegisterChange
     | TenantGroup \<Rightarrow> InstanceHandler_Register @ APIKeyHandler_Register
     | OperationalGroup \<Rightarrow> WhoamiHandler_Register
     | ConnectionGroup \<Rightarrow> ConnectionHandler_Register @ ConnectionHandler_RegisterQueries @ VerificationHandler_Register)"

definition RegisterRoutes :: "'z Sessions option \<Rightarrow> (group \<times> Operation) list" where
  "RegisterRoutes sessionPlane = concat (map (\<lambda>g. map (Pair g) (group_operations g))
     ([Unguarded, Public, PlatformGroup, AnyAudienceGroup, TenantGroup, OperationalGroup] @
      (case sessionPlane of None \<Rightarrow> [] | Some _ \<Rightarrow> [ConnectionGroup])))"

end
