(* ===== verification/Routes.thy ===== *)
theory Routes
  imports Registration
begin

text \<open>
  The HTTP surface: the requests for the registered operations, the gate each stands behind
  (\<open>routes.go\<close>), the health check of \<open>server.go\<close>, the CORS middleware and the request
  log. A request is served by the gates of its group, in order, and then by its handler.
\<close>

subsection \<open>Operations\<close>

text \<open>One constructor per registered operation, with its decoded path, query and body.\<close>

datatype operation =
    HealthCheck
  | OpLogin string string
  | OpCreateTenant string string string string | OpListTenants | OpGetTenant string | OpRenameTenant string string
  | OpSuspendTenant string | OpActivateTenant string | OpDeleteTenant string string | OpResetPassword string
  | OpChangePassword string string
  | OpCreateInstance string | OpListInstances | OpGetInstance string | OpRenameInstance string string | OpDeleteInstance string
  | OpCreateKey string string | OpListKeys string | OpRevokeKey string string
  | OpWhoami
  | OpSetProxy string | OpClearProxy | OpSubmitPasskey string | OpConfirmPasskey | OpSetPassiveMode bool
  | OpConnect | OpPairPhone string "bool option" | OpDisconnect | OpLogout
  | OpStatus | OpEvents int string "string list option" | OpVerificationCodes string

fun group_of :: "operation \<Rightarrow> group" where
  "group_of HealthCheck = Unguarded"
| "group_of (OpLogin _ _) = Public"
| "group_of (OpCreateTenant _ _ _ _) = PlatformGroup"
| "group_of OpListTenants = PlatformGroup"
| "group_of (OpGetTenant _) = PlatformGroup"
| "group_of (OpRenameTenant _ _) = PlatformGroup"
| "group_of (OpSuspendTenant _) = PlatformGroup"
| "group_of (OpActivateTenant _) = PlatformGroup"
| "group_of (OpDeleteTenant _ _) = PlatformGroup"
| "group_of (OpResetPassword _) = PlatformGroup"
| "group_of (OpChangePassword _ _) = AnyAudienceGroup"
| "group_of (OpCreateInstance _) = TenantGroup"
| "group_of OpListInstances = TenantGroup"
| "group_of (OpGetInstance _) = TenantGroup"
| "group_of (OpRenameInstance _ _) = TenantGroup"
| "group_of (OpDeleteInstance _) = TenantGroup"
| "group_of (OpCreateKey _ _) = TenantGroup"
| "group_of (OpListKeys _) = TenantGroup"
| "group_of (OpRevokeKey _ _) = TenantGroup"
| "group_of OpWhoami = OperationalGroup"
| "group_of _ = ConnectionGroup"

fun operation_id :: "operation \<Rightarrow> string" where
  "operation_id HealthCheck = ''health-check''"
| "operation_id (OpLogin _ _) = ''login''"
| "operation_id (OpCreateTenant _ _ _ _) = ''create-tenant''"
| "operation_id OpListTenants = ''list-tenants''"
| "operation_id (OpGetTenant _) = ''get-tenant''"
| "operation_id (OpRenameTenant _ _) = ''update-tenant''"
| "operation_id (OpSuspendTenant _) = ''suspend-tenant''"
| "operation_id (OpActivateTenant _) = ''activate-tenant''"
| "operation_id (OpDeleteTenant _ _) = ''delete-tenant''"
| "operation_id (OpResetPassword _) = ''reset-tenant-admin-password''"
| "operation_id (OpChangePassword _ _) = ''change-password''"
| "operation_id (OpCreateInstance _) = ''create-instance''"
| "operation_id OpListInstances = ''list-instances''"
| "operation_id (OpGetInstance _) = ''get-instance''"
| "operation_id (OpRenameInstance _ _) = ''update-instance''"
| "operation_id (OpDeleteInstance _) = ''delete-instance''"
| "operation_id (OpCreateKey _ _) = ''create-api-key''"
| "operation_id (OpListKeys _) = ''list-api-keys''"
| "operation_id (OpRevokeKey _ _) = ''revoke-api-key''"
| "operation_id OpWhoami = ''whoami''"
| "operation_id (OpSetProxy _) = ''set-instance-proxy''"
| "operation_id OpClearProxy = ''clear-instance-proxy''"
| "operation_id (OpSubmitPasskey _) = ''submit-instance-passkey-response''"
| "operation_id OpConfirmPasskey = ''confirm-instance-passkey''"
| "operation_id (OpSetPassiveMode _) = ''set-instance-passive-mode''"
| "operation_id OpConnect = ''connect-instance''"
| "operation_id (OpPairPhone _ _) = ''pair-instance-by-phone''"
| "operation_id OpDisconnect = ''disconnect-instance''"
| "operation_id OpLogout = ''logout-instance''"
| "operation_id OpStatus = ''get-instance-connection''"
| "operation_id (OpEvents _ _ _) = ''list-instance-connection-events''"
| "operation_id (OpVerificationCodes _) = ''get-instance-identity-verification-codes''"

text \<open>The \<open>huma.Operation\<close> an operation was registered with, on the group it belongs to.\<close>

definition registration :: "operation \<Rightarrow> Operation" where
  "registration operation =
     (case find (\<lambda>r. OperationID r = operation_id operation) (group_operations (group_of operation)) of
        Some r \<Rightarrow> r | None \<Rightarrow> Op [] [] [] [] 0)"

definition operation_method :: "operation \<Rightarrow> string" where
  "operation_method operation = Method (registration operation)"

definition declared_status :: "operation \<Rightarrow> int" where
  "declared_status operation = DefaultStatus (registration operation)"

subsection \<open>Gates and handlers\<close>

text \<open>The middleware a group uses, in the order it is added.\<close>

definition gates ::
  "'z RouteDeps \<Rightarrow> group \<Rightarrow> Request \<Rightarrow> ReqContext \<Rightarrow> ('z api_world_scheme, Error, ReqContext) io" where
  "gates d g rq cx = (let lib = rd_lib d; issuer = as_issuer (rd_auth d) in case g of
       Unguarded \<Rightarrow> ret cx
     | Public \<Rightarrow> Limit (rd_loginLimiter d) login_key cx
     | PlatformGroup \<Rightarrow> auth_Platform issuer rq cx
     | AnyAudienceGroup \<Rightarrow> auth_AnyAudience issuer rq cx
     | TenantGroup \<Rightarrow> auth_Tenant issuer rq cx
     | OperationalGroup \<Rightarrow> bindE (key_Authenticate lib rq cx) (Limit (rd_operationalLimiter d) (operational_key (al_ids lib)))
     | ConnectionGroup \<Rightarrow> bindE (connection_Authenticate lib issuer rq cx) (Limit (rd_connectionLimiter d) (connection_key (al_ids lib))))"

text \<open>Handlers of the connection plane exist only with a session plane.\<close>

definition connection_handler ::
  "'z RouteDeps \<Rightarrow> 'z Sessions \<Rightarrow> ReqContext \<Rightarrow> operation \<Rightarrow> ('z api_world_scheme, go_error, reply) io option" where
  "connection_handler d s cx operation = (let ids = al_ids (rd_lib d) in case operation of
       OpSetProxy url \<Rightarrow> Some (ConnectionHandler_setProxy s cx url)
     | OpClearProxy \<Rightarrow> Some (ConnectionHandler_clearProxy s cx)
     | OpSubmitPasskey response \<Rightarrow> Some (ConnectionHandler_submitPasskeyResponse ids s cx response)
     | OpConfirmPasskey \<Rightarrow> Some (ConnectionHandler_confirmPasskey ids s cx)
     | OpSetPassiveMode enabled \<Rightarrow> Some (ConnectionHandler_setPassiveMode s cx enabled)
     | OpConnect \<Rightarrow> Some (ConnectionHandler_connect ids s cx)
     | OpPairPhone number replace \<Rightarrow> Some (ConnectionHandler_pairPhone s cx number replace)
     | OpDisconnect \<Rightarrow> Some (ConnectionHandler_disconnect ids s cx)
     | OpLogout \<Rightarrow> Some (ConnectionHandler_logout ids s cx)
     | OpStatus \<Rightarrow> Some (ConnectionHandler_status ids s cx)
     | OpEvents limit before types \<Rightarrow> Some (ConnectionHandler_events s cx limit before types)
     | OpVerificationCodes contact \<Rightarrow> Some (VerificationHandler_codes s cx contact)
     | _ \<Rightarrow> None)"

definition account_handler ::
  "'z RouteDeps \<Rightarrow> Draws \<Rightarrow> ReqContext \<Rightarrow> operation \<Rightarrow> ('z api_world_scheme, go_error, reply) io option" where
  "account_handler d dr cx operation = (case operation of
       HealthCheck \<Rightarrow> Some (OK (JObj [(''status'', JStr ''ok'')]))
     | OpLogin email password \<Rightarrow> Some (AuthHandler_login d dr cx email password)
     | OpCreateTenant name adminName email password \<Rightarrow> Some (TenantHandler_create d dr cx name adminName email password)
     | OpListTenants \<Rightarrow> Some (TenantHandler_list d)
     | OpGetTenant i \<Rightarrow> Some (TenantHandler_get d i)
     | OpRenameTenant i name \<Rightarrow> Some (TenantHandler_rename d dr cx i name)
     | OpSuspendTenant i \<Rightarrow> Some (TenantHandler_suspend d dr cx i)
     | OpActivateTenant i \<Rightarrow> Some (TenantHandler_activate d dr cx i)
     | OpDeleteTenant i confirm \<Rightarrow> Some (TenantHandler_delete d dr cx i confirm)
     | OpResetPassword i \<Rightarrow> Some (PasswordHandler_reset d dr cx i)
     | OpChangePassword current replacement \<Rightarrow> Some (PasswordHandler_change d dr cx current replacement)
     | OpCreateInstance name \<Rightarrow> Some (InstanceHandler_create d dr cx name)
     | OpListInstances \<Rightarrow> Some (InstanceHandler_list d cx)
     | OpGetInstance i \<Rightarrow> Some (InstanceHandler_get d cx i)
     | OpRenameInstance i name \<Rightarrow> Some (InstanceHandler_rename d dr cx i name)
     | OpDeleteInstance i \<Rightarrow> Some (InstanceHandler_delete d dr cx i)
     | OpCreateKey i label \<Rightarrow> Some (APIKeyHandler_create d dr cx i label)
     | OpListKeys i \<Rightarrow> Some (APIKeyHandler_list d cx i)
     | OpRevokeKey i k \<Rightarrow> Some (APIKeyHandler_revoke d dr cx i k)
     | OpWhoami \<Rightarrow> Some (WhoamiHandler_whoami d cx)
     | _ \<Rightarrow> None)"

definition handler ::
  "'z RouteDeps \<Rightarrow> Draws \<Rightarrow> ReqContext \<Rightarrow> operation \<Rightarrow> ('z api_world_scheme, go_error, reply) io option" where
  "handler d dr cx operation = (case account_handler d dr cx operation of
       Some h \<Rightarrow> Some h
     | None \<Rightarrow> Option.bind (rd_sessions d) (\<lambda>s. connection_handler d s cx operation))"

text \<open>
  The outcome of a request: an operation that is not mounted, a problem document, or a reply. Errors of
  gates and of handlers become documents through \<open>httperr.From\<close>.
\<close>

datatype outcome = NotMounted | Problem ProblemDetail | Reply reply

definition serve ::
  "'z RouteDeps \<Rightarrow> Draws \<Rightarrow> operation \<Rightarrow> Request \<Rightarrow> ReqContext \<Rightarrow> 'z api_world_scheme \<Rightarrow> outcome \<times> 'z api_world_scheme" where
  "serve d dr operation rq cx w =
     (if group_of operation = ConnectionGroup \<and> rd_sessions d = None then (NotMounted, w)
      else case bindE (wrapE DomainError (gates d (group_of operation) rq cx)) (\<lambda>cx'.
          case handler d dr cx' operation of None \<Rightarrow> ret None | Some h \<Rightarrow> bindE h (\<lambda>r. ret (Some r))) w of
        (Inl e, w') \<Rightarrow> (Problem (From (now w') e), w')
      | (Inr None, w') \<Rightarrow> (NotMounted, w')
      | (Inr (Some r), w') \<Rightarrow> (Reply r, w'))"

subsection \<open>CORS\<close>

definition TrimPrefix :: "string \<Rightarrow> string \<Rightarrow> string" where
  "TrimPrefix s p = (case CutPrefix s p of None \<Rightarrow> s | Some rest \<Rightarrow> rest)"

definition originAllowed :: "string \<Rightarrow> string list \<Rightarrow> bool" where
  "originAllowed origin allowed \<longleftrightarrow> origin \<in> set allowed \<or>
     TrimPrefix (TrimPrefix origin ''https://'') ''http://'' \<in> set allowed"

text \<open>What the middleware does with a request: hand it on (with or without headers), or answer it.\<close>

datatype cors_result = PassOn "(string \<times> string) list" | AnswerPreflight int "(string \<times> string) list"

definition allowed_methods :: string where
  "allowed_methods = ''GET, POST, PATCH, DELETE, OPTIONS''"

definition CORS :: "string list \<Rightarrow> string \<Rightarrow> string \<Rightarrow> cors_result" where
  "CORS allowedOrigins httpMethod origin =
     (if allowedOrigins = [] \<or> origin = [] then PassOn []
      else if \<not> originAllowed origin allowedOrigins then
        (if httpMethod = ''OPTIONS'' then AnswerPreflight 403 [] else PassOn [])
      else (let common = [(''Access-Control-Allow-Origin'', origin), (''Vary'', ''Origin'')] in
        if httpMethod = ''OPTIONS'' then AnswerPreflight 204 (common @
          [(''Access-Control-Allow-Methods'', allowed_methods),
           (''Access-Control-Allow-Headers'', ''Authorization, Content-Type, X-Api-Key''),
           (''Access-Control-Max-Age'', ''600'')])
        else PassOn common))"

subsection \<open>The request log and the chain of the server\<close>

record LogLine =
  lg_Method :: string
  lg_Path :: string
  lg_Route :: string
  lg_Status :: int
  lg_TenantID :: "string option"
  lg_InstanceID :: "string option"
  lg_Error :: bool

text \<open>The pattern the router matched, if any; the empty pattern counts as none.\<close>

definition routePattern :: "string option \<Rightarrow> string" where
  "routePattern pattern = (case pattern of Some p \<Rightarrow> if p \<noteq> [] then p else ''unmatched'' | None \<Rightarrow> ''unmatched'')"

text \<open>
  The line written for a request. A handler that never wrote a status has answered 200. The attributes come from
  the context of the request this middleware received: contexts are immutable, so what inner layers add
  to theirs is not in it.
\<close>

definition RequestLogger ::
  "uuid_lib \<Rightarrow> string \<Rightarrow> string \<Rightarrow> string option \<Rightarrow> ReqContext \<Rightarrow> int \<Rightarrow> LogLine" where
  "RequestLogger ids httpMethod path pattern cx recorded = (let status = (if recorded = 0 then 200 else recorded) in
     \<lparr>lg_Method = httpMethod, lg_Path = path, lg_Route = routePattern pattern, lg_Status = status,
      lg_TenantID = map_option (id_String ids) (cx_TenantID cx), lg_InstanceID = map_option (id_String ids) (cx_InstanceID cx),
      lg_Error = (status \<ge> 500)\<rparr>)"

text \<open>The HTTP status of an outcome: the framework sends the declared status of the operation with a reply.\<close>

definition outcome_status :: "operation \<Rightarrow> outcome \<Rightarrow> int" where
  "outcome_status operation out = (case out of
       NotMounted \<Rightarrow> 404 | Problem p \<Rightarrow> p_Status p | Reply _ \<Rightarrow> declared_status operation)"

record HttpRequest =
  hr_Origin :: string
  hr_RemoteAddr :: string
  hr_ForwardedFor :: string
  hr_RealIP :: string
  hr_Path :: string

record ServerOptions =
  so_trustProxyHeaders :: bool
  so_allowedOrigins :: "string list"
  so_ParseAddr :: "string \<Rightarrow> string option"

text \<open>
  \<open>NewServer\<close>: request log, client address, CORS, then the routes, for a request with the method and path of
  an operation.
\<close>

definition handle_request ::
  "ServerOptions \<Rightarrow> 'z RouteDeps \<Rightarrow> Draws \<Rightarrow> HttpRequest \<Rightarrow> operation \<Rightarrow> Request \<Rightarrow> ReqContext \<Rightarrow>
   'z api_world_scheme \<Rightarrow> outcome option \<times> LogLine \<times> 'z api_world_scheme" where
  "handle_request options d dr hr operation rq cx w =
     (let line = RequestLogger (al_ids (rd_lib d)) (operation_method operation) (hr_Path hr) (Some (Path (registration operation))) cx;
          cx' = ClientIPResolver (so_ParseAddr options)
            (ClientIP (hr_RemoteAddr hr) (hr_ForwardedFor hr) (hr_RealIP hr) (so_trustProxyHeaders options)) cx in
      case CORS (so_allowedOrigins options) (operation_method operation) (hr_Origin hr) of
        AnswerPreflight status _ \<Rightarrow> (None, line status, w)
      | PassOn _ \<Rightarrow> (case serve d dr operation rq cx' w of (out, w') \<Rightarrow>
          (Some out, line (outcome_status operation out), w')))"

end
