(* ===== verification/Key_Registry.thy ===== *)
theory Key_Registry
  imports Access_Facts
begin

text \<open>
  The instance keys seen as an abstract registry: a map from the hash of a secret to the instance it
  opens and whether it is active. The account operations refine a small specification on that map;
  what holds of every run of the specification holds of every history of the services.
\<close>

subsection \<open>Forward simulation\<close>

inductive runs :: "('l \<Rightarrow> 's \<Rightarrow> 's \<Rightarrow> bool) \<Rightarrow> ('l \<Rightarrow> bool) \<Rightarrow> 's \<Rightarrow> 's \<Rightarrow> bool" for step allowed s where
  here: "runs step allowed s s"
| more: "runs step allowed s s1 \<Longrightarrow> allowed l \<Longrightarrow> step l s1 s2 \<Longrightarrow> runs step allowed s s2"

lemma runs_keep:
  assumes "runs step allowed s s'" and "P s" and "\<And>l s1 s2. allowed l \<Longrightarrow> step l s1 s2 \<Longrightarrow> P s1 \<Longrightarrow> P s2"
  shows "P s'"
  using assms(1,2) by (induction rule: runs.induct) (auto intro: assms(3))

locale forward_simulation =
  fixes inv :: "'c \<Rightarrow> bool" and abs :: "'c \<Rightarrow> 'a"
    and step :: "'l \<Rightarrow> 'c \<Rightarrow> 'c \<Rightarrow> bool" and spec :: "'l \<Rightarrow> 'a \<Rightarrow> 'a \<Rightarrow> bool"
  assumes step_inv: "inv c \<Longrightarrow> step l c c' \<Longrightarrow> inv c'"
    and step_spec: "inv c \<Longrightarrow> step l c c' \<Longrightarrow> spec l (abs c) (abs c')"
begin

lemma run_refines:
  assumes "runs step allowed c c'" and "inv c"
  shows "inv c' \<and> runs spec allowed (abs c) (abs c')"
  using assms(1)
proof (induction rule: runs.induct)
  case here
  with assms(2) show ?case by (simp add: runs.here)
next
  case (more c1 l c2)
  then show ?case by (auto intro: runs.more step_inv step_spec)
qed

lemma run_keeps:
  assumes "runs step allowed c c'" and "inv c" and "P (abs c)"
    and "\<And>l a a'. allowed l \<Longrightarrow> spec l a a' \<Longrightarrow> P a \<Longrightarrow> P a'"
  shows "P (abs c')"
  using run_refines [OF assms(1,2)] runs_keep [of spec allowed "abs c" "abs c'" P] assms(3,4) by blast

end

subsection \<open>The registry\<close>

type_synonym registry = "string \<Rightarrow> (ID \<times> bool) option"

definition key_entry :: "KeyRow \<Rightarrow> ID \<times> bool" where
  "key_entry k = (k_InstanceID (key_meta k), k_Status (key_meta k) = APIKeyActive)"

definition registry :: "database \<Rightarrow> registry" where
  "registry d = (\<lambda>h. map_option key_entry (by_key key_secret_hash h (api_keys d)))"

definition forget :: "(ID \<Rightarrow> bool) \<Rightarrow> registry \<Rightarrow> registry" where
  "forget gone R = (\<lambda>h. case R h of None \<Rightarrow> None | Some (i, active) \<Rightarrow> if gone i then None else Some (i, active))"

text \<open>
  What each operation may do to the registry. Creating a key adds an active entry under a hash that was
  free; revoking deactivates one entry of the named instance; deleting an instance or a tenant forgets
  entries; nothing else touches it. Every operation may also fail and change nothing. \<open>None\<close> stands for
  the rest of the system.
\<close>

fun registry_spec :: "account_lib \<Rightarrow> account_op option \<Rightarrow> registry \<Rightarrow> registry \<Rightarrow> bool" where
  "registry_spec lib (Some (DoCreateKey fresh rnd inp)) R R' \<longleftrightarrow> R' = R \<or>
     (\<exists>g. GenerateAPIKey (al_sha256 lib) rnd = Some g \<and> R (g_Hash g) = None \<and> R' = R(g_Hash g \<mapsto> (ck_InstanceID inp, True)))"
| "registry_spec lib (Some (DoRevokeKey fresh inp)) R R' \<longleftrightarrow> R' = R \<or>
     (\<exists>h active. R h = Some (rk_InstanceID inp, active) \<and> R' = R(h \<mapsto> (rk_InstanceID inp, False)))"
| "registry_spec lib (Some (DoDeleteInstance fresh inp)) R R' \<longleftrightarrow> R' = R \<or> R' = forget (\<lambda>i. i = di_InstanceID inp) R"
| "registry_spec lib (Some (DoDeleteTenant fresh inp)) R R' \<longleftrightarrow> R' = R \<or> (\<exists>owned. R' = forget owned R)"
| "registry_spec lib _ R R' \<longleftrightarrow> R' = R"

definition account_step :: "account_lib \<Rightarrow> account_op option \<Rightarrow> 'z world_scheme \<Rightarrow> 'z world_scheme \<Rightarrow> bool" where
  "account_step lib l w w' \<longleftrightarrow> (case l of
       Some action \<Rightarrow> w' = do_account lib action w
     | None \<Rightarrow> account_view (db w') = account_view (db w))"

lemma history_runs: "account_history lib allowed w w' \<Longrightarrow> runs (account_step lib) (case_option True allowed) w w'"
proof (induction rule: account_history.induct)
  case start
  show ?case by (rule runs.here)
next
  case (account w1 action)
  then show ?case by (auto simp: account_step_def intro: runs.more [where l = "Some action" and ?s1.0 = w1])
next
  case (elsewhere w1 w2)
  then show ?case by (auto simp: account_step_def intro: runs.more [where l = None and ?s1.0 = w1])
qed

subsection \<open>Steps that leave the keys alone\<close>

definition keys_still :: "database \<Rightarrow> database \<Rightarrow> bool" where
  "keys_still d d' \<longleftrightarrow> api_keys d' = api_keys d"

interpretation still: world_rel "on_db keys_still"
  by unfold_locales (auto simp: on_db_def keys_still_def)

lemma still_statement: "(\<And>t d. api_keys (snd (q t d)) = api_keys d) \<Longrightarrow> always (on_db keys_still) (run_statement q)"
  by (rule always_on_db) (simp_all add: keys_still_def)

lemma still_reads: "always read_only m \<Longrightarrow> always (on_db keys_still) m"
  by (auto simp: always_def read_only_def on_db_def keys_still_def)

lemma still_statements:
  "always (on_db keys_still) (CreateTenant i n)" "always (on_db keys_still) (UpdateTenantName i n)"
  "always (on_db keys_still) (SetTenantStatus i s)" "always (on_db keys_still) (CreateUser p)"
  "always (on_db keys_still) (UpdatePassword i h b)" "always (on_db keys_still) (CreateInstance i t n)"
  "always (on_db keys_still) (RenameInstance i t n)" "always (on_db keys_still) (RegisterFailedLogin m window i)"
  "always (on_db keys_still) (ClearLoginFailures i)" "always (on_db keys_still) (InsertSecurityEvent i e)"
  unfolding query_defs
  by (rule still_statement; simp add: update_tenant_def update_user_def Let_def split: option.split)+

lemma still_tx: "always (on_db keys_still) body \<Longrightarrow> always (on_db keys_still) (transaction b c body)"
  by (rule always_transaction) (simp add: keys_still_def)

lemma still_checks: "always (on_db keys_still) (ret_or_throw f r)" "always (on_db keys_still) (require e)"
  by (intro still_reads read_only_checks)+

lemmas still_queries = read_only_queries [THEN still_reads]

lemma still_Record: "always (on_db keys_still) (Record i e)" "always (on_db keys_still) (record_or_fail lib i e)"
  "always (on_db keys_still) (recordEvent i e)" "always (on_db keys_still) (recordLoginFailure i a ip why)"
  unfolding Record_def record_or_fail_def recordEvent_def recordLoginFailure_def
  by (intro still_statements still.always_wrapE still.always_ignoreE)+

lemmas still_intros = still_tx still.always_ret still.always_throw still.always_getsE still.always_bindE
  still.always_wrapE still.always_attempt still.always_ignoreE still.always_whenE still.always_catchE
  still.always_if still.always_case_option still.always_case_sum still.always_case_prod
  still_checks still_queries still_statements still_Record

lemma still_services:
  "always (on_db keys_still) (password_Change lib fresh rnd cp)" "always (on_db keys_still) (ResetTenantAdmin lib fresh pw rnd rt)"
  "always (on_db keys_still) (tenant_Create lib fresh rnd ct)" "always (on_db keys_still) (tenant_Rename lib fresh rn)"
  "always (on_db keys_still) (status_change lib fresh ss)" "always (on_db keys_still) (instance_Create lib fresh ci)"
  "always (on_db keys_still) (instance_Rename lib fresh ri)" "always (on_db keys_still) (Login lib s fresh li)"
  "always (on_db keys_still) RefreshActiveKeyGauge"
  unfolding password_Change_def ResetTenantAdmin_def tenant_Create_def tenant_Rename_def status_change_def
    instance_Create_def instance_Rename_def Login_def registerFailedAttempt_def in_tx_def in_tx_raw_def Let_def
    RefreshActiveKeyGauge_def
  by (intro still_intros)+

lemma still_bootstrap: "always (on_db keys_still) (bootstrap_Run lib fresh rnd creds)"
proof -
  have exit: "always (on_db keys_still) (case e of NothingToDo \<Rightarrow> ret () | BootFailed x \<Rightarrow> throw x)" for e
    by (cases e) (simp_all add: still.always_ret still.always_throw)
  show ?thesis unfolding bootstrap_Run_def bootstrap_body_def Let_def by (intro still_intros exit)
qed

subsection \<open>Steps that move the registry\<close>

definition registry_moves :: "(registry \<Rightarrow> registry \<Rightarrow> bool) \<Rightarrow> database \<Rightarrow> database \<Rightarrow> bool" where
  "registry_moves Q d d' \<longleftrightarrow> (accounts_ok d \<longrightarrow> registry d' = registry d \<or> Q (registry d) (registry d'))"

lemma still_registry: "keys_still d d' \<Longrightarrow> registry d' = registry d"
  by (simp add: keys_still_def registry_def)

lemma moves_still: "always (on_db keys_still) m \<Longrightarrow> always (on_db (registry_moves Q)) m"
  by (auto simp: always_def on_db_def registry_moves_def dest: still_registry)

lemma moves_after:
  assumes "always (on_db keys_still) m" and "always (on_db keeps_accounts) m" and "\<And>x. always (on_db (registry_moves Q)) (k x)"
  shows "always (on_db (registry_moves Q)) (bindE m k)"
proof (rule alwaysI)
  fix w
  obtain r w1 where m: "m w = (r, w1)" by (cases "m w")
  with assms(1,2) have "keys_still (db w) (db w1)" and keep: "keeps_accounts (db w) (db w1)"
    by (auto simp: on_db_def dest: always_eqD)
  then have reg: "registry (db w1) = registry (db w)" by (intro still_registry)
  have "registry_moves Q (db w1) (db (snd (k x w1)))" for x using alwaysD [OF assms(3), of w1 x] by (simp add: on_db_def)
  with m reg keep show "on_db (registry_moves Q) w (snd (bindE m k w))"
    by (auto simp: bindE_def on_db_def registry_moves_def keeps_accounts_def split: sum.split)
qed

lemma moves_before:
  assumes "always (on_db (registry_moves Q)) m" and "\<And>x. always (on_db keys_still) (k x)"
  shows "always (on_db (registry_moves Q)) (bindE m k)"
proof (rule alwaysI)
  fix w
  obtain r w1 where m: "m w = (r, w1)" by (cases "m w")
  with assms(1) have "registry_moves Q (db w) (db w1)" by (auto simp: on_db_def dest: always_eqD)
  moreover have "registry (db (snd (k x w1))) = registry (db w1)" for x
    using alwaysD [OF assms(2), of w1 x] by (intro still_registry) (simp add: on_db_def)
  ultimately show "on_db (registry_moves Q) w (snd (bindE m k w))"
    using m by (auto simp: bindE_def on_db_def registry_moves_def split: sum.split)
qed

lemma moves_tx: "always (on_db (registry_moves Q)) body \<Longrightarrow> always (on_db (registry_moves Q)) (transaction b c body)"
  by (rule always_transaction) (simp add: registry_moves_def)

lemma moves_wrapE: "always (on_db (registry_moves Q)) m \<Longrightarrow> always (on_db (registry_moves Q)) (wrapE f m)"
  by (simp add: always_def wrapE_def split_beta split: sum.split)

lemma moves_key_statement:
  assumes "\<And>t d r d'. accounts_ok d \<Longrightarrow> q t d = (r, d') \<Longrightarrow> registry d' = registry d \<or> Q (registry d) (registry d')"
  shows "always (on_db (registry_moves Q)) (run_statement q)"
proof (rule always_on_db)
  fix t d
  show "registry_moves Q d (snd (q t d))" using assms by (cases "q t d") (auto simp: registry_moves_def)
qed (simp add: registry_moves_def)

lemma registry_free: "\<forall>k \<in> set (api_keys d). key_secret_hash k \<noteq> h \<Longrightarrow> registry d h = None"
  by (auto simp: registry_def by_key_None)

lemma registry_issued:
  assumes "\<not> (\<exists>r \<in> set (api_keys d). key_secret_hash r = key_secret_hash k)"
  shows "registry (d\<lparr>api_keys := api_keys d @ [k]\<rparr>) = (registry d)(key_secret_hash k \<mapsto> key_entry k)"
proof -
  from assms have "by_key key_secret_hash (key_secret_hash k) (api_keys d) = None" by (auto simp: by_key_None)
  then show "registry (d\<lparr>api_keys := api_keys d @ [k]\<rparr>) = (registry d)(key_secret_hash k \<mapsto> key_entry k)"
    by (auto simp: registry_def by_key_append fun_eq_iff split: option.split)
qed

lemma moves_CreateAPIKey:
  "always (on_db (registry_moves (\<lambda>R R'. R h = None \<and> R' = R(h \<mapsto> (i, True))))) (CreateAPIKey k i l kp h)"
  unfolding CreateAPIKey_def
  by (rule moves_key_statement) (auto simp: Let_def registry_issued registry_free key_entry_def split: if_splits)

lemma registry_revoked:
  assumes "accounts_ok d" and k: "k \<in> set (api_keys d)" and "hit = (\<lambda>r. k_ID (key_meta r) = k_ID (key_meta k) \<and> c r)" and "hit k"
  shows "registry (d\<lparr>api_keys := update_where hit (\<lambda>k. k\<lparr>key_meta := revoked t (key_meta k)\<rparr>) (api_keys d)\<rparr>) =
      (registry d)(key_secret_hash k \<mapsto> (k_InstanceID (key_meta k), False))"
    and "registry d (key_secret_hash k) = Some (key_entry k)"
proof -
  have distinct: "distinct (map key_secret_hash (api_keys d))" and ids: "distinct (map (\<lambda>k. k_ID (key_meta k)) (api_keys d))"
    using assms(1) by (simp_all add: accounts_defs)
  have found: "by_key key_secret_hash (key_secret_hash k) (api_keys d) = Some k" using distinct k by (rule by_key_distinct)
  then show "registry d (key_secret_hash k) = Some (key_entry k)" by (simp add: registry_def)
  have other: "\<not> hit r" if "by_key key_secret_hash h (api_keys d) = Some r" "h \<noteq> key_secret_hash k" for h r
  proof
    assume "hit r"
    moreover from that have r: "r \<in> set (api_keys d)" "key_secret_hash r = h" by (auto dest: by_key_Some)
    ultimately have "k_ID (key_meta r) = k_ID (key_meta k)" by (simp add: assms(3))
    with ids k r(1) have "r = k" by (meson distinct_map inj_on_contraD)
    with r(2) that(2) show False by simp
  qed
  show "registry (d\<lparr>api_keys := update_where hit (\<lambda>k. k\<lparr>key_meta := revoked t (key_meta k)\<rparr>) (api_keys d)\<rparr>) =
      (registry d)(key_secret_hash k \<mapsto> (k_InstanceID (key_meta k), False))"
  proof
    fix h
    show "registry (d\<lparr>api_keys := update_where hit (\<lambda>k. k\<lparr>key_meta := revoked t (key_meta k)\<rparr>) (api_keys d)\<rparr>) h =
        ((registry d)(key_secret_hash k \<mapsto> (k_InstanceID (key_meta k), False))) h"
      using assms(4) found other [of h]
      by (cases "h = key_secret_hash k"; cases "by_key key_secret_hash h (api_keys d)")
        (simp_all add: registry_def by_key_update_where key_entry_def revoked_def)
  qed
qed

lemma moves_RevokeAPIKey:
  "always (on_db (registry_moves (\<lambda>R R'. \<exists>h active. R h = Some (i, active) \<and> R' = R(h \<mapsto> (i, False))))) (RevokeAPIKey k i tenant)"
  unfolding RevokeAPIKey_def
proof (rule moves_key_statement)
  fix t d r d'
  let ?hit = "\<lambda>r. k_ID (key_meta r) = k \<and> k_InstanceID (key_meta r) = i \<and> tenant_owns d tenant i"
  assume ok: "accounts_ok d" and run: "(let hit = ?hit in case first_where hit (api_keys d) of
       None \<Rightarrow> (Inl ErrNoRows, d)
     | Some k \<Rightarrow> (Inr (revoked t (key_meta k)),
         d\<lparr>api_keys := update_where hit (\<lambda>k. k\<lparr>key_meta := revoked t (key_meta k)\<rparr>) (api_keys d)\<rparr>)) = (r, d')"
  show "registry d' = registry d \<or> (\<exists>h active. registry d h = Some (i, active) \<and> registry d' = (registry d)(h \<mapsto> (i, False)))"
  proof (cases "first_where ?hit (api_keys d)")
    case (Some r')
    then have hit: "r' \<in> set (api_keys d)" "?hit r'" by (auto dest: first_where_Some)
    note revoke = registry_revoked [OF ok hit(1), where hit = ?hit and c = "\<lambda>r. k_InstanceID (key_meta r) = i \<and> tenant_owns d tenant i"]
    from run Some revoke(1) [where t = t] revoke(2) hit show ?thesis
      by (auto simp: Let_def key_entry_def intro!: exI [of _ "key_secret_hash r'"])
  qed (use run in \<open>simp add: Let_def\<close>)
qed

lemma registry_forget:
  assumes "accounts_ok d"
  shows "registry (d\<lparr>api_keys := filter (\<lambda>k. \<not> gone (k_InstanceID (key_meta k))) (api_keys d)\<rparr>) = forget gone (registry d)"
  using assms by (auto simp: accounts_defs registry_def forget_def by_key_filter key_entry_def fun_eq_iff split: option.split)

lemma moves_deletions:
  "always (on_db (registry_moves (\<lambda>R R'. R' = forget (\<lambda>j. j = i) R))) (DeleteInstance i tenant)"
  "always (on_db (registry_moves (\<lambda>R R'. \<exists>owned. R' = forget owned R))) (DeleteTenantByID tenant)"
proof -
  have reg: "registry d' = forget gone (registry d)"
    if "accounts_ok d" "api_keys d' = filter (\<lambda>k. \<not> gone (k_InstanceID (key_meta k))) (api_keys d)" for d d' gone
    using registry_forget [OF that(1), of gone] that(2) by (simp add: registry_def)
  show "always (on_db (registry_moves (\<lambda>R R'. R' = forget (\<lambda>j. j = i) R))) (DeleteInstance i tenant)"
    unfolding DeleteInstance_def
    by (rule moves_key_statement) (auto intro!: reg simp: drop_instances_def split: option.splits if_splits)
  show "always (on_db (registry_moves (\<lambda>R R'. \<exists>owned. R' = forget owned R))) (DeleteTenantByID tenant)"
    unfolding DeleteTenantByID_def
    by (rule moves_key_statement) (auto intro!: exI reg simp: drop_instances_def drop_tenant_def split: option.splits)
qed

lemmas moves_key_steps = moves_tx moves_after moves_before moves_still moves_wrapE

lemma moves_key_Create:
  "always (on_db (registry_moves (\<lambda>R R'. \<exists>g. GenerateAPIKey (al_sha256 lib) rnd = Some g \<and> R (g_Hash g) = None \<and>
     R' = R(g_Hash g \<mapsto> (ck_InstanceID inp, True))))) (key_Create lib fresh rnd inp)"
proof (cases "GenerateAPIKey (al_sha256 lib) rnd")
  case None
  have "always (on_db keys_still) (key_Create lib fresh rnd inp)"
    unfolding key_Create_def Let_def None option.case by (intro still_intros)
  then show ?thesis by (rule moves_still)
next
  case (Some g)
  let ?Q = "\<lambda>R R'. R (g_Hash g) = None \<and> R' = R(g_Hash g \<mapsto> (ck_InstanceID inp, True))"
  have "always (on_db (registry_moves ?Q)) (key_Create lib fresh rnd inp)"
    unfolding key_Create_def Let_def Some option.case in_tx_def
    by (intro moves_after still_checks accounts_checks still.always_wrapE accounts.always_wrapE still_queries accounts_queries
      moves_before moves_tx moves_wrapE moves_CreateAPIKey still.always_bindE still_services still.always_ret still_Record)
  then show ?thesis using Some by simp
qed

lemma moves_key_Revoke:
  "always (on_db (registry_moves (\<lambda>R R'. \<exists>h active. R h = Some (rk_InstanceID inp, active) \<and>
     R' = R(h \<mapsto> (rk_InstanceID inp, False))))) (key_Revoke lib fresh inp)"
  unfolding key_Revoke_def in_tx_def
  by (intro moves_before moves_tx moves_wrapE moves_RevokeAPIKey still_services still_Record)

lemma moves_removals:
  "always (on_db (registry_moves (\<lambda>R R'. R' = forget (\<lambda>i. i = di_InstanceID inp) R))) (remove_instance lib fresh inp)"
  "always (on_db (registry_moves (\<lambda>R R'. \<exists>owned. R' = forget owned R))) (tenant_Delete lib fresh dt)"
proof -
  show "always (on_db (registry_moves (\<lambda>R R'. R' = forget (\<lambda>i. i = di_InstanceID inp) R))) (remove_instance lib fresh inp)"
    unfolding remove_instance_def in_tx_def
    by (intro moves_tx moves_after still.always_wrapE accounts.always_wrapE still_queries accounts_queries
      moves_before moves_wrapE moves_deletions still_Record)
  have refuse: "always (on_db (registry_moves Q)) (if b then throw e else m)"
    if "always (on_db (registry_moves Q)) m" for Q b e and m :: "('z world_scheme, go_error, unit) io"
    using that by (simp add: moves_still [OF still.always_throw])
  show "always (on_db (registry_moves (\<lambda>R R'. \<exists>owned. R' = forget owned R))) (tenant_Delete lib fresh dt)"
    unfolding tenant_Delete_def in_tx_raw_def
    by (intro moves_tx moves_after still.always_wrapE accounts.always_wrapE still_queries accounts_queries refuse
      moves_before moves_wrapE moves_deletions still_Record)
qed

lemma registry_moves_do:
  "always (on_db (registry_moves Q)) m \<Longrightarrow> accounts_ok (db w) \<Longrightarrow>
   registry (db (snd (m w))) = registry (db w) \<or> Q (registry (db w)) (registry (db (snd (m w))))"
  by (simp add: always_def on_db_def registry_moves_def)

lemma registry_still_do: "always (on_db keys_still) m \<Longrightarrow> registry (db (snd (m w))) = registry (db w)"
  by (simp add: always_def on_db_def still_registry)

lemma registry_view: "account_view d' = account_view d \<Longrightarrow> registry d' = registry d"
  by (simp add: account_view_def registry_def)

interpretation key_registry:
  forward_simulation "\<lambda>w. accounts_ok (db w)" "\<lambda>w. registry (db w)" "account_step lib" "registry_spec lib" for lib
proof
  fix w w' :: "'z world_scheme" and l
  assume ok: "accounts_ok (db w)" and step: "account_step lib l w w'"
  show "accounts_ok (db w')"
  proof (cases l)
    case None
    with step have "account_view (db w') = account_view (db w)" by (simp add: account_step_def)
    then show ?thesis using ok by (rule accounts_ok_view)
  qed (use step ok in \<open>simp add: account_step_def accounts_action\<close>)
  show "registry_spec lib l (registry (db w)) (registry (db w'))"
  proof (cases l)
    case None
    with step have "registry (db w') = registry (db w)" by (intro registry_view) (simp add: account_step_def)
    with None show ?thesis by simp
  next
    case (Some action)
    with step have "w' = do_account lib action w" by (simp add: account_step_def)
    with ok Some registry_moves_do [OF moves_key_Create ok] registry_moves_do [OF moves_key_Revoke ok]
      registry_moves_do [OF moves_removals(1) ok] registry_moves_do [OF moves_removals(2) ok]
    show ?thesis
      by (cases action) (simp_all add: registry_still_do still_services still_bootstrap)
  qed
qed

text \<open>
  C9. The key operations implement the abstract registry: along every history of the services, with any
  lost calls and anything the rest of the system does in between, the map from key hashes to instances
  and activity that the tables represent only makes the moves the specification allows to the
  operations of that history.
\<close>

theorem key_operations_refine_registry:
  assumes "account_history lib allowed w w'" and "accounts_ok (db w)"
  shows "runs (registry_spec lib) (case_option True allowed) (registry (db w)) (registry (db w'))"
  using key_registry.run_refines [OF history_runs [OF assms(1)]] assms(2) by blast

theorem key_operations_refine_registry_witness:
  "runs (registry_spec demo_lib) (case_option True (\<lambda>_. True)) (registry (db demo_office))
     (registry (db (do_account demo_lib (DoRevokeKey (\<lambda>n. n) demo_revoke) demo_office)))"
proof -
  have "account_history demo_lib (\<lambda>_. True) demo_office (do_account demo_lib (DoRevokeKey (\<lambda>n. n) demo_revoke) demo_office)"
    by (intro account_history.account account_history.start TrueI)
  then show ?thesis using demo_office_ok by (rule key_operations_refine_registry)
qed

subsection \<open>Revocation\<close>

lemma transaction_Inr:
  assumes "transaction b c body w = (Inr x, w')"
  obtains fs fs' w1 where "body (w\<lparr>faults := fs\<rparr>) = (Inr x, w1)" and "w' = w1\<lparr>faults := fs'\<rparr>"
  using assms by (cases rule: transaction_cases [of b c body w]) auto

definition shut_out :: "string \<Rightarrow> registry \<Rightarrow> bool" where
  "shut_out h R \<longleftrightarrow> (\<forall>i. R h \<noteq> Some (i, True))"

lemma key_Revoke_shuts_out:
  fixes w :: "'z world_scheme"
  assumes ok: "accounts_ok (db w)" and k: "k \<in> set (api_keys (db w))" "k_ID (key_meta k) = rk_KeyID inp"
    and run: "key_Revoke lib fresh inp w = (Inr (), w')"
  shows "shut_out (key_secret_hash k) (registry (db w'))"
proof -
  from run [unfolded key_Revoke_def] obtain x w1 where tx: "in_tx lib
       (bindE (wrapE (or_not_found lib) (RevokeAPIKey (rk_KeyID inp) (rk_InstanceID inp) (rk_TenantID inp))) (\<lambda>key.
        record_or_fail lib (fresh 0) (audit EventAPIKeyRevoked (Some (rk_ActorID inp)) TargetAPIKey
          (Some (k_ID key)) ResultSuccess (rk_SourceIP inp)
          [(''key_prefix'', JStr (k_KeyPrefix key)), (''instance_id'', JStr (id_String (al_ids lib) (rk_InstanceID inp)))]))) w = (Inr x, w1)"
    and gauge: "(RefreshActiveKeyGauge :: ('z world_scheme, go_error, unit) io) w1 = (Inr (), w')"
    by (rule bind_Inr)
  from tx [unfolded in_tx_def] obtain fs fs' key w2 w3 where
    revoke: "RevokeAPIKey (rk_KeyID inp) (rk_InstanceID inp) (rk_TenantID inp) (w\<lparr>faults := fs\<rparr>) = (Inr key, w2)"
    and rec: "record_or_fail lib (fresh 0) (audit EventAPIKeyRevoked (Some (rk_ActorID inp)) TargetAPIKey
          (Some (k_ID key)) ResultSuccess (rk_SourceIP inp)
          [(''key_prefix'', JStr (k_KeyPrefix key)), (''instance_id'', JStr (id_String (al_ids lib) (rk_InstanceID inp)))]) w2 = (Inr x, w3)"
    and w1: "w1 = w3\<lparr>faults := fs'\<rparr>"
    by (auto elim!: transaction_Inr bind_Inr dest!: wrap_Inr)
  have same: "registry (db w') = registry (db w2)"
    using always_eqD [OF still_services(9) gauge] always_eqD [OF still_Record(2) rec] w1
    by (simp add: on_db_def keys_still_def registry_def)
  let ?hit = "\<lambda>r. k_ID (key_meta r) = k_ID (key_meta k) \<and> k_InstanceID (key_meta r) = rk_InstanceID inp \<and>
      tenant_owns (db w) (rk_TenantID inp) (rk_InstanceID inp)"
  from revoke obtain r where hit: "first_where ?hit (api_keys (db w)) = Some r" and d: "db w2 = (db w)\<lparr>api_keys :=
      update_where ?hit (\<lambda>k. k\<lparr>key_meta := revoked (now w) (key_meta k)\<rparr>) (api_keys (db w))\<rparr>"
    unfolding RevokeAPIKey_def k(2) by (auto elim!: run_statement_Inr simp: Let_def split: option.splits)
  have r: "r \<in> set (api_keys (db w))" "?hit r" using first_where_Some [OF hit] by auto
  then have "r = k" using ok k(1) by (auto simp: accounts_defs distinct_map dest: inj_onD)
  with r registry_revoked(1) [OF ok k(1), of ?hit "\<lambda>r. k_InstanceID (key_meta r) = rk_InstanceID inp \<and>
      tenant_owns (db w) (rk_TenantID inp) (rk_InstanceID inp)" "now w"] d
  have "registry (db w2) = (registry (db w))(key_secret_hash k \<mapsto> (k_InstanceID (key_meta k), False))" by auto
  with same show ?thesis by (simp add: shut_out_def)
qed

definition never_reissued :: "account_lib \<Rightarrow> string \<Rightarrow> account_op \<Rightarrow> bool" where
  "never_reissued lib h action = (case action of
       DoCreateKey _ rnd _ \<Rightarrow> (case GenerateAPIKey (al_sha256 lib) rnd of None \<Rightarrow> True | Some g \<Rightarrow> g_Hash g \<noteq> h)
     | _ \<Rightarrow> True)"

lemma shut_out_step:
  assumes "registry_spec lib l R R'" and "case_option True (never_reissued lib h) l" and "shut_out h R"
  shows "shut_out h R'"
proof (cases l)
  case (Some action)
  with assms show ?thesis
    by (cases action) (auto simp: shut_out_def never_reissued_def forget_def split: option.splits if_splits)
qed (use assms in simp)

lemma shut_out_gates:
  assumes "shut_out (al_sha256 lib secret) (registry (db w))" and "HasPrefix secret APIKeyPrefix"
  shows "rq_APIKey rq = secret \<Longrightarrow> fst (connection_Authenticate lib issuer rq cx w) = Inl bad_key"
    and "\<exists>e w'. Authorize lib issuer secret i w = (Inl e, w')"
proof -
  have inactive: "ka_KeyStatus row \<noteq> APIKeyActive" if got: "GetKeyForAuth (al_sha256 lib secret) w = (Inr row, w')" for row w'
  proof -
    have "key_for_auth (db w) (al_sha256 lib secret) = Some row" using select_one_Inr(1) [OF got [unfolded GetKeyForAuth_def]] .
    with assms(1) show ?thesis
      by (auto simp: key_for_auth_def shut_out_def registry_def key_entry_def bind_eq_Some_conv)
  qed
  have nonempty: "secret \<noteq> []" using assms(2) by (auto simp: HasPrefix_def APIKeyPrefix_def)
  obtain res w1 where got: "GetKeyForAuth (al_sha256 lib secret) w = (res, w1)" by (cases "GetKeyForAuth (al_sha256 lib secret) w")
  show "fst (connection_Authenticate lib issuer rq cx w) = Inl bad_key" if "rq_APIKey rq = secret"
    using nonempty got inactive that
    by (cases res) (simp_all add: connection_Authenticate_def key_Authenticate_def bindE_def wrapE_def throw_def)
  show "\<exists>e w'. Authorize lib issuer secret i w = (Inl e, w')"
    using got inactive assms(2) by (cases res) (simp_all add: Authorize_def authorizeKey_def bindE_def wrapE_def throw_def)
qed

text \<open>
  C8. Revocation is final. Once an instance key was revoked, then whatever the account services do
  afterwards, short of drawing the same secret again, every request that carries the secret is refused
  by the connection gate with the answer for an invalid key, and a socket that was opened with it is
  closed as revoked at its next revalidation, whatever was queued behind.
\<close>

theorem revocation_is_final:
  assumes "accounts_ok (db w)" and "k \<in> set (api_keys (db w))" "k_ID (key_meta k) = rk_KeyID inp"
    and secret: "key_secret_hash k = al_sha256 lib secret" "HasPrefix secret APIKeyPrefix"
    and revoke: "key_Revoke lib fresh inp w = (Inr (), w1)"
    and history: "account_history lib (never_reissued lib (al_sha256 lib secret)) w1 w2"
    and "rq_APIKey rq = secret"
  shows "fst (connection_Authenticate lib issuer rq cx w2) = Inl bad_key \<and>
    (\<exists>w'. stream_loop (Authorize lib issuer secret i) ((\<lambda>_. w2, RevalidateTick) # queued) lastSeq w0 =
      ([], Closed CloseRevoked ''credential revoked'', w'))"
proof -
  have "accounts_ok (db w1)" using accounts_services(11) [of lib fresh inp] assms(1) revoke accounts_do by (metis snd_conv)
  moreover have "shut_out (al_sha256 lib secret) (registry (db w1))"
    using key_Revoke_shuts_out [OF assms(1-3) revoke] secret(1) by simp
  ultimately have "shut_out (al_sha256 lib secret) (registry (db w2))"
    by (rule key_registry.run_keeps [OF history_runs [OF history], where P = "shut_out (al_sha256 lib secret)"])
      (rule shut_out_step)
  note gates = shut_out_gates [OF this secret(2)]
  from gates(2) obtain e w' where "Authorize lib issuer secret i w2 = (Inl e, w')" by blast
  with gates(1) [OF assms(8)] show ?thesis by (simp add: Let_def)
qed

theorem revocation_is_final_witness:
  "fst (connection_Authenticate demo_lib demo_issuer demo_request no_context
     (do_account demo_lib (DoRevokeKey (\<lambda>n. n) demo_revoke) demo_office)) = Inl bad_key"
proof -
  let ?w = "do_account demo_lib (DoRevokeKey (\<lambda>n. n) demo_revoke) demo_office"
  have "fst (key_Revoke demo_lib (\<lambda>n. n) demo_revoke demo_office) = Inr ()"
    by (simp add: key_Revoke_def in_tx_def transaction_def next_outcome_def bindE_def wrapE_def run_statement_ok demo_office_defs
      demo_revoke_def RevokeAPIKey_def first_where_def tenant_owns_def record_or_fail_def Record_def InsertSecurityEvent_def
      RefreshActiveKeyGauge_def ignoreE_def)
  then have run: "key_Revoke demo_lib (\<lambda>n. n) demo_revoke demo_office = (Inr (), ?w)" by (simp add: prod_eq_iff)
  have "account_history demo_lib (never_reissued demo_lib (al_sha256 demo_lib ''zmk_abcdefghijk'')) ?w ?w"
    by (rule account_history.start)
  from revocation_is_final [OF demo_office_ok _ _ _ _ run this, of demo_key demo_request] show ?thesis
    by (auto simp: demo_office_defs demo_revoke_def demo_lib_def HasPrefix_def APIKeyPrefix_def demo_request_def)
qed

end
