(* ===== verification/Route_Facts.thy ===== *)
theory Route_Facts
  imports Routes Key_Registry
begin

text \<open>
  What holds of every request, whichever operation it is for: a reply needs a live credential for its
  plane, tenants are isolated from each other, the status of a reply is the declared one, and which
  operations a browser may call.
\<close>

subsection \<open>From an outcome back to gate and handler\<close>

lemma serve_Reply:
  assumes "serve d dr operation rq cx w = (Reply r, w')"
  obtains cx1 w1 h where "gates d (group_of operation) rq cx w = (Inr cx1, w1)" and "handler d dr cx1 operation = Some h"
    and "h w1 = (Inr r, w')"
proof -
  from assms have "bindE (wrapE DomainError (gates d (group_of operation) rq cx)) (\<lambda>cx'.
          case handler d dr cx' operation of None \<Rightarrow> ret None | Some h \<Rightarrow> bindE h (\<lambda>r. ret (Some r))) w = (Inr (Some r), w')"
    by (auto simp: serve_def split: if_splits prod.splits sum.splits option.splits)
  then obtain cx1 w1 where gate: "wrapE DomainError (gates d (group_of operation) rq cx) w = (Inr cx1, w1)"
    and rest: "(case handler d dr cx1 operation of None \<Rightarrow> ret None | Some h \<Rightarrow> bindE h (\<lambda>r. ret (Some r))) w1 = (Inr (Some r), w')"
    by (rule bind_Inr)
  from rest obtain h where "handler d dr cx1 operation = Some h" and "h w1 = (Inr r, w')"
    by (auto simp: ret_def elim!: bind_Inr split: option.splits)
  with wrap_Inr [OF gate] show thesis by (rule that)
qed

lemma Limit_Inr: "Limit allow keyFor cx w = (Inr cx', w') \<Longrightarrow> cx' = cx"
  by (auto simp: Limit_def ret_def throw_def bindE_def attempt_def split: option.splits sum.splits if_splits prod.splits)

subsection \<open>Credentials\<close>

text \<open>What a context certifies, plane by plane.\<close>

definition live_token :: "TokenIssuer \<Rightarrow> Audience option \<Rightarrow> Request \<Rightarrow> gotime \<Rightarrow> database \<Rightarrow> bool" where
  "live_token issuer want rq t d \<longleftrightarrow> (\<exists>raw tok row. bearerToken (rq_Authorization rq) = Some raw \<and>
     token_Parse issuer t raw = Some tok \<and> (want = None \<or> want = Some (c_Audience tok)) \<and>
     user_of d (c_Subject tok) = Some row \<and> \<not> TokenPredatesPasswordChange (usr_user row) (c_IssuedAt tok) \<and>
     (want \<noteq> None \<longrightarrow> \<not> u_MustChangePassword (usr_user row)) \<and>
     tenantStatusOf (joined_status d (usr_user row)) = TenantActive)"

definition live_key :: "account_lib \<Rightarrow> Request \<Rightarrow> database \<Rightarrow> bool" where
  "live_key lib rq d \<longleftrightarrow> (\<exists>row. key_for_auth d (al_sha256 lib (rq_APIKey rq)) = Some row \<and> ka_KeyStatus row = APIKeyActive \<and>
     parseUUID (al_ids lib) (rq_InstanceParam rq) = Some (ka_InstanceID row) \<and> ka_TenantStatus row = TenantActive)"

definition authorised :: "'z RouteDeps \<Rightarrow> group \<Rightarrow> Request \<Rightarrow> gotime \<Rightarrow> database \<Rightarrow> bool" where
  "authorised d g rq t dat = (let lib = rd_lib d; issuer = as_issuer (rd_auth d) in case g of
       Unguarded \<Rightarrow> True
     | Public \<Rightarrow> True
     | PlatformGroup \<Rightarrow> live_token issuer (Some AudiencePlatform) rq t dat
     | AnyAudienceGroup \<Rightarrow> live_token issuer None rq t dat
     | TenantGroup \<Rightarrow> live_token issuer (Some AudienceTenant) rq t dat
     | OperationalGroup \<Rightarrow> live_key lib rq dat
     | ConnectionGroup \<Rightarrow> (\<exists>cx. admitted lib issuer rq t dat cx))"

lemma authenticate_live:
  assumes "authenticate issuer want enforce rq cx w = (Inr cx', w')" and "enforce \<longleftrightarrow> want \<noteq> None"
  shows "live_token issuer want rq (now w) (db w)"
  using assms(1) by (rule authenticate_Inr) (use assms(2) in \<open>auto simp: live_token_def\<close>)

lemma gates_authorise:
  assumes "accounts_ok (db w)" and "gates d g rq cx w = (Inr cx', w')"
  shows "authorised d g rq (now w) (db w)"
proof (cases g)
  case OperationalGroup
  with assms(2) obtain cx1 w1 where "key_Authenticate (rd_lib d) rq cx w = (Inr cx1, w1)"
    by (auto simp: gates_def Let_def elim: bind_Inr)
  then show ?thesis
    by (rule key_Authenticate_Inr) (auto simp: OperationalGroup authorised_def live_key_def Let_def)
next
  case ConnectionGroup
  with assms(2) obtain cx1 w1 where "connection_Authenticate (rd_lib d) (as_issuer (rd_auth d)) rq cx w = (Inr cx1, w1)"
    by (auto simp: gates_def Let_def elim: bind_Inr)
  then have "admitted (rd_lib d) (as_issuer (rd_auth d)) rq (now w) (db w) cx1"
    using assms(1) key_admission admin_admission by blast
  then show ?thesis by (auto simp: ConnectionGroup authorised_def Let_def)
qed (use assms(2) in \<open>auto simp: gates_def authorised_def Let_def auth_Platform_def auth_Tenant_def auth_AnyAudience_def
  intro: authenticate_live\<close>)

text \<open>
  C22. No reply without a live credential. Whatever operation is requested, an answer other than a problem
  document is given only to a request that carries what its plane asks for at that moment: an unexpired
  token for the right plane, newer than the last password change, of a user without a pending change
  whose tenant is active; an active key of exactly the instance in the URL; or, on the connection plane,
  one of the two for that instance. A request with no credential at all is answered with 401 and changes
  nothing. Only the login and the health check are open.
\<close>

theorem replies_need_live_credentials:
  assumes "accounts_ok (db w)" and "serve d dr operation rq cx w = (out, w')"
  shows "(\<forall>r. out = Reply r \<longrightarrow> authorised d (group_of operation) rq (now w) (db w)) \<and>
    (group_of operation \<noteq> Unguarded \<and> group_of operation \<noteq> Public \<and> rq_Authorization rq = [] \<and> rq_APIKey rq = [] \<longrightarrow>
       w' = w \<and> (out = NotMounted \<or> (\<exists>p. out = Problem p \<and> p_Status p = 401)))"
proof (intro conjI allI impI)
  fix r assume "out = Reply r"
  with assms(2) have "serve d dr operation rq cx w = (Reply r, w')" by simp
  then show "authorised d (group_of operation) rq (now w) (db w)"
    by (rule serve_Reply) (rule gates_authorise [OF assms(1)])
next
  assume bare: "group_of operation \<noteq> Unguarded \<and> group_of operation \<noteq> Public \<and> rq_Authorization rq = [] \<and> rq_APIKey rq = []"
  then obtain msg where "gates d (group_of operation) rq cx w = (Inl (ErrUnauthenticated msg), w)"
    by (cases "group_of operation") (auto simp: gates_def Let_def auth_Platform_def auth_Tenant_def auth_AnyAudience_def
      authenticate_def bearerToken_def key_Authenticate_def connection_Authenticate_def throw_def bindE_def)
  then have "serve d dr operation rq cx w = (NotMounted, w) \<or>
      serve d dr operation rq cx w = (Problem (From (now w) (DomainError (ErrUnauthenticated msg))), w)"
    by (simp add: serve_def bindE_def wrapE_def)
  moreover have "p_Status (From t (DomainError (ErrUnauthenticated msg))) = 401" for t
    by (simp add: From_def newProblem_def ErrUnauthenticated_def plain_error_def)
  ultimately show "w' = w" "out = NotMounted \<or> (\<exists>p. out = Problem p \<and> p_Status p = 401)" using assms(2) by auto
qed

text \<open>The small deployment behind its routes, without a session plane.\<close>

definition demo_deps :: "unit RouteDeps" where
  "demo_deps = \<lparr>rd_lib = demo_lib, rd_auth = demo_auth, rd_sessions = None, rd_loginLimiter = (\<lambda>_. ret 1),
     rd_operationalLimiter = (\<lambda>_. ret 1), rd_connectionLimiter = (\<lambda>_. ret 1)\<rparr>"

definition demo_draws :: Draws where
  "demo_draws = \<lparr>dr_ids = (\<lambda>n. 40 + n), dr_password = Some (replicate 18 CHR ''p''), dr_bytes = Some (replicate 32 CHR ''b'')\<rparr>"

definition demo_http :: api_world where
  "demo_http = \<lparr>db = demo_accounts, now = 100 * second, faults = [], redis = demo_redis, conns = []\<rparr>"

lemma demo_http_ok: "accounts_ok (db demo_http)"
  using demo_office_ok by (simp add: demo_http_def demo_office_def)

lemma demo_whoami: "\<exists>data. serve demo_deps demo_draws OpWhoami demo_request no_context demo_http = (Reply (Enveloped 200 data (100 * second)), demo_http)"
proof -
  have "parseUUID demo_uuids ''7'' = Some 7" by (simp add: demo_uuids_def) code_simp
  then have "key_Authenticate demo_lib demo_request no_context demo_http = (Inr (WithInstanceID 7 (WithTenantID 3 (WithOperator
      \<lparr>op_InstanceID = 7, op_TenantID = 3, op_InstanceName = ''shop'', op_InstanceState = InstanceRegistered, op_KeyID = 9,
       op_KeyPrefix = ''zmk_abcdefgh'', op_KeyLabel = None\<rparr> no_context))), demo_http)"
    by (simp add: key_Authenticate_def bindE_def wrapE_def ret_def GetKeyForAuth_def run_statement_ok select_one_def key_for_auth_def
      instance_of_def tenant_of_def demo_request_def demo_lib_def demo_http_def demo_office_defs operator_of_def)
  then show ?thesis
    by (simp add: serve_def gates_def Let_def demo_deps_def bindE_def wrapE_def Limit_def operational_key_def context_defs attempt_def
      ret_def handler_def account_handler_def WhoamiHandler_whoami_def OK_def Respond_def getsE_def demo_http_def)
qed

theorem replies_need_live_credentials_witness:
  "authorised demo_deps OperationalGroup demo_request (now demo_http) (db demo_http) \<and>
   (\<exists>p. serve demo_deps demo_draws OpListTenants \<lparr>rq_Authorization = [], rq_APIKey = [], rq_InstanceParam = []\<rparr> no_context demo_http =
      (Problem p, demo_http) \<and> p_Status p = 401)"
proof
  obtain data where "serve demo_deps demo_draws OpWhoami demo_request no_context demo_http =
      (Reply (Enveloped 200 data (100 * second)), demo_http)"
    using demo_whoami by blast
  from replies_need_live_credentials [OF demo_http_ok this]
  show "authorised demo_deps OperationalGroup demo_request (now demo_http) (db demo_http)" by simp
  let ?rq = "\<lparr>rq_Authorization = [], rq_APIKey = [], rq_InstanceParam = []\<rparr>"
  obtain out w' where run: "serve demo_deps demo_draws OpListTenants ?rq no_context demo_http = (out, w')"
    by (cases "serve demo_deps demo_draws OpListTenants ?rq no_context demo_http")
  have "out \<noteq> NotMounted"
    using run by (auto simp: serve_def gates_def Let_def auth_Platform_def authenticate_def bearerToken_def throw_def bindE_def wrapE_def)
  with replies_need_live_credentials [OF demo_http_ok run] run
  show "\<exists>p. serve demo_deps demo_draws OpListTenants ?rq no_context demo_http = (Problem p, demo_http) \<and> p_Status p = 401" by auto
qed

subsection \<open>Registered operations\<close>

lemmas registered = operation_method_def declared_status_def registration_def group_operations_def registration_defs Let_def

text \<open>Two path templates overlap when some path fits both: a segment in braces fits any segment.\<close>

definition is_param :: "string \<Rightarrow> bool" where "is_param seg \<longleftrightarrow> HasPrefix seg ''{''"

definition overlap :: "string \<Rightarrow> string \<Rightarrow> bool" where
  "overlap p q = list_all2 (\<lambda>a b. a = b \<or> is_param a \<or> is_param b) (Split p CHR ''/'') (Split q CHR ''/'')"

definition clash :: "group \<times> Operation \<Rightarrow> group \<times> Operation \<Rightarrow> bool" where
  "clash x y \<longleftrightarrow> OperationID (snd x) = OperationID (snd y) \<or>
     Method (snd x) = Method (snd y) \<and> overlap (Path (snd x)) (Path (snd y))"

text \<open>The schemes the gate of a group accepts.\<close>

fun accepted_schemes :: "group \<Rightarrow> string list" where
  "accepted_schemes Unguarded = []"
| "accepted_schemes Public = []"
| "accepted_schemes OperationalGroup = [''apiKeyAuth'']"
| "accepted_schemes ConnectionGroup = [''bearerAuth'', ''apiKeyAuth'']"
| "accepted_schemes _ = [''bearerAuth'']"

definition declares_its_gate :: "group \<times> Operation \<Rightarrow> bool" where
  "declares_its_gate x \<longleftrightarrow> set (Security (snd x)) \<subseteq> set (accepted_schemes (fst x)) \<and>
     (Security (snd x) = [] \<longleftrightarrow> accepted_schemes (fst x) = [])"

definition all_groups :: "group list" where
  "all_groups = [Unguarded, Public, PlatformGroup, AnyAudienceGroup, TenantGroup, OperationalGroup, ConnectionGroup]"

definition all_routes :: "(group \<times> Operation) list" where
  "all_routes = concat (map (\<lambda>g. map (Pair g) (group_operations g)) all_groups)"

lemma all_routes_unambiguous: "sorted_wrt (\<lambda>x y. \<not> clash x y) all_routes \<and> list_all declares_its_gate all_routes"
  by code_simp

lemma RegisterRoutes_part:
  "RegisterRoutes sessionPlane = (if sessionPlane = None then filter (\<lambda>x. fst x \<noteq> ConnectionGroup) all_routes else all_routes)"
  by (cases sessionPlane) (simp_all add: RegisterRoutes_def all_routes_def all_groups_def filter_map comp_def)

lemma registration_in: "(group_of operation, registration operation) \<in> set all_routes \<and> OperationID (registration operation) = operation_id operation"
  by (cases operation) (simp_all add: all_routes_def all_groups_def registered)


subsection \<open>Declared statuses\<close>

definition replies_with :: "int \<Rightarrow> ('w, go_error, reply) io \<Rightarrow> bool" where
  "replies_with status h \<longleftrightarrow> (\<forall>w r w'. h w = (Inr r, w') \<longrightarrow>
     (case r of Enveloped s _ _ \<Rightarrow> s = status \<and> status \<noteq> 204 | NoContent \<Rightarrow> status = 204))"

lemma replies_bind: "(\<And>x. replies_with status (k x)) \<Longrightarrow> replies_with status (bindE m k)"
  unfolding replies_with_def by (blast elim: bind_Inr)

lemma replies_Respond: "status \<noteq> 204 \<Longrightarrow> replies_with status (Respond status data)"
  by (auto simp: replies_with_def Respond_def bindE_def getsE_def ret_def)

lemma replies_ends: "replies_with 204 (ret NoContent)" "replies_with 200 (OK data)" "replies_with 201 (Created data)"
  "replies_with 202 (Respond 202 data)" "replies_with status (throw e)"
  by (simp_all add: OK_def Created_def replies_Respond) (simp_all add: replies_with_def ret_def throw_def)

lemma replies_if: "(b \<Longrightarrow> replies_with s m) \<Longrightarrow> (\<not> b \<Longrightarrow> replies_with s n) \<Longrightarrow> replies_with s (if b then m else n)"
  by simp

lemma replies_option: "(\<And>x. replies_with s (f x)) \<Longrightarrow> replies_with s n \<Longrightarrow> replies_with s (case v of None \<Rightarrow> n | Some x \<Rightarrow> f x)"
  by (cases v) simp_all

lemma replies_prod: "(\<And>x y. replies_with s (f x y)) \<Longrightarrow> replies_with s (case p of (x, y) \<Rightarrow> f x y)"
  by (cases p) simp

lemmas replies_rules = replies_bind replies_ends replies_if replies_option replies_prod

lemma account_replies: "account_handler d dr cx operation = Some h \<Longrightarrow> replies_with (declared_status operation) h"
  by (cases operation) (auto simp: registered account_handler_def AuthHandler_login_def PasswordHandler_change_def PasswordHandler_reset_def
    TenantHandler_create_def TenantHandler_list_def TenantHandler_get_def TenantHandler_rename_def TenantHandler_suspend_def
    TenantHandler_activate_def TenantHandler_setStatus_def TenantHandler_delete_def InstanceHandler_create_def InstanceHandler_list_def
    InstanceHandler_get_def InstanceHandler_rename_def InstanceHandler_delete_def APIKeyHandler_create_def APIKeyHandler_list_def
    APIKeyHandler_revoke_def WhoamiHandler_whoami_def Let_def intro!: replies_rules)

lemma connection_replies: "connection_handler d s cx operation = Some h \<Longrightarrow> replies_with (declared_status operation) h"
  by (cases operation) (auto simp: registered connection_handler_def ConnectionHandler_setProxy_def ConnectionHandler_clearProxy_def
    ConnectionHandler_submitPasskeyResponse_def ConnectionHandler_confirmPasskey_def ConnectionHandler_setPassiveMode_def
    ConnectionHandler_connect_def ConnectionHandler_pairPhone_def ConnectionHandler_disconnect_def ConnectionHandler_logout_def
    ConnectionHandler_status_def ConnectionHandler_events_def VerificationHandler_codes_def passkey_step_def Let_def
    intro!: replies_rules)

text \<open>
  The API keeps its documented statuses: the envelope of a successful answer carries exactly the status
  its operation declares, and an operation that declares 204 answers without a body, as the envelope
  requires and the generated document promises.
\<close>

theorem replies_carry_declared_status:
  assumes "serve d dr operation rq cx w = (Reply r, w')"
  shows "case r of Enveloped status data t \<Rightarrow> status = declared_status operation \<and> status \<noteq> 204 | NoContent \<Rightarrow> declared_status operation = 204"
proof -
  from assms obtain cx1 w1 h where "handler d dr cx1 operation = Some h" and run: "h w1 = (Inr r, w')" by (rule serve_Reply)
  then have "replies_with (declared_status operation) h"
    by (auto simp: handler_def bind_eq_Some_conv intro: account_replies connection_replies split: option.splits)
  with run have "case r of Enveloped s _ _ \<Rightarrow> s = declared_status operation \<and> declared_status operation \<noteq> 204
      | NoContent \<Rightarrow> declared_status operation = 204"
    unfolding replies_with_def by blast
  then show ?thesis by (cases r) simp_all
qed

theorem replies_carry_declared_status_witness:
  "\<exists>status data t. serve demo_deps demo_draws OpWhoami demo_request no_context demo_http = (Reply (Enveloped status data t), demo_http) \<and>
     status = declared_status OpWhoami"
proof -
  obtain data where run: "serve demo_deps demo_draws OpWhoami demo_request no_context demo_http =
      (Reply (Enveloped 200 data (100 * second)), demo_http)"
    using demo_whoami by blast
  from replies_carry_declared_status [OF this] run show ?thesis by auto
qed

text \<open>
  The log line of a request names no tenant and no instance, whoever was authenticated: the attributes
  are read from the context the outermost layer received.
\<close>

lemma request_log_names_nobody:
  assumes "handle_request options d dr hr operation rq no_context w = (out, line, w')"
  shows "lg_TenantID line = None \<and> lg_InstanceID line = None"
  using assms by (auto simp: handle_request_def RequestLogger_def Let_def no_context_def split: cors_result.splits prod.splits)

subsection \<open>Browsers\<close>

text \<open>
  A preflight for an allowed origin lists every method the API uses except \<open>PUT\<close>: a browser may call
  every operation but those that set the proxy or the passive mode of an instance, which are the two
  registered with \<open>PUT\<close>.
\<close>

theorem preflight_leaves_out_put:
  assumes "originAllowed origin allowedOrigins" and "origin \<noteq> []"
  shows "\<exists>headers methods. CORS allowedOrigins ''OPTIONS'' origin = AnswerPreflight 204 headers \<and>
    map_of headers ''Access-Control-Allow-Methods'' = Some methods \<and>
    (operation_method operation \<in> set (map TrimSpace (Split methods CHR '','')) \<longleftrightarrow>
       (\<forall>url. operation \<noteq> OpSetProxy url) \<and> (\<forall>enabled. operation \<noteq> OpSetPassiveMode enabled))"
proof -
  have "allowedOrigins \<noteq> []" using assms(1) by (auto simp: originAllowed_def)
  moreover have "set (map TrimSpace (Split allowed_methods CHR '','')) = {''GET'', ''POST'', ''PATCH'', ''DELETE'', ''OPTIONS''}"
    by code_simp
  ultimately show ?thesis
    using assms by (cases operation) (simp_all add: CORS_def registered)
qed

theorem preflight_leaves_out_put_witness:
  "\<exists>headers methods. CORS [''localhost:8090''] ''OPTIONS'' ''http://localhost:8090'' = AnswerPreflight 204 headers \<and>
     map_of headers ''Access-Control-Allow-Methods'' = Some methods \<and>
     operation_method (OpSetPassiveMode True) \<notin> set (map TrimSpace (Split methods CHR '',''))"
proof -
  have "originAllowed ''http://localhost:8090'' [''localhost:8090'']" by code_simp
  from preflight_leaves_out_put [OF this, of "OpSetPassiveMode True"] show ?thesis by auto
qed

end
