(* ===== verification/Isolation.thy ===== *)
theory Isolation
  imports Route_Facts
begin

text \<open>
  Tenants are isolated: what an administrator of one tenant does on the tenant plane leaves every row of
  every other tenant as it was, and succeeds only on instances of the own tenant.
\<close>

subsection \<open>The rows of the other tenants\<close>

text \<open>An instance of another tenant, and everything in the account tables that belongs to other tenants.\<close>

definition foreign :: "ID \<Rightarrow> database \<Rightarrow> ID \<Rightarrow> bool" where
  "foreign tid d i \<longleftrightarrow> (\<exists>r \<in> set (instances d). r_id r = i \<and> r_tenant_id r \<noteq> tid)"

definition others :: "ID \<Rightarrow> database \<Rightarrow> Tenant list \<times> UserRow list \<times> InstanceRow list \<times> KeyRow list" where
  "others tid d = (filter (\<lambda>t. t_ID t \<noteq> tid) (tenants d), filter (\<lambda>u. u_TenantID (usr_user u) \<noteq> Some tid) (users d),
     filter (\<lambda>r. r_tenant_id r \<noteq> tid) (instances d), filter (\<lambda>k. foreign tid d (k_InstanceID (key_meta k))) (api_keys d))"

text \<open>
  A step of tenant \<open>tid\<close> that may rely on the instances \<open>own\<close> not being foreign leaves the rows of the
  others alone.
\<close>

definition isolates :: "ID \<Rightarrow> ID set \<Rightarrow> database \<Rightarrow> database \<Rightarrow> bool" where
  "isolates tid own d d' \<longleftrightarrow> (accounts_ok d \<and> (\<forall>i \<in> own. \<not> foreign tid d i) \<longrightarrow> accounts_ok d' \<and> others tid d' = others tid d)"

lemma foreign_others: "foreign tid d i \<longleftrightarrow> (\<exists>r \<in> set (fst (snd (snd (others tid d)))). r_id r = i)"
  by (auto simp: foreign_def others_def)

lemma isolates_trans: "isolates tid own d d' \<Longrightarrow> isolates tid own d' d'' \<Longrightarrow> isolates tid own d d''"
  by (simp add: isolates_def foreign_others)

interpretation isolated: world_rel "on_db (isolates tid own)" for tid own
  by unfold_locales (auto simp: on_db_def isolates_def [of _ _ d d for d] intro: isolates_trans)

lemma isolated_reads: "always read_only m \<Longrightarrow> always (on_db (isolates tid own)) m"
  by (auto simp: always_def read_only_def on_db_def isolates_def)

lemma isolated_statement:
  fixes q :: "gotime \<Rightarrow> database \<Rightarrow> (db_error + 'a) \<times> database"
  assumes "always (on_db keeps_accounts) (run_statement q :: ('z world_scheme, db_error, 'a) io)"
    and "\<And>t d r d'. accounts_ok d \<Longrightarrow> \<forall>i \<in> own. \<not> foreign tid d i \<Longrightarrow> q t d = (r, d') \<Longrightarrow> others tid d' = others tid d"
  shows "always (on_db (isolates tid own)) (run_statement q :: ('z world_scheme, db_error, 'a) io)"
proof (rule alwaysI)
  fix w :: "'z world_scheme"
  have "always (on_db (\<lambda>d d'. accounts_ok d \<and> (\<forall>i \<in> own. \<not> foreign tid d i) \<longrightarrow> others tid d' = others tid d)) (run_statement q)"
  proof (rule always_on_db)
    fix t d
    show "accounts_ok d \<and> (\<forall>i \<in> own. \<not> foreign tid d i) \<longrightarrow> others tid (snd (q t d)) = others tid d"
      using assms(2) [of d t "fst (q t d)" "snd (q t d)"] by simp
  qed simp
  from alwaysD [OF this, of w] alwaysD [OF assms(1), of w] show "on_db (isolates tid own) w (snd (run_statement q w))"
    by (auto simp: on_db_def keeps_accounts_def isolates_def)
qed

lemma isolated_tx: "always (on_db (isolates tid own)) body \<Longrightarrow> always (on_db (isolates tid own)) (in_tx lib body)"
  unfolding in_tx_def by (rule always_transaction) (simp add: isolates_def)

subsection \<open>Statements\<close>

lemma filter_update_where: "(\<And>r. p r \<Longrightarrow> \<not> q r \<and> \<not> q (f r)) \<Longrightarrow> filter q (update_where p f rows) = filter q rows"
  by (induction rows) auto

lemma owner_not_foreign:
  assumes "accounts_ok d" and "r \<in> set (instances d)" and "r_tenant_id r = tid"
  shows "\<not> foreign tid d (r_id r)"
proof
  assume "foreign tid d (r_id r)"
  then obtain x where "x \<in> set (instances d)" "r_id x = r_id r" "r_tenant_id x \<noteq> tid" by (auto simp: foreign_def)
  moreover have "inj_on r_id (set (instances d))" using assms(1) by (simp add: accounts_defs distinct_map)
  ultimately have "x = r" using assms(2) by (simp add: inj_on_def)
  with \<open>r_tenant_id x \<noteq> tid\<close> assms(3) show False by simp
qed

lemma owned_not_foreign: "accounts_ok d \<Longrightarrow> tenant_owns d tid i \<Longrightarrow> \<not> foreign tid d i"
  using owner_not_foreign by (auto simp: tenant_owns_def)

lemma isolated_audit: "always (on_db (isolates tid own)) (InsertSecurityEvent i e)"
  unfolding InsertSecurityEvent_def
  by (rule isolated_statement [OF accounts_audit [unfolded InsertSecurityEvent_def]])
    (auto simp: others_def foreign_def split: if_splits)

lemma isolated_CreateInstance: "always (on_db (isolates tid own)) (CreateInstance i tid n)"
  unfolding CreateInstance_def
  by (rule isolated_statement [OF accounts_CreateInstance [unfolded CreateInstance_def]])
    (auto simp: others_def foreign_def new_instance_row_def Let_def split: if_splits)

lemma isolated_RenameInstance: "always (on_db (isolates tid own)) (RenameInstance i tid n)"
  unfolding RenameInstance_def
proof (rule isolated_statement [OF accounts_RenameInstance [unfolded RenameInstance_def]])
  fix t and d :: database and r :: "db_error + InstanceRow" and d'
  let ?p = "\<lambda>r. r_id r = i \<and> r_tenant_id r = tid" and ?f = "\<lambda>r. r\<lparr>r_name := n, r_updated_at := t\<rparr>"
  let ?d = "d\<lparr>instances := update_where ?p ?f (instances d)\<rparr>"
  assume run: "(case first_where ?p (instances d) of None \<Rightarrow> (Inl ErrNoRows, d)
     | Some r \<Rightarrow> if \<not> name_length_ok n then (Inl CheckViolation, d)
        else if name_taken d i tid n then (Inl (UniqueViolation ''instances_tenant_id_name_uk''), d)
        else (Inr (r\<lparr>r_name := n, r_updated_at := t\<rparr>), ?d)) = (r, d')"
  have rows: "filter (\<lambda>r. r_tenant_id r \<noteq> tid) (update_where ?p ?f (instances d)) = filter (\<lambda>r. r_tenant_id r \<noteq> tid) (instances d)"
    by (rule filter_update_where) simp
  have "foreign tid ?d j = foreign tid d j" for j
    using arg_cong [OF rows, of "\<lambda>rs. \<exists>r \<in> set rs. r_id r = j"] by (auto simp: foreign_def)
  with rows have "others tid ?d = others tid d" by (simp add: others_def)
  with run show "others tid d' = others tid d" by (auto split: option.splits if_splits)
qed

lemma isolated_DeleteInstance: "always (on_db (isolates tid own)) (DeleteInstance i tid)"
  unfolding DeleteInstance_def
proof (rule isolated_statement [OF accounts_deletions(1) [unfolded DeleteInstance_def]])
  fix t and d :: database and r :: "db_error + InstanceRow" and d'
  assume ok: "accounts_ok d" and run: "(case first_where (\<lambda>r. r_id r = i \<and> r_tenant_id r = tid) (instances d) of
       None \<Rightarrow> (Inl ErrNoRows, d) | Some r \<Rightarrow> (Inr r, drop_instances (\<lambda>j. j = i) d)) = (r, d')"
  show "others tid d' = others tid d"
  proof (cases "first_where (\<lambda>r. r_id r = i \<and> r_tenant_id r = tid) (instances d)")
    case (Some row)
    then have "\<not> foreign tid d i" using owner_not_foreign [OF ok, of row tid] first_where_Some [OF Some] by simp
    then have other: "r_id x \<noteq> i" if "x \<in> set (instances d)" "r_tenant_id x \<noteq> tid" for x using that by (auto simp: foreign_def)
    have "foreign tid (drop_instances (\<lambda>j. j = i) d) j = foreign tid d j" for j
      using other by (auto simp: foreign_def drop_instances_def)
    moreover have "filter (\<lambda>r. r_tenant_id r \<noteq> tid) (filter (\<lambda>r. r_id r \<noteq> i) (instances d)) = filter (\<lambda>r. r_tenant_id r \<noteq> tid) (instances d)"
      using other by (auto intro: filter_cong)
    moreover have "filter (\<lambda>k. foreign tid d (k_InstanceID (key_meta k))) (filter (\<lambda>k. k_InstanceID (key_meta k) \<noteq> i) (api_keys d)) =
        filter (\<lambda>k. foreign tid d (k_InstanceID (key_meta k))) (api_keys d)"
      using \<open>\<not> foreign tid d i\<close> by (auto intro: filter_cong)
    ultimately show ?thesis using Some run by (auto simp: others_def drop_instances_def)
  qed (use run in simp)
qed

lemma foreign_keys_update [simp]: "foreign tid (d\<lparr>api_keys := ks\<rparr>) j = foreign tid d j"
  by (simp add: foreign_def)

lemma isolated_RevokeAPIKey: "always (on_db (isolates tid own)) (RevokeAPIKey k i tid)"
  unfolding RevokeAPIKey_def
proof (rule isolated_statement [OF accounts_RevokeAPIKey [unfolded RevokeAPIKey_def]])
  fix t d and r :: "db_error + APIKey" and d'
  let ?hit = "\<lambda>r. k_ID (key_meta r) = k \<and> k_InstanceID (key_meta r) = i \<and> tenant_owns d tid i"
  let ?f = "\<lambda>k. k\<lparr>key_meta := revoked t (key_meta k)\<rparr>" and ?q = "\<lambda>k. foreign tid d (k_InstanceID (key_meta k))"
  assume ok: "accounts_ok d" and run: "(let hit = ?hit in case first_where hit (api_keys d) of None \<Rightarrow> (Inl ErrNoRows, d)
     | Some k \<Rightarrow> (Inr (revoked t (key_meta k)), d\<lparr>api_keys := update_where hit ?f (api_keys d)\<rparr>)) = (r, d')"
  have "filter ?q (update_where ?hit ?f (api_keys d)) = filter ?q (api_keys d)"
    using owned_not_foreign [OF ok, of tid i] by (intro filter_update_where) (auto simp: revoked_def)
  then have "others tid (d\<lparr>api_keys := update_where ?hit ?f (api_keys d)\<rparr>) = others tid d" by (simp add: others_def)
  with run show "others tid d' = others tid d" by (auto simp: Let_def split: option.splits)
qed

lemma isolated_CreateAPIKey: "always (on_db (isolates tid {i})) (CreateAPIKey k i l kp h)"
  unfolding CreateAPIKey_def
  by (rule isolated_statement [OF accounts_CreateAPIKey [unfolded CreateAPIKey_def]])
    (auto simp: others_def Let_def split: if_splits)

subsection \<open>Services\<close>

lemma isolated_guarded:
  assumes g: "always read_only g" and own: "\<And>w x w'. g w = (Inr x, w') \<Longrightarrow> tenant_owns (db w) tid i"
    and k: "\<And>x. always (on_db (isolates tid {i})) (k x)"
  shows "always (on_db (isolates tid {})) (bindE g k)"
proof (rule alwaysI)
  fix w
  obtain q w1 where gw: "g w = (q, w1)" by (cases "g w")
  have same: "db w1 = db w" using always_eqD [OF g gw] by (simp add: read_only_def)
  show "on_db (isolates tid {}) w (snd (bindE g k w))"
  proof (cases q)
    case (Inl e)
    with gw same show ?thesis by (simp add: bindE_def on_db_def isolates_def)
  next
    case (Inr x)
    with gw own have "tenant_owns (db w) tid i" by blast
    then have "isolates tid {} (db w) (db (snd (k x w1)))"
      using alwaysD [OF k, of w1 x] owned_not_foreign [of "db w" tid i] same by (auto simp: isolates_def on_db_def)
    with gw Inr show ?thesis by (simp add: bindE_def on_db_def)
  qed
qed

lemma isolated_steps:
  "always (on_db (isolates tid own)) (ret_or_throw f r)" "always (on_db (isolates tid own)) (require e)"
  "always (on_db (isolates tid own)) (ParseID ids l raw)" "always (on_db (isolates tid own)) (OK data)"
  "always (on_db (isolates tid own)) (Created data)" "always (on_db (isolates tid own)) RefreshActiveKeyGauge"
  "always (on_db (isolates tid own)) (bindE RefreshActiveKeyGauge (\<lambda>_. ret x))"
  "always (on_db (isolates tid own)) (GetInstanceByIDAndTenant i j)" "always (on_db (isolates tid own)) (CountKeysByInstance i)"
  by (auto simp: ParseID_def OK_def Created_def Respond_def
    intro: isolated_reads read_only_checks gauge_reads read_only_queries isolated.always_intros)

lemma isolated_lists:
  "always (on_db (isolates tid own)) (ListInstancesByTenant i)" "always (on_db (isolates tid own)) (ListKeysByInstance i)"
  by (simp_all add: query_defs select_def isolated_reads always_read_only_statement)

lemma isolated_record: "always (on_db (isolates tid own)) (record_or_fail lib i e)"
  unfolding record_or_fail_def Record_def by (intro isolated.always_wrapE isolated_audit)

lemmas isolated_rules = isolated.always_intros isolated_tx isolated_steps isolated_lists isolated_record
  isolated_CreateInstance isolated_RenameInstance isolated_DeleteInstance isolated_RevokeAPIKey isolated_CreateAPIKey

lemma isolated_services:
  "ci_TenantID ci = tid \<Longrightarrow> always (on_db (isolates tid own)) (instance_Create lib fresh ci)"
  "ri_TenantID ri = tid \<Longrightarrow> always (on_db (isolates tid own)) (instance_Rename lib fresh ri)"
  "di_TenantID di = tid \<Longrightarrow> always (on_db (isolates tid own)) (remove_instance lib fresh di)"
  "rk_TenantID rk = tid \<Longrightarrow> always (on_db (isolates tid own)) (key_Revoke lib fresh rk)"
  "always (on_db (isolates tid own)) (instance_List lib t)" "always (on_db (isolates tid own)) (instance_Get lib t i)"
  "always (on_db (isolates tid own)) (key_List lib t i)"
  unfolding instance_Create_def instance_Rename_def remove_instance_def key_Revoke_def Let_def
    instance_List_def instance_Get_def key_List_def
  by (hypsubst?, intro isolated_rules)+

text \<open>Success proves ownership: a computation that returns normally only when the tenant owns the instance.\<close>

definition proves_owner :: "ID \<Rightarrow> ID \<Rightarrow> ('z world_scheme, 'e, 'a) io \<Rightarrow> bool" where
  "proves_owner tid i m \<longleftrightarrow> (\<forall>w x w'. m w = (Inr x, w') \<longrightarrow> tenant_owns (db w) tid i)"

lemma proves_ownerD: "proves_owner tid i m \<Longrightarrow> m w = (Inr x, w') \<Longrightarrow> tenant_owns (db w) tid i"
  by (auto simp: proves_owner_def)

lemma proves_first: "proves_owner tid i m \<Longrightarrow> proves_owner tid i (bindE m k)"
  unfolding proves_owner_def by (blast elim: bind_Inr)

lemma proves_later:
  assumes m: "always read_only m" and k: "\<And>x. proves_owner tid i (k x)"
  shows "proves_owner tid i (bindE m k)"
  unfolding proves_owner_def
proof (intro allI impI)
  fix w y w2 assume "bindE m k w = (Inr y, w2)"
  then obtain x w1 where mw: "m w = (Inr x, w1)" and "k x w1 = (Inr y, w2)" by (rule bind_Inr)
  with k have "tenant_owns (db w1) tid i" by (blast dest: proves_ownerD)
  with always_eqD [OF m mw] show "tenant_owns (db w) tid i" by (simp add: read_only_def)
qed

lemma proves_wrap: "proves_owner tid i m \<Longrightarrow> proves_owner tid i (wrapE f m)"
  unfolding proves_owner_def by (blast dest: wrap_Inr)

lemma proves_tx:
  assumes "proves_owner tid i body"
  shows "proves_owner tid i (in_tx lib body)"
  unfolding proves_owner_def in_tx_def
proof (intro allI impI)
  fix w x w' assume run: "transaction (db_internal lib) (db_internal lib) body w = (Inr x, w')"
  have body: "tenant_owns (db w) tid i" if "body (w\<lparr>faults := fs\<rparr>) = (Inr y, w1)" for fs y w1
    using proves_ownerD [OF assms that] by simp
  show "tenant_owns (db w) tid i"
    by (rule transaction_cases [of "db_internal lib" "db_internal lib" body w]) (use run in \<open>auto dest: body\<close>)
qed

lemma owned_row: "first_where (\<lambda>r. r_id r = i \<and> r_tenant_id r = tid) (instances d) = Some r \<Longrightarrow> tenant_owns d tid i"
  by (drule first_where_Some) (auto simp: tenant_owns_def)

lemma proves_statements:
  "proves_owner tid i (GetInstanceByIDAndTenant i tid)" "proves_owner tid i (RenameInstance i tid n)"
  "proves_owner tid i (DeleteInstance i tid)" "proves_owner tid i (RevokeAPIKey k i tid)"
  unfolding proves_owner_def query_defs
  by (auto elim!: run_statement_Inr simp: select_one_def Let_def dest: first_where_Some owned_row split: option.splits if_splits)

lemma proves_services:
  "proves_owner tid i (instance_Get lib tid i)" "proves_owner tid i (key_List lib tid i)"
  "ri_TenantID ri = tid \<Longrightarrow> ri_InstanceID ri = i \<Longrightarrow> proves_owner tid i (instance_Rename lib fresh ri)"
  "di_TenantID di = tid \<Longrightarrow> di_InstanceID di = i \<Longrightarrow> proves_owner tid i (remove_instance lib fresh di)"
  "ck_TenantID ck = tid \<Longrightarrow> ck_InstanceID ck = i \<Longrightarrow> proves_owner tid i (key_Create lib fresh salt ck)"
  "rk_TenantID rk = tid \<Longrightarrow> rk_InstanceID rk = i \<Longrightarrow> proves_owner tid i (key_Revoke lib fresh rk)"
  unfolding instance_Get_def key_List_def instance_Rename_def remove_instance_def key_Create_def key_Revoke_def Let_def
  by (hypsubst?, intro proves_first [OF proves_wrap] proves_first [OF proves_tx] proves_later [OF read_only_checks(2)]
    proves_tx proves_later [OF read_only.always_wrapE [OF read_only_queries(7)]] proves_statements)+

lemma isolated_key_Create:
  assumes "ck_TenantID ck = tid"
  shows "always (on_db (isolates tid {})) (key_Create lib fresh salt ck)"
  unfolding key_Create_def Let_def assms
proof (intro isolated.always_bindE [OF isolated_steps(2)] isolated_guarded)
  show "always read_only (wrapE (or_not_found lib) (GetInstanceByIDAndTenant (ck_InstanceID ck) tid))"
    by (intro read_only.always_wrapE read_only_queries)
  show "tenant_owns (db w) tid (ck_InstanceID ck)"
    if "wrapE (or_not_found lib) (GetInstanceByIDAndTenant (ck_InstanceID ck) tid) w = (Inr x, w')" for w x w'
    using proves_statements(1) wrap_Inr [OF that] by (rule proves_ownerD)
qed (intro isolated_rules)

subsection \<open>The tenant plane\<close>

fun named_instance :: "operation \<Rightarrow> string option" where
  "named_instance (OpGetInstance raw) = Some raw"
| "named_instance (OpRenameInstance raw _) = Some raw"
| "named_instance (OpDeleteInstance raw) = Some raw"
| "named_instance (OpCreateKey raw _) = Some raw"
| "named_instance (OpListKeys raw) = Some raw"
| "named_instance (OpRevokeKey raw _) = Some raw"
| "named_instance _ = None"

text \<open>Which tenant the bearer token of a request speaks for, at a moment and in a database.\<close>

definition speaks_for :: "TokenIssuer \<Rightarrow> Request \<Rightarrow> gotime \<Rightarrow> database \<Rightarrow> ID \<Rightarrow> bool" where
  "speaks_for issuer rq t d tid \<longleftrightarrow> (\<exists>raw tok row. bearerToken (rq_Authorization rq) = Some raw \<and> token_Parse issuer t raw = Some tok \<and>
     user_of d (c_Subject tok) = Some row \<and> u_TenantID (usr_user row) = Some tid)"

lemma tenant_gate:
  assumes "auth_Tenant issuer rq cx w = (Inr cx', w')"
  shows "speaks_for issuer rq (now w) (db w) (admin_tenant cx') \<and> db w' = db w"
  using assms unfolding auth_Tenant_def
  by (rule authenticate_Inr) (auto simp: speaks_for_def admin_tenant_def admin_TenantID_def)

lemma tenant_gate_reads: "always read_only (auth_Tenant issuer rq cx)"
  unfolding auth_Tenant_def authenticate_def Let_def by (intro read_only.always_intros read_only_queries)

lemma tenant_plane_handlers:
  "always (on_db (isolates (admin_tenant cx) {})) (InstanceHandler_create d dr cx n)"
  "always (on_db (isolates (admin_tenant cx) {})) (InstanceHandler_list d cx)"
  "always (on_db (isolates (admin_tenant cx) {})) (InstanceHandler_get d cx raw)"
  "always (on_db (isolates (admin_tenant cx) {})) (InstanceHandler_rename d dr cx raw n)"
  "rd_sessions d = None \<Longrightarrow> always (on_db (isolates (admin_tenant cx) {})) (InstanceHandler_delete d dr cx raw)"
  "always (on_db (isolates (admin_tenant cx) {})) (APIKeyHandler_create d dr cx raw label)"
  "always (on_db (isolates (admin_tenant cx) {})) (APIKeyHandler_list d cx raw)"
  "always (on_db (isolates (admin_tenant cx) {})) (APIKeyHandler_revoke d dr cx raw rawKey)"
  by (simp_all add: InstanceHandler_create_def InstanceHandler_list_def InstanceHandler_get_def InstanceHandler_rename_def
      InstanceHandler_delete_def APIKeyHandler_create_def APIKeyHandler_list_def APIKeyHandler_revoke_def instance_Delete_def)
    (intro isolated.always_bindE isolated.always_ret isolated.always_case_prod isolated_steps isolated_services
      isolated_key_Create; simp)+

lemma ParseID_Inr: "ParseID ids l raw w = (Inr i, w') \<Longrightarrow> parseUUID ids raw = Some i \<and> w' = w"
  by (auto simp: ParseID_def throw_def ret_def split: option.splits)

lemma ParseID_reads: "always read_only (ParseID ids l raw)"
  unfolding ParseID_def by (intro read_only.always_intros)

lemma named_by_path:
  assumes "\<And>i. proves_owner tid i (k i)" and "bindE (ParseID ids l raw) k w = (Inr r, w')"
  shows "\<exists>i. parseUUID ids raw = Some i \<and> tenant_owns (db w) tid i"
proof -
  from assms(2) obtain i w1 where "ParseID ids l raw w = (Inr i, w1)" and "k i w1 = (Inr r, w')" by (rule bind_Inr)
  with assms(1) show ?thesis by (auto dest: ParseID_Inr proves_ownerD)
qed

lemma tenant_plane_names_own:
  assumes "named_instance operation = Some raw" and "rd_sessions d = None \<or> (\<forall>i. operation \<noteq> OpDeleteInstance i)"
    and "handler d dr cx operation = Some h" and "h w = (Inr r, w')"
  shows "\<exists>i. parseUUID (al_ids (rd_lib d)) raw = Some i \<and> tenant_owns (db w) (admin_tenant cx) i"
proof -
  have run: "the (handler d dr cx operation) w = (Inr r, w')" using assms(3,4) by simp
  note handlers = handler_def account_handler_def InstanceHandler_get_def InstanceHandler_rename_def InstanceHandler_delete_def
    APIKeyHandler_create_def APIKeyHandler_list_def APIKeyHandler_revoke_def instance_Delete_def
  show ?thesis
    using assms(1,2) run
    by (cases operation) (simp_all add: handlers, (erule named_by_path [rotated],
      (intro proves_first proves_services proves_later [OF ParseID_reads]; simp))+)
qed


definition demo_bearer :: Request where
  "demo_bearer = \<lparr>rq_Authorization = ''Bearer token'', rq_APIKey = [], rq_InstanceParam = ''7''\<rparr>"

lemma demo_parse: "parseUUID demo_uuids ''5'' = Some 5" "parseUUID demo_uuids ''3'' = Some 3" "parseUUID demo_uuids ''7'' = Some 7"
  by (simp_all add: demo_uuids_def) code_simp+

lemma demo_get_instance:
  "\<exists>r w'. serve demo_deps demo_draws (OpGetInstance ''7'') demo_bearer no_context demo_http = (Reply r, w')"
proof -
  have "bearerToken ''Bearer token'' = Some ''token''" by code_simp
  moreover have "token_Parse demo_issuer (100 * second) ''token'' = Some \<lparr>c_Subject = 5, c_Audience = AudienceTenant,
      c_TenantID = Some 3, c_PasswordChange = False, c_IssuedAt = 100 * second, c_ExpiresAt = 160 * second\<rparr>"
    by (simp add: token_Parse_def demo_issuer_def demo_jwt_def demo_claims_def uuidFromString_def demo_parse to_audience_def
      audience_Valid_def second_def)
  ultimately show ?thesis
    by (simp add: serve_def gates_def Let_def demo_deps_def demo_auth_def auth_Tenant_def authenticate_def demo_bearer_def bindE_def wrapE_def
      getsE_def demo_http_def GetUserByID_def run_statement_ok select_one_def user_of_def joined_status_def tenant_of_def demo_office_defs
      TokenPredatesPasswordChange_def truncate_second_def second_def tenantStatusOf_def throw_def ret_def context_defs handler_def
      account_handler_def InstanceHandler_get_def ParseID_def demo_parse demo_lib_def admin_tenant_def admin_TenantID_def instance_Get_def
      GetInstanceByIDAndTenant_def first_where_def OK_def Respond_def)
qed


end
