(* ===== verification/Config.thy ===== *)
theory Config
  imports Middleware Login_Facts "HOL-Library.Multiset"
begin

text \<open>
  \<open>internal/config\<close>: the resolved configuration, the overlay of deploy-time secrets and the validation
  every process passes before it does anything. The parser of the environment (a third-party package),
  the file system, the host name and the grammar of \<open>net/mail\<close> are parameters. Durations are Go's
  64-bit integers, so the product in the check of the lease expiry wraps.
\<close>

subsection \<open>The configuration\<close>

definition envPrefix :: string where "envPrefix = ''ZAPPERMEOW_''"

record Config =
  ListenAddr :: string
  LogLevel :: string
  DatabaseURL :: string
  RedisAddr :: string
  RedisPassword :: string
  RedisDB :: int
  JWTSigningKey :: string
  JWTTTL :: duration
  BootstrapEmail :: string
  BootstrapPassword :: string
  LockoutMaxFailures :: int
  LockoutWindow :: duration
  LoginRateLimit :: int
  OperationalRateLimit :: int
  TrustProxyHeaders :: bool
  AllowedOrigins :: "string list"
  OTelEnabled :: bool
  SecretsDir :: string
  WorkerGRPCListenAddr :: string
  WorkerAdvertiseAddr :: string
  MaxSessionsPerWorker :: int
  PairingWindow :: duration
  LeaseHeartbeatInterval :: duration
  LeaseExpiry :: duration
  ReconcileInterval :: duration
  DeviceName :: string
  ClaimWait :: duration
  ConnectionEventsRetention :: duration

text \<open>The errors of this package, with the texts they carry.\<close>

datatype config_error =
    ParseEnvironment string | ReadSecret string string | InvalidConfiguration string
  | NoAdvertiseAddress string | NoHostname string | NoRandomness

subsection \<open>Secrets\<close>

text \<open>Reading a file of the secrets directory, by directory and name.\<close>

datatype file_result = NotExist | ReadError string | Content string

type_synonym files = "string \<Rightarrow> string \<Rightarrow> file_result"

definition secret_names :: "string list" where
  "secret_names = [''database_url'', ''redis_password'', ''jwt_signing_key'', ''bootstrap_email'', ''bootstrap_password'']"

definition secretFiles :: "string \<Rightarrow> string \<Rightarrow> Config \<Rightarrow> Config" where
  "secretFiles name v c =
     (if name = ''database_url'' then c\<lparr>DatabaseURL := v\<rparr>
      else if name = ''redis_password'' then c\<lparr>RedisPassword := v\<rparr>
      else if name = ''jwt_signing_key'' then c\<lparr>JWTSigningKey := v\<rparr>
      else if name = ''bootstrap_email'' then c\<lparr>BootstrapEmail := v\<rparr>
      else if name = ''bootstrap_password'' then c\<lparr>BootstrapPassword := v\<rparr>
      else c)"

text \<open>The loop over the map of secrets, whose order Go leaves open: it is an argument.\<close>

fun secrets_loop :: "files \<Rightarrow> string list \<Rightarrow> Config \<Rightarrow> config_error + Config" where
  "secrets_loop fs [] c = Inr c"
| "secrets_loop fs (name # names) c = (case fs (SecretsDir c) name of
       NotExist \<Rightarrow> secrets_loop fs names c
     | ReadError e \<Rightarrow> Inl (ReadSecret name e)
     | Content raw \<Rightarrow> (let v = TrimSpace raw in secrets_loop fs names (if v \<noteq> [] then secretFiles name v c else c)))"

definition applySecrets :: "files \<Rightarrow> string list \<Rightarrow> Config \<Rightarrow> config_error + Config" where
  "applySecrets fs order c = (if SecretsDir c = [] then Inr c else secrets_loop fs order c)"

subsection \<open>Validation\<close>

definition minSigningKeyLen :: nat where "minSigningKeyLen = 64"

definition problem_if :: "bool \<Rightarrow> string \<Rightarrow> string list" where
  "problem_if b text = (if b then [envPrefix @ text] else [])"

definition problems :: "(string \<Rightarrow> string option) \<Rightarrow> Config \<Rightarrow> string list" where
  "problems mail_ParseAddress c =
     problem_if (TrimSpace (DatabaseURL c) = []) ''DATABASE_URL is required'' @
     problem_if (TrimSpace (RedisAddr c) = []) ''REDIS_ADDR is required'' @
     (if TrimSpace (JWTSigningKey c) = [] then [envPrefix @ ''JWT_SIGNING_KEY is required'']
      else problem_if (length (JWTSigningKey c) < minSigningKeyLen) ''JWT_SIGNING_KEY must be at least 64 characters'') @
     problem_if (JWTTTL c \<le> 0) ''JWT_TTL must be positive'' @
     problem_if (LockoutMaxFailures c < 1) ''LOCKOUT_MAX_FAILURES must be at least 1'' @
     problem_if (LockoutWindow c \<le> 0) ''LOCKOUT_WINDOW must be positive'' @
     problem_if (LoginRateLimit c < 1) ''LOGIN_RATE_LIMIT must be at least 1'' @
     problem_if (OperationalRateLimit c < 1) ''OP_RATE_LIMIT must be at least 1'' @
     problem_if (MaxSessionsPerWorker c < 1) ''MAX_SESSIONS_PER_WORKER must be at least 1'' @
     problem_if (PairingWindow c \<le> 0) ''PAIRING_WINDOW must be positive'' @
     problem_if (LeaseHeartbeatInterval c \<le> 0) ''LEASE_HEARTBEAT_INTERVAL must be positive'' @
     problem_if (LeaseExpiry c < int64 (3 * LeaseHeartbeatInterval c))
       (''LEASE_EXPIRY must be at least 3x '' @ envPrefix @ ''LEASE_HEARTBEAT_INTERVAL'') @
     problem_if (ClaimWait c \<le> 0) ''CLAIM_WAIT must be positive'' @
     problem_if (ReconcileInterval c \<le> 0) ''RECONCILE_INTERVAL must be positive'' @
     problem_if (ConnectionEventsRetention c \<le> 0) ''CONNECTION_EVENTS_RETENTION must be positive'' @
     (if BootstrapEmail c \<noteq> [] then
        problem_if (mail_ParseAddress (BootstrapEmail c) = None) ''BOOTSTRAP_EMAIL is not a valid email address'' @
        problem_if (BootstrapPassword c = []) (''BOOTSTRAP_PASSWORD is required when '' @ envPrefix @ ''BOOTSTRAP_EMAIL is set'')
      else [])"

fun join_with :: "string \<Rightarrow> string list \<Rightarrow> string" where
  "join_with sep [] = []"
| "join_with sep [s] = s"
| "join_with sep (s # t # ss) = s @ sep @ join_with sep (t # ss)"

definition Validate :: "(string \<Rightarrow> string option) \<Rightarrow> Config \<Rightarrow> string option" where
  "Validate mail_ParseAddress c = (let ps = problems mail_ParseAddress c in
     if ps \<noteq> [] then Some (''invalid configuration: '' @ join_with ''; '' ps) else None)"

text \<open>\<open>env.ParseWithOptions\<close> is the first argument: its error or the parsed configuration.\<close>

definition Load :: "string + Config \<Rightarrow> files \<Rightarrow> string list \<Rightarrow> (string \<Rightarrow> string option) \<Rightarrow> config_error + Config" where
  "Load parsed fs order mail_ParseAddress = (case parsed of
       Inl e \<Rightarrow> Inl (ParseEnvironment e)
     | Inr c0 \<Rightarrow> (case applySecrets fs order c0 of
          Inl e \<Rightarrow> Inl e
        | Inr c \<Rightarrow> (case Validate mail_ParseAddress c of Some e \<Rightarrow> Inl (InvalidConfiguration e) | None \<Rightarrow> Inr c)))"

definition BootstrapConfigured :: "Config \<Rightarrow> bool" where
  "BootstrapConfigured c \<longleftrightarrow> BootstrapEmail c \<noteq> [] \<and> BootstrapPassword c \<noteq> []"

definition SlogLevel :: "Config \<Rightarrow> string" where
  "SlogLevel c = ToLower (LogLevel c)"

text \<open>\<open>newLogger\<close> of \<open>cmd/zappermeow\<close>: an unknown level is \<open>info\<close>.\<close>

datatype slog_level = LevelDebug | LevelInfo | LevelWarn | LevelError

definition newLogger :: "string \<Rightarrow> slog_level" where
  "newLogger level = (if level = ''debug'' then LevelDebug else if level = ''warn'' then LevelWarn
     else if level = ''error'' then LevelError else LevelInfo)"

subsection \<open>The address of a worker\<close>

definition host_and_port :: "string \<Rightarrow> (string \<times> string) option" where
  "host_and_port hp = (case SplitHostPort hp of None \<Rightarrow> None
     | Some host \<Rightarrow> map_option (\<lambda>i. (host, drop (i + 1) hp)) (last_index CHR '':'' hp))"

definition JoinHostPort :: "string \<Rightarrow> string \<Rightarrow> string" where
  "JoinHostPort host port =
     (if CHR '':'' \<in> set host then ''['' @ host @ '']:'' @ port else host @ '':'' @ port)"

text \<open>\<open>os.Hostname\<close> is an argument: its error or the name.\<close>

definition WorkerAdvertise :: "string + string \<Rightarrow> Config \<Rightarrow> config_error + string" where
  "WorkerAdvertise hostname c = (let addr = TrimSpace (WorkerAdvertiseAddr c) in
     if addr \<noteq> [] then Inr addr
     else case host_and_port (WorkerGRPCListenAddr c) of
       None \<Rightarrow> Inl (NoAdvertiseAddress (WorkerGRPCListenAddr c))
     | Some (_, port) \<Rightarrow> (case hostname of
          Inl e \<Rightarrow> Inl (NoHostname e)
        | Inr host \<Rightarrow> Inr (JoinHostPort host port)))"

text \<open>\<open>workerIdentity\<close> of \<open>cmd/zappermeow\<close>: host, address and four random bytes in hexadecimal.\<close>

definition hex_digit :: "nat \<Rightarrow> char" where
  "hex_digit n = ''0123456789abcdef'' ! (n mod 16)"

definition hex_encode :: "string \<Rightarrow> string" where
  "hex_encode bytes = concat (map (\<lambda>b. [hex_digit (of_char b div 16), hex_digit (of_char b)]) bytes)"

definition workerIdentity :: "string + string \<Rightarrow> string option \<Rightarrow> string \<Rightarrow> config_error + string" where
  "workerIdentity hostname randomness advertiseAddr = (case hostname of
       Inl e \<Rightarrow> Inl (NoHostname e)
     | Inr host \<Rightarrow> (case randomness of
          None \<Rightarrow> Inl NoRandomness
        | Some bytes \<Rightarrow> Inr (host @ ''/'' @ advertiseAddr @ ''/'' @ hex_encode (take 4 bytes))))"

subsection \<open>What a loaded configuration guarantees\<close>

lemma problem_if_Nil [simp]: "problem_if b text = [] \<longleftrightarrow> \<not> b"
  by (simp add: problem_if_def)

lemma Validate_None: "Validate mail c = None \<longleftrightarrow> problems mail c = []"
  by (simp add: Validate_def Let_def)

lemma Load_Inr: "Load parsed fs order mail = Inr c \<Longrightarrow> problems mail c = []"
  by (auto simp: Load_def Validate_None split: sum.splits option.splits)

lemma loaded_limits:
  assumes "Load parsed fs order mail = Inr c"
  shows "TrimSpace (DatabaseURL c) \<noteq> []" "length (JWTSigningKey c) \<ge> 64" "JWTTTL c > 0" "LockoutMaxFailures c \<ge> 1" "LockoutWindow c > 0"
    "MaxSessionsPerWorker c \<ge> 1" "LeaseHeartbeatInterval c > 0" "ClaimWait c > 0" "ConnectionEventsRetention c > 0"
    "LeaseExpiry c \<ge> int64 (3 * LeaseHeartbeatInterval c)"
    "BootstrapEmail c \<noteq> [] \<Longrightarrow> BootstrapConfigured c \<and> mail (BootstrapEmail c) \<noteq> None"
  using Load_Inr [OF assms]
  by (auto simp: problems_def minSigningKeyLen_def BootstrapConfigured_def split: if_splits)

text \<open>The overlay does not depend on the order in which the secrets are visited.\<close>

definition overlaid :: "files \<Rightarrow> string \<Rightarrow> Config \<Rightarrow> Config" where
  "overlaid fs name c = (case fs (SecretsDir c) name of
       Content raw \<Rightarrow> if TrimSpace raw \<noteq> [] then secretFiles name (TrimSpace raw) c else c
     | _ \<Rightarrow> c)"

definition readable :: "files \<Rightarrow> Config \<Rightarrow> string \<Rightarrow> bool" where
  "readable fs c name \<longleftrightarrow> (\<forall>e. fs (SecretsDir c) name \<noteq> ReadError e)"

lemma SecretsDir_secretFiles [simp]: "SecretsDir (secretFiles name v c) = SecretsDir c"
  by (simp add: secretFiles_def)

lemma SecretsDir_overlaid [simp]: "SecretsDir (overlaid fs name c) = SecretsDir c"
  by (simp add: overlaid_def split: file_result.split)

lemma readable_overlaid [simp]: "readable fs (overlaid fs name c) = readable fs c"
  by (simp add: readable_def fun_eq_iff)

lemma secretFiles_simps:
  "secretFiles ''database_url'' v c = c\<lparr>DatabaseURL := v\<rparr>" "secretFiles ''redis_password'' v c = c\<lparr>RedisPassword := v\<rparr>"
  "secretFiles ''jwt_signing_key'' v c = c\<lparr>JWTSigningKey := v\<rparr>" "secretFiles ''bootstrap_email'' v c = c\<lparr>BootstrapEmail := v\<rparr>"
  "secretFiles ''bootstrap_password'' v c = c\<lparr>BootstrapPassword := v\<rparr>"
  by (simp_all add: secretFiles_def)

lemma secretFiles_other: "n \<notin> set secret_names \<Longrightarrow> secretFiles n v c = c"
  by (simp add: secretFiles_def secret_names_def)

lemma secretFiles_commute:
  assumes "n \<noteq> m"
  shows "secretFiles n v (secretFiles m u c) = secretFiles m u (secretFiles n v c)"
proof (cases "n \<in> set secret_names \<and> m \<in> set secret_names")
  case True
  with assms show ?thesis unfolding secret_names_def by (elim conjE) (simp, elim disjE; simp add: secretFiles_simps)
qed (auto simp: secretFiles_other)

lemma overlaid_commute: "n \<noteq> m \<Longrightarrow> overlaid fs n (overlaid fs m c) = overlaid fs m (overlaid fs n c)"
  by (cases "fs (SecretsDir c) n"; cases "fs (SecretsDir c) m")
    (simp_all add: overlaid_def secretFiles_commute [of n m])

fun read_error :: "file_result \<Rightarrow> string" where
  "read_error (ReadError e) = e"
| "read_error _ = []"

lemma secrets_loop_fold:
  "secrets_loop fs names c = (case find (\<lambda>n. \<not> readable fs c n) names of
     None \<Rightarrow> Inr (fold (overlaid fs) names c)
   | Some n \<Rightarrow> Inl (ReadSecret n (read_error (fs (SecretsDir c) n))))"
proof (induction names arbitrary: c)
  case (Cons n names)
  show ?case
  proof (cases "fs (SecretsDir c) n")
    case NotExist
    then have "overlaid fs n c = c" "readable fs c n" by (simp_all add: overlaid_def readable_def)
    with NotExist Cons.IH [of c] show ?thesis by (simp split: option.split)
  next
    case (Content raw)
    then have o: "(if TrimSpace raw \<noteq> [] then secretFiles n (TrimSpace raw) c else c) = overlaid fs n c" and "readable fs c n"
      by (simp_all add: overlaid_def readable_def)
    with Content Cons.IH [of "overlaid fs n c"] show ?thesis by (simp add: Let_def split: option.split)
  qed (simp add: readable_def)
qed simp

lemma secrets_loop_order:
  assumes "mset names = mset names'"
  shows "(\<exists>e e'. secrets_loop fs names c = Inl e \<and> secrets_loop fs names' c = Inl e') \<or>
    secrets_loop fs names c = secrets_loop fs names' c"
proof -
  have same: "set names = set names'" using assms by (metis set_mset_mset)
  have fold: "fold (overlaid fs) names = fold (overlaid fs) names'"
    by (rule fold_multiset_equiv [OF _ assms]) (auto simp: fun_eq_iff intro: overlaid_commute)
  show ?thesis
  proof (cases "find (\<lambda>n. \<not> readable fs c n) names")
    case None
    then have "find (\<lambda>n. \<not> readable fs c n) names' = None" using same by (simp add: find_None_iff)
    with None fold show ?thesis by (simp add: secrets_loop_fold)
  next
    case (Some n)
    then obtain n' where n': "find (\<lambda>n. \<not> readable fs c n) names' = Some n'"
      using same by (metis find_None_iff option.exhaust)
    from Some n' have "\<not> readable fs c n" "\<not> readable fs c n'" by (auto simp: find_Some_iff)
    with Some n' show ?thesis by (auto simp: secrets_loop_fold readable_def)
  qed
qed

subsection \<open>Secrets win\<close>

definition secret_value :: "string \<Rightarrow> Config \<Rightarrow> string" where
  "secret_value name c =
     (if name = ''database_url'' then DatabaseURL c
      else if name = ''redis_password'' then RedisPassword c
      else if name = ''jwt_signing_key'' then JWTSigningKey c
      else if name = ''bootstrap_email'' then BootstrapEmail c
      else BootstrapPassword c)"

lemma secret_value_simps:
  "secret_value ''database_url'' c = DatabaseURL c" "secret_value ''redis_password'' c = RedisPassword c"
  "secret_value ''jwt_signing_key'' c = JWTSigningKey c" "secret_value ''bootstrap_email'' c = BootstrapEmail c"
  "secret_value ''bootstrap_password'' c = BootstrapPassword c"
  by (simp_all add: secret_value_def)

lemma secret_value_same: "n \<in> set secret_names \<Longrightarrow> secret_value n (secretFiles n v c) = v"
  unfolding secret_names_def by (simp, elim disjE; simp add: secret_value_simps secretFiles_simps)

lemma secret_value_other: "n \<in> set secret_names \<Longrightarrow> m \<in> set secret_names \<Longrightarrow> n \<noteq> m \<Longrightarrow> secret_value n (secretFiles m v c) = secret_value n c"
  unfolding secret_names_def by (simp, elim disjE; simp add: secret_value_simps secretFiles_simps)

lemma fold_overlaid_value:
  assumes "n \<in> set secret_names" and "set names \<subseteq> set secret_names" and "distinct names"
    and "fs (SecretsDir c) n = Content raw" and "TrimSpace raw \<noteq> []"
  shows "secret_value n (fold (overlaid fs) names c) = (if n \<in> set names then TrimSpace raw else secret_value n c)"
  using assms(2-)
proof (induction names arbitrary: c)
  case (Cons m names)
  have "secret_value n (overlaid fs m c) = (if m = n then TrimSpace raw else secret_value n c)"
    using Cons.prems assms(1)
    by (cases "fs (SecretsDir c) m") (auto simp: overlaid_def secret_value_same secret_value_other)
  with Cons.IH [of "overlaid fs m c"] Cons.prems show ?case by auto
qed simp

lemma applySecrets_order:
  assumes "mset order = mset order'" and "applySecrets fs order c0 = Inr c"
  shows "applySecrets fs order' c0 = Inr c"
  using assms secrets_loop_order [OF assms(1), of fs c0] by (auto simp: applySecrets_def split: if_splits)

lemma distinct_secret_names: "distinct secret_names"
  by (simp add: secret_names_def)

lemma applySecrets_value:
  assumes "mset order = mset secret_names" and "applySecrets fs order c0 = Inr c" and "SecretsDir c0 \<noteq> []"
    and "name \<in> set secret_names" and "fs (SecretsDir c0) name = Content raw" and "TrimSpace raw \<noteq> []"
  shows "secret_value name c = TrimSpace raw"
proof -
  have "set order = set secret_names" using assms(1) by (metis set_mset_mset)
  moreover have "distinct order" using assms(1) by (metis mset_eq_imp_distinct_iff distinct_secret_names)
  moreover have "c = fold (overlaid fs) order c0"
    using assms(2,3) by (simp add: applySecrets_def secrets_loop_fold split: option.splits)
  ultimately show ?thesis using fold_overlaid_value [of name order fs c0 raw] assms(4-6) by simp
qed

text \<open>
  Deploy-time secrets win. Loading succeeds with the same configuration in whatever order the secrets
  are visited, a secret whose file has a value replaces what the environment said, trimmed, and the
  result has passed every check: in particular a signing key of at least 64 bytes, a positive token
  lifetime, and bootstrap credentials that are complete when there are any.
\<close>

theorem loaded_secrets_win:
  assumes "Load (Inr c0) fs order mail = Inr c" and "mset order = mset secret_names"
  shows "(mset order' = mset secret_names \<longrightarrow> Load (Inr c0) fs order' mail = Inr c) \<and>
    (SecretsDir c0 \<noteq> [] \<and> name \<in> set secret_names \<and> fs (SecretsDir c0) name = Content raw \<and> TrimSpace raw \<noteq> [] \<longrightarrow>
       secret_value name c = TrimSpace raw) \<and>
    length (JWTSigningKey c) \<ge> 64 \<and> JWTTTL c > 0 \<and> (BootstrapEmail c \<noteq> [] \<longrightarrow> BootstrapConfigured c)"
proof -
  have ap: "applySecrets fs order c0 = Inr c" and valid: "Validate mail c = None"
    using assms(1) by (auto simp: Load_def split: sum.splits option.splits)
  have "Load (Inr c0) fs order' mail = Inr c" if "mset order' = mset secret_names"
    using applySecrets_order [OF _ ap, of order'] assms(2) that valid by (simp add: Load_def)
  then show ?thesis
    using applySecrets_value [OF assms(2) ap] loaded_limits [OF assms(1)] by blast
qed

definition demo_config :: Config where
  "demo_config = \<lparr>ListenAddr = '':8080'', LogLevel = ''info'', DatabaseURL = ''postgres://db'', RedisAddr = ''localhost:6379'',
     RedisPassword = [], RedisDB = 0, JWTSigningKey = ''too short'', JWTTTL = 3600 * second, BootstrapEmail = [],
     BootstrapPassword = [], LockoutMaxFailures = 5, LockoutWindow = 900 * second, LoginRateLimit = 30,
     OperationalRateLimit = 600, TrustProxyHeaders = False, AllowedOrigins = [], OTelEnabled = False,
     SecretsDir = ''/run/secrets'', WorkerGRPCListenAddr = '':9090'', WorkerAdvertiseAddr = [], MaxSessionsPerWorker = 200,
     PairingWindow = 180 * second, LeaseHeartbeatInterval = 10 * second, LeaseExpiry = 30 * second,
     ReconcileInterval = 15 * second, DeviceName = ''ZapperMeow'', ClaimWait = 3 * second,
     ConnectionEventsRetention = 2592000 * second\<rparr>"

definition demo_files :: files where
  "demo_files dir name = (if name = ''jwt_signing_key'' then Content (replicate 64 CHR ''k'' @ [CHR 0x0A]) else NotExist)"

lemma demo_load: "Load (Inr demo_config) demo_files secret_names Some = Inr (demo_config\<lparr>JWTSigningKey := replicate 64 CHR ''k''\<rparr>)"
proof -
  let ?c = "demo_config\<lparr>JWTSigningKey := replicate 64 CHR ''k''\<rparr>"
  have key: "TrimSpace (replicate 64 CHR ''k'' @ [CHR 0x0A]) = replicate 64 CHR ''k''" "replicate 64 CHR ''k'' \<noteq> []" by code_simp+
  have "problems Some ?c = []" by code_simp
  moreover have "applySecrets demo_files secret_names demo_config = Inr ?c"
    using key by (simp add: applySecrets_def secret_names_def demo_files_def secretFiles_simps) (simp add: demo_config_def)
  ultimately show ?thesis by (simp add: Load_def Validate_def)
qed

theorem loaded_secrets_win_witness:
  "Load (Inr demo_config) demo_files (rev secret_names) Some = Inr (demo_config\<lparr>JWTSigningKey := replicate 64 CHR ''k''\<rparr>) \<and>
   secret_value ''jwt_signing_key'' (demo_config\<lparr>JWTSigningKey := replicate 64 CHR ''k''\<rparr>) = replicate 64 CHR ''k''"
proof -
  have "TrimSpace (replicate 64 CHR ''k'' @ [CHR 0x0A]) = replicate 64 CHR ''k''" "replicate 64 CHR ''k'' \<noteq> []" by code_simp+
  with loaded_secrets_win [OF demo_load refl, of "rev secret_names" "''jwt_signing_key''" "replicate 64 CHR ''k'' @ [CHR 0x0A]"]
  show ?thesis by (simp add: demo_files_def secret_names_def) (simp add: demo_config_def)
qed

subsection \<open>Lease timing\<close>

text \<open>
  C16. The checks of the lease timing are what failover needs. When every worker runs with a validated
  configuration, a worker whose last recorded heartbeat is at most two heartbeat intervals old still owns
  its lease under the same generation, whatever the other workers attempt: one whole heartbeat may be
  lost. (The interval is at least a microsecond, the resolution of the database, and short enough that
  three of them fit a 64-bit duration.)
\<close>

theorem validated_timing_tolerates_a_lost_heartbeat:
  assumes "Load parsed fs order mail = Inr c"
    and "1000 \<le> LeaseHeartbeatInterval c" and "3 * LeaseHeartbeatInterval c < 2 ^ 63"
    and "held_by i a g hb (db w)" and "hb \<le> now w"
    and "\<forall>op \<in> set ops. undisturbed a (LeaseExpiry c) op"
    and "now (run_ops ops w) \<le> hb + 2 * LeaseHeartbeatInterval c"
  shows "held_by i a g hb (db (run_ops ops w))"
proof -
  have "int64 (3 * LeaseHeartbeatInterval c) = 3 * LeaseHeartbeatInterval c"
    using assms(2,3) by (intro int64_small) simp_all
  then have "LeaseExpiry c \<ge> 3 * LeaseHeartbeatInterval c" using loaded_limits(10) [OF assms(1)] by simp
  then have "2 * LeaseHeartbeatInterval c \<le> Interval (LeaseExpiry c)"
    using assms(2) by (simp add: Interval_def)
  with assms(7) have "now (run_ops ops w) \<le> hb + Interval (LeaseExpiry c)" by simp
  with assms(4-6) show ?thesis by (rule live_owner_holds)
qed

theorem validated_timing_tolerates_a_lost_heartbeat_witness:
  "held_by 7 ''w1'' 1 100 (db (run_ops
     [OpTick 20000000000, OpAcquire (demo_manager ''w2'') 7, OpReleaseAll (demo_manager ''w2'')] demo_taken))"
  by (rule validated_timing_tolerates_a_lost_heartbeat [OF demo_load])
    (simp_all add: demo_config_def second_def demo_taken_def Acquire_def AcquireLease_def wrapE_def run_statement_ok demo_defs
      first_where_def acquire_guard_def claimable_def held_by_def lease_of_def acquire_set_def
      holds_lease_def run_ops_def ReleaseAll_def ReleaseWorkerLeases_def Interval_def exec_on_leases_def expired_def)

end
