(* ===== verification/Drivers.thy ===== *)
theory Drivers
  imports Config
begin

text \<open>
  Opening the database, the schema and Redis: \<open>NewPool\<close>, \<open>NewRedis\<close> (\<open>internal/store/db.go\<close>) and
  \<open>Migrate\<close> (\<open>internal/store/migrate.go\<close>). The drivers and the migration tool are parameters that say
  how each of their calls ends. Every function returns its result together with the handles it opened
  and closed, in order, so that what a failed start leaves open can be stated.
\<close>

subsection \<open>The drivers\<close>

datatype handle = MigrationSource | MigrationConnection | Pool | RedisClient

datatype handle_event = Opened handle | Closed handle

record PoolConfig =
  pc_URL :: string
  MaxConnLifetime :: duration
  MaxConnIdleTime :: duration
  HealthCheckPeriod :: duration

record RedisOptions =
  ro_Addr :: string
  ro_Password :: string
  ro_DB :: int

text \<open>\<open>m.Up()\<close>: migrations were applied, there were none to apply (\<open>migrate.ErrNoChange\<close>), or one failed.\<close>

datatype up_outcome = UpApplied | UpNoChange | UpFailed string

record drivers =
  dv_iofs :: "string option"
  dv_sql_Open :: "string \<Rightarrow> string option"
  dv_WithInstance :: "string \<Rightarrow> string option"
  dv_NewWithInstance :: "string \<Rightarrow> string option"
  dv_Up :: "string \<Rightarrow> up_outcome"
  dv_Version :: "string \<Rightarrow> string + nat \<times> bool"
  dv_ParseConfig :: "string \<Rightarrow> string + PoolConfig"
  dv_NewWithConfig :: "PoolConfig \<Rightarrow> string option"
  dv_pool_Ping :: "PoolConfig \<Rightarrow> string option"
  dv_redis_Ping :: "RedisOptions \<Rightarrow> string option"

subsection \<open>Migrating\<close>

record MigrateResult =
  mr_Version :: nat
  mr_Applied :: bool

definition schema_version :: "drivers \<Rightarrow> string \<Rightarrow> bool \<Rightarrow> string + MigrateResult" where
  "schema_version dv url applied = (case dv_Version dv url of
       Inl e \<Rightarrow> Inl (''read schema version: '' @ e)
     | Inr (version, dirty) \<Rightarrow>
         if dirty then Inl (''schema version '' @ FormatInt (int version) @ '' is dirty: manual intervention required'')
         else Inr \<lparr>mr_Version = version, mr_Applied = applied\<rparr>)"

definition run_migrations :: "drivers \<Rightarrow> string \<Rightarrow> string + MigrateResult" where
  "run_migrations dv url = (case dv_WithInstance dv url of
       Some e \<Rightarrow> Inl (''create migration driver: '' @ e)
     | None \<Rightarrow> (case dv_NewWithInstance dv url of
          Some e \<Rightarrow> Inl (''create migrator: '' @ e)
        | None \<Rightarrow> (case dv_Up dv url of
             UpFailed e \<Rightarrow> Inl (''apply migrations: '' @ e)
           | UpNoChange \<Rightarrow> schema_version dv url False
           | UpApplied \<Rightarrow> schema_version dv url True)))"

definition Migrate :: "drivers \<Rightarrow> string \<Rightarrow> (string + MigrateResult) \<times> handle_event list" where
  "Migrate dv url = (case dv_iofs dv of
       Some e \<Rightarrow> (Inl (''open embedded migrations: '' @ e), [])
     | None \<Rightarrow> (case dv_sql_Open dv url of
          Some e \<Rightarrow> (Inl (''open migration connection: '' @ e), [Opened MigrationSource, Closed MigrationSource])
        | None \<Rightarrow> (run_migrations dv url, [Opened MigrationSource, Opened MigrationConnection,
            Closed MigrationConnection, Closed MigrationSource])))"

subsection \<open>Opening the pool and the Redis client\<close>

definition tuned :: "PoolConfig \<Rightarrow> PoolConfig" where
  "tuned cfg = cfg\<lparr>MaxConnLifetime := 3600 * second, MaxConnIdleTime := 30 * 60 * second, HealthCheckPeriod := 60 * second\<rparr>"

definition NewPool :: "drivers \<Rightarrow> string \<Rightarrow> (string + PoolConfig) \<times> handle_event list" where
  "NewPool dv url = (case dv_ParseConfig dv url of
       Inl e \<Rightarrow> (Inl (''parse database url: '' @ e), [])
     | Inr parsed \<Rightarrow> (let cfg = tuned parsed in case dv_NewWithConfig dv cfg of
          Some e \<Rightarrow> (Inl (''create pool: '' @ e), [])
        | None \<Rightarrow> (case dv_pool_Ping dv cfg of
             Some e \<Rightarrow> (Inl (''ping database: '' @ e), [Opened Pool, Closed Pool])
           | None \<Rightarrow> (Inr cfg, [Opened Pool]))))"

definition NewRedis :: "drivers \<Rightarrow> RedisOptions \<Rightarrow> (string + RedisOptions) \<times> handle_event list" where
  "NewRedis dv opts = (case dv_redis_Ping dv opts of
       Some e \<Rightarrow> (Inl (''ping redis: '' @ e), [Opened RedisClient, Closed RedisClient])
     | None \<Rightarrow> (Inr opts, [Opened RedisClient]))"

definition redis_options :: "Config \<Rightarrow> RedisOptions" where
  "redis_options c = \<lparr>ro_Addr = RedisAddr c, ro_Password = RedisPassword c, ro_DB = RedisDB c\<rparr>"

subsection \<open>Facts\<close>

text \<open>The handles open after a sequence of events.\<close>

fun still_open :: "handle_event list \<Rightarrow> handle set" where
  "still_open [] = {}"
| "still_open (e # es) = (case e of Opened h \<Rightarrow> (if Closed h \<in> set es then still_open es else insert h (still_open es))
     | Closed h \<Rightarrow> still_open es)"

text \<open>Migrating leaves nothing open; the other two leave their handle open exactly when they succeed.\<close>

lemma handles_left_open:
  "still_open (snd (Migrate dv url)) = {}"
  "still_open (snd (NewPool dv url)) = (case fst (NewPool dv url) of Inl _ \<Rightarrow> {} | Inr _ \<Rightarrow> {Pool})"
  "still_open (snd (NewRedis dv opts)) = (case fst (NewRedis dv opts) of Inl _ \<Rightarrow> {} | Inr _ \<Rightarrow> {RedisClient})"
  by (auto simp: Migrate_def NewPool_def NewRedis_def Let_def split: option.split sum.split)

text \<open>A schema is reported only when it is clean.\<close>

lemma Migrate_Inr:
  assumes "fst (Migrate dv url) = Inr r"
  shows "dv_Version dv url = Inr (mr_Version r, False) \<and> (mr_Applied r \<longleftrightarrow> dv_Up dv url = UpApplied)"
  using assms by (auto simp: Migrate_def run_migrations_def schema_version_def
    split: option.splits up_outcome.splits sum.splits if_splits)

lemma NewPool_Inr:
  assumes "fst (NewPool dv url) = Inr cfg"
  shows "dv_pool_Ping dv cfg = None \<and> MaxConnLifetime cfg = 3600 * second"
  using assms by (auto simp: NewPool_def tuned_def Let_def split: option.splits sum.splits)

end
