(* ===== verification/Retention.thy ===== *)
theory Retention
  imports Store
begin

text \<open>
  \<open>internal/worker/retention.go\<close>: the sweep of the connection trail under a PostgreSQL advisory lock. Such
  a lock belongs to the database session that took it, and the statements of the pool run on whichever
  pooled connection is free, so the connection of each statement is an argument.
\<close>

subsection \<open>The advisory lock\<close>

text \<open>
  The session that holds the lock and how often it took it. \<open>pg_try_advisory_lock\<close> never blocks and is
  reentrant within a session; \<open>pg_advisory_unlock\<close> by another session answers false and does nothing.
\<close>

type_synonym session_id = nat

record lock_world = world +
  retention_lock :: "(session_id \<times> nat) option"

definition lock_call ::
  "((session_id \<times> nat) option \<Rightarrow> 'a \<times> (session_id \<times> nat) option) \<Rightarrow> ('z lock_world_scheme, db_error, 'a) io" where
  "lock_call f = (\<lambda>w. case next_outcome w of
       (Delivered, w') \<Rightarrow> (case f (retention_lock w') of (r, l) \<Rightarrow> (Inr r, w'\<lparr>retention_lock := l\<rparr>))
     | (RequestLost, w') \<Rightarrow> (Inl ConnectionFailure, w')
     | (ReplyLost, w') \<Rightarrow> (Inl ConnectionFailure, w'\<lparr>retention_lock := snd (f (retention_lock w'))\<rparr>))"

definition try_lock :: "session_id \<Rightarrow> (session_id \<times> nat) option \<Rightarrow> bool \<times> (session_id \<times> nat) option" where
  "try_lock s l = (case l of
       None \<Rightarrow> (True, Some (s, 1))
     | Some (h, n) \<Rightarrow> if h = s then (True, Some (s, n + 1)) else (False, l))"

definition unlock :: "session_id \<Rightarrow> (session_id \<times> nat) option \<Rightarrow> unit \<times> (session_id \<times> nat) option" where
  "unlock s l = ((), case l of
       None \<Rightarrow> None
     | Some (h, n) \<Rightarrow> if h = s then (if n \<le> 1 then None else Some (h, n - 1)) else l)"

definition TryAdvisoryLock :: "session_id \<Rightarrow> ('z lock_world_scheme, db_error, bool) io" where
  "TryAdvisoryLock s = lock_call (try_lock s)"

definition AdvisoryUnlock :: "session_id \<Rightarrow> ('z lock_world_scheme, db_error, unit) io" where
  "AdvisoryUnlock s = lock_call (unlock s)"

subsection \<open>The sweep\<close>

record Retention =
  rt_window :: duration
  rt_interval :: duration

text \<open>The rows removed; an error is logged and counts as none. The unlock is deferred to the return.\<close>

definition SweepOnce :: "Retention \<Rightarrow> session_id \<Rightarrow> session_id \<Rightarrow> ('z lock_world_scheme, db_error, int) io" where
  "SweepOnce r c1 c2 = bindE (attempt (TryAdvisoryLock c1)) (\<lambda>acquired. case acquired of
       Inl _ \<Rightarrow> ret 0
     | Inr False \<Rightarrow> ret 0
     | Inr True \<Rightarrow>
         bindE (getsE now) (\<lambda>t.
         bindE (attempt (DeleteConnectionEventsBefore (t - rt_window r))) (\<lambda>removed.
         bindE (ignoreE (AdvisoryUnlock c2)) (\<lambda>_.
         ret (case removed of Inl _ \<Rightarrow> 0 | Inr n \<Rightarrow> n)))))"

text \<open>The loop of \<open>Run\<close> over the ticks it sees before its context ends, with the connections each tick gets.\<close>

fun retention_Run :: "Retention \<Rightarrow> (duration \<times> session_id \<times> session_id) list \<Rightarrow> ('z lock_world_scheme, db_error, unit) io" where
  "retention_Run r [] = ret ()"
| "retention_Run r ((wait, c1, c2) # ticks) =
     bindE (modifyE (\<lambda>w. w\<lparr>now := now w + wait\<rparr>)) (\<lambda>_.
     bindE (SweepOnce r c1 c2) (\<lambda>_. retention_Run r ticks))"

subsection \<open>What a sweep does\<close>

lemma lock_call_ok: "faults w = [] \<Longrightarrow> lock_call f w = (Inr (fst (f (retention_lock w))), w\<lparr>retention_lock := snd (f (retention_lock w))\<rparr>)"
  by (simp add: lock_call_def next_outcome_def split_beta)

definition pruned :: "gotime \<Rightarrow> database \<Rightarrow> database" where
  "pruned limit d = d\<lparr>connection_events := filter (\<lambda>e. \<not> e_occurred_at e < limit) (connection_events d)\<rparr>"

lemma sweep_ok:
  assumes "faults w = []"
  shows "SweepOnce r c1 c2 w = (case try_lock c1 (retention_lock w) of
      (False, _) \<Rightarrow> (Inr 0, w)
    | (True, l) \<Rightarrow> (Inr (int (length (filter (\<lambda>e. e_occurred_at e < now w - rt_window r) (connection_events (db w))))),
        w\<lparr>db := pruned (now w - rt_window r) (db w), retention_lock := snd (unlock c2 l)\<rparr>))"
  using assms
  by (auto simp: SweepOnce_def bindE_def attempt_def TryAdvisoryLock_def AdvisoryUnlock_def lock_call_ok ret_def getsE_def ignoreE_def
    DeleteConnectionEventsBefore_def run_statement_ok pruned_def try_lock_def split: option.splits if_splits)

lemma run_locked_out:
  assumes "faults w = []" and "retention_lock w = Some (h, n)" and "\<forall>(wait, d1, d2) \<in> set ticks. d1 \<noteq> h"
  shows "db (snd (retention_Run r ticks w)) = db w"
  using assms
proof (induction ticks arbitrary: w)
  case (Cons tick ticks)
  obtain wait d1 d2 where tick: "tick = (wait, d1, d2)" by (cases tick)
  let ?w = "w\<lparr>now := now w + wait\<rparr>"
  have "SweepOnce r d1 d2 ?w = (Inr 0, ?w)"
    using Cons.prems tick by (simp add: sweep_ok try_lock_def)
  then have "retention_Run r (tick # ticks) w = retention_Run r ticks ?w"
    by (simp add: tick bindE_def modifyE_def)
  with Cons.IH [of ?w] Cons.prems show ?case by simp
qed (simp add: ret_def)

lemma pruned_count:
  "int (length (filter (\<lambda>e. e_occurred_at e < limit) (connection_events d))) =
   int (length (connection_events d)) - int (length (connection_events (pruned limit d)))"
  using sum_length_filter_compl [of "\<lambda>e. e_occurred_at e < limit" "connection_events d"] by (simp add: pruned_def)


definition demo_trail_row :: "gotime \<Rightarrow> TrailRow" where
  "demo_trail_row t = \<lparr>e_id = t, e_instance_id = 7, e_type = ConnEventConnected, e_reason = None, e_detail = None, e_occurred_at = t\<rparr>"

definition demo_sweep :: lock_world where
  "demo_sweep = \<lparr>db = \<lparr>tenants = [], users = [], instances = [], api_keys = [], security_events = [],
     session_leases = [], connection_events = [demo_trail_row 10, demo_trail_row 90], next_event_id = 91\<rparr>, now = 100, faults = [], retention_lock = None\<rparr>"


end
