(* ===== verification/Processes.thy ===== *)
theory Processes
  imports Config Drivers Retention Fleet Routes
begin

text \<open>
  The processes of \<open>cmd/zappermeow\<close>: the dispatch of \<open>main.go\<close>, the start of the API (\<open>serve.go\<close>,
  \<open>api/application.go\<close>) and the life of a session worker (\<open>session_worker.go\<close>, the loop of
  \<open>worker/reconcile.go\<close>, the control channels of \<open>events/subscriber.go\<close>). What the operating system and the
  drivers answer during the start is a parameter; the calls of the drivers are in \<open>Drivers\<close>.
\<close>

subsection \<open>Subcommands\<close>

text \<open>The last three are errors; all but the refusal of \<open>jobs\<close> show the usage.\<close>

datatype subcommand = RunServe | RunSessionWorker | UsageShown | JobsNotImplemented | MissingSubcommand | UnknownSubcommand string

text \<open>\<open>os.Args\<close> without the program name.\<close>

definition cli_run :: "string list \<Rightarrow> subcommand" where
  "cli_run args = (case args of
       [] \<Rightarrow> MissingSubcommand
     | a # _ \<Rightarrow>
        if a = ''serve'' then RunServe
        else if a = ''session-worker'' then RunSessionWorker
        else if a = ''jobs'' then JobsNotImplemented
        else if a \<in> {''help'', ''-h'', ''--help''} then UsageShown
        else UnknownSubcommand a)"

subsection \<open>What a start needs from outside\<close>

record boot_env =
  be_parsed :: "string + Config"
  be_files :: files
  be_order :: "string list"
  be_mail :: "string \<Rightarrow> string option"
  be_hostname :: "string + string"
  be_random :: "string option"
  be_drivers :: drivers
  be_container :: "string option"
  be_ParseAddr :: "string \<Rightarrow> string option"
  be_listen :: "string \<Rightarrow> string option"

datatype process_error =
    ConfigFailed config_error | MigrateFailed string | PoolFailed string | RedisFailed string | BootstrapFailed go_error
  | ContainerFailed string | ListenFailed string | ServerFailed string | ShutdownFailed string | RuntimeFailed string | DrainFailed worker_error

definition unless_error :: "(string \<Rightarrow> process_error) \<Rightarrow> string option \<Rightarrow> ('w, process_error, unit) io" where
  "unless_error f r = (case r of None \<Rightarrow> ret () | Some e \<Rightarrow> throw (f e))"

definition boot_config :: "boot_env \<Rightarrow> ('w, process_error, Config) io" where
  "boot_config env = (case Load (be_parsed env) (be_files env) (be_order env) (be_mail env) of
       Inl e \<Rightarrow> throw (ConfigFailed e) | Inr c \<Rightarrow> ret c)"

subsection \<open>The API process\<close>

record Application =
  app_auth :: AuthService
  app_leases :: Manager
  app_server :: ServerOptions

text \<open>
  \<open>NewApplication\<close>: the bootstrap of the first super-admin runs before the routes are handed out. What is
  returned is what the wiring derives from the configuration: the authentication service with its token
  issuer, the manager through which the API reads leases (it never takes one), and the options of the server.
\<close>

definition application :: "jwt_lib \<Rightarrow> uuid_lib \<Rightarrow> (string \<Rightarrow> string option) \<Rightarrow> Config \<Rightarrow> Application" where
  "application jwt ids parse_addr c = \<lparr>
     app_auth = \<lparr>as_issuer = \<lparr>ti_key = JWTSigningKey c, ti_ttl = JWTTTL c, ti_jwt = jwt, ti_ids = ids\<rparr>,
       as_maxFailures = LockoutMaxFailures c, as_lockWindow = LockoutWindow c\<rparr>,
     app_leases = \<lparr>workerID = ''api'', grpcAddr = [], m_expiry = LeaseExpiry c\<rparr>,
     app_server = \<lparr>so_trustProxyHeaders = TrustProxyHeaders c, so_allowedOrigins = AllowedOrigins c, so_ParseAddr = parse_addr\<rparr>\<rparr>"

definition NewApplication ::
  "account_lib \<Rightarrow> jwt_lib \<Rightarrow> (nat \<Rightarrow> ID) \<Rightarrow> string option \<Rightarrow> boot_env \<Rightarrow> Config \<Rightarrow> ('z world_scheme, process_error, Application) io" where
  "NewApplication lib jwt fresh salt env c =
     bindE (wrapE BootstrapFailed (bootstrap_Run lib fresh salt \<lparr>bc_Email = BootstrapEmail c, bc_Password = BootstrapPassword c\<rparr>)) (\<lambda>_.
     ret (application jwt (al_ids lib) (be_ParseAddr env) c))"

text \<open>Everything \<open>runServe\<close> does before it listens.\<close>

definition prepare_serve ::
  "account_lib \<Rightarrow> jwt_lib \<Rightarrow> (nat \<Rightarrow> ID) \<Rightarrow> string option \<Rightarrow> boot_env \<Rightarrow> ('z world_scheme, process_error, Config \<times> Application) io" where
  "prepare_serve lib jwt fresh salt env =
     bindE (boot_config env) (\<lambda>c.
     bindE (ret_or_throw MigrateFailed (fst (Migrate (be_drivers env) (DatabaseURL c)))) (\<lambda>_.
     bindE (ret_or_throw PoolFailed (fst (NewPool (be_drivers env) (DatabaseURL c)))) (\<lambda>_.
     bindE (ret_or_throw RedisFailed (fst (NewRedis (be_drivers env) (redis_options c)))) (\<lambda>_.
     bindE (NewApplication lib jwt fresh salt env c) (\<lambda>app.
     ret (c, app))))))"

text \<open>
  How serving ends: \<open>ListenAndServe\<close> returned (\<open>None\<close> is \<open>http.ErrServerClosed\<close>), or a signal came and
  \<open>Shutdown\<close> answered. The requests served in between are any sequence of \<open>handle_request\<close>.
\<close>

datatype serve_end = ListenReturned "string option" | ServeSignalled "string option"

definition runServe ::
  "account_lib \<Rightarrow> jwt_lib \<Rightarrow> (nat \<Rightarrow> ID) \<Rightarrow> string option \<Rightarrow> boot_env \<Rightarrow> (Config \<times> Application \<Rightarrow> 'z world_scheme \<Rightarrow> 'z world_scheme) \<Rightarrow>
   serve_end \<Rightarrow> ('z world_scheme, process_error, unit) io" where
  "runServe lib jwt fresh salt env requests exit =
     bindE (prepare_serve lib jwt fresh salt env) (\<lambda>served.
     bindE (modifyE (requests served)) (\<lambda>_.
     case exit of
       ListenReturned err \<Rightarrow> unless_error ServerFailed err
     | ServeSignalled err \<Rightarrow> unless_error ShutdownFailed err))"

subsection \<open>The session worker\<close>

text \<open>\<open>SubscribeControl\<close>: the instance ids of the well-formed messages of a control channel, in order.\<close>

definition SubscribeControl :: "uuid_lib \<Rightarrow> string list \<Rightarrow> ID list" where
  "SubscribeControl ids messages = List.map_filter (parseUUID ids) messages"

text \<open>The cases of the select in \<open>Run\<close>, in the order they become ready.\<close>

datatype runtime_case = TickHeartbeat | TickReconcile | ClaimMessage ID | StopMessage ID

definition runtime_case_do :: "'s Supervisor \<Rightarrow> runtime_case \<Rightarrow> (('s, 'z) worker_world_scheme, worker_error, unit) io" where
  "runtime_case_do s c = (case c of
       TickHeartbeat \<Rightarrow> heartbeatOnce s
     | TickReconcile \<Rightarrow> reconcileOnce s
     | ClaimMessage i \<Rightarrow> runtime_claim s i
     | StopMessage i \<Rightarrow> runtime_stop s i)"

text \<open>\<open>Run\<close>, once both control channels are subscribed: reconcile, then the cases until the context ends.\<close>

definition runtime_Run :: "'s Supervisor \<Rightarrow> runtime_case list \<Rightarrow> (('s, 'z) worker_world_scheme, worker_error, unit) io" where
  "runtime_Run s cases = bindE (reconcileOnce s) (\<lambda>_. forE cases (runtime_case_do s))"

record booted =
  bo_config :: Config
  bo_addr :: string
  bo_id :: string

definition boot_worker :: "boot_env \<Rightarrow> ('w, process_error, booted) io" where
  "boot_worker env =
     bindE (boot_config env) (\<lambda>c.
     bindE (ret_or_throw ConfigFailed (WorkerAdvertise (be_hostname env) c)) (\<lambda>addr.
     bindE (ret_or_throw ConfigFailed (workerIdentity (be_hostname env) (be_random env) addr)) (\<lambda>i.
     bindE (ret_or_throw PoolFailed (fst (NewPool (be_drivers env) (DatabaseURL c)))) (\<lambda>_.
     bindE (ret_or_throw RedisFailed (fst (NewRedis (be_drivers env) (redis_options c)))) (\<lambda>_.
     bindE (unless_error ContainerFailed (be_container env)) (\<lambda>_.
     bindE (unless_error ListenFailed (be_listen env (WorkerGRPCListenAddr c))) (\<lambda>_.
     ret \<lparr>bo_config = c, bo_addr = addr, bo_id = i\<rparr>)))))))"

definition NewSupervisor :: "'s session_api \<Rightarrow> booted \<Rightarrow> 's Supervisor" where
  "NewSupervisor api b = \<lparr>sup_api = api,
     sup_leases = \<lparr>workerID = bo_id b, grpcAddr = bo_addr b, m_expiry = LeaseExpiry (bo_config b)\<rparr>,
     sup_pairingWindow = PairingWindow (bo_config b), sup_maxSessions = MaxSessionsPerWorker (bo_config b)\<rparr>"

text \<open>Which channel ends the process: the gRPC server, the runtime, or a signal.\<close>

datatype process_end = ServeEnded "string option" | RuntimeEnded "string option" | Signalled

text \<open>
  \<open>runSessionWorker\<close>: start, the work of all goroutines in any interleaving (\<open>acts\<close>, after the first
  reconciliation), and the end. What the retention sweep and other
  processes do to the database in between is among these actions (\<open>ActDatabase\<close>). Only a signal drains: after the last command was answered.
\<close>

definition runSessionWorker ::
  "'s session_api \<Rightarrow> boot_env \<Rightarrow> worker_action list \<Rightarrow> process_end \<Rightarrow> (('s, 'z) worker_world_scheme, process_error, unit) io" where
  "runSessionWorker api env acts exit =
     bindE (boot_worker env) (\<lambda>b. let s = NewSupervisor api b in
     bindE (modifyE (perform_all s (ActReconcile # acts))) (\<lambda>_.
     case exit of
       ServeEnded err \<Rightarrow> unless_error ServerFailed err
     | RuntimeEnded err \<Rightarrow> unless_error RuntimeFailed err
     | Signalled \<Rightarrow> wrapE DrainFailed (Shutdown s)))"

subsection \<open>The loop of the runtime is one of the interleavings\<close>

fun case_action :: "runtime_case \<Rightarrow> worker_action" where
  "case_action TickHeartbeat = ActHeartbeat"
| "case_action TickReconcile = ActReconcile"
| "case_action (ClaimMessage i) = ActClaim i"
| "case_action (StopMessage i) = ActStop i"

lemma noerr_reconcile_loop: "noerr (reconcile_loop s is)"
  by (induction "is") (auto simp: HasCapacity_def runtime_adopt_def intro!: noerr_intros)

lemma noerr_reconcileOnce: "noerr (reconcileOnce s)"
  unfolding reconcileOnce_def
proof (intro noerr_intros)
  show "noerr (case r of Inl e \<Rightarrow> ret () | Inr candidates \<Rightarrow> reconcile_loop s candidates)" for r
    by (cases r) (simp_all add: noerr_ret noerr_reconcile_loop)
qed (simp_all add: HasCapacity_def Capacity_def noerr_getsE)

lemma noerr_drops: "noerr (forE ids (\<lambda>i. if held i = None then Drop s i else ret ()))"
proof (induction ids)
  case (Cons i ids)
  have "noerr (Drop s i)" unfolding noerr_def using Drop_sessions by blast
  with Cons.IH show ?case by (auto intro!: noerr_intros)
qed (simp add: noerr_ret)

lemma noerr_heartbeatOnce: "noerr (heartbeatOnce s)"
  unfolding heartbeatOnce_def
proof (intro noerr_intros)
  show "noerr (case r of Inl e \<Rightarrow> ret () | Inr held \<Rightarrow> bindE Held (\<lambda>ids. forE ids (\<lambda>i. if held i = None then Drop s i else ret ())))" for r
    by (cases r) (auto simp: Held_def intro!: noerr_intros noerr_drops)
qed

lemma noerr_runtime_case: "noerr (runtime_case_do s c)"
  unfolding runtime_case_do_def
  by (cases c) (auto simp: runtime_claim_def runtime_stop_def runtime_adopt_def HasCapacity_def Owns_def StopOnRequest_def
    noerr_heartbeatOnce noerr_reconcileOnce intro!: noerr_intros noerr_helpers)

lemma runtime_case_performs: "snd (runtime_case_do s c w) = perform s (case_action c) w"
  by (cases c) (simp_all add: runtime_case_do_def final_def)

text \<open>The loop never stops by itself, and it does what \<open>perform_all\<close> does with its cases.\<close>

lemma runtime_Run_performs: "runtime_Run s cases w = (Inr (), perform_all s (ActReconcile # map case_action cases) w)"
proof -
  have loop: "forE cases (runtime_case_do s) w1 = (Inr (), fold (perform s) (map case_action cases) w1)" for w1
  proof (induction cases arbitrary: w1)
    case (Cons c cases)
    obtain w2 where "runtime_case_do s c w1 = (Inr (), w2)"
      using noerr_runtime_case [of s c] unfolding noerr_def by (metis old.unit.exhaust)
    then show ?case using Cons runtime_case_performs [of s c w1] by (simp add: bindE_def)
  qed (simp add: ret_def)
  obtain w1 where "(reconcileOnce s :: (_, worker_error, _) io) w = (Inr (), w1)"
    using noerr_reconcileOnce unfolding noerr_def by (metis old.unit.exhaust)
  then show ?thesis using loop by (simp add: runtime_Run_def bindE_def perform_all_def final_def)
qed

subsection \<open>A worker hands everything back\<close>

lemma boot_worker_pure: "boot_worker env w = (r, w') \<Longrightarrow> w' = w"
  by (auto simp: boot_worker_def boot_config_def unless_error_def ret_or_throw_def bindE_def ret_def throw_def
    split: sum.splits option.splits)

text \<open>With the database reachable the drain is confirmed, whatever the sessions are doing.\<close>

lemma quiet_shutdown_one: "always (kept quiet) (shutdown_one s i)"
  unfolding shutdown_one_def publishPairingEnded_def lookup_def pairingActive_def ClearPairing_def
  by (intro kept.always_intros quiet_helpers quiet_Release quiet_run_statement quiet_redis_call)

lemma Shutdown_answered:
  assumes "quiet w"
  obtains w' where "Shutdown s w = (Inr (), w')"
proof -
  let ?w0 = "w\<lparr>draining := True\<rparr>"
  obtain w1 where loop: "forE (map fst (sessions ?w0)) (shutdown_one s) ?w0 = (Inr (), w1)"
    using shutdown_loop by blast
  have "always (kept quiet) (forE (map fst (sessions ?w0)) (shutdown_one s))"
    by (intro kept.always_intros quiet_shutdown_one)
  moreover have "quiet ?w0" using assms by (simp add: quiet_def)
  ultimately have "quiet w1" using loop keptD by (metis snd_conv)
  then have "\<exists>w'. wrapE WorkerLease (ReleaseAll (sup_leases s)) w1 = (Inr (), w')"
    by (simp add: ReleaseAll_def ReleaseWorkerLeases_def wrapE_def run_statement_ok quiet_def exec_on_leases_def)
  then show thesis using that loop by (auto simp: Shutdown_def Held_def bindE_def modifyE_def getsE_def)
qed

definition demo_drivers :: drivers where
  "demo_drivers = \<lparr>dv_iofs = None, dv_sql_Open = (\<lambda>_. None), dv_WithInstance = (\<lambda>_. None), dv_NewWithInstance = (\<lambda>_. None),
     dv_Up = (\<lambda>_. UpNoChange), dv_Version = (\<lambda>_. Inr (3, False)),
     dv_ParseConfig = (\<lambda>url. Inr \<lparr>pc_URL = url, MaxConnLifetime = 0, MaxConnIdleTime = 0, HealthCheckPeriod = 0\<rparr>),
     dv_NewWithConfig = (\<lambda>_. None), dv_pool_Ping = (\<lambda>_. None), dv_redis_Ping = (\<lambda>_. None)\<rparr>"

lemma demo_drivers_ok [simp]:
  "fst (Migrate demo_drivers url) = Inr \<lparr>mr_Version = 3, mr_Applied = False\<rparr>"
  "fst (NewPool demo_drivers url) = Inr (tuned \<lparr>pc_URL = url, MaxConnLifetime = 0, MaxConnIdleTime = 0, HealthCheckPeriod = 0\<rparr>)"
  "fst (NewRedis demo_drivers opts) = Inr opts"
  by (simp_all add: Migrate_def run_migrations_def schema_version_def NewPool_def NewRedis_def demo_drivers_def Let_def)

definition demo_env :: boot_env where
  "demo_env = \<lparr>be_parsed = Inr demo_config, be_files = demo_files, be_order = secret_names, be_mail = Some,
     be_hostname = Inr ''node-1'', be_random = Some ''abcd'', be_drivers = demo_drivers, be_container = None, be_ParseAddr = Some, be_listen = (\<lambda>_. None)\<rparr>"

lemma demo_boot:
  obtains b where "boot_worker demo_env w = (Inr b, w)" and "bo_id b = ''node-1/node-1:9090/61626364''"
    and "bo_config b = demo_config\<lparr>JWTSigningKey := replicate 64 CHR ''k''\<rparr>"
proof -
  let ?c = "demo_config\<lparr>JWTSigningKey := replicate 64 CHR ''k''\<rparr>"
  have adv: "WorkerAdvertise (Inr ''node-1'') ?c = Inr ''node-1:9090''" by code_simp
  have ident: "workerIdentity (Inr ''node-1'') (Some ''abcd'') ''node-1:9090'' = Inr ''node-1/node-1:9090/61626364''" by code_simp
  show thesis
    by (rule that [of "\<lparr>bo_config = ?c, bo_addr = ''node-1:9090'', bo_id = ''node-1/node-1:9090/61626364''\<rparr>"])
      (simp_all add: boot_worker_def boot_config_def demo_env_def demo_load adv ident ret_or_throw_def unless_error_def bindE_def ret_def)
qed

text \<open>
  C15. A worker that is told to stop hands everything over: whatever it was asked to do since it started, in
  whatever interleaving, the process ends with no session running in it; once its drain has been confirmed
  no lease names it, so every instance can be adopted by another worker at once; and the drain is
  confirmed whenever the database answers.
\<close>

theorem signalled_worker_hands_over:
  assumes "boot_worker env w = (Inr b, w)"
  shows "\<exists>r w'. runSessionWorker api env acts Signalled w = (r, w') \<and> sessions w' = [] \<and>
    (r = Inr () \<longrightarrow> (\<forall>l \<in> set (session_leases (db w')). l_worker_id l \<noteq> Some (bo_id b))) \<and>
    (faults (perform_all (NewSupervisor api b) (ActReconcile # acts) w) = [] \<longrightarrow> r = Inr ())"
proof -
  let ?s = "NewSupervisor api b" and ?w = "perform_all (NewSupervisor api b) (ActReconcile # acts) w"
  obtain r w' where stop: "Shutdown ?s ?w = (r, w')" by (cases "Shutdown ?s ?w")
  have "runSessionWorker api env acts Signalled w = (case r of Inl e \<Rightarrow> Inl (DrainFailed e) | Inr x \<Rightarrow> Inr x, w')"
    by (simp add: runSessionWorker_def bindE_def assms Let_def modifyE_def wrapE_def stop split: sum.split)
  moreover have "faults ?w = [] \<Longrightarrow> r = Inr ()" using Shutdown_answered [of ?w ?s] stop by (auto simp: quiet_def)
  ultimately show ?thesis using Shutdown_drained [OF stop] by (cases r) (auto simp: NewSupervisor_def)
qed

theorem signalled_worker_hands_over_witness:
  "\<exists>w'. runSessionWorker fake_api demo_env [ActClaim 7, ActNetwork []] Signalled demo_worker = (Inr (), w') \<and> sessions w' = []"
proof -
  obtain b where boot: "boot_worker demo_env demo_worker = (Inr b, demo_worker)" by (rule demo_boot)
  from signalled_worker_hands_over [OF boot, of fake_api "[ActClaim 7, ActNetwork []]"]
  show ?thesis by (auto simp: perform_all_def)
qed

subsection \<open>Identities\<close>

lemma hex_digit_inj: "m < 16 \<Longrightarrow> n < 16 \<Longrightarrow> hex_digit m = hex_digit n \<longleftrightarrow> m = n"
proof -
  assume "m < 16" "n < 16"
  moreover have "distinct ''0123456789abcdef''" by simp
  ultimately show ?thesis by (simp add: hex_digit_def nth_eq_iff_index_eq)
qed

lemma byte_bound: "(of_char c :: nat) div 16 < 16"
proof -
  have "(of_char c :: nat) = of_char c mod 256" by (metis char_of_char of_char_of)
  also have "\<dots> < 16 * 16" by simp
  finally show ?thesis by (rule less_mult_imp_div_less)
qed

lemma hex_byte_inj:
  assumes "hex_digit (of_char a div 16) = hex_digit (of_char b div 16)" and "hex_digit (of_char a) = hex_digit (of_char b)"
  shows "a = (b :: char)"
proof -
  from assms(1) have hi: "(of_char a :: nat) div 16 = of_char b div 16" by (simp add: hex_digit_inj byte_bound)
  have "hex_digit (n mod 16) = hex_digit n" for n by (simp add: hex_digit_def)
  with assms(2) have "hex_digit (of_char a mod 16) = hex_digit (of_char b mod 16)" by simp
  then have "(of_char a :: nat) mod 16 = of_char b mod 16" by (simp add: hex_digit_inj)
  with hi have "(of_char a :: nat) = of_char b" by (metis div_mult_mod_eq)
  then show ?thesis by simp
qed

lemma hex_encode_inj: "length xs = length ys \<Longrightarrow> hex_encode xs = hex_encode ys \<Longrightarrow> xs = ys"
  by (induction xs ys rule: list_induct2) (auto simp: hex_encode_def dest: hex_byte_inj)

lemma length_hex_encode [simp]: "length (hex_encode xs) = 2 * length xs"
  by (induction xs) (auto simp: hex_encode_def)

text \<open>
  A restarted worker does not inherit the leases of its predecessor, even on the same host and address:
  identities built from different random suffixes differ, and a heartbeat of the new process leaves every
  lease of the old one exactly as it was, so those leases expire and are adopted by somebody who runs
  their sessions.
\<close>

theorem replacement_lets_old_leases_expire:
  assumes "workerIdentity hostname (Some r) addr = Inr x" and "workerIdentity hostname' (Some r') addr' = Inr y"
    and "length r = 4" and "length r' = 4" and "r \<noteq> r'"
    and "workerID m = y" and "Heartbeat m w = (res, w')"
    and "l \<in> set (session_leases (db w))" and "l_worker_id l = Some x"
  shows "x \<noteq> y \<and> l \<in> set (session_leases (db w'))"
proof -
  from assms(1-4) obtain p q where x: "x = p @ hex_encode r" and y: "y = q @ hex_encode r'"
    by (auto simp: workerIdentity_def split: sum.splits)
  have "x \<noteq> y" using hex_encode_inj [of r r'] assms(3-5) by (auto simp: x y append_eq_append_conv)
  moreover have "w' = snd (HeartbeatLeases y w)" using snd_Heartbeat [of m w] assms(6,7) by simp
  moreover have "always (on_db (\<lambda>d d'. l \<in> set (session_leases d) \<and> l_worker_id l \<noteq> Some y \<longrightarrow> l \<in> set (session_leases d')))
      (HeartbeatLeases y)"
    unfolding HeartbeatLeases_def by (rule always_on_db) (auto simp: set_update_where heartbeat_guard_def image_iff intro: bexI [of _ l])
  ultimately show ?thesis using assms(8,9) alwaysD [where w = w] by (fastforce simp: on_db_def)
qed

theorem replacement_lets_old_leases_expire_witness:
  "workerIdentity (Inr ''node-1'') (Some ''abcd'') ''node-1:9090'' = Inr ''node-1/node-1:9090/61626364'' \<and>
   demo_lease\<lparr>l_worker_id := Some ''node-1/node-1:9090/61626364''\<rparr> \<in> set (session_leases (db (snd
     (Heartbeat ((demo_manager ''w1'')\<lparr>workerID := ''node-1/node-1:9090/61626365''\<rparr>)
       (demo_world\<lparr>db := demo_db\<lparr>session_leases := [demo_lease\<lparr>l_worker_id := Some ''node-1/node-1:9090/61626364''\<rparr>]\<rparr>\<rparr>)))))"
proof -
  let ?m = "(demo_manager ''w1'')\<lparr>workerID := ''node-1/node-1:9090/61626365''\<rparr>"
  let ?l = "demo_lease\<lparr>l_worker_id := Some ''node-1/node-1:9090/61626364''\<rparr>"
  let ?w = "demo_world\<lparr>db := demo_db\<lparr>session_leases := [?l]\<rparr>\<rparr>"
  have old: "workerIdentity (Inr ''node-1'') (Some ''abcd'') ''node-1:9090'' = Inr ''node-1/node-1:9090/61626364''" by code_simp
  have new: "workerIdentity (Inr ''node-1'') (Some ''abce'') ''node-1:9090'' = Inr ''node-1/node-1:9090/61626365''" by code_simp
  have "?l \<in> set (session_leases (db (snd (Heartbeat ?m ?w))))"
    using replacement_lets_old_leases_expire [OF old new, of ?m ?w "fst (Heartbeat ?m ?w)" "snd (Heartbeat ?m ?w)" ?l] by simp
  with old show ?thesis by blast
qed

subsection \<open>The first super-admin\<close>

definition has_super_admin :: "database \<Rightarrow> bool" where
  "has_super_admin d \<longleftrightarrow> (\<exists>u \<in> set (users d). u_Role (usr_user u) = RoleSuperAdmin)"

lemma CountSuperAdmins_Inr:
  assumes "CountSuperAdmins w = (Inr n, w')"
  shows "n > 0 \<longleftrightarrow> has_super_admin (db w)" and "db w' = db w"
  using assms unfolding CountSuperAdmins_def
  by (auto elim!: run_statement_Inr simp: select_def has_super_admin_def filter_empty_conv simp flip: length_greater_0_conv)

lemma CreateUser_super:
  assumes "CreateUser p w = (Inr u, w')" and "cu_Role p = RoleSuperAdmin"
  shows "has_super_admin (db w')"
  using assms unfolding CreateUser_def
  by (auto elim!: run_statement_Inr simp: has_super_admin_def new_user_def split: if_splits dest!: sym [of _ "db w'"])

lemma keeps_super_admin_Record: "always (on_db (\<lambda>d d'. has_super_admin d \<longrightarrow> has_super_admin d')) (Record i e)"
  unfolding Record_def InsertSecurityEvent_def by (rule always_on_db) (auto simp: has_super_admin_def)

lemma LockBootstrap_Inr: "LockBootstrap w = (Inr x, w') \<Longrightarrow> db w' = db w"
  unfolding LockBootstrap_def by (auto elim!: run_statement_Inr)

lemma bootstrap_body_done:
  assumes "bootstrap_body lib fresh salt creds w = (Inr (), w')"
  shows "has_super_admin (db w')" and "\<not> has_super_admin (db w)"
proof -
  from assms obtain p u w0 w1 w2 w3 e i n x where "CreateUser p w2 = (Inr u, w3)" and "cu_Role p = RoleSuperAdmin"
    and rec: "Record i e w3 = (Inr (), w')"
    and lock: "LockBootstrap w = (Inr x, w0)" and count: "CountSuperAdmins w0 = (Inr n, w1)" and "\<not> n > 0"
    unfolding bootstrap_body_def Let_def
    by (auto elim!: bind_Inr dest!: wrap_Inr simp: throw_def split: if_splits option.splits)
  then have "has_super_admin (db w3)" by (intro CreateUser_super) auto
  with always_eqD [OF keeps_super_admin_Record rec] show "has_super_admin (db w')" by (simp add: on_db_def)
  show "\<not> has_super_admin (db w)" using CountSuperAdmins_Inr(1) [OF count] LockBootstrap_Inr [OF lock] \<open>\<not> n > 0\<close> by simp
qed

lemma bind_Inl:
  assumes "bindE m k w = (Inl e, w2)"
  obtains (first) "m w = (Inl e, w2)" | (second) x w1 where "m w = (Inr x, w1)" and "k x w1 = (Inl e, w2)"
  using assms by (auto simp: bindE_def split: prod.splits sum.splits)

lemma boot_errors:
  "wrapE (boot_step lib what) m w \<noteq> (Inl NothingToDo, w')" "ret_or_throw (boot_password lib) r w \<noteq> (Inl NothingToDo, w')"
  by (auto simp: wrapE_def boot_step_def ret_or_throw_def boot_password_def throw_def ret_def split: prod.splits sum.splits)

lemma bootstrap_body_idle:
  assumes "bootstrap_body lib fresh salt creds w = (Inl NothingToDo, w')"
  shows "has_super_admin (db w) \<or> \<not> Configured creds"
proof -
  from assms obtain w0 w1 n x where lock: "LockBootstrap w = (Inr x, w0)" and count: "CountSuperAdmins w0 = (Inr n, w1)"
    and "n > 0 \<or> \<not> Configured creds"
    unfolding bootstrap_body_def Let_def
    by (auto elim!: bind_Inl dest!: wrap_Inr simp: boot_errors throw_def split: if_splits option.splits)
  then show ?thesis using CountSuperAdmins_Inr(1) [OF count] LockBootstrap_Inr [OF lock] by auto
qed

lemma bootstrap_Run_Inr:
  assumes "bootstrap_Run lib fresh salt creds w = (Inr (), w')"
  shows "Configured creds \<Longrightarrow> has_super_admin (db w')" and "has_super_admin (db w) \<Longrightarrow> db w' = db w"
proof -
  let ?tx = "transaction (boot_step lib ''bootstrap: begin transaction'') (boot_step lib ''bootstrap: commit'')
    (bootstrap_body lib fresh salt creds) w"
  have "(Configured creds \<longrightarrow> has_super_admin (db w')) \<and> (has_super_admin (db w) \<longrightarrow> db w' = db w)"
  proof (rule transaction_cases [of "boot_step lib ''bootstrap: begin transaction''" "boot_step lib ''bootstrap: commit''"
        "bootstrap_body lib fresh salt creds" w])
    fix e fs w1
    assume "bootstrap_body lib fresh salt creds (w\<lparr>faults := fs\<rparr>) = (Inl e, w1)" and "?tx = (Inl e, w1\<lparr>db := db w\<rparr>)"
    with assms bootstrap_body_idle show ?thesis
      by (cases e) (fastforce simp: bootstrap_Run_def catchE_def ret_def throw_def)+
  next
    fix x fs fs' w1
    assume body: "bootstrap_body lib fresh salt creds (w\<lparr>faults := fs\<rparr>) = (Inr x, w1)" and "?tx = (Inr x, w1\<lparr>faults := fs'\<rparr>)"
    with assms have "db w' = db w1" by (auto simp: bootstrap_Run_def catchE_def)
    with bootstrap_body_done [of lib fresh salt creds "w\<lparr>faults := fs\<rparr>" w1] body show ?thesis by simp
  qed (use assms in \<open>auto simp: bootstrap_Run_def catchE_def boot_step_def throw_def\<close>)
  then show "Configured creds \<Longrightarrow> has_super_admin (db w')" and "has_super_admin (db w) \<Longrightarrow> db w' = db w" by auto
qed

text \<open>
  C20. An API that serves stands on a clean schema, can be administered, and starting another replica is
  harmless: once the process is about to listen, the migration tool reported a version that is not dirty
  and the pool and Redis answered their pings, a super-admin exists if bootstrap credentials were configured (whether this start
  created it or an earlier one), the database is exactly as it was if a super-admin existed before, and
  tokens are signed with a key of at least 64 bytes for a positive lifetime.
\<close>

theorem served_api_has_a_super_admin:
  assumes "prepare_serve lib jwt fresh salt env w = (Inr (c, app), w')"
  shows "(\<exists>version pool. dv_Version (be_drivers env) (DatabaseURL c) = Inr (version, False) \<and>
      fst (NewPool (be_drivers env) (DatabaseURL c)) = Inr pool \<and> dv_pool_Ping (be_drivers env) pool = None \<and>
      dv_redis_Ping (be_drivers env) (redis_options c) = None) \<and>
    (BootstrapConfigured c \<longrightarrow> has_super_admin (db w')) \<and> (has_super_admin (db w) \<longrightarrow> db w' = db w) \<and>
    length (ti_key (as_issuer (app_auth app))) \<ge> 64 \<and> ti_ttl (as_issuer (app_auth app)) > 0"
proof -
  from assms have load: "Load (be_parsed env) (be_files env) (be_order env) (be_mail env) = Inr c"
    and run: "bootstrap_Run lib fresh salt \<lparr>bc_Email = BootstrapEmail c, bc_Password = BootstrapPassword c\<rparr> w = (Inr (), w')"
    and app: "app = application jwt (al_ids lib) (be_ParseAddr env) c"
    and opened: "\<exists>r. fst (Migrate (be_drivers env) (DatabaseURL c)) = Inr r" "\<exists>p. fst (NewPool (be_drivers env) (DatabaseURL c)) = Inr p"
      "\<exists>o'. fst (NewRedis (be_drivers env) (redis_options c)) = Inr o'"
    unfolding prepare_serve_def NewApplication_def
    by (auto elim!: bind_Inr dest!: wrap_Inr simp: boot_config_def ret_or_throw_def ret_def throw_def split: sum.splits)
  have "dv_redis_Ping (be_drivers env) (redis_options c) = None" using opened(3) by (auto simp: NewRedis_def split: option.splits)
  with bootstrap_Run_Inr [OF run] loaded_limits(2,3) [OF load] opened(1,2) show ?thesis
    by (auto simp: app application_def Configured_def BootstrapConfigured_def dest: Migrate_Inr NewPool_Inr)
qed

definition demo_serve_env :: boot_env where
  "demo_serve_env = demo_env\<lparr>be_parsed := Inr (demo_config\<lparr>JWTSigningKey := replicate 64 CHR ''k'',
     BootstrapEmail := ''root@x.org'', BootstrapPassword := ''correct horse battery'', SecretsDir := []\<rparr>)\<rparr>"

lemma demo_serve_load: "Load (be_parsed demo_serve_env) (be_files demo_serve_env) (be_order demo_serve_env) (be_mail demo_serve_env) =
    Inr (demo_config\<lparr>JWTSigningKey := replicate 64 CHR ''k'',
     BootstrapEmail := ''root@x.org'', BootstrapPassword := ''correct horse battery'', SecretsDir := []\<rparr>)"
  by code_simp

theorem served_api_has_a_super_admin_witness:
  "\<exists>c app w'. prepare_serve demo_lib demo_jwt (\<lambda>n. 50 + n) (Some (replicate 16 CHR ''s'')) demo_serve_env demo_office = (Inr (c, app), w') \<and>
     has_super_admin (db w')"
proof -
  let ?c = "demo_config\<lparr>JWTSigningKey := replicate 64 CHR ''k'',
     BootstrapEmail := ''root@x.org'', BootstrapPassword := ''correct horse battery'', SecretsDir := []\<rparr>"
  have email: "NormalizeEmail ''root@x.org'' = ''root@x.org''" "ValidateEmail (al_mail demo_lib) ''config.bootstrap_email'' ''root@x.org'' = None"
    "ValidatePassword ''config.bootstrap_password'' ''correct horse battery'' = None" by code_simp+
  have sql: "ToLower ''ana@example.org'' \<noteq> ToLower ''root@x.org''" "name_length_ok ''Super Admin''" by code_simp+
  have collected: "CollectErrors [None, None] = None" by code_simp
  obtain h where hash: "HashPassword (al_argon2 demo_lib) (Some (replicate 16 CHR ''s'')) ''correct horse battery'' = Inr h"
    by (simp add: HashPassword_def demo_lib_def demo_argon2_def derive_def)
  have "\<exists>w'. bootstrap_Run demo_lib (\<lambda>n. 50 + n) (Some (replicate 16 CHR ''s''))
      \<lparr>bc_Email = ''root@x.org'', bc_Password = ''correct horse battery''\<rparr> demo_office = (Inr (), w')"
    by (simp add: bootstrap_Run_def bootstrap_body_def transaction_def catchE_def bindE_def wrapE_def run_statement_ok LockBootstrap_def
      CountSuperAdmins_def select_def demo_office_defs Configured_def Let_def email collected sql hash ret_or_throw_def ret_def
      CreateUser_def role_tenant_ok_def user_of_def user_by_email_def by_key_def first_where_def
      Record_def InsertSecurityEvent_def next_outcome_def)
  then have "\<exists>app w'. prepare_serve demo_lib demo_jwt (\<lambda>n. 50 + n) (Some (replicate 16 CHR ''s'')) demo_serve_env demo_office = (Inr (?c, app), w')"
    using demo_serve_load by (auto simp: prepare_serve_def NewApplication_def boot_config_def bindE_def ret_def wrapE_def ret_or_throw_def)
      (simp add: demo_serve_env_def demo_env_def ret_def)
  then obtain app w' where run: "prepare_serve demo_lib demo_jwt (\<lambda>n. 50 + n) (Some (replicate 16 CHR ''s'')) demo_serve_env demo_office = (Inr (?c, app), w')"
    by blast
  moreover have "BootstrapConfigured ?c" by (simp add: BootstrapConfigured_def)
  ultimately show ?thesis using served_api_has_a_super_admin [OF run] by blast
qed

end
