(* ===== verification/Hypermeow.thy ===== *)
theory Hypermeow
  imports Fleet "HOL-Library.Signed_Division"
begin

text \<open>
  The WhatsApp adapter, \<open>internal/wa/hypermeow.go\<close>: building a session on the library's device store, the
  operations of the \<open>Session\<close> interface on the library's client, the pump that translates the library's
  pairing stream, the translation of its events, and the hook its automatic reconnection consults. The
  library is not part of the repository: its client, devices, addresses and operations are a parameter.

  A blocking call of the library returns the instant at which it returned, so that what the code reads
  from the clock afterwards is that instant. The library delivers events and pairing items from its own
  goroutines; the session's mutex makes each delivery and each field access one step.
\<close>

subsection \<open>The library\<close>

datatype sentinel = ErrPhoneNumberTooShort | ErrPhoneNumberIsNotInternational | ErrIdentityVerificationRequiresLID

text \<open>An error of the library: its text, and the sentinels \<open>errors.Is\<close> finds in it.\<close>

record lib_error =
  le_Error :: string
  le_Is :: "sentinel list"

type_synonym ('c, 'a) client_op = "gotime \<Rightarrow> 'c \<Rightarrow> (lib_error + 'a) \<times> gotime \<times> 'c"

record 'j Device =
  dev_ID :: "'j option"
  dev_LID :: 'j
  dev_PushName :: string
  dev_Platform :: string
  dev_BusinessName :: string

record 'j IdentityVerificationCodes =
  ivc_UserID :: 'j
  ivc_PhoneNumber :: 'j
  ivc_Username :: string
  ivc_NumericCode :: string
  ivc_DisplayQRCode :: string
  ivc_VerificationQRCode :: string

text \<open>
  \<open>'j\<close> are addresses, \<open>'d\<close> devices of the store, \<open>'c\<close> clients, \<open>'r\<close> WebAuthn responses and \<open>'k\<close>
  WebAuthn key options. \<open>lib_GetLIDForPN\<close> is the address book of the client's store, if it has one; \<open>lib_Store\<close>
  reads the device the client was built with.
\<close>

record ('j, 'd, 'c, 'r, 'k) whatsmeow =
  lib_HiddenUserServer :: string
  lib_DefaultUserServer :: string
  lib_ParseJID :: "string \<Rightarrow> string + 'j"
  lib_NewJID :: "string \<Rightarrow> string \<Rightarrow> 'j"
  lib_String :: "'j \<Rightarrow> string"
  lib_User :: "'j \<Rightarrow> string"
  lib_IsEmpty :: "'j \<Rightarrow> bool"
  lib_ToNonAD :: "'j \<Rightarrow> 'j"
  lib_GetDevice :: "gotime \<Rightarrow> 'j \<Rightarrow> string + 'd option"
  lib_NewDevice :: 'd
  lib_NewClient :: "'d \<Rightarrow> 'c"
  lib_SetProxyAddress :: "string \<Rightarrow> 'c \<Rightarrow> string + 'c"
  lib_SetProxyNil :: "'c \<Rightarrow> 'c"
  lib_AddEventHandler :: "'c \<Rightarrow> nat \<times> 'c"
  lib_RemoveEventHandler :: "nat \<Rightarrow> 'c \<Rightarrow> 'c"
  lib_Store :: "'c \<Rightarrow> 'j Device"
  lib_IsConnected :: "'c \<Rightarrow> bool"
  lib_IsLoggedIn :: "'c \<Rightarrow> bool"
  lib_AutoReconnectErrors :: "'c \<Rightarrow> int"
  lib_GetQRChannel :: "('c, unit) client_op"
  lib_Connect :: "('c, unit) client_op"
  lib_ConnectContext :: "('c, unit) client_op"
  lib_WaitForConnection :: "duration \<Rightarrow> gotime \<Rightarrow> 'c \<Rightarrow> bool \<times> gotime \<times> 'c"
  lib_PairPhone :: "string \<Rightarrow> bool \<Rightarrow> string \<Rightarrow> ('c, string) client_op"
  lib_SetPassive :: "bool \<Rightarrow> ('c, unit) client_op"
  lib_UnmarshalResponse :: "string \<Rightarrow> string + 'r"
  lib_MarshalPublicKey :: "'k \<Rightarrow> string + string"
  lib_SendPasskeyResponse :: "'r \<Rightarrow> ('c, unit) client_op"
  lib_SendPasskeyConfirmation :: "('c, unit) client_op"
  lib_GetIdentityVerificationCodes :: "'j \<Rightarrow> ('c, 'j IdentityVerificationCodes) client_op"
  lib_GetLIDForPN :: "'c \<Rightarrow> ('j \<Rightarrow> ('c, 'j) client_op) option"
  lib_Logout :: "('c, unit) client_op"
  lib_Disconnect :: "'c \<Rightarrow> 'c"
  lib_StoreDelete :: "('c, unit) client_op"

subsection \<open>A session\<close>

datatype passkeyPhase = passkeyNone | passkeyAwaitingResponse | passkeyAwaitingConfirm

text \<open>The channel a pairing attempt is followed on: what it buffers, and whether the pump has closed it.\<close>

record pairing_channel =
  pc_buffer :: "Event list"
  pc_closed :: bool

text \<open>\<open>hs_now\<close> is the clock; \<open>hs_pairings\<close> are the channels \<open>QRChannel\<close> has handed out, oldest first.\<close>

record 'c hypermeowSession =
  hs_instanceID :: ID
  hs_client :: 'c
  hs_handlerID :: nat
  hs_events :: "Event list"
  hs_closed :: bool
  hs_permanent :: bool
  hs_proxyConfigured :: bool
  hs_passkeyPhase :: passkeyPhase
  hs_pairings :: "pairing_channel list"
  hs_now :: gotime

type_synonym ('c, 'e, 'a) session_io = "('c hypermeowSession, 'e, 'a) io"

definition lib_call :: "('c, 'a) client_op \<Rightarrow> ('c, lib_error, 'a) session_io" where
  "lib_call op = (\<lambda>s. case op (hs_now s) (hs_client s) of (r, t, c) \<Rightarrow> (r, s\<lparr>hs_client := c, hs_now := t\<rparr>))"

definition on_client :: "('c \<Rightarrow> 'c) \<Rightarrow> ('c, 'e, unit) session_io" where
  "on_client f = modifyE (\<lambda>s. s\<lparr>hs_client := f (hs_client s)\<rparr>)"

definition connected :: "('j, 'd, 'c, 'r, 'k) whatsmeow \<Rightarrow> ('c, 'e, bool) session_io" where
  "connected lib = getsE (\<lambda>s. lib_IsConnected lib (hs_client s))"

definition store_ID :: "('j, 'd, 'c, 'r, 'k) whatsmeow \<Rightarrow> ('c, 'e, 'j option) session_io" where
  "store_ID lib = getsE (\<lambda>s. dev_ID (lib_Store lib (hs_client s)))"

text \<open>A wrapped error of the library.\<close>

definition wa_wrap :: "string \<Rightarrow> lib_error \<Rightarrow> wa_error" where
  "wa_wrap what e = WaOther (what @ '': '' @ le_Error e)"

subsection \<open>The container\<close>

text \<open>What the library registers with WhatsApp when it pairs: the device name and the platform.\<close>

record DeviceProps =
  dp_Os :: string
  dp_PlatformType :: string

text \<open>\<open>NewContainer\<close>: the new registration properties, and the result of the store's own migrations.\<close>

definition NewContainer :: "string option \<Rightarrow> string \<Rightarrow> DeviceProps \<Rightarrow> (string + unit) \<times> DeviceProps" where
  "NewContainer upgrade deviceName props =
     (let named = (if deviceName \<noteq> [] then props\<lparr>dp_Os := deviceName\<rparr> else props) in
      (case upgrade of Some e \<Rightarrow> Inl (''upgrade whatsmeow store: '' @ e) | None \<Rightarrow> Inr (),
       named\<lparr>dp_PlatformType := ''CHROME''\<rparr>))"

definition stored_device :: "('j, 'd, 'c, 'r, 'k) whatsmeow \<Rightarrow> gotime \<Rightarrow> string \<Rightarrow> wa_error + 'd" where
  "stored_device lib t storedJID =
     (if storedJID \<noteq> [] then (case lib_ParseJID lib storedJID of
          Inl e \<Rightarrow> Inl (WaOther (''parse stored jid: '' @ e))
        | Inr jid \<Rightarrow> (case lib_GetDevice lib t jid of
             Inl e \<Rightarrow> Inl (WaOther (''load device: '' @ e))
           | Inr (Some device) \<Rightarrow> Inr device
           | Inr None \<Rightarrow> Inr (lib_NewDevice lib)))
      else Inr (lib_NewDevice lib))"

definition container_NewSession ::
  "('j, 'd, 'c, 'r, 'k) whatsmeow \<Rightarrow> gotime \<Rightarrow> ID \<Rightarrow> SessionConfig \<Rightarrow> wa_error + 'c hypermeowSession" where
  "container_NewSession lib t instanceID cfg = (case stored_device lib t (StoredJID cfg) of
       Inl e \<Rightarrow> Inl e
     | Inr device \<Rightarrow>
        let client = lib_NewClient lib device in
        (case (if cfg_ProxyURL cfg \<noteq> [] then lib_SetProxyAddress lib (cfg_ProxyURL cfg) client
               else Inr (lib_SetProxyNil lib client)) of
           Inl e \<Rightarrow> Inl (WaOther (''apply proxy: '' @ e))
         | Inr client \<Rightarrow> (case lib_AddEventHandler lib client of (h, c) \<Rightarrow>
             Inr \<lparr>hs_instanceID = instanceID, hs_client = c, hs_handlerID = h, hs_events = [], hs_closed = False,
                  hs_permanent = False, hs_proxyConfigured = (cfg_ProxyURL cfg \<noteq> []), hs_passkeyPhase = passkeyNone,
                  hs_pairings = [], hs_now = t\<rparr>)))"

subsection \<open>What a session reads and emits\<close>

definition setPasskeyPhase :: "passkeyPhase \<Rightarrow> ('c, 'e, unit) session_io" where
  "setPasskeyPhase phase = modifyE (\<lambda>s. s\<lparr>hs_passkeyPhase := phase\<rparr>)"

definition passkeyInFlight :: "('c, 'e, bool) session_io" where
  "passkeyInFlight = getsE (\<lambda>s. hs_passkeyPhase s \<noteq> passkeyNone)"

definition setPermanent :: "bool \<Rightarrow> ('c, 'e, unit) session_io" where
  "setPermanent permanent = modifyE (\<lambda>s. s\<lparr>hs_permanent := permanent\<rparr>)"

text \<open>A send that never blocks: an event that finds the channel full is dropped.\<close>

definition offer :: "nat \<Rightarrow> Event \<Rightarrow> Event list \<Rightarrow> Event list" where
  "offer capacity evt buffer = (if length buffer < capacity then buffer @ [evt] else buffer)"

definition emit :: "Event \<Rightarrow> ('c, 'e, unit) session_io" where
  "emit evt = modifyE (\<lambda>s. if hs_closed s then s
     else s\<lparr>hs_events := offer 32 (stamp (hs_now s) evt) (hs_events s)\<rparr>)"

definition deviceIdentity :: "('j, 'd, 'c, 'r, 'k) whatsmeow \<Rightarrow> 'c hypermeowSession \<Rightarrow> DeviceIdentity option" where
  "deviceIdentity lib s = (let device = lib_Store lib (hs_client s) in
     case dev_ID device of
       None \<Rightarrow> None
     | Some i \<Rightarrow> Some \<lparr>JID = lib_String lib i,
         LID = (if \<not> lib_IsEmpty lib (dev_LID device) then lib_String lib (dev_LID device) else []),
         PhoneNumber = lib_User lib i, PushName = dev_PushName device, Platform = dev_Platform device,
         BusinessName = dev_BusinessName device, PairedAt = hs_now s\<rparr>)"

definition hm_Status :: "('j, 'd, 'c, 'r, 'k) whatsmeow \<Rightarrow> 'c hypermeowSession \<Rightarrow> Status" where
  "hm_Status lib s = \<lparr>st_Connected = lib_IsConnected lib (hs_client s), st_LoggedIn = lib_IsLoggedIn lib (hs_client s),
     st_Device = deviceIdentity lib s\<rparr>"

subsection \<open>The pairing stream\<close>

text \<open>
  An item of the library's pairing channel, by the event it names. A passkey request is \<open>None\<close> when it
  carries no key options, a passkey response when it carries no confirmation.
\<close>

datatype 'k qr_item =
    QRCode string duration | QRSuccess | QRTimeout | QRErrScannedWithoutMultidevice | QRErrClientOutdated
  | QRErrUnexpectedState | QRPasskeyRequest "'k option" | QRPasskeyResponse "string option" | QRError | QRUnknown

definition marshalPasskeyChallenge :: "('j, 'd, 'c, 'r, 'k) whatsmeow \<Rightarrow> 'k option \<Rightarrow> string + string" where
  "marshalPasskeyChallenge lib req = (case req of
       None \<Rightarrow> Inl ''passkey request carries no public key''
     | Some key \<Rightarrow> (case lib_MarshalPublicKey lib key of
          Inl e \<Rightarrow> Inl (''marshal webauthn public key: '' @ e)
        | Inr raw \<Rightarrow> Inr raw))"

definition failed_pairing :: "PairingFailure \<Rightarrow> Event" where
  "failed_pairing f = (zero_Event KindPairingFailed)\<lparr>evt_Failure := f\<rparr>"

text \<open>The event an item becomes; \<open>None\<close> is the \<open>continue\<close> of an unknown one.\<close>

definition item_event :: "('j, 'd, 'c, 'r, 'k) whatsmeow \<Rightarrow> 'k qr_item \<Rightarrow> ('c, 'e, Event option) session_io" where
  "item_event lib item = (case item of
       QRCode code timeout \<Rightarrow> getsE (\<lambda>s. Some ((zero_Event KindPairingCode)\<lparr>evt_Method := MethodQR, evt_Code := code,
         evt_ExpiresAt := hs_now s + timeout\<rparr>))
     | QRSuccess \<Rightarrow> getsE (\<lambda>s. Some ((zero_Event KindPairingSucceeded)\<lparr>evt_Device := deviceIdentity lib s\<rparr>))
     | QRTimeout \<Rightarrow> ret (Some ((zero_Event KindPairingExpired)\<lparr>evt_Method := MethodQR, evt_Expiry := ExpiryWindowExhausted\<rparr>))
     | QRErrScannedWithoutMultidevice \<Rightarrow> ret (Some (failed_pairing FailureScannedWithoutMultidevice))
     | QRErrClientOutdated \<Rightarrow> ret (Some (failed_pairing FailureClientOutdated))
     | QRErrUnexpectedState \<Rightarrow> ret (Some (failed_pairing FailureUnexpectedState))
     | QRPasskeyRequest req \<Rightarrow> (case marshalPasskeyChallenge lib req of
          Inl _ \<Rightarrow> ret (Some (failed_pairing FailurePasskeyError))
        | Inr challenge \<Rightarrow> bindE (setPasskeyPhase passkeyAwaitingResponse) (\<lambda>_.
            ret (Some ((zero_Event KindPasskeyChallenge)\<lparr>evt_Challenge := challenge\<rparr>))))
     | QRPasskeyResponse confirmation \<Rightarrow> bindE (setPasskeyPhase passkeyAwaitingConfirm) (\<lambda>_.
          ret (Some ((zero_Event KindPasskeyCode)\<lparr>evt_Code := (case confirmation of None \<Rightarrow> [] | Some code \<Rightarrow> code)\<rparr>)))
     | QRError \<Rightarrow> bindE passkeyInFlight (\<lambda>passkey.
          ret (Some (failed_pairing (if passkey then FailurePasskeyError else FailurePairError))))
     | QRUnknown \<Rightarrow> ret None)"

definition on_channel :: "nat \<Rightarrow> (pairing_channel \<Rightarrow> pairing_channel) \<Rightarrow> ('c, 'e, unit) session_io" where
  "on_channel k f = modifyE (\<lambda>s. s\<lparr>hs_pairings := (hs_pairings s)[k := f (hs_pairings s ! k)]\<rparr>)"

text \<open>One turn of the loop of \<open>pumpQR\<close>, on the \<open>k\<close>-th channel.\<close>

definition pump_item :: "('j, 'd, 'c, 'r, 'k) whatsmeow \<Rightarrow> nat \<Rightarrow> 'k qr_item \<Rightarrow> ('c, 'e, unit) session_io" where
  "pump_item lib k item = bindE (item_event lib item) (\<lambda>r. case r of
       None \<Rightarrow> ret ()
     | Some evt \<Rightarrow> bindE (getsE hs_now) (\<lambda>t.
         on_channel k (\<lambda>ch. ch\<lparr>pc_buffer := offer 8 (evt\<lparr>evt_OccurredAt := t\<rparr>) (pc_buffer ch)\<rparr>)))"

definition pumpQR :: "('j, 'd, 'c, 'r, 'k) whatsmeow \<Rightarrow> nat \<Rightarrow> 'k qr_item list \<Rightarrow> ('c, 'e, unit) session_io" where
  "pumpQR lib k raw = bindE (forE raw (pump_item lib k)) (\<lambda>_. on_channel k (\<lambda>ch. ch\<lparr>pc_closed := True\<rparr>))"

text \<open>\<open>QRChannel\<close> starts a pump on the channel it appends.\<close>

definition hm_QRChannel :: "('j, 'd, 'c, 'r, 'k) whatsmeow \<Rightarrow> ('c, wa_error, unit) session_io" where
  "hm_QRChannel lib = bindE (connected lib) (\<lambda>up. if up then throw WaAlreadyPaired else
     bindE (store_ID lib) (\<lambda>paired. if paired \<noteq> None then throw WaAlreadyPaired else
     bindE (wrapE (wa_wrap ''open qr channel'') (lib_call (lib_GetQRChannel lib))) (\<lambda>_.
     modifyE (\<lambda>s. s\<lparr>hs_pairings := hs_pairings s @ [\<lparr>pc_buffer = [], pc_closed = False\<rparr>]\<rparr>))))"

subsection \<open>Operations of a session\<close>

definition connectWait :: duration where "connectWait = 10 * second"
definition pairingSettle :: duration where "pairingSettle = 1500000000"
definition phonePairingWindow :: duration where "phonePairingWindow = 180 * second"
definition pairDisplayName :: string where "pairDisplayName = ''Chrome (Linux)''"

definition wait_for_connection :: "('j, 'd, 'c, 'r, 'k) whatsmeow \<Rightarrow> ('c, wa_error, unit) session_io" where
  "wait_for_connection lib = (\<lambda>s. case lib_WaitForConnection lib connectWait (hs_now s) (hs_client s) of (ok, t, c) \<Rightarrow>
     (if ok then Inr () else Inl (WaOther ''connect before phone pairing: socket did not come up in 10s''),
      s\<lparr>hs_client := c, hs_now := t\<rparr>))"

definition phone_refused :: "lib_error \<Rightarrow> wa_error" where
  "phone_refused e = (if ErrPhoneNumberTooShort \<in> set (le_Is e) \<or> ErrPhoneNumberIsNotInternational \<in> set (le_Is e)
     then WaInvalidPhoneNumber else wa_wrap ''request pairing code'' e)"

definition hm_PairPhone :: "('j, 'd, 'c, 'r, 'k) whatsmeow \<Rightarrow> string \<Rightarrow> ('c, wa_error, string \<times> gotime) session_io" where
  "hm_PairPhone lib phoneNumber = bindE (store_ID lib) (\<lambda>paired. if paired \<noteq> None then throw WaAlreadyPaired else
     bindE (connected lib) (\<lambda>up.
     bindE (whenE (\<not> up)
       (bindE (wrapE (wa_wrap ''connect before phone pairing'') (lib_call (lib_Connect lib))) (\<lambda>_.
        bindE (wait_for_connection lib) (\<lambda>_.
        modifyE (\<lambda>s. s\<lparr>hs_now := hs_now s + pairingSettle\<rparr>))))) (\<lambda>_.
     bindE (wrapE phone_refused (lib_call (lib_PairPhone lib phoneNumber True pairDisplayName))) (\<lambda>code.
     bindE (getsE (\<lambda>s. hs_now s + phonePairingWindow)) (\<lambda>expires.
     bindE (emit ((zero_Event KindPairingCode)\<lparr>evt_Method := MethodPhone, evt_Code := code, evt_ExpiresAt := expires\<rparr>)) (\<lambda>_.
     ret (code, expires)))))))"

definition hm_Connect :: "('j, 'd, 'c, 'r, 'k) whatsmeow \<Rightarrow> ('c, wa_error, unit) session_io" where
  "hm_Connect lib = bindE (connected lib) (\<lambda>up. if up then ret () else
     bindE (getsE hs_proxyConfigured) (\<lambda>proxied.
     wrapE (\<lambda>e. if proxied then WaProxyConnectFailed else wa_wrap ''connect'' e) (lib_call (lib_ConnectContext lib))))"

definition hm_SetPassive :: "('j, 'd, 'c, 'r, 'k) whatsmeow \<Rightarrow> bool \<Rightarrow> ('c, wa_error, unit) session_io" where
  "hm_SetPassive lib passive = bindE (connected lib) (\<lambda>up. if \<not> up then throw WaNotConnected else
     wrapE (wa_wrap ''set passive mode'') (lib_call (lib_SetPassive lib passive)))"

definition hm_SendPasskeyResponse :: "('j, 'd, 'c, 'r, 'k) whatsmeow \<Rightarrow> string \<Rightarrow> ('c, wa_error, unit) session_io" where
  "hm_SendPasskeyResponse lib json = bindE (getsE hs_passkeyPhase) (\<lambda>phase.
     if phase \<noteq> passkeyAwaitingResponse then throw WaNoPasskeyChallenge
     else case lib_UnmarshalResponse lib json of
       Inl _ \<Rightarrow> throw WaInvalidPasskeyResponse
     | Inr response \<Rightarrow> bindE (wrapE (wa_wrap ''send passkey response'') (lib_call (lib_SendPasskeyResponse lib response))) (\<lambda>_.
         setPasskeyPhase passkeyNone))"

definition hm_ConfirmPasskey :: "('j, 'd, 'c, 'r, 'k) whatsmeow \<Rightarrow> ('c, wa_error, unit) session_io" where
  "hm_ConfirmPasskey lib = bindE (getsE hs_passkeyPhase) (\<lambda>phase.
     if phase \<noteq> passkeyAwaitingConfirm then throw WaNoPasskeyCode
     else bindE (wrapE (wa_wrap ''send passkey confirmation'') (lib_call (lib_SendPasskeyConfirmation lib))) (\<lambda>_.
       setPasskeyPhase passkeyNone))"

definition isPlainPhoneNumber :: "string \<Rightarrow> bool" where
  "isPlainPhoneNumber value \<longleftrightarrow> 8 \<le> length value \<and> length value \<le> 20 \<and> list_all (\<lambda>c. digit_val c \<noteq> None) value"

definition phoneUserOrEmpty :: "('j, 'd, 'c, 'r, 'k) whatsmeow \<Rightarrow> 'j \<Rightarrow> string" where
  "phoneUserOrEmpty lib jid = (if lib_IsEmpty lib jid then [] else lib_User lib jid)"

definition resolveContactLID :: "('j, 'd, 'c, 'r, 'k) whatsmeow \<Rightarrow> string \<Rightarrow> ('c, wa_error, 'j) session_io" where
  "resolveContactLID lib contact =
     (if contact = [] then throw WaInvalidContact
      else if HasSuffix contact (CHR ''@'' # lib_HiddenUserServer lib) then (case lib_ParseJID lib contact of
          Inl _ \<Rightarrow> throw WaInvalidContact
        | Inr jid \<Rightarrow> ret (lib_ToNonAD lib jid))
      else if \<not> isPlainPhoneNumber contact then throw WaInvalidContact
      else let pn = lib_NewJID lib contact (lib_DefaultUserServer lib) in
        bindE (getsE (\<lambda>s. lib_GetLIDForPN lib (hs_client s))) (\<lambda>lidStore. case lidStore of
          None \<Rightarrow> throw WaIdentityNotResolvable
        | Some lookup_pn \<Rightarrow> bindE (wrapE (wa_wrap ''resolve lid for phone number'') (lib_call (lookup_pn pn))) (\<lambda>lid.
            if lib_IsEmpty lib lid then throw WaIdentityNotResolvable else ret (lib_ToNonAD lib lid))))"

definition translateVerificationError :: "lib_error \<Rightarrow> wa_error" where
  "translateVerificationError e =
     (if ErrIdentityVerificationRequiresLID \<in> set (le_Is e) then WaInvalidContact
      else if Contains (le_Error e) ''local user'' then WaCannotVerifySelf
      else if Contains (le_Error e) ''no devices found'' then WaContactUnavailable
      else wa_wrap ''get identity verification codes'' e)"

definition hm_IdentityVerificationCodes :: "('j, 'd, 'c, 'r, 'k) whatsmeow \<Rightarrow> string \<Rightarrow> ('c, wa_error, VerificationCodes) session_io" where
  "hm_IdentityVerificationCodes lib contact = bindE (connected lib) (\<lambda>up. if \<not> up then throw WaNotConnected else
     bindE (resolveContactLID lib contact) (\<lambda>target.
     bindE (wrapE translateVerificationError (lib_call (lib_GetIdentityVerificationCodes lib target))) (\<lambda>codes.
     ret \<lparr>vc_LID = lib_String lib (ivc_UserID codes), vc_PhoneNumber = phoneUserOrEmpty lib (ivc_PhoneNumber codes),
          vc_Username = ivc_Username codes, vc_NumericCode = ivc_NumericCode codes,
          vc_DisplayQR = ivc_DisplayQRCode codes, vc_VerificationQR = ivc_VerificationQRCode codes\<rparr>)))"

definition hm_Disconnect :: "('j, 'd, 'c, 'r, 'k) whatsmeow \<Rightarrow> ('c, 'e, unit) session_io" where
  "hm_Disconnect lib = on_client (lib_Disconnect lib)"

definition hm_Logout :: "('j, 'd, 'c, 'r, 'k) whatsmeow \<Rightarrow> ('c, wa_error, bool) session_io" where
  "hm_Logout lib = bindE (store_ID lib) (\<lambda>paired. if paired = None then throw WaNotPaired else
     bindE (attempt (lib_call (lib_Logout lib))) (\<lambda>r. case r of
       Inr _ \<Rightarrow> ret True
     | Inl _ \<Rightarrow> bindE (hm_Disconnect lib) (\<lambda>_.
         bindE (wrapE (wa_wrap ''delete local session material'') (lib_call (lib_StoreDelete lib))) (\<lambda>_. ret False))))"

definition hm_Close :: "('j, 'd, 'c, 'r, 'k) whatsmeow \<Rightarrow> ('c, 'e, unit) session_io" where
  "hm_Close lib = bindE (getsE hs_closed) (\<lambda>closed. if closed then ret () else
     bindE (modifyE (\<lambda>s. s\<lparr>hs_closed := True\<rparr>)) (\<lambda>_.
     bindE (getsE hs_handlerID) (\<lambda>h.
     bindE (on_client (lib_RemoveEventHandler lib h)) (\<lambda>_.
     hm_Disconnect lib))))"

subsection \<open>Events of the library\<close>

datatype session_event = EvConnected | EvPairSuccess | EvPairError | EvQRScannedWithoutMultidevice | EvOther lib_event

definition handleEvent :: "('j, 'd, 'c, 'r, 'k) whatsmeow \<Rightarrow> session_event \<Rightarrow> ('c, 'e, unit) session_io" where
  "handleEvent lib raw = (case raw of
       EvConnected \<Rightarrow> bindE (setPermanent False) (\<lambda>_. emit (zero_Event KindConnected))
     | EvPairSuccess \<Rightarrow> bindE (getsE (deviceIdentity lib)) (\<lambda>device. emit ((zero_Event KindPairingSucceeded)\<lparr>evt_Device := device\<rparr>))
     | EvPairError \<Rightarrow> emit (failed_pairing FailurePairError)
     | EvQRScannedWithoutMultidevice \<Rightarrow> emit (failed_pairing FailureScannedWithoutMultidevice)
     | EvOther e \<Rightarrow> bindE (getsE hs_now) (\<lambda>t. case ClassifyDisconnect t e of
          None \<Rightarrow> ret ()
        | Some c \<Rightarrow> bindE (setPermanent (c_Permanent c)) (\<lambda>_.
            if c_ManualReconnect c then emit (zero_Event KindManualLoginReconnect)
            else emit ((zero_Event KindDisconnected)\<lparr>evt_Reason := c_Reason c, evt_Permanent := c_Permanent c,
              evt_BanExpiresAt := c_BanExpiresAt c, evt_StreamErrorCode := c_StreamErrorCode c\<rparr>))))"

text \<open>
  The hook returns whether to go on, after the sleep it draws: \<open>random n\<close> is \<open>rand.Int64N(n)\<close>, which
  panics (here \<open>Inl\<close>) when \<open>n\<close> is not positive. Durations are 64-bit integers.
\<close>

definition reconnectCeiling :: duration where "reconnectCeiling = 60 * second"

definition reconnect_delay :: "int \<Rightarrow> duration" where
  "reconnect_delay attempts = min (int64 (int64 (attempts * 2) * second)) reconnectCeiling"

definition reconnectHook ::
  "('j, 'd, 'c, 'r, 'k) whatsmeow \<Rightarrow> (int \<Rightarrow> int) \<Rightarrow> ('c, unit, bool) session_io" where
  "reconnectHook lib random = bindE (getsE hs_permanent) (\<lambda>permanent. if permanent then ret False else
     bindE (getsE (\<lambda>s. reconnect_delay (lib_AutoReconnectErrors lib (hs_client s)))) (\<lambda>delay.
     let n = delay sdiv 4 + 1 in if n \<le> 0 then throw () else
     bindE (modifyE (\<lambda>s. s\<lparr>hs_now := hs_now s + random n\<rparr>)) (\<lambda>_. ret True)))"

subsection \<open>The adapter as an implementation of the interface\<close>

definition at_instant :: "('c, wa_error, 'a) session_io \<Rightarrow> ('c hypermeowSession, 'a) session_op" where
  "at_instant m t s = m (s\<lparr>hs_now := t\<rparr>)"

definition hypermeow_api :: "('j, 'd, 'c, 'r, 'k) whatsmeow \<Rightarrow> 'c hypermeowSession session_api" where
  "hypermeow_api lib = \<lparr>NewSession = container_NewSession lib,
     QRChannel = at_instant (hm_QRChannel lib), api_PairPhone = (\<lambda>phone. at_instant (hm_PairPhone lib phone)),
     api_Connect = at_instant (hm_Connect lib), api_Disconnect = final (hm_Disconnect lib :: (_, unit, _) io),
     api_Logout = at_instant (hm_Logout lib), api_Status = (\<lambda>t s. hm_Status lib (s\<lparr>hs_now := t\<rparr>)),
     SetPassive = (\<lambda>passive. at_instant (hm_SetPassive lib passive)),
     SendPasskeyResponse = (\<lambda>json. at_instant (hm_SendPasskeyResponse lib json)),
     api_ConfirmPasskey = at_instant (hm_ConfirmPasskey lib),
     api_VerificationCodes = (\<lambda>contact. at_instant (hm_IdentityVerificationCodes lib contact)),
     api_Close = final (hm_Close lib :: (_, unit, _) io)\<rparr>"

subsection \<open>Histories of a session\<close>

text \<open>What one call of the library may make of a client.\<close>

inductive client_step :: "('j, 'd, 'c, 'r, 'k) whatsmeow \<Rightarrow> 'c \<Rightarrow> 'c \<Rightarrow> bool" for lib where
  qr: "lib_GetQRChannel lib t c = (r, t', c') \<Longrightarrow> client_step lib c c'"
| connect: "lib_Connect lib t c = (r, t', c') \<Longrightarrow> client_step lib c c'"
| connect_context: "lib_ConnectContext lib t c = (r, t', c') \<Longrightarrow> client_step lib c c'"
| wait: "lib_WaitForConnection lib d t c = (ok, t', c') \<Longrightarrow> client_step lib c c'"
| pair_phone: "lib_PairPhone lib phone show_push name t c = (r', t', c') \<Longrightarrow> client_step lib c c'"
| set_passive: "lib_SetPassive lib b t c = (r, t', c') \<Longrightarrow> client_step lib c c'"
| response: "lib_SendPasskeyResponse lib resp t c = (r, t', c') \<Longrightarrow> client_step lib c c'"
| confirmation: "lib_SendPasskeyConfirmation lib t c = (r, t', c') \<Longrightarrow> client_step lib c c'"
| codes: "lib_GetIdentityVerificationCodes lib j t c = (rc, t', c') \<Longrightarrow> client_step lib c c'"
| lid: "lib_GetLIDForPN lib c0 = Some f \<Longrightarrow> f j t c = (rj, t', c') \<Longrightarrow> client_step lib c c'"
| logout: "lib_Logout lib t c = (r, t', c') \<Longrightarrow> client_step lib c c'"
| delete: "lib_StoreDelete lib t c = (r, t', c') \<Longrightarrow> client_step lib c c'"
| disconnect: "client_step lib c (lib_Disconnect lib c)"
| remove_handler: "client_step lib c (lib_RemoveEventHandler lib h c)"

text \<open>
  What may happen to a session: the operations of the interface, deliveries by the library (an event, an
  item for a pump, the end of a pump's stream, a call of the hook), and its consumers taking events.
\<close>

datatype 'k hm_action =
    HmQRChannel | HmPairPhone string | HmConnect | HmSetPassive bool | HmSendPasskeyResponse string | HmConfirmPasskey
  | HmVerificationCodes string | HmDisconnect | HmLogout | HmClose | HmEvent session_event | HmItem nat "'k qr_item"
  | HmEnd nat | HmHook "int \<Rightarrow> int" | HmTake | HmTakePairing nat

definition outcome :: "('w, 'e, 'a) io \<Rightarrow> 'w \<Rightarrow> bool \<times> 'w" where
  "outcome m w = (case m w of (r, w') \<Rightarrow> (\<not> isl r, w'))"

definition hm_action_io :: "('j, 'd, 'c, 'r, 'k) whatsmeow \<Rightarrow> 'k hm_action \<Rightarrow> 'c hypermeowSession \<Rightarrow> bool \<times> 'c hypermeowSession" where
  "hm_action_io lib act = (case act of
       HmQRChannel \<Rightarrow> outcome (hm_QRChannel lib) | HmPairPhone phone \<Rightarrow> outcome (hm_PairPhone lib phone)
     | HmConnect \<Rightarrow> outcome (hm_Connect lib) | HmSetPassive b \<Rightarrow> outcome (hm_SetPassive lib b)
     | HmSendPasskeyResponse json \<Rightarrow> outcome (hm_SendPasskeyResponse lib json)
     | HmConfirmPasskey \<Rightarrow> outcome (hm_ConfirmPasskey lib)
     | HmVerificationCodes contact \<Rightarrow> outcome (hm_IdentityVerificationCodes lib contact)
     | HmDisconnect \<Rightarrow> outcome (hm_Disconnect lib :: (_, unit, _) io) | HmLogout \<Rightarrow> outcome (hm_Logout lib)
     | HmClose \<Rightarrow> outcome (hm_Close lib :: (_, unit, _) io)
     | HmEvent e \<Rightarrow> outcome (handleEvent lib e :: (_, unit, _) io)
     | HmItem k item \<Rightarrow> outcome (pump_item lib k item :: (_, unit, _) io)
     | HmEnd k \<Rightarrow> outcome (on_channel k (\<lambda>ch. ch\<lparr>pc_closed := True\<rparr>) :: (_, unit, _) io)
     | HmHook random \<Rightarrow> outcome (reconnectHook lib random)
     | HmTake \<Rightarrow> outcome (modifyE (\<lambda>s. s\<lparr>hs_events := tl (hs_events s)\<rparr>) :: (_, unit, _) io)
     | HmTakePairing k \<Rightarrow> outcome (on_channel k (\<lambda>ch. ch\<lparr>pc_buffer := tl (pc_buffer ch)\<rparr>) :: (_, unit, _) io))"

text \<open>Between these steps time passes, and the library changes its client the way \<open>evolve\<close> allows.\<close>

inductive hm_history ::
  "('j, 'd, 'c, 'r, 'k) whatsmeow \<Rightarrow> ('c \<Rightarrow> 'c \<Rightarrow> bool) \<Rightarrow> 'c hypermeowSession \<Rightarrow> ('k hm_action \<times> bool) list \<Rightarrow>
   'c hypermeowSession \<Rightarrow> bool" for lib evolve s0 where
  start: "hm_history lib evolve s0 [] s0"
| act: "hm_history lib evolve s0 tr s \<Longrightarrow> hm_action_io lib a s = (ok, s') \<Longrightarrow> hm_history lib evolve s0 (tr @ [(a, ok)]) s'"
| library: "hm_history lib evolve s0 tr s \<Longrightarrow> evolve (hs_client s) c \<Longrightarrow> hm_history lib evolve s0 tr (s\<lparr>hs_client := c\<rparr>)"
| tick: "hm_history lib evolve s0 tr s \<Longrightarrow> hm_history lib evolve s0 tr (s\<lparr>hs_now := t\<rparr>)"

subsection \<open>What the operations leave alone\<close>

text \<open>
  A part of the session that neither the library's calls nor the buffers touch is the same after every
  operation; the passkey steps and the events of the library need a little more.
\<close>

locale session_frame =
  fixes lib :: "('j, 'd, 'c, 'r, 'k) whatsmeow" and obs :: "'c hypermeowSession \<Rightarrow> 'b"
  assumes on_step: "client_step lib (hs_client s) c \<Longrightarrow> obs (s\<lparr>hs_client := c\<rparr>) = obs s"
    and on_clock: "obs (s\<lparr>hs_now := t\<rparr>) = obs s"
    and on_events: "obs (s\<lparr>hs_events := es\<rparr>) = obs s"
    and on_pairings: "obs (s\<lparr>hs_pairings := ps\<rparr>) = obs s"
    and on_closing: "obs (s\<lparr>hs_closed := True\<rparr>) = obs s"
begin

lemma frame_call:
  assumes "\<And>t c r t' c'. op t c = (r, t', c') \<Longrightarrow> client_step lib c c'"
  shows "always (same obs) (lib_call op)"
proof (rule alwaysI)
  fix s :: "'c hypermeowSession"
  obtain r t c where op: "op (hs_now s) (hs_client s) = (r, t, c)" by (cases "op (hs_now s) (hs_client s)")
  then have "obs (s\<lparr>hs_client := c\<rparr>) = obs s" by (rule on_step [OF assms])
  then show "same obs s (snd (lib_call op s))" using on_clock [of t "s\<lparr>hs_client := c\<rparr>"] by (simp add: lib_call_def op same_def)
qed

lemma frame_on_client: "(\<And>c. client_step lib c (f c)) \<Longrightarrow> always (same obs) (on_client f)"
  unfolding on_client_def by (rule always_modifyE) (simp add: same_def on_step)

lemma frame_wait: "always (same obs) (wait_for_connection lib)"
proof (rule alwaysI)
  fix s :: "'c hypermeowSession"
  obtain ok t c where run: "lib_WaitForConnection lib connectWait (hs_now s) (hs_client s) = (ok, t, c)"
    by (cases "lib_WaitForConnection lib connectWait (hs_now s) (hs_client s)")
  then have "obs (s\<lparr>hs_client := c\<rparr>) = obs s" by (rule on_step [OF client_step.wait])
  then show "same obs s (snd (wait_for_connection lib s))"
    using on_clock [of t "s\<lparr>hs_client := c\<rparr>"] by (simp add: wait_for_connection_def run same_def)
qed

lemma frame_local:
  "always (same obs) (emit evt)" "always (same obs) (on_channel k f)" "always (same obs) (modifyE (\<lambda>s. s\<lparr>hs_now := g s\<rparr>))"
  "always (same obs) (modifyE (\<lambda>s. s\<lparr>hs_pairings := h s\<rparr>))" "always (same obs) (modifyE (\<lambda>s. s\<lparr>hs_closed := True\<rparr>))"
  "always (same obs) (modifyE (\<lambda>s. s\<lparr>hs_events := e s\<rparr>))"
  unfolding emit_def on_channel_def
  by (rule always_modifyE; simp add: same_def on_clock on_events on_pairings on_closing)+

lemmas frame_parts = same.always_intros frame_call frame_wait frame_local frame_on_client
  client_step.intros [where lib = lib]

lemma frame_Disconnect: "always (same obs) (hm_Disconnect lib)"
  unfolding hm_Disconnect_def by (intro frame_parts)

lemma frame_operations:
  "always (same obs) (hm_QRChannel lib)" "always (same obs) (hm_PairPhone lib phone)" "always (same obs) (hm_Connect lib)"
  "always (same obs) (hm_SetPassive lib b)" "always (same obs) (hm_Logout lib)" "always (same obs) (hm_Close lib)"
  "always (same obs) (reconnectHook lib random)"
  unfolding hm_QRChannel_def hm_PairPhone_def hm_Connect_def hm_SetPassive_def hm_Logout_def hm_Close_def connected_def
    store_ID_def reconnectHook_def Let_def
  by (intro frame_parts frame_Disconnect; assumption?)+

lemma frame_lid: "lib_GetLIDForPN lib c0 = Some f \<Longrightarrow> always (same obs) (lib_call (f j))"
  by (rule frame_call) (rule client_step.lid)

lemma frame_resolve: "always (same obs) (resolveContactLID lib contact)"
proof -
  have look: "always (same obs) (bindE (getsE (\<lambda>s. lib_GetLIDForPN lib (hs_client s))) (\<lambda>lidStore. case lidStore of
      None \<Rightarrow> throw WaIdentityNotResolvable
    | Some lookup_pn \<Rightarrow> bindE (wrapE w (lib_call (lookup_pn pn))) (\<lambda>lid.
        if lib_IsEmpty lib lid then throw WaIdentityNotResolvable else ret (lib_ToNonAD lib lid))))" for w pn
  proof (rule alwaysI)
    fix s :: "'c hypermeowSession"
    let ?rest = "\<lambda>f. bindE (wrapE w (lib_call (f pn))) (\<lambda>lid.
        if lib_IsEmpty lib lid then throw WaIdentityNotResolvable else ret (lib_ToNonAD lib lid))"
    have "always (same obs) (?rest f)" if "lib_GetLIDForPN lib (hs_client s) = Some f" for f
      by (intro same.always_intros frame_lid [OF that])
    then show "same obs s (snd (bindE (getsE (\<lambda>s. lib_GetLIDForPN lib (hs_client s))) (\<lambda>lidStore. case lidStore of
        None \<Rightarrow> throw WaIdentityNotResolvable | Some lookup_pn \<Rightarrow> ?rest lookup_pn) s))"
      by (auto simp: bindE_getsE throw_def same.R_refl alwaysD split: option.split)
  qed
  show ?thesis unfolding resolveContactLID_def Let_def by (intro same.always_intros look)
qed

lemma frame_codes: "always (same obs) (hm_IdentityVerificationCodes lib contact)"
  unfolding hm_IdentityVerificationCodes_def connected_def by (intro frame_parts frame_resolve; assumption?)

lemma frame_passkey:
  assumes "\<And>s p. obs (s\<lparr>hs_passkeyPhase := p\<rparr>) = obs s"
  shows "always (same obs) (hm_SendPasskeyResponse lib json)" "always (same obs) (hm_ConfirmPasskey lib)"
    "always (same obs) (pump_item lib k item)"
proof -
  have phase: "always (same obs) (setPasskeyPhase p)" for p
    unfolding setPasskeyPhase_def by (rule always_modifyE) (simp add: same_def assms)
  show "always (same obs) (hm_SendPasskeyResponse lib json)" "always (same obs) (hm_ConfirmPasskey lib)"
    unfolding hm_SendPasskeyResponse_def hm_ConfirmPasskey_def by (intro frame_parts phase; assumption?)+
  have "always (same obs) (item_event lib item)"
    by (cases item) (auto simp: item_event_def passkeyInFlight_def intro!: frame_parts phase)
  then show "always (same obs) (pump_item lib k item)"
    unfolding pump_item_def by (intro frame_parts)
qed

lemma frame_event:
  assumes "\<And>s p. obs (s\<lparr>hs_permanent := p\<rparr>) = obs s"
  shows "always (same obs) (handleEvent lib e)"
proof -
  have perm: "always (same obs) (setPermanent p)" for p
    unfolding setPermanent_def by (rule always_modifyE) (simp add: same_def assms)
  show ?thesis by (cases e) (auto simp: handleEvent_def intro!: frame_parts perm)
qed

end

lemma outcome_same: "outcome m s = (ok, s') \<Longrightarrow> always (same f) m \<Longrightarrow> f s' = f s"
  using alwaysD [of "same f" m s] by (auto simp: outcome_def same_def split: prod.splits)

fun passkey_action :: "'k hm_action \<Rightarrow> bool" where
  "passkey_action (HmSendPasskeyResponse json) = True"
| "passkey_action HmConfirmPasskey = True"
| "passkey_action (HmItem k item) = True"
| "passkey_action _ = False"

fun event_action :: "'k hm_action \<Rightarrow> bool" where
  "event_action (HmEvent e) = True"
| "event_action _ = False"

context session_frame
begin

lemma frame_action:
  assumes run: "hm_action_io lib a s = (ok, s')"
    and phase: "passkey_action a \<Longrightarrow> (\<And>s p. obs (s\<lparr>hs_passkeyPhase := p\<rparr>) = obs s)"
    and perm: "event_action a \<Longrightarrow> (\<And>s p. obs (s\<lparr>hs_permanent := p\<rparr>) = obs s)"
  shows "obs s' = obs s"
proof (cases a)
  case (HmEvent e)
  with run perm show ?thesis by (auto simp: hm_action_io_def elim!: outcome_same intro!: frame_event)
qed (use run phase in \<open>auto simp: hm_action_io_def
  elim!: outcome_same intro!: frame_operations frame_Disconnect frame_codes frame_passkey frame_local\<close>)

end

interpretation phase: session_frame lib hs_passkeyPhase
  by unfold_locales simp_all

interpretation perm: session_frame lib hs_permanent
  by unfold_locales simp_all

interpretation proxied: session_frame lib hs_proxyConfigured
  by unfold_locales simp_all

subsection \<open>How the traffic of a client leaves\<close>

datatype egress = FromEnvironment | Direct | Via string

text \<open>
  What the library documents about proxies: setting one takes effect for the client and clearing it means
  direct, and nothing else a client is asked to do changes it. A new client reads the environment.
\<close>

definition egress_contract :: "('j, 'd, 'c, 'r, 'k) whatsmeow \<Rightarrow> ('c \<Rightarrow> egress) \<Rightarrow> bool" where
  "egress_contract lib eg \<longleftrightarrow>
     (\<forall>url c c'. lib_SetProxyAddress lib url c = Inr c' \<longrightarrow> eg c' = Via url) \<and>
     (\<forall>c. eg (lib_SetProxyNil lib c) = Direct) \<and>
     (\<forall>c. eg (snd (lib_AddEventHandler lib c)) = eg c) \<and>
     (\<forall>c c'. client_step lib c c' \<longrightarrow> eg c' = eg c)"

subsection \<open>A small library\<close>

text \<open>A client that can be paired and connected, and remembers how its traffic leaves.\<close>

definition demo_call :: "'a \<Rightarrow> gotime \<Rightarrow> bool \<times> egress \<Rightarrow> (lib_error + 'a) \<times> gotime \<times> bool \<times> egress" where
  "demo_call x t c = (Inr x, t, c)"

definition demo_whatsmeow :: "(string, unit, bool \<times> egress, string, string) whatsmeow" where
  "demo_whatsmeow = \<lparr>lib_HiddenUserServer = ''lid'', lib_DefaultUserServer = ''s.whatsapp.net'', lib_ParseJID = Inr,
     lib_NewJID = (\<lambda>u s. u @ ''@'' @ s), lib_String = id, lib_User = id, lib_IsEmpty = (\<lambda>j. j = []), lib_ToNonAD = id,
     lib_GetDevice = (\<lambda>t j. Inr None), lib_NewDevice = (), lib_NewClient = (\<lambda>_. (False, FromEnvironment)),
     lib_SetProxyAddress = (\<lambda>url c. Inr (fst c, Via url)), lib_SetProxyNil = (\<lambda>c. (fst c, Direct)),
     lib_AddEventHandler = (\<lambda>c. (1, c)), lib_RemoveEventHandler = (\<lambda>h c. c),
     lib_Store = (\<lambda>_. \<lparr>dev_ID = None, dev_LID = [], dev_PushName = [], dev_Platform = [], dev_BusinessName = []\<rparr>),
     lib_IsConnected = fst, lib_IsLoggedIn = (\<lambda>_. False), lib_AutoReconnectErrors = (\<lambda>_. 3),
     lib_GetQRChannel = demo_call (), lib_Connect = demo_call (), lib_ConnectContext = (\<lambda>t c. (Inl \<lparr>le_Error = ''refused'', le_Is = []\<rparr>, t, c)),
     lib_WaitForConnection = (\<lambda>d t c. (True, t, c)), lib_PairPhone = (\<lambda>p b n. demo_call ''ABCD-2345''),
     lib_SetPassive = (\<lambda>b. demo_call ()), lib_UnmarshalResponse = Inr, lib_MarshalPublicKey = Inr,
     lib_SendPasskeyResponse = (\<lambda>r. demo_call ()), lib_SendPasskeyConfirmation = demo_call (),
     lib_GetIdentityVerificationCodes = (\<lambda>j. demo_call \<lparr>ivc_UserID = j, ivc_PhoneNumber = [], ivc_Username = [],
       ivc_NumericCode = ''123'', ivc_DisplayQRCode = [], ivc_VerificationQRCode = []\<rparr>),
     lib_GetLIDForPN = (\<lambda>_. None), lib_Logout = demo_call (), lib_Disconnect = (\<lambda>c. (False, snd c)),
     lib_StoreDelete = demo_call ()\<rparr>"

definition demo_session :: "(bool \<times> egress) hypermeowSession" where
  "demo_session = \<lparr>hs_instanceID = 7, hs_client = (False, Via ''socks5://p:1''), hs_handlerID = 1, hs_events = [], hs_closed = False,
     hs_permanent = False, hs_proxyConfigured = True, hs_passkeyPhase = passkeyNone, hs_pairings = [], hs_now = 5\<rparr>"

lemma demo_session_new: "container_NewSession demo_whatsmeow 5 7 \<lparr>StoredJID = [], cfg_ProxyURL = ''socks5://p:1''\<rparr> = Inr demo_session"
  by (simp add: container_NewSession_def stored_device_def demo_whatsmeow_def demo_session_def)

lemma hm_history_next:
  "hm_history lib evolve s0 tr s \<Longrightarrow> hm_history lib evolve s0 (tr @ [(a, fst (hm_action_io lib a s))]) (snd (hm_action_io lib a s))"
  by (rule hm_history.act) simp_all

lemmas demo_run = hm_action_io_def outcome_def bindE_def getsE_def modifyE_def ret_def throw_def wrapE_def lib_call_def demo_call_def
  demo_whatsmeow_def demo_session_def

lemma demo_egress: "egress_contract demo_whatsmeow snd"
  by (auto simp: egress_contract_def demo_whatsmeow_def demo_call_def elim!: client_step.cases)

subsection \<open>Passkeys\<close>

definition challenged :: "('j, 'd, 'c, 'r, 'k) whatsmeow \<Rightarrow> 'k hm_action \<Rightarrow> bool" where
  "challenged lib a = (case a of HmItem k (QRPasskeyRequest req) \<Rightarrow> \<not> isl (marshalPasskeyChallenge lib req) | _ \<Rightarrow> False)"

definition coded :: "'k hm_action \<Rightarrow> bool" where
  "coded a = (case a of HmItem k (QRPasskeyResponse c) \<Rightarrow> True | _ \<Rightarrow> False)"

definition answered :: "'k hm_action \<times> bool \<Rightarrow> bool" where
  "answered x = (case x of (HmSendPasskeyResponse json, ok) \<Rightarrow> ok | _ \<Rightarrow> False)"

definition confirmed :: "'k hm_action \<times> bool \<Rightarrow> bool" where
  "confirmed x = (case x of (HmConfirmPasskey, ok) \<Rightarrow> ok | _ \<Rightarrow> False)"

lemma SendPasskeyResponse_phase:
  assumes "hm_SendPasskeyResponse lib json s = (r, s')"
  shows "r = Inr () \<Longrightarrow> hs_passkeyPhase s = passkeyAwaitingResponse \<and> hs_passkeyPhase s' = passkeyNone"
    and "isl r \<Longrightarrow> hs_passkeyPhase s' = hs_passkeyPhase s"
  using assms by (auto simp: hm_SendPasskeyResponse_def getsE_def bindE_def wrapE_def lib_call_def setPasskeyPhase_def modifyE_def throw_def
    split: if_splits sum.splits prod.splits)

lemma ConfirmPasskey_phase:
  assumes "hm_ConfirmPasskey lib s = (r, s')"
  shows "r = Inr () \<Longrightarrow> hs_passkeyPhase s = passkeyAwaitingConfirm \<and> hs_passkeyPhase s' = passkeyNone"
    and "isl r \<Longrightarrow> hs_passkeyPhase s' = hs_passkeyPhase s"
  using assms by (auto simp: hm_ConfirmPasskey_def getsE_def bindE_def wrapE_def lib_call_def setPasskeyPhase_def modifyE_def throw_def
    split: if_splits sum.splits prod.splits)

lemma pump_item_phase:
  "hs_passkeyPhase (snd (pump_item lib k item s)) =
     (if challenged lib (HmItem k item) then passkeyAwaitingResponse else if coded (HmItem k item) then passkeyAwaitingConfirm
      else hs_passkeyPhase s)"
  by (cases item) (auto simp: pump_item_def item_event_def challenged_def coded_def bindE_def getsE_def setPasskeyPhase_def modifyE_def
    on_channel_def passkeyInFlight_def ret_def split: sum.split)

text \<open>What an action makes of the phase, and which phase the accepted steps need.\<close>

definition phase_step :: "('j, 'd, 'c, 'r, 'k) whatsmeow \<Rightarrow> 'k hm_action \<times> bool \<Rightarrow> passkeyPhase \<Rightarrow> passkeyPhase \<Rightarrow> bool" where
  "phase_step lib x p p' \<longleftrightarrow>
     p' = (if answered x \<or> confirmed x then passkeyNone else if challenged lib (fst x) then passkeyAwaitingResponse
       else if coded (fst x) then passkeyAwaitingConfirm else p) \<and>
     (answered x \<longrightarrow> p = passkeyAwaitingResponse) \<and> (confirmed x \<longrightarrow> p = passkeyAwaitingConfirm)"

lemma phase_steps:
  assumes "hm_action_io lib a s = (ok, s')"
  shows "phase_step lib (a, ok) (hs_passkeyPhase s) (hs_passkeyPhase s')"
proof -
  note passkey_defs = phase_step_def answered_def confirmed_def challenged_def coded_def
  consider (response) json where "a = HmSendPasskeyResponse json" | (confirm) "a = HmConfirmPasskey"
    | (item) k item where "a = HmItem k item" | (other) "\<not> passkey_action a" by (cases a) auto
  then show ?thesis
  proof cases
    case response
    obtain r where run: "hm_SendPasskeyResponse lib json s = (r, s')" and "ok = (\<not> isl r)"
      using assms by (auto simp: response hm_action_io_def outcome_def split: prod.splits)
    with SendPasskeyResponse_phase [OF run] show ?thesis by (cases r) (auto simp: response passkey_defs)
  next
    case confirm
    obtain r where run: "hm_ConfirmPasskey lib s = (r, s')" and "ok = (\<not> isl r)"
      using assms by (auto simp: confirm hm_action_io_def outcome_def split: prod.splits)
    with ConfirmPasskey_phase [OF run] show ?thesis by (cases r) (auto simp: confirm passkey_defs)
  next
    case item
    have "s' = snd ((pump_item lib k item :: (_, unit, _) io) s)"
      using assms by (auto simp: item hm_action_io_def outcome_def split: prod.splits)
    then show ?thesis by (simp add: item pump_item_phase phase_step_def answered_def confirmed_def)
  next
    case other
    then have "hs_passkeyPhase s' = hs_passkeyPhase s" by (intro phase.frame_action [OF assms]) auto
    with other show ?thesis by (cases a) (auto simp: passkey_defs)
  qed
qed

text \<open>Every answered challenge was published, and a published one still waiting has not been answered.\<close>

definition passkey_budget :: "('j, 'd, 'c, 'r, 'k) whatsmeow \<Rightarrow> ('k hm_action \<times> bool) list \<Rightarrow> 'c hypermeowSession \<Rightarrow> bool" where
  "passkey_budget lib tr s \<longleftrightarrow>
     length (filter answered tr) + of_bool (hs_passkeyPhase s = passkeyAwaitingResponse) \<le> length (filter (challenged lib \<circ> fst) tr) \<and>
     length (filter confirmed tr) + of_bool (hs_passkeyPhase s = passkeyAwaitingConfirm) \<le> length (filter (coded \<circ> fst) tr)"

lemma not_both_passkey:
  "answered (a, ok) \<Longrightarrow> \<not> confirmed (a, ok) \<and> \<not> challenged lib a \<and> \<not> coded a"
  "confirmed (a, ok) \<Longrightarrow> \<not> challenged lib a \<and> \<not> coded a" "challenged lib a \<Longrightarrow> \<not> coded a"
  by (auto simp: answered_def confirmed_def challenged_def coded_def split: hm_action.splits qr_item.splits)

lemma passkey_budget_kept:
  assumes "hm_history lib evolve s0 tr s" and "hs_passkeyPhase s0 = passkeyNone"
  shows "passkey_budget lib tr s"
  using assms(1)
proof (induction rule: hm_history.induct)
  case (act tr s a ok s')
  then show ?case using phase_steps [OF act.hyps(2)] not_both_passkey(1,2) [of a ok lib] not_both_passkey(3) [of lib a]
    by (auto simp: passkey_budget_def phase_step_def of_bool_def split: if_splits)
qed (use assms(2) in \<open>auto simp: passkey_budget_def\<close>)

lemma NewSession_fields:
  assumes "container_NewSession lib t i cfg = Inr s"
  shows "hs_passkeyPhase s = passkeyNone" "\<not> hs_permanent s" "hs_proxyConfigured s \<longleftrightarrow> cfg_ProxyURL cfg \<noteq> []"
    "hs_events s = []" "hs_pairings s = []"
  using assms by (auto simp: container_NewSession_def Let_def split: sum.splits prod.splits)



subsection \<open>When reconnection stops\<close>

text \<open>What an action says about retrying: a connection clears the verdict, a classified failure sets it by its reason.\<close>

definition verdict :: "'k hm_action \<Rightarrow> bool option" where
  "verdict a = (case a of HmEvent EvConnected \<Rightarrow> Some False
     | HmEvent (EvOther e) \<Rightarrow> map_option (\<lambda>c. Permanent (c_Reason c)) (ClassifyDisconnect 0 e)
     | _ \<Rightarrow> None)"

fun last_verdict :: "('k hm_action \<times> bool) list \<Rightarrow> bool" where
  "last_verdict [] = False"
| "last_verdict (x # tr) = (if \<exists>y \<in> set tr. verdict (fst y) \<noteq> None then last_verdict tr else verdict (fst x) = Some True)"

lemma last_verdict_snoc: "last_verdict (tr @ [x]) = (case verdict (fst x) of None \<Rightarrow> last_verdict tr | Some v \<Rightarrow> v)"
  by (induction tr) (auto split: option.split)

lemma classify_instant:
  "map_option c_Permanent (ClassifyDisconnect t e) = map_option (\<lambda>c. Permanent (c_Reason c)) (ClassifyDisconnect 0 e)"
  by (cases e) (auto simp: classified_def)

lemma handleEvent_permanent:
  fixes lib :: "('j, 'd, 'c, 'r, 'k) whatsmeow"
  shows "hs_permanent (snd (handleEvent lib e s)) = (case verdict (HmEvent e :: 'k hm_action) of None \<Rightarrow> hs_permanent s | Some v \<Rightarrow> v)"
proof (cases e)
  case (EvOther x)
  have emit: "hs_permanent (snd (emit evt s1)) = hs_permanent s1" for evt s1
    using alwaysD [OF perm.frame_local(1)] by (simp add: same_def)
  show ?thesis using classify_instant [of "hs_now s" x]
    by (cases "ClassifyDisconnect (hs_now s) x")
      (auto simp: EvOther handleEvent_def verdict_def bindE_def getsE_def setPermanent_def modifyE_def ret_def emit split: option.splits)
qed (auto simp: handleEvent_def verdict_def bindE_def getsE_def setPermanent_def modifyE_def emit_def)

lemma permanent_is_last_verdict:
  assumes "hm_history lib evolve s0 tr s" and "\<not> hs_permanent s0"
  shows "hs_permanent s = last_verdict tr"
  using assms(1)
proof (induction rule: hm_history.induct)
  case (act tr s a ok s')
  show ?case
  proof (cases "event_action a")
    case True
    then obtain e where a: "a = HmEvent e" by (cases a) auto
    have "s' = snd ((handleEvent lib e :: (_, unit, _) io) s)"
      using act.hyps(2) by (auto simp: a hm_action_io_def outcome_def split: prod.splits)
    then show ?thesis using act.IH by (simp add: a handleEvent_permanent last_verdict_snoc split: option.split)
  next
    case False
    then have "hs_permanent s' = hs_permanent s" by (intro perm.frame_action [OF act.hyps(2)]) auto
    moreover have "verdict a = None" using False by (cases a) (auto simp: verdict_def)
    ultimately show ?thesis using act.IH by (simp add: last_verdict_snoc)
  qed
qed (use assms(2) in auto)

lemma reconnect_delay_bounds:
  assumes "0 \<le> n" and "n < 2 ^ 31"
  shows "0 \<le> reconnect_delay n" and "reconnect_delay n \<le> 60 * second"
  using assms by (auto simp: reconnect_delay_def reconnectCeiling_def second_def int64_small)

text \<open>
  C19. Automatic reconnection stops exactly when it is pointless. Whatever happened to a session, the hook
  the library consults after a failed attempt refuses another one if and only if the last thing the library
  reported about the connection was a failure with a permanent reason, one the reconciliation of the fleet does
  not retry either; otherwise it allows it, after a jitter of at most fifteen seconds that leaves the
  session as it was.
\<close>

theorem reconnection_stops_when_pointless:
  assumes "container_NewSession lib t i cfg = Inr s0" and "hm_history lib evolve s0 tr s"
    and "0 \<le> lib_AutoReconnectErrors lib (hs_client s)" and "lib_AutoReconnectErrors lib (hs_client s) < 2 ^ 31"
    and "\<And>n. n > 0 \<Longrightarrow> 0 \<le> random n \<and> random n < n"
  shows "\<exists>jitter. 0 \<le> jitter \<and> jitter \<le> 15 * second \<and>
    reconnectHook lib random s = (if last_verdict tr then (Inr False, s) else (Inr True, s\<lparr>hs_now := hs_now s + jitter\<rparr>))"
proof -
  let ?n = "reconnect_delay (lib_AutoReconnectErrors lib (hs_client s)) sdiv 4 + 1"
  have "d sdiv 4 = d div 4" if "0 \<le> d" for d :: int
    using that by (cases "d = 0") (simp_all add: signed_divide_int_def)
  then have n: "0 < ?n" "?n \<le> 15 * second + 1"
    using reconnect_delay_bounds [OF assms(3,4)] by (auto simp: second_def)
  have perm: "hs_permanent s = last_verdict tr"
    using permanent_is_last_verdict [OF assms(2)] NewSession_fields(2) [OF assms(1)] by simp
  have "reconnectHook lib random s =
      (if last_verdict tr then (Inr False, s) else (Inr True, s\<lparr>hs_now := hs_now s + random ?n\<rparr>))"
    using n by (simp add: reconnectHook_def getsE_def perm Let_def bindE_def modifyE_def ret_def)
  then show ?thesis using assms(5) [OF n(1)] n by (intro exI [of _ "random ?n"]) auto
qed

theorem reconnection_stops_when_pointless_witness:
  "\<exists>s. hm_history demo_whatsmeow (=) demo_session [(HmEvent (EvOther LibLoggedOut), True)] s \<and>
     reconnectHook demo_whatsmeow (\<lambda>n. 0) s = (Inr False, s)"
proof -
  have "\<exists>s. hm_history demo_whatsmeow (=) demo_session [(HmEvent (EvOther LibLoggedOut), True)] s"
    using hm_history_next [OF hm_history.start [of demo_whatsmeow "(=)" demo_session], of "HmEvent (EvOther LibLoggedOut)"]
    by (simp add: demo_run handleEvent_def setPermanent_def emit_def classified_def) blast
  then obtain s where h: "hm_history demo_whatsmeow (=) demo_session [(HmEvent (EvOther LibLoggedOut), True)] s" by blast
  from reconnection_stops_when_pointless [OF demo_session_new h, of "\<lambda>n. 0"] h show ?thesis
    by (auto simp: verdict_def classified_def demo_whatsmeow_def)
qed

subsection \<open>Egress\<close>

lemma egress_frame: "egress_contract lib eg \<Longrightarrow> session_frame lib (\<lambda>s. eg (hs_client s))"
  by unfold_locales (simp_all add: egress_contract_def)

lemma egress_of_NewSession:
  assumes "egress_contract lib eg" and "container_NewSession lib t i cfg = Inr s"
  shows "eg (hs_client s) = (if cfg_ProxyURL cfg = [] then Direct else Via (cfg_ProxyURL cfg))"
proof -
  have handler: "eg (snd (lib_AddEventHandler lib c)) = eg c" for c using assms(1) by (simp add: egress_contract_def)
  from assms show ?thesis
    by (auto simp: container_NewSession_def egress_contract_def Let_def split: sum.splits prod.splits if_splits)
      (metis handler snd_conv)+
qed

lemma egress_kept:
  assumes "egress_contract lib eg" and "hm_history lib evolve s0 tr s" and "\<And>c c'. evolve c c' \<Longrightarrow> eg c' = eg c"
  shows "eg (hs_client s) = eg (hs_client s0) \<and> hs_proxyConfigured s = hs_proxyConfigured s0"
  using assms(2)
proof (induction rule: hm_history.induct)
  case (act tr s a ok s')
  have "eg (hs_client s') = eg (hs_client s)"
    by (rule session_frame.frame_action [OF egress_frame [OF assms(1)] act.hyps(2)]) simp_all
  moreover have "hs_proxyConfigured s' = hs_proxyConfigured s"
    by (rule proxied.frame_action [OF act.hyps(2)]) simp_all
  ultimately show ?case using act.IH by simp
qed (use assms(3) in auto)



subsection \<open>A phase that outlives its attempt\<close>

text \<open>
  The phase of the passkey step is only left by a response or a confirmation: an attempt that ends while it waits
  for one (here by its window running out) leaves the phase behind. In the next attempt of the session a plain
  pairing error is then reported as a failure of the passkey step, and a response is forwarded to the library
  although no challenge was published.
\<close>

theorem passkey_phase_outlives_its_attempt:
  assumes "lib_MarshalPublicKey lib key = Inr raw"
    and "(pumpQR lib k [QRPasskeyRequest (Some key), QRTimeout] :: (_, unit, _) io) s = (Inr (), s1)"
    and "hm_QRChannel lib s1 = (Inr (), s2)"
  shows "(item_event lib QRError :: (_, unit, _) io) s2 = (Inr (Some (failed_pairing FailurePasskeyError)), s2) \<and>
    fst (hm_SendPasskeyResponse lib json s2) \<noteq> Inl WaNoPasskeyChallenge"
proof -
  have "hs_passkeyPhase s1 = passkeyAwaitingResponse"
    using assms(1,2) by (auto simp: pumpQR_def pump_item_def item_event_def marshalPasskeyChallenge_def bindE_def getsE_def
      setPasskeyPhase_def on_channel_def modifyE_def ret_def)
  then have p: "hs_passkeyPhase s2 = passkeyAwaitingResponse"
    using always_eqD [OF phase.frame_operations(1) assms(3)] by (simp add: same_def)
  then have "(item_event lib QRError :: (_, unit, _) io) s2 = (Inr (Some (failed_pairing FailurePasskeyError)), s2)"
    by (simp add: item_event_def passkeyInFlight_def bindE_def getsE_def ret_def)
  moreover have "fst (hm_SendPasskeyResponse lib json s2) \<noteq> Inl WaNoPasskeyChallenge"
    using p by (auto simp: hm_SendPasskeyResponse_def bindE_def getsE_def wrapE_def wa_wrap_def throw_def setPasskeyPhase_def modifyE_def
      split: sum.splits prod.splits)
  ultimately show ?thesis by blast
qed

subsection \<open>The passkey part of the session interface\<close>

text \<open>
  What a caller of the interface relies on, whichever session is behind it: an accepted step needs a request
  that is waiting for it and uses it up, a refused one leaves it waiting. The adapter and the scripted session the
  tests run against both keep it.
\<close>

locale passkey_session =
  fixes api :: "'s session_api" and asked :: "'s \<Rightarrow> bool" and shown :: "'s \<Rightarrow> bool"
  assumes response_accepted: "SendPasskeyResponse api json t s = (Inr (), s') \<Longrightarrow> asked s \<and> \<not> asked s'"
    and response_refused: "SendPasskeyResponse api json t s = (Inl e, s') \<Longrightarrow> asked s' = asked s"
    and confirm_accepted: "api_ConfirmPasskey api t s = (Inr (), s') \<Longrightarrow> shown s \<and> \<not> shown s'"
    and confirm_refused: "api_ConfirmPasskey api t s = (Inl e, s') \<Longrightarrow> shown s' = shown s"
begin

lemma double_response_refused:
  assumes "SendPasskeyResponse api json t s = (Inr (), s')"
  shows "\<exists>e s2. SendPasskeyResponse api json' t' s' = (Inl e, s2) \<and> \<not> asked s2"
proof -
  obtain r s2 where run: "SendPasskeyResponse api json' t' s' = (r, s2)" by (cases "SendPasskeyResponse api json' t' s'")
  have "\<not> asked s'" using response_accepted [OF assms] by simp
  with run show ?thesis using response_accepted response_refused by (cases r) auto
qed

lemma double_confirm_refused:
  assumes "api_ConfirmPasskey api t s = (Inr (), s')"
  shows "\<exists>e s2. api_ConfirmPasskey api t' s' = (Inl e, s2) \<and> \<not> shown s2"
proof -
  obtain r s2 where run: "api_ConfirmPasskey api t' s' = (r, s2)" by (cases "api_ConfirmPasskey api t' s'")
  have "\<not> shown s'" using confirm_accepted [OF assms] by simp
  with run show ?thesis using confirm_accepted confirm_refused by (cases r) auto
qed

end

interpretation adapter: passkey_session "hypermeow_api lib"
  "\<lambda>s. hs_passkeyPhase s = passkeyAwaitingResponse" "\<lambda>s. hs_passkeyPhase s = passkeyAwaitingConfirm"
  by unfold_locales
    (auto simp: hypermeow_api_def at_instant_def dest: SendPasskeyResponse_phase ConfirmPasskey_phase)

interpretation scripted: passkey_session fake_api passkeyChallengeOpen passkeyCodePending
  by unfold_locales
    (auto simp: fake_api_def fake_SendPasskeyResponse_def fake_ConfirmPasskey_def Let_def split: if_splits option.splits)

end
