(* ===== verification/Delivery.thy ===== *)
theory Delivery
  imports WA "HOL-Library.Sublist"
begin

text \<open>
  How events get from a session to its handler: \<open>forward\<close> (\<open>internal/worker/supervisor.go\<close>) copies the
  event channel of the session, and the pairing channel of each attempt, into the session's inbox, and \<open>pump\<close>
  (\<open>internal/worker/session.go\<close>) handles what the inbox delivers, one event at a time. Each goroutine is a
  sequence of steps on the channels, and the steps of all of them interleave in any order.
\<close>

subsection \<open>Channels and goroutines\<close>

text \<open>
  A source with its forwarder: what is buffered in the channel, the event the forwarder has taken and is about
  to put into the inbox, and whether its context is still open. \<open>sr_accepted\<close> is the history of what the
  channel accepted.
\<close>

record source =
  sr_capacity :: nat
  sr_accepted :: "Event list"
  sr_buffer :: "Event list"
  sr_held :: "Event option"
  sr_open :: bool

text \<open>Events in the inbox and those already handled carry the number of their source, for the statements below.\<close>

record delivery =
  dl_sources :: "source list"
  dl_inbox :: "(nat \<times> Event) list"
  dl_handled :: "(nat \<times> Event) list"
  dl_pumping :: bool

definition inboxSize :: nat where "inboxSize = 64"

definition new_source :: "nat \<Rightarrow> source" where
  "new_source capacity = \<lparr>sr_capacity = capacity, sr_accepted = [], sr_buffer = [], sr_held = None, sr_open = True\<rparr>"

definition new_delivery :: delivery where
  "new_delivery = \<lparr>dl_sources = [new_source 32], dl_inbox = [], dl_handled = [], dl_pumping = True\<rparr>"

definition set_source :: "nat \<Rightarrow> source \<Rightarrow> delivery \<Rightarrow> delivery" where
  "set_source k s d = d\<lparr>dl_sources := (dl_sources d)[k := s]\<rparr>"

datatype delivery_action =
    Emit nat Event | OpenPairing | Take nat | Put nat | CloseSource nat | Handle | StopPump

text \<open>The emitter never blocks: what finds the channel full is dropped.\<close>

definition source_emit :: "Event \<Rightarrow> source \<Rightarrow> source" where
  "source_emit e s = (if length (sr_buffer s) < sr_capacity s
     then s\<lparr>sr_buffer := sr_buffer s @ [e], sr_accepted := sr_accepted s @ [e]\<rparr> else s)"

text \<open>\<open>forward\<close>: take an event from the source, then put it into the inbox as soon as there is room, unless the context ends first.\<close>

definition forward_take :: "source \<Rightarrow> source option" where
  "forward_take s = (case (sr_open s, sr_held s, sr_buffer s) of
       (True, None, e # es) \<Rightarrow> Some (s\<lparr>sr_held := Some e, sr_buffer := es\<rparr>)
     | _ \<Rightarrow> None)"

definition forward_put :: "nat \<Rightarrow> delivery \<Rightarrow> delivery option" where
  "forward_put k d = (let s = dl_sources d ! k in case (sr_open s, sr_held s) of
       (True, Some e) \<Rightarrow> if length (dl_inbox d) < inboxSize
          then Some (set_source k (s\<lparr>sr_held := None\<rparr>) (d\<lparr>dl_inbox := dl_inbox d @ [(k, e)]\<rparr>)) else None
     | _ \<Rightarrow> None)"

text \<open>\<open>pump\<close>: the next event of the inbox, unless the session's context has ended.\<close>

definition pump_step :: "delivery \<Rightarrow> delivery option" where
  "pump_step d = (case (dl_pumping d, dl_inbox d) of
       (True, x # rest) \<Rightarrow> Some (d\<lparr>dl_inbox := rest, dl_handled := dl_handled d @ [x]\<rparr>)
     | _ \<Rightarrow> None)"

fun delivery_step :: "delivery_action \<Rightarrow> delivery \<Rightarrow> delivery option" where
  "delivery_step (Emit k e) d = (if k < length (dl_sources d)
     then Some (set_source k (source_emit e (dl_sources d ! k)) d) else None)"
| "delivery_step OpenPairing d = Some (d\<lparr>dl_sources := dl_sources d @ [new_source 8]\<rparr>)"
| "delivery_step (Take k) d = (if k < length (dl_sources d)
     then map_option (\<lambda>s. set_source k s d) (forward_take (dl_sources d ! k)) else None)"
| "delivery_step (Put k) d = (if k < length (dl_sources d) then forward_put k d else None)"
| "delivery_step (CloseSource k) d = (if k < length (dl_sources d)
     then Some (set_source k ((dl_sources d ! k)\<lparr>sr_open := False, sr_held := None\<rparr>) d) else None)"
| "delivery_step Handle d = pump_step d"
| "delivery_step StopPump d = Some (d\<lparr>dl_pumping := False\<rparr>)"

inductive delivered :: "delivery \<Rightarrow> bool" where
  fresh: "delivered new_delivery"
| step: "delivered d \<Longrightarrow> delivery_step a d = Some d' \<Longrightarrow> delivered d'"

subsection \<open>What arrives\<close>

definition from_source :: "nat \<Rightarrow> (nat \<times> Event) list \<Rightarrow> Event list" where
  "from_source k xs = map snd (filter (\<lambda>x. fst x = k) xs)"

lemma from_source_simps [simp]:
  "from_source k [] = []" "from_source k (xs @ ys) = from_source k xs @ from_source k ys"
  "from_source k ((j, e) # xs) = (if j = k then e # from_source k xs else from_source k xs)"
  by (simp_all add: from_source_def)

text \<open>
  An open source accounts for everything it accepted: handled, in the inbox, in the forwarder's hands or
  still buffered, in this order. Once closed, what had reached the inbox by then is a prefix.
\<close>

definition accounted :: "nat \<Rightarrow> delivery \<Rightarrow> bool" where
  "accounted k d \<longleftrightarrow> (let s = dl_sources d ! k; arrived = from_source k (dl_handled d) @ from_source k (dl_inbox d) in
     if sr_open s then sr_accepted s = arrived @ (case sr_held s of None \<Rightarrow> [] | Some e \<Rightarrow> [e]) @ sr_buffer s
     else prefix arrived (sr_accepted s))"

definition delivery_ok :: "delivery \<Rightarrow> bool" where
  "delivery_ok d \<longleftrightarrow> (\<forall>k < length (dl_sources d). accounted k d) \<and> length (dl_inbox d) \<le> inboxSize \<and>
     (\<forall>j e. (j, e) \<in> set (dl_handled d @ dl_inbox d) \<longrightarrow> j < length (dl_sources d))"

lemma from_source_none: "(\<And>j e. (j, e) \<in> set xs \<Longrightarrow> j < k) \<Longrightarrow> from_source k xs = []"
  by (fastforce simp: from_source_def filter_empty_conv)

lemma forward_take_Some:
  "forward_take s = Some s' \<Longrightarrow> \<exists>e es. sr_open s \<and> sr_held s = None \<and> sr_buffer s = e # es \<and> s' = s\<lparr>sr_held := Some e, sr_buffer := es\<rparr>"
  by (auto simp: forward_take_def split: bool.splits option.splits list.splits)

lemma forward_put_Some:
  "forward_put k d = Some d' \<Longrightarrow> \<exists>e. sr_open (dl_sources d ! k) \<and> sr_held (dl_sources d ! k) = Some e \<and> length (dl_inbox d) < inboxSize \<and>
     d' = set_source k ((dl_sources d ! k)\<lparr>sr_held := None\<rparr>) (d\<lparr>dl_inbox := dl_inbox d @ [(k, e)]\<rparr>)"
  by (auto simp: forward_put_def Let_def split: bool.splits option.splits if_splits)

lemma delivery_step_ok:
  assumes "delivery_ok d" and "delivery_step a d = Some d'"
  shows "delivery_ok d'"
proof (cases a)
  case OpenPairing
  have "from_source (length (dl_sources d)) (dl_handled d @ dl_inbox d) = []"
    using assms(1) by (intro from_source_none) (auto simp: delivery_ok_def)
  with assms OpenPairing show ?thesis
    by (auto simp: delivery_ok_def accounted_def Let_def nth_append new_source_def less_Suc_eq)
next
  case (Emit k e)
  with assms show ?thesis
    by (auto simp: delivery_ok_def accounted_def Let_def set_source_def nth_list_update source_emit_def prefix_def split: if_splits)
next
  case (Take k)
  with assms show ?thesis
    by (auto simp: delivery_ok_def accounted_def Let_def set_source_def nth_list_update dest!: forward_take_Some split: if_splits)
next
  case (Put k)
  with assms show ?thesis
    by (auto simp: delivery_ok_def accounted_def Let_def set_source_def nth_list_update dest!: forward_put_Some split: if_splits)
next
  case (CloseSource k)
  with assms show ?thesis
    by (auto simp: delivery_ok_def accounted_def Let_def set_source_def nth_list_update prefix_def split: if_splits)
next
  case Handle
  then obtain x rest where inbox: "dl_inbox d = x # rest" and d': "d' = d\<lparr>dl_inbox := rest, dl_handled := dl_handled d @ [x]\<rparr>"
    using assms(2) by (auto simp: pump_step_def split: bool.splits list.splits)
  have arrived: "from_source k (dl_handled d') @ from_source k (dl_inbox d') = from_source k (dl_handled d) @ from_source k (dl_inbox d)" for k
    by (cases x) (simp add: inbox d')
  have "dl_sources d' = dl_sources d" by (simp add: d')
  then have "accounted k d' = accounted k d" for k unfolding accounted_def Let_def arrived by simp
  with assms(1) show ?thesis by (auto simp: delivery_ok_def d' inbox)
next
  case StopPump
  with assms show ?thesis by (auto simp: delivery_ok_def accounted_def Let_def)
qed

lemma delivered_ok: "delivered d \<Longrightarrow> delivery_ok d"
proof (induction rule: delivered.induct)
  case fresh
  show ?case by (simp add: new_delivery_def new_source_def delivery_ok_def accounted_def)
next
  case step
  from step.IH step.hyps(2) show ?case by (rule delivery_step_ok)
qed

text \<open>
  C36. Events are handled in order and none is lost on the way. Whatever the goroutines of a session do and in
  whatever order, the events handled from one source are the first ones that source accepted, in the order
  it accepted them, each once; the inbox never holds more than it has room for; and a source that is still
  open has everything it accepted handled as soon as nothing of it is buffered, held or in the inbox.
\<close>

theorem events_are_handled_in_order:
  assumes "delivered d" and "k < length (dl_sources d)"
  shows "prefix (from_source k (dl_handled d)) (sr_accepted (dl_sources d ! k)) \<and> length (dl_inbox d) \<le> inboxSize \<and>
    (sr_open (dl_sources d ! k) \<and> sr_buffer (dl_sources d ! k) = [] \<and> sr_held (dl_sources d ! k) = None \<and> from_source k (dl_inbox d) = []
       \<longrightarrow> from_source k (dl_handled d) = sr_accepted (dl_sources d ! k))"
proof -
  from delivered_ok [OF assms(1)] assms(2) have k: "accounted k d" and "length (dl_inbox d) \<le> inboxSize"
    by (auto simp: delivery_ok_def)
  moreover from k have "prefix (from_source k (dl_handled d)) (sr_accepted (dl_sources d ! k))"
    by (cases "sr_open (dl_sources d ! k)") (auto simp: accounted_def Let_def intro: append_prefixD)
  ultimately show ?thesis by (auto simp: accounted_def Let_def)
qed

definition demo_delivery :: "delivery" where
  "demo_delivery = the (delivery_step Handle (the (delivery_step (Put 0) (the (delivery_step (Take 0)
     (the (delivery_step (Emit 0 (zero_Event KindConnected)) new_delivery)))))))"

lemma delivered_next: "delivered d \<Longrightarrow> delivery_step a d \<noteq> None \<Longrightarrow> delivered (the (delivery_step a d))"
  by (auto intro: delivered.step)

theorem events_are_handled_in_order_witness:
  "from_source 0 (dl_handled demo_delivery) = [zero_Event KindConnected] \<and>
   prefix (from_source 0 (dl_handled demo_delivery)) (sr_accepted (dl_sources demo_delivery ! 0))"
proof -
  note run = new_delivery_def new_source_def set_source_def source_emit_def forward_take_def forward_put_def pump_step_def inboxSize_def
  have "delivered demo_delivery" unfolding demo_delivery_def
    by (intro delivered_next delivered.fresh) (simp_all add: run)
  moreover have "0 < length (dl_sources demo_delivery)" "from_source 0 (dl_handled demo_delivery) = [zero_Event KindConnected]"
    by (simp_all add: demo_delivery_def run)
  ultimately show ?thesis using events_are_handled_in_order [of demo_delivery 0] by blast
qed

end
