(* ===== verification/Metrics.thy ===== *)
theory Metrics
  imports Supervisor_Facts "HOL-Library.Sublist"
begin

text \<open>
  The Prometheus collectors of \<open>internal/metrics/metrics.go\<close> and every call that records into one.
  The collectors are data; a recording names a collector, the values of its labels and the operation.
  A recording with the wrong number of label values, or with an operation the kind of the collector does
  not have, panics in the client library, and so does registering two collectors under one name: the
  lemmas show that neither happens. The last part follows the gauge of connected sessions through the
  operations of the worker.
\<close>

subsection \<open>Collectors\<close>

datatype collector_kind = Counter | Gauge | Histogram

text \<open>Bucket bounds are in milliseconds.\<close>

record collector =
  mc_Kind :: collector_kind
  mc_Namespace :: string
  mc_Subsystem :: string
  mc_Name :: string
  mc_Help :: string
  mc_Labels :: "string list"
  mc_Buckets :: "int list"

definition RequestDuration :: collector where
  "RequestDuration = \<lparr>mc_Kind = Histogram, mc_Namespace = ''zappermeow'', mc_Subsystem = ''http'', mc_Name = ''request_duration_seconds'',
     mc_Help = ''Latency of HTTP requests by route and status.'',
     mc_Labels = [''method'', ''route'', ''status''], mc_Buckets = [5, 10, 25, 50, 100, 250, 500, 1000, 2500, 5000]\<rparr>"

definition LoginAttempts :: collector where
  "LoginAttempts = \<lparr>mc_Kind = Counter, mc_Namespace = ''zappermeow'', mc_Subsystem = ''auth'', mc_Name = ''login_attempts_total'',
     mc_Help = ''Login attempts by outcome.'',
     mc_Labels = [''outcome''], mc_Buckets = []\<rparr>"

definition AccountLockouts :: collector where
  "AccountLockouts = \<lparr>mc_Kind = Counter, mc_Namespace = ''zappermeow'', mc_Subsystem = ''auth'', mc_Name = ''account_lockouts_total'',
     mc_Help = ''Accounts placed in temporary lockout after consecutive failures.'',
     mc_Labels = [], mc_Buckets = []\<rparr>"

definition RateLimitRejections :: collector where
  "RateLimitRejections = \<lparr>mc_Kind = Counter, mc_Namespace = ''zappermeow'', mc_Subsystem = ''http'', mc_Name = ''rate_limit_rejections_total'',
     mc_Help = ''Requests rejected by a rate limiter, by limiter scope.'',
     mc_Labels = [''scope''], mc_Buckets = []\<rparr>"

definition SessionsConnected :: collector where
  "SessionsConnected = \<lparr>mc_Kind = Gauge, mc_Namespace = ''zappermeow'', mc_Subsystem = ''sessions'', mc_Name = ''connected'',
     mc_Help = ''WhatsApp sessions currently connected, by worker.'',
     mc_Labels = [''worker_id''], mc_Buckets = []\<rparr>"

definition SessionStateTransitions :: collector where
  "SessionStateTransitions = \<lparr>mc_Kind = Counter, mc_Namespace = ''zappermeow'', mc_Subsystem = ''sessions'', mc_Name = ''state_transitions_total'',
     mc_Help = ''Connection state transitions, by destination state and reason.'',
     mc_Labels = [''to'', ''reason''], mc_Buckets = []\<rparr>"

definition PairingAttempts :: collector where
  "PairingAttempts = \<lparr>mc_Kind = Counter, mc_Namespace = ''zappermeow'', mc_Subsystem = ''sessions'', mc_Name = ''pairing_attempts_total'',
     mc_Help = ''Pairing attempts, by method and result.'',
     mc_Labels = [''method'', ''result''], mc_Buckets = []\<rparr>"

definition SessionReconnects :: collector where
  "SessionReconnects = \<lparr>mc_Kind = Counter, mc_Namespace = ''zappermeow'', mc_Subsystem = ''sessions'', mc_Name = ''reconnects_total'',
     mc_Help = ''Session reconnections, by layer.'',
     mc_Labels = [''layer''], mc_Buckets = []\<rparr>"

definition LeaseAcquisitions :: collector where
  "LeaseAcquisitions = \<lparr>mc_Kind = Counter, mc_Namespace = ''zappermeow'', mc_Subsystem = ''leases'', mc_Name = ''acquisitions_total'',
     mc_Help = ''Session leases acquired, by worker.'',
     mc_Labels = [''worker_id''], mc_Buckets = []\<rparr>"

definition LeaseLosses :: collector where
  "LeaseLosses = \<lparr>mc_Kind = Counter, mc_Namespace = ''zappermeow'', mc_Subsystem = ''leases'', mc_Name = ''losses_total'',
     mc_Help = ''Session leases lost to another worker, by worker.'',
     mc_Labels = [''worker_id''], mc_Buckets = []\<rparr>"

definition StreamReplaced :: collector where
  "StreamReplaced = \<lparr>mc_Kind = Counter, mc_Namespace = ''zappermeow'', mc_Subsystem = ''sessions'', mc_Name = ''stream_replaced_total'',
     mc_Help = ''Sessions replaced elsewhere. Non-zero means exclusive ownership was violated.'',
     mc_Labels = [], mc_Buckets = []\<rparr>"

definition ProxyConnectFailures :: collector where
  "ProxyConnectFailures = \<lparr>mc_Kind = Counter, mc_Namespace = ''zappermeow'', mc_Subsystem = ''proxy'', mc_Name = ''connect_failures_total'',
     mc_Help = ''Connection attempts that failed through a configured egress proxy.'',
     mc_Labels = [], mc_Buckets = []\<rparr>"

definition PasskeyPairings :: collector where
  "PasskeyPairings = \<lparr>mc_Kind = Counter, mc_Namespace = ''zappermeow'', mc_Subsystem = ''sessions'', mc_Name = ''passkey_pairings_total'',
     mc_Help = ''Pairing attempts that required the passkey step, by outcome.'',
     mc_Labels = [''outcome''], mc_Buckets = []\<rparr>"

definition StreamErrors :: collector where
  "StreamErrors = \<lparr>mc_Kind = Counter, mc_Namespace = ''zappermeow'', mc_Subsystem = ''sessions'', mc_Name = ''stream_errors_total'',
     mc_Help = ''Stream closures with an unknown error code, by code.'',
     mc_Labels = [''code''], mc_Buckets = []\<rparr>"

definition WebSocketClients :: collector where
  "WebSocketClients = \<lparr>mc_Kind = Gauge, mc_Namespace = ''zappermeow'', mc_Subsystem = ''websocket'', mc_Name = ''clients'',
     mc_Help = ''Currently connected event-channel clients.'',
     mc_Labels = [], mc_Buckets = []\<rparr>"

definition APIKeysActive :: collector where
  "APIKeysActive = \<lparr>mc_Kind = Gauge, mc_Namespace = ''zappermeow'', mc_Subsystem = ''api_keys'', mc_Name = ''active'',
     mc_Help = ''Number of API keys in the active state.'',
     mc_Labels = [], mc_Buckets = []\<rparr>"

lemmas collector_defs = RequestDuration_def LoginAttempts_def AccountLockouts_def RateLimitRejections_def SessionsConnected_def SessionStateTransitions_def PairingAttempts_def SessionReconnects_def LeaseAcquisitions_def LeaseLosses_def StreamReplaced_def ProxyConnectFailures_def PasskeyPairings_def StreamErrors_def WebSocketClients_def APIKeysActive_def

definition declared :: "collector list" where
  "declared = [RequestDuration, LoginAttempts, AccountLockouts, RateLimitRejections, SessionsConnected, SessionStateTransitions, PairingAttempts, SessionReconnects, LeaseAcquisitions, LeaseLosses, StreamReplaced, ProxyConnectFailures, PasskeyPairings, StreamErrors, WebSocketClients, APIKeysActive]"

text \<open>
  \<open>init\<close> registers the collectors of the Go runtime and of the process (whose names begin with
  \<open>go_\<close> and \<open>process_\<close>) and then these.
\<close>

definition registered :: "collector list" where
  "registered = [RequestDuration, LoginAttempts, AccountLockouts, SessionsConnected, SessionStateTransitions, PairingAttempts, SessionReconnects, LeaseAcquisitions, LeaseLosses, StreamReplaced, ProxyConnectFailures, PasskeyPairings, StreamErrors, WebSocketClients, RateLimitRejections, APIKeysActive]"

text \<open>\<open>prometheus.BuildFQName\<close> for three non-empty parts.\<close>

definition fq_name :: "collector \<Rightarrow> string" where
  "fq_name c = mc_Namespace c @ ''_'' @ mc_Subsystem c @ ''_'' @ mc_Name c"

subsection \<open>Label values\<close>

definition OutcomeSucceeded :: string where "OutcomeSucceeded = ''succeeded''"
definition OutcomeFailed :: string where "OutcomeFailed = ''failed''"
definition OutcomeLocked :: string where "OutcomeLocked = ''locked''"

definition ScopeLogin :: string where "ScopeLogin = ''login_origin''"
definition ScopeOperational :: string where "ScopeOperational = ''operational_key''"
definition ScopeConnection :: string where "ScopeConnection = ''connection''"

subsection \<open>Recordings\<close>

datatype recording =
    Inc collector "string list" | Dec collector "string list"
  | SetTo collector "string list" int | Observe collector "string list" int

fun rec_collector :: "recording \<Rightarrow> collector" where
  "rec_collector (Inc c vs) = c"
| "rec_collector (Dec c vs) = c"
| "rec_collector (SetTo c vs n) = c"
| "rec_collector (Observe c vs n) = c"

fun rec_values :: "recording \<Rightarrow> string list" where
  "rec_values (Inc c vs) = vs"
| "rec_values (Dec c vs) = vs"
| "rec_values (SetTo c vs n) = vs"
| "rec_values (Observe c vs n) = vs"

fun kind_allows :: "recording \<Rightarrow> bool" where
  "kind_allows (Inc c vs) = (mc_Kind c \<noteq> Histogram)"
| "kind_allows (Dec c vs) = (mc_Kind c = Gauge)"
| "kind_allows (SetTo c vs n) = (mc_Kind c = Gauge)"
| "kind_allows (Observe c vs n) = (mc_Kind c = Histogram)"

definition accepted :: "recording \<Rightarrow> bool" where
  "accepted r \<longleftrightarrow> length (rec_values r) = length (mc_Labels (rec_collector r)) \<and> kind_allows r"

text \<open>The recordings of the session pump.\<close>

definition record_pairing_expired :: "PairingMethod \<Rightarrow> recording" where
  "record_pairing_expired meth = Inc PairingAttempts [method_text meth, ''expired'']"

definition record_pairing_failed :: "PairingMethod \<Rightarrow> recording" where
  "record_pairing_failed meth = Inc PairingAttempts [method_text meth, ''failed'']"

definition record_connected :: recording where
  "record_connected = Inc SessionStateTransitions [state_text InstanceConnected, []]"

definition record_manual_login :: recording where
  "record_manual_login = Inc SessionReconnects [''manual_login'']"

definition record_passkey_challenged :: recording where
  "record_passkey_challenged = Inc PasskeyPairings [''challenged'']"

definition record_pairing_succeeded :: recording where
  "record_pairing_succeeded = Inc PairingAttempts [method_text MethodQR, ''succeeded'']"

definition record_disconnect :: "InstanceState \<Rightarrow> DisconnectReason \<Rightarrow> bool \<Rightarrow> recording list" where
  "record_disconnect state reason permanent =
     (if reason = ReasonSessionReplaced then [Inc StreamReplaced []] else []) @
     [Inc SessionStateTransitions [state_text state, reason_text reason]] @
     (if \<not> permanent then [Inc SessionReconnects [''client'']] else [])"

text \<open>The recordings of the supervisor: an adoption and a lost lease.\<close>

definition record_adoption :: "string \<Rightarrow> int \<Rightarrow> recording list" where
  "record_adoption worker held = [Inc LeaseAcquisitions [worker], SetTo SessionsConnected [worker] held]"

definition record_drop :: "string \<Rightarrow> int \<Rightarrow> recording list" where
  "record_drop worker held =
     [Inc LeaseLosses [worker], SetTo SessionsConnected [worker] held, Inc SessionReconnects [''lease'']]"

text \<open>The recordings of the API and of the WhatsApp adapter.\<close>

definition record_request :: "string \<Rightarrow> string \<Rightarrow> int \<Rightarrow> int \<Rightarrow> recording" where
  "record_request meth route status elapsed = Observe RequestDuration [meth, route, FormatInt status] elapsed"

definition record_rejection :: "string \<Rightarrow> recording" where
  "record_rejection scope = Inc RateLimitRejections [scope]"

definition record_locked_login :: recording where
  "record_locked_login = Inc LoginAttempts [OutcomeLocked]"

definition record_suspended_login :: recording where
  "record_suspended_login = Inc LoginAttempts [OutcomeFailed]"

definition record_failed_login :: recording where
  "record_failed_login = Inc LoginAttempts [OutcomeFailed]"

definition record_login :: recording where
  "record_login = Inc LoginAttempts [OutcomeSucceeded]"

definition record_lockout :: recording where
  "record_lockout = Inc AccountLockouts []"

definition record_active_keys :: "int \<Rightarrow> recording" where
  "record_active_keys count = SetTo APIKeysActive [] count"

definition record_socket_open :: recording where
  "record_socket_open = Inc WebSocketClients []"

definition record_socket_closed :: recording where
  "record_socket_closed = Dec WebSocketClients []"

definition record_proxy_failure :: recording where
  "record_proxy_failure = Inc ProxyConnectFailures []"

definition record_stream_error :: "string \<Rightarrow> recording" where
  "record_stream_error code = Inc StreamErrors [code]"

lemmas recording_defs = record_pairing_expired_def record_pairing_failed_def record_connected_def record_manual_login_def
  record_passkey_challenged_def record_pairing_succeeded_def record_disconnect_def record_adoption_def record_drop_def
  record_request_def record_rejection_def record_locked_login_def record_suspended_login_def record_failed_login_def
  record_login_def record_lockout_def record_active_keys_def record_socket_open_def record_socket_closed_def
  record_proxy_failure_def record_stream_error_def

text \<open>All recordings the program can make, for any values of the varying labels.\<close>

record label_values =
  lv_method :: PairingMethod
  lv_state :: InstanceState
  lv_reason :: DisconnectReason
  lv_permanent :: bool
  lv_worker :: string
  lv_http :: string
  lv_route :: string
  lv_scope :: string
  lv_code :: string
  lv_number :: int

definition recordings :: "label_values \<Rightarrow> recording list" where
  "recordings v = [record_pairing_expired (lv_method v), record_pairing_failed (lv_method v), record_connected,
     record_manual_login, record_passkey_challenged, record_pairing_succeeded] @
     record_disconnect (lv_state v) (lv_reason v) (lv_permanent v) @
     record_adoption (lv_worker v) (lv_number v) @ record_drop (lv_worker v) (lv_number v) @
     [record_request (lv_http v) (lv_route v) (lv_number v) (lv_number v), record_rejection (lv_scope v), record_locked_login,
      record_suspended_login, record_failed_login, record_login, record_lockout, record_active_keys (lv_number v),
      record_socket_open, record_socket_closed, record_proxy_failure, record_stream_error (lv_code v)]"

subsection \<open>No recording panics\<close>

lemma declared_names: "distinct (map fq_name declared)"
  by (simp add: declared_def fq_name_def collector_defs)

lemma all_registered: "set registered = set declared" "length registered = length declared"
  by (auto simp: registered_def declared_def)

lemma recordings_accepted: "list_all accepted (recordings v)"
  by (simp add: recordings_def recording_defs accepted_def collector_defs)

lemma recordings_target: "list_all (\<lambda>r. rec_collector r \<in> set registered) (recordings v)"
  unfolding all_registered by (simp add: recordings_def recording_defs declared_def)

text \<open>
  The metrics cannot bring a process down: every collector that is declared is registered, each
  once, under a name of its own outside the prefixes of the runtime's collectors; and every recording
  of the program, whatever values its labels take, goes to a registered collector, gives each of its
  labels a value and is of a kind that collector has. The bucket bounds of the histogram increase.
\<close>

theorem metrics_never_panic:
  "sorted_wrt (<) (mc_Buckets RequestDuration) \<and> distinct (map fq_name registered) \<and> set registered = set declared \<and> length registered = length declared \<and>
   list_all (\<lambda>c. HasPrefix (fq_name c) ''zappermeow_'') registered \<and>
   list_all (\<lambda>r. rec_collector r \<in> set registered \<and> accepted r) (recordings v)"
proof -
  have "distinct (map fq_name registered)" by (simp add: registered_def fq_name_def collector_defs)
  moreover have "list_all (\<lambda>c. HasPrefix (fq_name c) ''zappermeow_'') registered"
    by (simp add: registered_def fq_name_def collector_defs HasPrefix_def)
  moreover have "sorted_wrt (<) (mc_Buckets RequestDuration)" by (simp add: RequestDuration_def)
  ultimately show ?thesis
    using recordings_accepted [of v] recordings_target [of v] all_registered by (auto simp: list_all_iff)
qed

subsection \<open>The gauge of connected sessions\<close>

type_synonym samples = "string \<times> string list \<Rightarrow> int"

fun record_sample :: "recording \<Rightarrow> samples \<Rightarrow> samples" where
  "record_sample (Inc c vs) m = m((fq_name c, vs) := m (fq_name c, vs) + 1)"
| "record_sample (Dec c vs) m = m((fq_name c, vs) := m (fq_name c, vs) - 1)"
| "record_sample (SetTo c vs n) m = m((fq_name c, vs) := n)"
| "record_sample (Observe c vs n) m = m((fq_name c, vs) := m (fq_name c, vs) + 1)"

definition record_all :: "recording list \<Rightarrow> samples \<Rightarrow> samples" where
  "record_all rs m = fold record_sample rs m"

text \<open>
  The three ways a session enters or leaves the map, with what they record. In \<open>Adopt\<close> and \<open>Drop\<close> the
  count is read after the map changed, and nothing changes the map afterwards.
\<close>

definition metered_Adopt ::
  "'s Supervisor \<Rightarrow> ID \<Rightarrow> ('s, 'z) worker_world_scheme \<times> samples \<Rightarrow>
   (worker_error + unit) \<times> ('s, 'z) worker_world_scheme \<times> samples" where
  "metered_Adopt s i wm = (case Adopt s i (fst wm) of (r, w') \<Rightarrow>
     (r, w', if r = Inr () \<and> map_of (sessions (fst wm)) i = None
             then record_all (record_adoption (workerID (sup_leases s)) (int (length (sessions w')))) (snd wm)
             else snd wm))"

definition metered_Drop ::
  "'s Supervisor \<Rightarrow> ID \<Rightarrow> ('s, 'z) worker_world_scheme \<times> samples \<Rightarrow> ('s, 'z) worker_world_scheme \<times> samples" where
  "metered_Drop s i wm = (let w' = snd ((Drop s i :: (_, worker_error, unit) io) (fst wm)) in
     (w', record_all (record_drop (workerID (sup_leases s)) (int (length (sessions w')))) (snd wm)))"

definition metered_Disconnect ::
  "'s Supervisor \<Rightarrow> ID \<Rightarrow> ('s, 'z) worker_world_scheme \<times> samples \<Rightarrow>
   (worker_error + InstanceState) \<times> ('s, 'z) worker_world_scheme \<times> samples" where
  "metered_Disconnect s i wm = (case sup_Disconnect s i (fst wm) of (r, w') \<Rightarrow> (r, w', snd wm))"

definition sessions_gauge :: "'s Supervisor \<Rightarrow> samples \<Rightarrow> int" where
  "sessions_gauge s m = m (fq_name SessionsConnected, [workerID (sup_leases s)])"

text \<open>Sessions only leave the map.\<close>

definition thinned :: "('s, 'z) worker_world_scheme \<Rightarrow> ('s, 'z) worker_world_scheme \<Rightarrow> bool" where
  "thinned w w' \<longleftrightarrow> subseq (sessions w') (sessions w)"

interpretation thinned: world_rel thinned
  by unfold_locales (auto simp: thinned_def intro: subseq_order.order_trans)

lemma thinned_of_view: "always (same sup_view) m \<Longrightarrow> always thinned m"
  by (simp add: always_def same_def thinned_def sup_view_def)

lemma thinned_update: "always thinned (update_object p f)"
  unfolding update_object_def by (rule always_modifyE) (simp add: thinned_def)

lemma thinned_stop: "always thinned (stop s i)"
  by (rule alwaysI) (simp add: stop_eq thinned_def remove_session_def split: option.split)

lemma thinned_Disconnect: "always thinned (sup_Disconnect s i)"
  unfolding sup_Disconnect_def cancelPairing_def session_do_def lookup_def
  by (intro thinned.always_intros thinned_update thinned_stop thinned_of_view [OF sup_view_persist(2)]
    thinned_of_view [OF sup_view_publish] thinned_of_view [OF sup_view_queries(3)])

lemma thinned_strictly:
  assumes "thinned w w'" and "map_of (sessions w) i \<noteq> None" and "map_of (sessions w') i = None"
  shows "length (sessions w') < length (sessions w)"
proof -
  have "sessions w' \<noteq> sessions w" using assms(2,3) by auto
  with assms(1) show ?thesis unfolding thinned_def by (metis le_neq_implies_less list_emb_length subseq_same_length)
qed

lemma sessions_gauge_recorded [simp]:
  "sessions_gauge s (record_all (record_adoption (workerID (sup_leases s)) n) m) = n"
  "sessions_gauge s (record_all (record_drop (workerID (sup_leases s)) n) m) = n"
  by (simp_all add: sessions_gauge_def record_all_def record_adoption_def record_drop_def fq_name_def collector_defs)

text \<open>
  The gauge of connected sessions is right after an adoption and after a lost lease, and wrong after
  a disconnect: the command takes the session out of the map without touching the gauge, so a worker
  whose gauge was right reports more sessions than it runs, until the next adoption or lost lease.
\<close>

theorem sessions_gauge_misses_disconnects:
  assumes "faults w = []" and "map_of (sessions w) i = Some p" and "instance_of (db w) i = Some row"
    and "sessions_gauge s m = int (length (sessions w))"
  shows "(case metered_Disconnect s i (w, m) of (r, w1, m1) \<Rightarrow>
      r = Inr InstanceDisconnected \<and> int (length (sessions w1)) < sessions_gauge s m1 \<and>
      (case metered_Drop s j (w1, m1) of (w2, m2) \<Rightarrow> sessions_gauge s m2 = int (length (sessions w2))) \<and>
      (case metered_Adopt s j (w1, m1) of (r2, w2, m2) \<Rightarrow>
         r2 = Inr () \<and> map_of (sessions w1) j = None \<longrightarrow> sessions_gauge s m2 = int (length (sessions w2))))"
proof -
  obtain w1 where run: "sup_Disconnect s i w = (Inr InstanceDisconnected, w1)" and gone: "map_of (sessions w1) i = None"
    using disconnect_command_effect [OF assms(1-3)] by blast
  have "thinned w w1" by (rule always_eqD [OF thinned_Disconnect run])
  then have "length (sessions w1) < length (sessions w)" by (rule thinned_strictly [of _ _ i]) (simp_all add: assms(2) gone)
  then show ?thesis using assms(4)
    by (simp add: metered_Disconnect_def run metered_Drop_def metered_Adopt_def Let_def split: prod.split)
qed

theorem sessions_gauge_misses_disconnects_witness:
  "\<exists>w1 m1. metered_Disconnect demo_sup 7 (demo_lost, \<lambda>_. 1) = (Inr InstanceDisconnected, w1, m1) \<and>
    int (length (sessions w1)) < sessions_gauge demo_sup m1"
proof -
  have "faults demo_lost = []" "map_of (sessions demo_lost) 7 = Some 0"
    "instance_of (db demo_lost) 7 = Some (new_instance_row 1 7 1 ''shop'')"
    "sessions_gauge demo_sup (\<lambda>_. 1) = int (length (sessions demo_lost))"
    by (simp_all add: demo_lost_def demo_worker_def instance_of_def sessions_gauge_def demo_defs)
  from sessions_gauge_misses_disconnects [OF this, of 7] show ?thesis
    by (cases "metered_Disconnect demo_sup 7 (demo_lost, \<lambda>_. 1)") auto
qed

end
