(* ===== verification/Calendar.thy ===== *)
theory Calendar
  imports Domain_Accounts "HOL-Library.Monad_Syntax"
begin

text \<open>
  Instants as text: what \<open>encoding/json\<close> writes for a \<open>time.Time\<close> in UTC (\<open>time.RFC3339Nano\<close>, years
  0 to 9999) and how it reads one back (\<open>parseStrictRFC3339\<close>). An instant counts nanoseconds from Go's
  zero time, the first of January of year 1. Dates are the proleptic Gregorian calendar, by the lengths of
  years and months.
\<close>

subsection \<open>Dates\<close>

definition leap :: "nat \<Rightarrow> bool" where
  "leap y \<longleftrightarrow> y mod 4 = 0 \<and> (y mod 100 \<noteq> 0 \<or> y mod 400 = 0)"

definition year_len :: "nat \<Rightarrow> nat" where
  "year_len y = (if leap y then 366 else 365)"

definition month_lens :: "nat \<Rightarrow> nat list" where
  "month_lens y = [31, if leap y then 29 else 28, 31, 30, 31, 30, 31, 31, 30, 31, 30, 31]"

text \<open>Days are counted from the first of January of year 0.\<close>

fun days_before :: "nat \<Rightarrow> nat" where
  "days_before 0 = 0"
| "days_before (Suc y) = days_before y + year_len y"

function split_year :: "nat \<Rightarrow> nat \<Rightarrow> nat \<times> nat" where
  "split_year y n = (if n < year_len y then (y, n) else split_year (Suc y) (n - year_len y))"
  by pat_completeness auto

termination split_year
  by (relation "measure snd") (auto simp: year_len_def split: if_splits)

declare split_year.simps [simp del]

fun split_month :: "nat list \<Rightarrow> nat \<Rightarrow> nat \<times> nat" where
  "split_month [] n = (0, n)"
| "split_month (l # ls) n = (if n < l then (0, n) else (case split_month ls (n - l) of (m, d) \<Rightarrow> (Suc m, d)))"

text \<open>Year, month (from 0) and day of the month (from 0).\<close>

definition date_of :: "nat \<Rightarrow> nat \<times> nat \<times> nat" where
  "date_of n = (case split_year 0 n of (y, k) \<Rightarrow> (y, split_month (month_lens y) k))"

definition day_number :: "nat \<Rightarrow> nat \<Rightarrow> nat \<Rightarrow> nat" where
  "day_number y m d = days_before y + sum_list (take m (month_lens y)) + d"

lemma split_year_sum: "split_year y n = (y', k) \<Longrightarrow> days_before y' + k = days_before y + n \<and> k < year_len y'"
proof (induction y n rule: split_year.induct)
  case (1 y n)
  show ?case
  proof (cases "n < year_len y")
    case True
    with "1.prems" show ?thesis by (subst (asm) split_year.simps) auto
  next
    case False
    with "1.prems" have "split_year (Suc y) (n - year_len y) = (y', k)" by (subst (asm) split_year.simps) simp
    with "1.IH" [OF False] False show ?thesis by simp
  qed
qed

lemma split_month_sum:
  "n < sum_list ls \<Longrightarrow> split_month ls n = (m, d) \<Longrightarrow> m < length ls \<and> d < ls ! m \<and> sum_list (take m ls) + d = n"
proof (induction ls arbitrary: n m)
  case (Cons l ls)
  show ?case
  proof (cases "n < l")
    case False
    then obtain m' where m': "split_month ls (n - l) = (m', d)" "m = Suc m'"
      using Cons.prems(2) by (auto split: prod.splits)
    moreover have "n - l < sum_list ls" using Cons.prems(1) False by simp
    ultimately show ?thesis using Cons.IH [of "n - l" m'] False by auto
  qed (use Cons.prems in auto)
qed simp

lemma month_lens_sum: "sum_list (month_lens y) = year_len y"
  by (simp add: month_lens_def year_len_def)

lemma length_month_lens [simp]: "length (month_lens y) = 12"
  by (simp add: month_lens_def)

text \<open>A date names its day, and its parts are in range.\<close>

lemma date_of_range:
  assumes "date_of n = (y, m, d)"
  shows "day_number y m d = n \<and> m < 12 \<and> d < month_lens y ! m"
proof -
  obtain k where k: "split_year 0 n = (y, k)" "split_month (month_lens y) k = (m, d)"
    using assms by (auto simp: date_of_def split: prod.splits)
  from split_year_sum [OF k(1)] have "days_before y + k = n" "k < sum_list (month_lens y)" by (simp_all add: month_lens_sum)
  with split_month_sum [OF _ k(2)] show ?thesis by (auto simp: day_number_def)
qed

subsection \<open>Fixed-width numbers\<close>

fun pad :: "nat \<Rightarrow> nat \<Rightarrow> string" where
  "pad 0 n = []"
| "pad (Suc w) n = pad w (n div 10) @ [char_of (48 + n mod 10)]"

definition all_digits :: "string \<Rightarrow> bool" where
  "all_digits s \<longleftrightarrow> (\<forall>c \<in> set s. digit_val c \<noteq> None)"

lemma length_pad [simp]: "length (pad w n) = w"
  by (induction w arbitrary: n) auto

lemma parse_pad: "n < 10 ^ w \<Longrightarrow> parse_digits acc (pad w n) = Some (acc * 10 ^ w + n)"
proof (induction w arbitrary: n)
  case 0
  then show ?case by simp
next
  case (Suc w)
  have "n div 10 < 10 ^ w" using Suc.prems by (simp add: less_mult_imp_div_less mult.commute)
  then show ?case using Suc.IH [of "n div 10"]
    by (simp add: parse_digits_append digit_val_char algebra_simps)
qed

lemma all_digits_pad: "all_digits (pad w n)"
  by (induction w arbitrary: n) (auto simp: all_digits_def digit_val_char)

lemma parse_digits_all: "parse_digits acc s = Some v \<Longrightarrow> all_digits s"
  by (induction acc s rule: parse_digits.induct) (auto simp: all_digits_def split: option.splits)

subsection \<open>Writing an instant\<close>

definition fraction :: "nat \<Rightarrow> string" where
  "fraction n = (if n = 0 then [] else CHR ''.'' # rev (dropWhile (\<lambda>c. c = CHR ''0'') (rev (pad 9 n))))"

definition format_time :: "gotime \<Rightarrow> string option" where
  "format_time t = (let secs = t div second; day = secs div 86400 + 366; s = nat (secs mod 86400) in
     if day < 0 then None
     else (case date_of (nat day) of (y, m, d) \<Rightarrow>
       if 9999 < y then None
       else Some (pad 4 y @ ''-'' @ pad 2 (Suc m) @ ''-'' @ pad 2 (Suc d) @ ''T'' @ pad 2 (s div 3600) @ '':'' @
         pad 2 (s div 60 mod 60) @ '':'' @ pad 2 (s mod 60) @ fraction (nat (t mod second)) @ ''Z'')))"

subsection \<open>Reading one\<close>

definition number :: "nat \<Rightarrow> nat \<Rightarrow> nat \<Rightarrow> string \<Rightarrow> (nat \<times> string) option" where
  "number w lo hi s = (if length s < w then None else (case parse_digits 0 (take w s) of
       None \<Rightarrow> None
     | Some v \<Rightarrow> if lo \<le> v \<and> v \<le> hi then Some (v, drop w s) else None))"

definition expect :: "char \<Rightarrow> string \<Rightarrow> string option" where
  "expect c s = (case s of [] \<Rightarrow> None | x # r \<Rightarrow> if x = c then Some r else None)"

definition digit_char :: "char \<Rightarrow> bool" where
  "digit_char c \<longleftrightarrow> digit_val c \<noteq> None"

text \<open>Digits after the ninth are ignored.\<close>

definition read_fraction :: "string \<Rightarrow> nat \<times> string" where
  "read_fraction s = (case s of
       c # d # r \<Rightarrow> if c = CHR ''.'' \<and> digit_char d then
           (let ds = take 9 (takeWhile digit_char (d # r)) in
            (case parse_digits 0 ds of None \<Rightarrow> 0 | Some v \<Rightarrow> v * 10 ^ (9 - length ds), dropWhile digit_char (d # r)))
         else (0, s)
     | _ \<Rightarrow> (0, s))"

text \<open>The offset in seconds: \<open>Z\<close> or a sign, hours and minutes.\<close>

definition read_zone :: "string \<Rightarrow> int option" where
  "read_zone s = (if s = ''Z'' then Some 0 else (case s of [] \<Rightarrow> None | sign # r \<Rightarrow>
     if sign \<noteq> CHR ''+'' \<and> sign \<noteq> CHR ''-'' then None
     else do {
       (h, r) \<leftarrow> number 2 0 23 r;
       r \<leftarrow> expect CHR '':'' r;
       (m, r) \<leftarrow> number 2 0 59 r;
       if r \<noteq> [] then None
       else Some (if sign = CHR ''-'' then - int (h * 3600 + m * 60) else int (h * 3600 + m * 60)) }))"

definition parse_time :: "string \<Rightarrow> gotime option" where
  "parse_time s = do {
     (y, s) \<leftarrow> number 4 0 9999 s;
     s \<leftarrow> expect CHR ''-'' s;
     (m, s) \<leftarrow> number 2 1 12 s;
     s \<leftarrow> expect CHR ''-'' s;
     (d, s) \<leftarrow> number 2 1 (month_lens y ! (m - 1)) s;
     s \<leftarrow> expect CHR ''T'' s;
     (hour, s) \<leftarrow> number 2 0 23 s;
     s \<leftarrow> expect CHR '':'' s;
     (minute, s) \<leftarrow> number 2 0 59 s;
     s \<leftarrow> expect CHR '':'' s;
     (sec, s) \<leftarrow> number 2 0 59 s;
     let (ns, s) = read_fraction s;
     offset \<leftarrow> read_zone s;
     Some ((((int (day_number y (m - 1) (d - 1)) - 366) * 86400 + int (hour * 3600 + minute * 60 + sec)) - offset) * second + int ns) }"

subsection \<open>Round trip\<close>

lemma number_pad: "n < 10 ^ w \<Longrightarrow> lo \<le> n \<Longrightarrow> n \<le> hi \<Longrightarrow> number w lo hi (pad w n @ r) = Some (n, r)"
  by (simp add: number_def parse_pad)

lemma expect_same [simp]: "expect c (c # r) = Some r"
  by (simp add: expect_def)

lemma parse_zeros: "parse_digits v (replicate k CHR ''0'') = Some (v * 10 ^ k)"
  by (induction k arbitrary: v) (simp_all add: digit_val_def algebra_simps)

lemma stripped: "\<exists>k. s = rev (dropWhile (\<lambda>c. c = z) (rev s)) @ replicate k z"
proof (induction s rule: rev_induct)
  case (snoc c s)
  then obtain k where k: "s = rev (dropWhile (\<lambda>c. c = z) (rev s)) @ replicate k z" by blast
  show ?case
  proof (cases "c = z")
    case True
    have "s @ [c] = rev (dropWhile (\<lambda>c. c = z) (rev (s @ [c]))) @ replicate (Suc k) z"
      using k True by (simp add: replicate_append_same [symmetric] del: replicate_append_same)
    then show ?thesis by blast
  qed (auto intro: exI [of _ 0])
qed simp

lemma read_fraction_digits:
  assumes "parse_digits 0 ds = Some v" and "ds \<noteq> []" and "length ds \<le> 9" and "r = [] \<or> \<not> digit_char (hd r)"
  shows "read_fraction (CHR ''.'' # ds @ r) = (v * 10 ^ (9 - length ds), r)"
proof -
  have "\<forall>c \<in> set ds. digit_char c" using parse_digits_all [OF assms(1)] by (simp add: all_digits_def digit_char_def)
  then have "takeWhile digit_char (ds @ r) = ds" "dropWhile digit_char (ds @ r) = r" "digit_char (hd ds)"
    using assms(2,4) by (auto simp: takeWhile_append2 dropWhile_append2 takeWhile_eq_Nil_iff dropWhile_eq_self_iff)
  with assms(1-3) show ?thesis
    by (cases ds) (simp_all add: read_fraction_def Let_def del: takeWhile.simps dropWhile.simps parse_digits.simps)
qed

lemma read_fraction_round:
  assumes "n < 10 ^ 9" and "r \<noteq> []" and "\<not> digit_char (hd r)" and "hd r \<noteq> CHR ''.''"
  shows "read_fraction (fraction n @ r) = (n, r)"
proof (cases "n = 0")
  case True
  with assms show ?thesis by (cases r rule: remdups_adj.cases) (simp_all add: fraction_def read_fraction_def)
next
  case False
  define ds where "ds = rev (dropWhile (\<lambda>c. c = CHR ''0'') (rev (pad 9 n)))"
  obtain k where k: "pad 9 n = ds @ replicate k CHR ''0''" unfolding ds_def using stripped [of "pad 9 n" "CHR ''0''"] by (elim exE)
  have len: "length ds + k = 9" using arg_cong [OF k, of length] by simp
  have "parse_digits 0 (ds @ replicate k CHR ''0'') = Some n" using parse_pad [of n 9 0] assms(1) by (simp add: k)
  then obtain v where v: "parse_digits 0 ds = Some v" and n: "v * 10 ^ k = n"
    by (auto simp: parse_digits_append parse_zeros split: option.splits)
  then have "ds \<noteq> []" using False by auto
  with v len assms(3) have "read_fraction (CHR ''.'' # ds @ r) = (v * 10 ^ (9 - length ds), r)"
    by (intro read_fraction_digits) auto
  moreover have "9 - length ds = k" using len by simp
  ultimately show ?thesis using n False by (simp add: fraction_def ds_def [symmetric])
qed

lemma time_parts:
  fixes s :: nat
  assumes "s < 86400"
  shows "s div 3600 \<le> 23" "s div 60 mod 60 \<le> 59" "s mod 60 \<le> 59" "s div 3600 * 3600 + s div 60 mod 60 * 60 + s mod 60 = s"
proof -
  have "s div 3600 = s div 60 div 60" by (simp add: div_mult2_eq [symmetric])
  then have "s div 3600 * 60 + s div 60 mod 60 = s div 60" by simp
  then have "s div 3600 * 3600 + s div 60 mod 60 * 60 = s div 60 * 60" by simp
  then show "s div 3600 * 3600 + s div 60 mod 60 * 60 + s mod 60 = s" by simp
  have "s div 3600 < 24" using assms by (simp add: less_mult_imp_div_less)
  then show "s div 3600 \<le> 23" by simp
  show "s div 60 mod 60 \<le> 59" "s mod 60 \<le> 59"
    using mod_less_divisor [of 60 "s div 60"] mod_less_divisor [of 60 s] by simp_all
qed

lemma guarded_Some: "(if a then None else if b then None else Some x) = Some s \<Longrightarrow> \<not> a \<and> \<not> b \<and> s = x"
  by (simp split: if_splits)

lemma parse_time_parts:
  assumes "y \<le> 9999" and "Suc m \<le> 12" and "Suc d \<le> month_lens y ! m" and "Suc d < 100" and "h \<le> 23" and "mi \<le> 59"
    and "se \<le> 59" and "n < 10 ^ 9"
  shows "parse_time (pad 4 y @ ''-'' @ pad 2 (Suc m) @ ''-'' @ pad 2 (Suc d) @ ''T'' @ pad 2 h @ '':'' @
      pad 2 mi @ '':'' @ pad 2 se @ fraction n @ ''Z'') =
    Some (((int (day_number y m d) - 366) * 86400 + int (h * 3600 + mi * 60 + se)) * second + int n)"
proof -
  have f: "read_fraction (fraction n @ ''Z'') = (n, ''Z'')"
    by (rule read_fraction_round [OF assms(8)]) (simp_all add: digit_char_def digit_val_def)
  have z: "read_zone ''Z'' = Some 0" by (simp add: read_zone_def)
  have p: "number 4 0 9999 (pad 4 y @ r) = Some (y, r)" "number 2 (Suc 0) 12 (pad 2 (Suc m) @ r) = Some (Suc m, r)"
    "number 2 (Suc 0) (month_lens y ! m) (pad 2 (Suc d) @ r) = Some (Suc d, r)" "number 2 0 23 (pad 2 h @ r) = Some (h, r)"
    "number 2 0 59 (pad 2 mi @ r) = Some (mi, r)" "number 2 0 59 (pad 2 se @ r) = Some (se, r)" for r
    using assms by (auto intro!: number_pad)
  show ?thesis unfolding parse_time_def by (simp add: p f z del: pad.simps)
qed

text \<open>
  An instant that can be written is read back exactly, and the text has no character that JSON escapes.
\<close>

lemma parse_format_time:
  assumes "format_time t = Some s"
  shows "parse_time s = Some t"
proof -
  let ?secs = "t div second"
  let ?day = "?secs div 86400 + 366" and ?s = "nat (?secs mod 86400)" and ?n = "nat (t mod second)"
  obtain y m d where date: "date_of (nat ?day) = (y, m, d)" by (cases "date_of (nat ?day)") auto
  let ?text = "pad 4 y @ ''-'' @ pad 2 (Suc m) @ ''-'' @ pad 2 (Suc d) @ ''T'' @ pad 2 (?s div 3600) @ '':'' @
         pad 2 (?s div 60 mod 60) @ '':'' @ pad 2 (?s mod 60) @ fraction ?n @ ''Z''"
  have "format_time t = (if ?day < 0 then None else if 9999 < y then None else Some ?text)"
    by (simp only: format_time_def Let_def date prod.case)
  then have "\<not> ?day < 0 \<and> \<not> 9999 < y \<and> s = ?text" using assms by (intro guarded_Some) (simp only:)
  then have day: "0 \<le> ?day" and y: "y \<le> 9999" and s: "s = ?text" by (simp_all only: not_less)
  from date_of_range [OF date] have r: "day_number y m d = nat ?day" "m < 12" "d < month_lens y ! m" by auto
  have "\<forall>x \<in> set (month_lens y). x \<le> 31" by (simp add: month_lens_def)
  then have "month_lens y ! m \<le> 31" using r(2) by simp
  with r have md: "Suc m \<le> 12" "Suc d < 100" by simp_all
  have "?s < 86400" by (simp add: nat_less_iff)
  note hms = time_parts [OF this]
  have pos: "0 \<le> t mod second" by (simp add: second_def)
  have ns: "?n < 10 ^ 9" by (simp add: nat_less_iff second_def)
  have "parse_time s = Some (((int (day_number y m d) - 366) * 86400 +
      int (?s div 3600 * 3600 + ?s div 60 mod 60 * 60 + ?s mod 60)) * second + int ?n)"
    unfolding s by (rule parse_time_parts [OF y md(1) _ md(2) hms(1-3) ns]) (rule Suc_leI [OF r(3)])
  also have "\<dots> = Some ((?secs div 86400 * 86400 + ?secs mod 86400) * second + t mod second)"
    unfolding r(1) hms(4) using day pos by simp
  finally show ?thesis by simp
qed

end
