(* ===== verification/Json.thy ===== *)
theory Json
  imports Calendar
begin

text \<open>
  What the program uses of \<open>encoding/json\<close>: strings with their escapes (HTML characters and the two
  line separators are escaped, bytes that are not UTF-8 are replaced), number literals, and the
  grammar of values with the decoder's limit on nesting. A parsed value keeps the raw text of its
  strings and numbers, as the decoder does until it knows the type it fills.
\<close>

subsection \<open>UTF-8\<close>

definition byte :: "char \<Rightarrow> nat" where
  "byte c = of_char c"

fun follows :: "(nat \<times> nat) list \<Rightarrow> string \<Rightarrow> bool" where
  "follows [] s = True"
| "follows (p # ps) [] = False"
| "follows (p # ps) (c # s) = (fst p \<le> byte c \<and> byte c \<le> snd p \<and> follows ps s)"

text \<open>The ranges of the bytes after the first one of a rune, by the first one.\<close>

definition continuation :: "nat \<Rightarrow> (nat \<times> nat) list option" where
  "continuation b = (let c = (128, 191) in
     if b < 128 then Some []
     else if b < 194 then None
     else if b < 224 then Some [c]
     else if b = 224 then Some [(160, 191), c]
     else if b = 237 then Some [(128, 159), c]
     else if b < 240 then Some [c, c]
     else if b = 240 then Some [(144, 191), c, c]
     else if b < 244 then Some [c, c, c]
     else if b = 244 then Some [(128, 143), c, c]
     else None)"

text \<open>The width of the rune a string starts with; 0 when it starts with none.\<close>

definition rune_width :: "string \<Rightarrow> nat" where
  "rune_width s = (case s of [] \<Rightarrow> 0 | c # r \<Rightarrow> (case continuation (byte c) of
       None \<Rightarrow> 0 | Some ps \<Rightarrow> if follows ps r then Suc (length ps) else 0))"

text \<open>A string in pieces: its runes, and single bytes where there is none.\<close>

function runes :: "string \<Rightarrow> string list" where
  "runes [] = []"
| "runes (c # s) = (c # take (rune_width (c # s) - 1) s) # runes (drop (rune_width (c # s) - 1) s)"
  by pat_completeness auto
termination runes by (relation "measure length") auto

definition valid_rune :: "string \<Rightarrow> bool" where
  "valid_rune ch \<longleftrightarrow> ch \<noteq> [] \<and> rune_width ch = length ch"

definition valid_utf8 :: "string \<Rightarrow> bool" where
  "valid_utf8 s \<longleftrightarrow> list_all valid_rune (runes s)"

definition utf8_encode :: "nat \<Rightarrow> string" where
  "utf8_encode r = map char_of (
     if r < 128 then [r]
     else if r < 2048 then [192 + r div 64, 128 + r mod 64]
     else if r < 65536 then [224 + r div 4096, 128 + r div 64 mod 64, 128 + r mod 64]
     else [240 + r div 262144, 128 + r div 4096 mod 64, 128 + r div 64 mod 64, 128 + r mod 64])"

definition rune_error :: string where
  "rune_error = utf8_encode 65533"

subsection \<open>Quoting\<close>

abbreviation (input) bs :: char where "bs \<equiv> CHR 0x5C"
abbreviation (input) dq :: char where "dq \<equiv> CHR 0x22"

definition hex_digit :: "nat \<Rightarrow> char" where
  "hex_digit d = char_of (if d < 10 then 48 + d else 87 + d)"

definition hex_val :: "char \<Rightarrow> nat option" where
  "hex_val c = (let n = byte c in
     if 48 \<le> n \<and> n \<le> 57 then Some (n - 48)
     else if 97 \<le> n \<and> n \<le> 102 then Some (n - 87)
     else if 65 \<le> n \<and> n \<le> 70 then Some (n - 55)
     else None)"

text \<open>The escapes of one letter: the letter and the byte it stands for.\<close>

definition short_escapes :: "(char \<times> char) list" where
  "short_escapes = [(dq, dq), (bs, bs), (CHR ''/'', CHR ''/''), (CHR ''b'', CHR 0x08), (CHR ''f'', CHR 0x0C),
     (CHR ''n'', CHR 0x0A), (CHR ''r'', CHR 0x0D), (CHR ''t'', CHR 0x09)]"

definition escape :: "char \<Rightarrow> string" where
  "escape c = (case find (\<lambda>p. c = snd p \<and> c \<noteq> CHR ''/'') short_escapes of
       Some (e, _) \<Rightarrow> [bs, e]
     | None \<Rightarrow> if byte c < 32 \<or> c \<in> {CHR ''<'', CHR ''>'', CHR ''&''}
              then bs # ''u00'' @ [hex_digit (byte c div 16), hex_digit (byte c mod 16)]
              else [c])"

definition quote_rune :: "string \<Rightarrow> string" where
  "quote_rune ch = (case ch of
       [c] \<Rightarrow> if byte c < 128 then escape c else bs # ''ufffd''
     | _ \<Rightarrow> if ch = utf8_encode 8232 then bs # ''u2028''
           else if ch = utf8_encode 8233 then bs # ''u2029''
           else ch)"

definition quote :: "string \<Rightarrow> string" where
  "quote s = concat (map quote_rune (runes s))"

subsection \<open>Scanning and unquoting\<close>

definition hex4 :: "string \<Rightarrow> nat option" where
  "hex4 s = (if length s < 4 then None else
     (case map hex_val (take 4 s) of
        [Some a, Some b, Some c, Some d] \<Rightarrow> Some (4096 * a + 256 * b + 16 * c + d)
      | _ \<Rightarrow> None))"

text \<open>The width of the next item inside a string: a byte, an escape of a letter, or one of four hex digits; 0 is an error.\<close>

definition item_width :: "string \<Rightarrow> nat" where
  "item_width s = (case s of [] \<Rightarrow> 0 | c # r \<Rightarrow>
     if byte c < 32 then 0
     else if c \<noteq> bs then 1
     else (case r of [] \<Rightarrow> 0 | e # r' \<Rightarrow>
       if e \<in> fst ` set short_escapes then 2
       else if e = CHR ''u'' \<and> hex4 r' \<noteq> None then 6 else 0))"

text \<open>The raw text up to the closing quote, and what follows it.\<close>

function scan_string :: "string \<Rightarrow> (string \<times> string) option" where
  "scan_string [] = None"
| "scan_string (c # s) = (if c = dq then Some ([], s)
     else if item_width (c # s) = 0 then None
     else map_option (\<lambda>(raw, rest). (c # take (item_width (c # s) - 1) s @ raw, rest))
       (scan_string (drop (item_width (c # s) - 1) s)))"
  by pat_completeness auto
termination scan_string by (relation "measure length") auto

declare scan_string.simps [simp del]

definition surrogate :: "nat \<Rightarrow> bool" where
  "surrogate r \<longleftrightarrow> 55296 \<le> r \<and> r < 57344"

text \<open>\<open>utf16.DecodeRune\<close>: \<open>None\<close> when the two are not a pair.\<close>

definition decode_pair :: "nat \<Rightarrow> nat \<Rightarrow> nat option" where
  "decode_pair a b = (if 55296 \<le> a \<and> a < 56320 \<and> 56320 \<le> b \<and> b < 57344
     then Some ((a - 55296) * 1024 + (b - 56320) + 65536) else None)"

text \<open>The rune of a \<open>\u\<close> escape and how many bytes it takes.\<close>

definition read_hex :: "string \<Rightarrow> string \<times> nat" where
  "read_hex r = (case hex4 r of None \<Rightarrow> (rune_error, 4)
     | Some a \<Rightarrow>
        if \<not> surrogate a then (utf8_encode a, 4)
        else (case drop 4 r of
            x # y # r' \<Rightarrow> (case (if x = bs \<and> y = CHR ''u'' then hex4 r' else None) of
                Some b \<Rightarrow> (case decode_pair a b of Some p \<Rightarrow> (utf8_encode p, 10) | None \<Rightarrow> (rune_error, 4))
              | None \<Rightarrow> (rune_error, 4))
          | _ \<Rightarrow> (rune_error, 4)))"

function unquote :: "string \<Rightarrow> string" where
  "unquote [] = []"
| "unquote (c # s) =
     (if c = bs then (case s of
          [] \<Rightarrow> []
        | e # r \<Rightarrow> if e = CHR ''u'' then fst (read_hex r) @ unquote (drop (snd (read_hex r)) r)
                  else (case map_of short_escapes e of None \<Rightarrow> [] | Some x \<Rightarrow> [x]) @ unquote r)
      else if rune_width (c # s) = 0 then rune_error @ unquote s
      else c # take (rune_width (c # s) - 1) s @ unquote (drop (rune_width (c # s) - 1) s))"
  by pat_completeness auto
termination unquote by (relation "measure length") auto

subsection \<open>Strings come back\<close>

lemma concat_runes: "concat (runes s) = s"
  by (induction s rule: runes.induct) auto

lemma follows_append: "follows ps s \<Longrightarrow> follows ps (s @ t)"
  by (induction ps s rule: follows.induct) auto

lemma valid_rune_cases:
  assumes "valid_rune ch"
  obtains c cs ps where "ch = c # cs" and "continuation (byte c) = Some ps" and "follows ps cs" and "length ps = length cs"
  using assms by (auto simp: valid_rune_def rune_width_def split: list.splits option.splits if_splits)

lemma rune_width_append: "valid_rune ch \<Longrightarrow> rune_width (ch @ s) = length ch"
  by (erule valid_rune_cases) (simp add: rune_width_def follows_append)

lemma continuation_high: "continuation b = Some ps \<Longrightarrow> (ps \<noteq> [] \<longrightarrow> 128 \<le> b) \<and> (\<forall>p \<in> set ps. 128 \<le> fst p)"
  by (auto simp: continuation_def Let_def split: if_splits)

lemma follows_high: "follows ps cs \<Longrightarrow> length ps = length cs \<Longrightarrow> \<forall>p \<in> set ps. 128 \<le> fst p \<Longrightarrow> \<forall>c \<in> set cs. 128 \<le> byte c"
  by (induction ps cs rule: follows.induct) (auto intro: order_trans)

text \<open>A rune is an ASCII character, or all its bytes are above ASCII.\<close>

lemma valid_rune_kinds:
  assumes "valid_rune ch"
  obtains (ascii) c where "ch = [c]" and "byte c < 128"
    | (wide) "1 < length ch" and "\<forall>c \<in> set ch. 128 \<le> byte c"
proof -
  obtain c cs ps where ch: "ch = c # cs" "continuation (byte c) = Some ps" "follows ps cs" "length ps = length cs"
    using assms by (rule valid_rune_cases)
  note high = continuation_high [OF ch(2)]
  show thesis
  proof (cases cs)
    case Nil
    with ch have "continuation (byte c) = Some []" by simp
    then have "byte c < 128" by (simp add: continuation_def Let_def split: if_splits)
    with Nil ch(1) show thesis by (intro ascii) simp_all
  next
    case (Cons a as)
    with high ch follows_high [OF ch(3,4)] show thesis by (intro wide) auto
  qed
qed

lemma hex_digit_val: "d < 16 \<Longrightarrow> hex_val (hex_digit d) = Some d"
  by (auto simp: hex_val_def hex_digit_def byte_def Let_def of_char_of)

lemma hex4_byte: "n < 256 \<Longrightarrow> hex4 (''00'' @ hex_digit (n div 16) # hex_digit (n mod 16) # s) = Some n"
proof -
  assume "n < 256"
  then have "hex_val (hex_digit (n div 16)) = Some (n div 16)" "hex_val (hex_digit (n mod 16)) = Some (n mod 16)"
    by (simp_all add: hex_digit_val less_mult_imp_div_less)
  moreover have "hex_val CHR ''0'' = Some 0" by (simp add: hex_val_def byte_def)
  ultimately show ?thesis by (simp add: hex4_def)
qed

lemma scan_item:
  assumes "c \<noteq> dq" and "item_width (c # cs @ s) = Suc (length cs)"
  shows "scan_string (c # cs @ s) = map_option (\<lambda>(raw, rest). (c # cs @ raw, rest)) (scan_string s)"
  using assms by (simp add: scan_string.simps)

lemma scan_plain:
  "\<forall>c \<in> set ch. 32 \<le> byte c \<and> c \<noteq> bs \<and> c \<noteq> dq \<Longrightarrow>
   scan_string (ch @ s) = map_option (\<lambda>(raw, rest). (ch @ raw, rest)) (scan_string s)"
proof (induction ch)
  case (Cons c ch)
  then have "scan_string (c # [] @ ch @ s) = map_option (\<lambda>(raw, rest). (c # [] @ raw, rest)) (scan_string (ch @ s))"
    by (intro scan_item) (auto simp: item_width_def)
  with Cons show ?case by (simp add: option.map_comp comp_def case_prod_beta)
qed (simp add: case_prod_beta option.map_id)

lemma escape_kinds:
  obtains (short) e where "escape c = [bs, e]" and "map_of short_escapes e = Some c" and "e \<noteq> CHR ''u''" and "e \<in> fst ` set short_escapes"
    | (hex) "escape c = bs # CHR ''u'' # ''00'' @ [hex_digit (byte c div 16), hex_digit (byte c mod 16)]"
    | (plain) "escape c = [c]" and "32 \<le> byte c" and "c \<noteq> bs" and "c \<noteq> dq"
proof (cases "c \<in> {dq, bs, CHR 0x08, CHR 0x0C, CHR 0x0A, CHR 0x0D, CHR 0x09}")
  case True
  then have "\<exists>e. escape c = [bs, e] \<and> map_of short_escapes e = Some c \<and> e \<noteq> CHR ''u'' \<and> e \<in> fst ` set short_escapes"
    by (auto simp: escape_def short_escapes_def)
  then show thesis using short by blast
next
  case False
  then have "find (\<lambda>p. c = snd p \<and> c \<noteq> CHR ''/'') short_escapes = None"
    unfolding short_escapes_def by simp
  then have "escape c = (if byte c < 32 \<or> c \<in> {CHR ''<'', CHR ''>'', CHR ''&''}
      then bs # ''u00'' @ [hex_digit (byte c div 16), hex_digit (byte c mod 16)] else [c])"
    by (simp add: escape_def)
  then show thesis using hex plain False
    by (cases "byte c < 32 \<or> c \<in> {CHR ''<'', CHR ''>'', CHR ''&''}") auto
qed

lemma byte_char_of: "char_of (byte c) = c"
  by (simp add: byte_def)

lemma escape_round:
  assumes "byte c < 128"
  shows "scan_string (escape c @ s) = map_option (\<lambda>(raw, rest). (escape c @ raw, rest)) (scan_string s)"
    and "unquote (escape c @ s) = c # unquote s"
proof -
  have ne: "bs \<noteq> dq" "\<not> byte bs < 32" by (simp_all add: byte_def)
  have both: "scan_string (escape c @ s) = map_option (\<lambda>(raw, rest). (escape c @ raw, rest)) (scan_string s) \<and>
    unquote (escape c @ s) = c # unquote s"
  proof (rule escape_kinds [of c], goal_cases)
    case (1 e)
    have "scan_string (bs # [e] @ s) = map_option (\<lambda>(raw, rest). (bs # [e] @ raw, rest)) (scan_string s)"
      using 1(4) ne by (intro scan_item) (simp_all add: item_width_def)
    with 1 show ?case by simp
  next
    case 2
    let ?h = "''00'' @ [hex_digit (byte c div 16), hex_digit (byte c mod 16)]"
    have h: "hex4 (?h @ s) = Some (byte c)" using hex4_byte [of "byte c" s] assms by simp
    have "scan_string (bs # (CHR ''u'' # ?h) @ s) = map_option (\<lambda>(raw, rest). (bs # (CHR ''u'' # ?h) @ raw, rest)) (scan_string s)"
      using h ne by (intro scan_item) (simp_all add: item_width_def short_escapes_def)
    moreover have "read_hex (?h @ s) = ([c], 4)"
      unfolding read_hex_def h using assms by (simp add: surrogate_def utf8_encode_def byte_char_of)
    ultimately show ?case using 2 by simp
  next
    case 3
    with scan_plain [of "[c]" s] assms show ?case by (simp add: rune_width_def continuation_def)
  qed
  then show "scan_string (escape c @ s) = map_option (\<lambda>(raw, rest). (escape c @ raw, rest)) (scan_string s)"
    and "unquote (escape c @ s) = c # unquote s" by blast+
qed

lemma hex4_separators: "hex4 (''2028'' @ s) = Some 8232" "hex4 (''2029'' @ s) = Some 8233"
  by (simp_all add: hex4_def hex_val_def byte_def)

lemma unquote_wide:
  assumes "valid_rune ch" and "\<forall>c \<in> set ch. 128 \<le> byte c"
  shows "unquote (ch @ s) = ch @ unquote s"
proof -
  obtain c cs where ch: "ch = c # cs" using assms(1) by (rule valid_rune_cases)
  have "c \<noteq> bs" using assms(2) by (auto simp: ch byte_def)
  then show ?thesis using rune_width_append [OF assms(1), of s] by (simp add: ch)
qed

lemma quote_rune_round:
  assumes "valid_rune ch"
  shows "scan_string (quote_rune ch @ s) = map_option (\<lambda>(raw, rest). (quote_rune ch @ raw, rest)) (scan_string s)"
    and "unquote (quote_rune ch @ s) = ch @ unquote s"
proof -
  have ne: "bs \<noteq> dq" "\<not> byte bs < 32" by (simp_all add: byte_def)
  have both: "scan_string (quote_rune ch @ s) = map_option (\<lambda>(raw, rest). (quote_rune ch @ raw, rest)) (scan_string s) \<and>
    unquote (quote_rune ch @ s) = ch @ unquote s"
    using assms
  proof (cases rule: valid_rune_kinds)
    case (ascii c)
    then show ?thesis using escape_round [of c s] by (simp add: quote_rune_def)
  next
    case wide
    have sep: "scan_string (bs # (CHR ''u'' # h) @ s) = map_option (\<lambda>(raw, rest). (bs # (CHR ''u'' # h) @ raw, rest)) (scan_string s)"
      if "hex4 (h @ s) \<noteq> None" "length h = 4" for h
      using that ne by (intro scan_item) (auto simp: item_width_def short_escapes_def)
    have q: "quote_rune ch = (if ch = utf8_encode 8232 then bs # ''u2028'' else if ch = utf8_encode 8233 then bs # ''u2029'' else ch)"
      using wide(1) by (cases ch rule: remdups_adj.cases) (simp_all add: quote_rune_def)
    consider "ch = utf8_encode 8232" | "ch = utf8_encode 8233" "ch \<noteq> utf8_encode 8232" | "quote_rune ch = ch" using q by argo
    then show ?thesis
    proof cases
      case 1
      with q have "quote_rune ch = bs # (CHR ''u'' # ''2028'')" by simp
      then show ?thesis using 1 sep [of "''2028''"] hex4_separators(1) [of s] by (simp add: read_hex_def surrogate_def)
    next
      case 2
      with q have "quote_rune ch = bs # (CHR ''u'' # ''2029'')" by simp
      then show ?thesis using 2 sep [of "''2029''"] hex4_separators(2) [of s] by (simp add: read_hex_def surrogate_def)
    next
      case 3
      have "\<forall>c \<in> set ch. 32 \<le> byte c \<and> c \<noteq> bs \<and> c \<noteq> dq" using wide(2) by (auto simp: byte_def)
      then show ?thesis using 3 scan_plain [of ch s] unquote_wide [OF assms wide(2)] by simp
    qed
  qed
  then show "scan_string (quote_rune ch @ s) = map_option (\<lambda>(raw, rest). (quote_rune ch @ raw, rest)) (scan_string s)"
    and "unquote (quote_rune ch @ s) = ch @ unquote s" by blast+
qed

lemma scan_quoted:
  "valid_utf8 s \<Longrightarrow> scan_string (quote s @ t) = map_option (\<lambda>(raw, rest). (quote s @ raw, rest)) (scan_string t)"
proof -
  have "list_all valid_rune chs \<Longrightarrow> scan_string (concat (map quote_rune chs) @ t) =
      map_option (\<lambda>(raw, rest). (concat (map quote_rune chs) @ raw, rest)) (scan_string t)" for chs
    by (induction chs; cases "scan_string t") (auto simp: quote_rune_round)
  then show "valid_utf8 s \<Longrightarrow> scan_string (quote s @ t) = map_option (\<lambda>(raw, rest). (quote s @ raw, rest)) (scan_string t)"
    by (simp add: valid_utf8_def quote_def)
qed

lemma scan_quote: "valid_utf8 s \<Longrightarrow> scan_string (quote s @ dq # rest) = Some (quote s, rest)"
  by (simp add: scan_quoted scan_string.simps)

lemma unquote_quote: "valid_utf8 s \<Longrightarrow> unquote (quote s) = s"
proof -
  have "list_all valid_rune chs \<Longrightarrow> unquote (concat (map quote_rune chs)) = concat chs" for chs
    by (induction chs) (simp_all add: quote_rune_round)
  then show "valid_utf8 s \<Longrightarrow> unquote (quote s) = s" by (simp add: valid_utf8_def quote_def concat_runes)
qed

end
