(* ===== verification/Json_Values.thy ===== *)
theory Json_Values
  imports Json
begin

text \<open>
  The grammar of JSON values as \<open>encoding/json\<close> accepts and writes them: number literals, nesting up to
  10000 levels, white space between tokens, and the compact form the encoder writes. Parsing takes fuel
  for its recursion; twice the length of the input and one more is always enough. Rendering and parsing are
  inverse on well-formed values.
\<close>

subsection \<open>Numbers\<close>

definition scan_int :: "string \<Rightarrow> (string \<times> string) option" where
  "scan_int s = (case s of [] \<Rightarrow> None | c # r \<Rightarrow>
     if c = CHR ''0'' then Some ([c], r)
     else if digit_char c then Some (takeWhile digit_char s, dropWhile digit_char s) else None)"

definition scan_frac :: "string \<Rightarrow> (string \<times> string) option" where
  "scan_frac s = (case s of [] \<Rightarrow> Some ([], []) | c # r \<Rightarrow>
     if c \<noteq> CHR ''.'' then Some ([], s)
     else if takeWhile digit_char r = [] then None
     else Some (c # takeWhile digit_char r, dropWhile digit_char r))"

definition split_sign :: "char set \<Rightarrow> string \<Rightarrow> string \<times> string" where
  "split_sign signs s = (case s of [] \<Rightarrow> ([], []) | c # r \<Rightarrow> if c \<in> signs then ([c], r) else ([], s))"

definition scan_exp :: "string \<Rightarrow> (string \<times> string) option" where
  "scan_exp s = (case s of [] \<Rightarrow> Some ([], []) | c # r \<Rightarrow>
     if c \<notin> {CHR ''e'', CHR ''E''} then Some ([], s)
     else (case split_sign {CHR ''+'', CHR ''-''} r of (sign, t) \<Rightarrow>
       if takeWhile digit_char t = [] then None
       else Some (c # sign @ takeWhile digit_char t, dropWhile digit_char t)))"

definition scan_number :: "string \<Rightarrow> (string \<times> string) option" where
  "scan_number s = (case split_sign {CHR ''-''} s of (sign, s) \<Rightarrow> do {
     (i, s) \<leftarrow> scan_int s;
     (f, s) \<leftarrow> scan_frac s;
     (e, s) \<leftarrow> scan_exp s;
     Some (sign @ i @ f @ e, s) })"

subsection \<open>Values\<close>

datatype jval =
    VNull | VBool bool | VNum string | VStr string | VArr "jval list" | VObj "(string \<times> jval) list"

definition is_ws :: "char \<Rightarrow> bool" where
  "is_ws c \<longleftrightarrow> c \<in> {CHR '' '', CHR 0x09, CHR 0x0A, CHR 0x0D}"

definition skip_ws :: "string \<Rightarrow> string" where
  "skip_ws s = dropWhile is_ws s"

definition token :: "char \<Rightarrow> string \<Rightarrow> string option" where
  "token c s = expect c (skip_ws s)"

definition literal :: "string \<Rightarrow> (jval \<times> string) option" where
  "literal s = (case CutPrefix s ''null'' of Some r \<Rightarrow> Some (VNull, r) | None \<Rightarrow>
     (case CutPrefix s ''true'' of Some r \<Rightarrow> Some (VBool True, r) | None \<Rightarrow>
     (case CutPrefix s ''false'' of Some r \<Rightarrow> Some (VBool False, r) | None \<Rightarrow> None)))"

text \<open>A string, a number or a literal that starts with \<open>c\<close>.\<close>

definition scalar :: "char \<Rightarrow> string \<Rightarrow> (jval \<times> string) option" where
  "scalar c r = (if c = dq then map_option (apfst VStr) (scan_string r)
     else if c = CHR ''-'' \<or> digit_char c then map_option (apfst VNum) (scan_number (c # r))
     else literal (c # r))"

text \<open>\<open>d\<close> is the nesting that is left.\<close>

fun pval :: "nat \<Rightarrow> nat \<Rightarrow> string \<Rightarrow> (jval \<times> string) option"
  and pelems :: "nat \<Rightarrow> nat \<Rightarrow> string \<Rightarrow> (jval list \<times> string) option"
  and pmembers :: "nat \<Rightarrow> nat \<Rightarrow> string \<Rightarrow> ((string \<times> jval) list \<times> string) option" where
  "pval 0 d s = None"
| "pval (Suc k) d s = (case skip_ws s of [] \<Rightarrow> None | c # r \<Rightarrow>
     if c = CHR ''{'' then
       (if d = 0 then None else (case token CHR ''}'' r of
          Some t \<Rightarrow> Some (VObj [], t)
        | None \<Rightarrow> map_option (apfst VObj) (pmembers k (d - 1) r)))
     else if c = CHR ''['' then
       (if d = 0 then None else (case token CHR '']'' r of
          Some t \<Rightarrow> Some (VArr [], t)
        | None \<Rightarrow> map_option (apfst VArr) (pelems k (d - 1) r)))
     else scalar c r)"
| "pelems 0 d s = None"
| "pelems (Suc k) d s = (case pval k d s of None \<Rightarrow> None | Some (v, t) \<Rightarrow> (case token CHR '','' t of
       Some u \<Rightarrow> map_option (apfst (Cons v)) (pelems k d u)
     | None \<Rightarrow> map_option (Pair [v]) (token CHR '']'' t)))"
| "pmembers 0 d s = None"
| "pmembers (Suc k) d s = do {
     s \<leftarrow> token dq s;
     (key, s) \<leftarrow> scan_string s;
     s \<leftarrow> token CHR '':'' s;
     (v, t) \<leftarrow> pval k d s;
     (case token CHR '','' t of
        Some u \<Rightarrow> map_option (apfst (Cons (key, v))) (pmembers k d u)
      | None \<Rightarrow> map_option (Pair [(key, v)]) (token CHR ''}'' t)) }"

definition maxNestingDepth :: nat where "maxNestingDepth = 10000"

definition parse_json :: "string \<Rightarrow> jval option" where
  "parse_json s = (case pval (2 * length s + 1) maxNestingDepth s of
       Some (v, r) \<Rightarrow> if skip_ws r = [] then Some v else None
     | None \<Rightarrow> None)"

subsection \<open>Rendering\<close>

fun commas :: "string list \<Rightarrow> string" where
  "commas [] = []"
| "commas [x] = x"
| "commas (x # y # xs) = x @ CHR '','' # commas (y # xs)"

fun render :: "jval \<Rightarrow> string" where
  "render VNull = ''null''"
| "render (VBool b) = (if b then ''true'' else ''false'')"
| "render (VNum n) = n"
| "render (VStr raw) = dq # raw @ [dq]"
| "render (VArr vs) = CHR ''['' # commas (map render vs) @ '']''"
| "render (VObj ms) = CHR ''{'' # commas (map (\<lambda>m. dq # fst m @ dq # CHR '':'' # render (snd m)) ms) @ ''}''"

subsection \<open>Fuel\<close>

lemma skip_ws_length: "length (skip_ws s) \<le> length s"
  by (simp add: skip_ws_def length_dropWhile_le)

lemma token_shorter: "token c s = Some r \<Longrightarrow> length r < length s"
  using skip_ws_length [of s] by (auto simp: token_def expect_def split: list.splits if_splits)

lemma scan_string_shorter: "scan_string s = Some (raw, r) \<Longrightarrow> length r < length s"
proof (induction s arbitrary: raw rule: scan_string.induct)
  case (2 c s)
  then show ?case by (auto simp: scan_string.simps(2) [of c s] split: if_splits)
qed (simp add: scan_string.simps)

lemma split_sign_append: "split_sign signs s = (a, r) \<Longrightarrow> s = a @ r"
  by (auto simp: split_sign_def split: list.splits if_splits)

text \<open>What a number scanner returns are the two halves of its input.\<close>

lemma scan_number_halves: "scan_number s = Some (n, r) \<Longrightarrow> s = n @ r \<and> n \<noteq> []"
proof -
  have i: "scan_int s = Some (a, t) \<Longrightarrow> s = a @ t \<and> a \<noteq> []" for s a t
    by (auto simp: scan_int_def split: list.splits if_splits)
  have f: "scan_frac s = Some (a, t) \<Longrightarrow> s = a @ t" for s a t
    by (auto simp: scan_frac_def split: list.splits if_splits)
  have e: "scan_exp s = Some (a, t) \<Longrightarrow> s = a @ t" for s a t
    by (auto simp: scan_exp_def split: list.splits if_splits prod.splits dest!: split_sign_append)
  show "scan_number s = Some (n, r) \<Longrightarrow> s = n @ r \<and> n \<noteq> []"
    by (auto simp: scan_number_def split: prod.splits Option.bind_splits dest!: split_sign_append i f e)
qed

lemma literal_shorter: "literal s = Some (v, r) \<Longrightarrow> length r < length s"
  by (auto simp: literal_def CutPrefix_Some split: option.splits)

lemma scalar_shorter: "scalar c r = Some (v, t) \<Longrightarrow> length t < length (c # r)"
proof -
  assume v: "scalar c r = Some (v, t)"
  have n: "scan_number (c # r) = Some (a, t) \<Longrightarrow> length t < length (c # r)" for a
    using scan_number_halves [of "c # r" a t] by (cases a) auto
  show "length t < length (c # r)" using v n scan_string_shorter [of r] literal_shorter [of "c # r"]
    by (fastforce simp: scalar_def split: if_splits)
qed

lemma parser_shorter:
  "pval k d s = Some (v, r) \<Longrightarrow> length r < length s"
  "pelems k d s = Some (vs, r) \<Longrightarrow> length r < length s"
  "pmembers k d s = Some (ms, r) \<Longrightarrow> length r < length s"
proof (induction k arbitrary: d s v vs ms r)
  case (Suc k)
  note IH = Suc.IH
  {
    case 1
    then obtain c t where s: "skip_ws s = c # t" by (cases "skip_ws s") auto
    then have "length t < length s" using skip_ws_length [of s] by simp
    moreover have "length r < length (c # t)"
      using 1 IH(2,3) [of _ t] scalar_shorter [of c t v r] token_shorter [of _ t] unfolding pval.simps s list.case
      by (fastforce simp: less_Suc_eq split: if_splits option.splits)
    ultimately show ?case by simp
  next
    case 2
    then obtain v t where v: "pval k d s = Some (v, t)" by (auto split: option.splits)
    moreover have "length r < length t"
    proof (cases "token CHR '','' t")
      case (Some u)
      with 2 v IH(2) [of d u] token_shorter [OF Some] show ?thesis by fastforce
    qed (use 2 v in \<open>auto dest: token_shorter\<close>)
    ultimately show ?case using IH(1) by fastforce
  next
    case 3
    then obtain s1 key s2 s3 v t where parts: "token dq s = Some s1" "scan_string s1 = Some (key, s2)"
        "token CHR '':'' s2 = Some s3" "pval k d s3 = Some (v, t)"
      and rest: "(case token CHR '','' t of Some u \<Rightarrow> map_option (apfst (Cons (key, v))) (pmembers k d u)
        | None \<Rightarrow> map_option (Pair [(key, v)]) (token CHR ''}'' t)) = Some (ms, r)"
      by (auto simp: bind_eq_Some_conv)
    have "length r < length t"
    proof (cases "token CHR '','' t")
      case (Some u)
      with rest IH(3) [of d u] token_shorter [OF Some] show ?thesis by fastforce
    qed (use rest in \<open>auto dest: token_shorter\<close>)
    with IH(1) [OF parts(4)] token_shorter [OF parts(1)] scan_string_shorter [OF parts(2)] token_shorter [OF parts(3)]
    show ?case by simp
  }
qed simp_all

text \<open>More fuel than that changes nothing.\<close>

lemma fuel_enough:
  "2 * length s + 1 \<le> k \<Longrightarrow> pval (k + j) d s = pval k d s"
  "2 * length s + 2 \<le> k \<Longrightarrow> pelems (k + j) d s = pelems k d s"
  "2 * length s + 2 \<le> k \<Longrightarrow> pmembers (k + j) d s = pmembers k d s"
proof (induction k arbitrary: d s)
  case (Suc k)
  note IH = Suc.IH
  {
    case 1
    show ?case
    proof (cases "skip_ws s")
      case (Cons c t)
      then have "2 * length t + 2 \<le> k" using 1 skip_ws_length [of s] by simp
      then show ?thesis using IH(2,3) [of t] by (simp add: Cons split: option.split)
    qed simp
  next
    case 2
    then have v: "pval (k + j) d s = pval k d s" by (intro IH(1)) simp
    show ?case
    proof (cases "pval k d s")
      case (Some p)
      obtain v t where p: "p = (v, t)" by (cases p)
      have "pelems (k + j) d u = pelems k d u" if "token CHR '','' t = Some u" for u
        using 2 parser_shorter(1) [of k d s v t] token_shorter [OF that] Some p by (intro IH(2)) simp
      then show ?thesis by (simp add: v Some p split: option.split)
    qed (simp add: v)
  next
    case 3
    have "pval (k + j) d s3 = pval k d s3 \<and> (\<forall>v t u. pval k d s3 = Some (v, t) \<and> token CHR '','' t = Some u \<longrightarrow>
        pmembers (k + j) d u = pmembers k d u)"
      if "token dq s = Some s1" "scan_string s1 = Some (key, s2)" "token CHR '':'' s2 = Some s3" for s1 key s2 s3
    proof -
      have len: "length s3 < length s" using token_shorter [OF that(1)] scan_string_shorter [OF that(2)] token_shorter [OF that(3)] by simp
      have "pmembers (k + j) d u = pmembers k d u" if "pval k d s3 = Some (v, t)" "token CHR '','' t = Some u" for v t u
        using 3 len parser_shorter(1) [OF that(1)] token_shorter [OF that(2)] by (intro IH(3)) simp
      moreover have "pval (k + j) d s3 = pval k d s3" using 3 len by (intro IH(1)) simp
      ultimately show ?thesis by blast
    qed
    then show ?case by (auto intro!: Option.bind_cong split: option.split)
  }
qed simp_all

subsection \<open>Rendering and parsing\<close>

definition delimited :: "string \<Rightarrow> bool" where
  "delimited r \<longleftrightarrow> (case r of [] \<Rightarrow> True | c # _ \<Rightarrow> c \<in> {CHR '','', CHR '']'', CHR ''}''})"

definition raw_number :: "string \<Rightarrow> bool" where
  "raw_number n \<longleftrightarrow> (\<forall>r. delimited r \<longrightarrow> scan_number (n @ r) = Some (n, r))"

definition raw_string :: "string \<Rightarrow> bool" where
  "raw_string raw \<longleftrightarrow> (\<forall>r. scan_string (raw @ dq # r) = Some (raw, r))"

fun wf_val :: "nat \<Rightarrow> jval \<Rightarrow> bool" where
  "wf_val d VNull = True"
| "wf_val d (VBool b) = True"
| "wf_val d (VNum n) = raw_number n"
| "wf_val d (VStr raw) = raw_string raw"
| "wf_val d (VArr vs) = (0 < d \<and> (\<forall>v \<in> set vs. wf_val (d - 1) v))"
| "wf_val d (VObj ms) = (0 < d \<and> (\<forall>m \<in> set ms. raw_string (fst m) \<and> wf_val (d - 1) (snd m)))"

lemma skip_ws_Cons: "\<not> is_ws c \<Longrightarrow> skip_ws (c # s) = c # s"
  by (simp add: skip_ws_def)

lemma token_same: "\<not> is_ws c \<Longrightarrow> token c (c # s) = Some s"
  by (simp add: token_def skip_ws_Cons)

lemma token_other: "\<not> is_ws x \<Longrightarrow> x \<noteq> c \<Longrightarrow> token c (x # s) = None"
  by (simp add: token_def skip_ws_Cons expect_def)

text \<open>The first character of a rendered value.\<close>

lemma raw_number_hd:
  assumes "raw_number n"
  obtains c t where "n = c # t" and "c = CHR ''-'' \<or> digit_char c"
proof -
  have "scan_number (n @ []) = Some (n, [])" using assms by (simp only: raw_number_def delimited_def list.case simp_thms)
  then have "scan_number n = Some (n, [])" by simp
  then have "n \<noteq> []" "split_sign {CHR ''-''} n = ([], n) \<longrightarrow> scan_int n \<noteq> None"
    using scan_number_halves [of n n "[]"] by (auto simp: scan_number_def bind_eq_Some_conv)
  then obtain c t where n: "n = c # t" "c = CHR ''-'' \<or> scan_int (c # t) \<noteq> None"
    by (cases n) (auto simp: split_sign_def split: if_splits)
  have "digit_char CHR ''0''" by (simp add: digit_char_def digit_val_def)
  with n have "c = CHR ''-'' \<or> digit_char c" by (auto simp: scan_int_def split: if_splits)
  with n(1) show thesis by (rule that)
qed

definition starts_value :: "string \<Rightarrow> bool" where
  "starts_value s \<longleftrightarrow> (case s of [] \<Rightarrow> False | c # _ \<Rightarrow> \<not> is_ws c \<and> c \<notin> {CHR '']'', CHR ''}'', CHR '','', CHR '':''})"

lemma starts_value_digit: "digit_char c \<Longrightarrow> starts_value (c # s)"
  by (auto simp: starts_value_def is_ws_def digit_char_def digit_val_def)

lemma render_starts: "wf_val d v \<Longrightarrow> starts_value (render v @ r)"
  by (cases v) (auto simp: starts_value_def is_ws_def elim!: raw_number_hd dest: starts_value_digit)

lemma not_ws [simp]: "\<not> is_ws CHR '',''" "\<not> is_ws CHR '']''" "\<not> is_ws CHR ''}''" "\<not> is_ws CHR '':''" "\<not> is_ws dq"
  "\<not> is_ws CHR ''{''" "\<not> is_ws CHR ''[''"
  by (simp_all add: is_ws_def)

lemma token_before: "starts_value s \<Longrightarrow> c \<in> {CHR '']'', CHR ''}'', CHR '','', CHR '':''} \<Longrightarrow> token c s = None"
  by (cases s) (auto simp: starts_value_def token_other)

lemma pelems_render:
  assumes "\<And>v k r. v \<in> set vs \<Longrightarrow> delimited r \<Longrightarrow> 2 * length (render v) + 1 \<le> k \<Longrightarrow> pval k d (render v @ r) = Some (v, r)"
    and "vs \<noteq> []" and "2 * length (commas (map render vs)) + 2 \<le> k"
  shows "pelems k d (commas (map render vs) @ CHR '']'' # r) = Some (vs, r)"
  using assms
proof (induction vs arbitrary: k rule: induct_list012)
  case (2 v)
  then obtain k' where k: "k = Suc k'" by (cases k) auto
  have "pval k' d (render v @ CHR '']'' # r) = Some (v, CHR '']'' # r)"
    using "2.prems" by (intro "2.prems"(1)) (simp_all add: k delimited_def)
  then show ?case by (simp add: k token_same token_other)
next
  case (3 v w vs)
  then obtain k' where k: "k = Suc k'" by (cases k) auto
  let ?rest = "commas (map render (w # vs)) @ CHR '']'' # r"
  have "pval k' d (render v @ CHR '','' # ?rest) = Some (v, CHR '','' # ?rest)"
    using "3.prems" by (intro "3.prems"(1)) (simp_all add: k delimited_def)
  moreover have "pelems k' d ?rest = Some (w # vs, r)"
    using "3.prems" by (intro "3.IH"(2)) (simp_all add: k)
  ultimately show ?case by (simp add: k token_same)
qed simp

definition render_member :: "string \<times> jval \<Rightarrow> string" where
  "render_member m = dq # fst m @ dq # CHR '':'' # render (snd m)"

lemma pmember_render:
  assumes "raw_string (fst m)" and "pval k d (render (snd m) @ t) = Some (snd m, t)"
  shows "pmembers (Suc k) d (render_member m @ t) = (case token CHR '','' t of
        Some u \<Rightarrow> map_option (apfst (Cons m)) (pmembers k d u)
      | None \<Rightarrow> map_option (Pair [m]) (token CHR ''}'' t))"
  using assms by (cases m) (simp add: render_member_def raw_string_def token_same split: option.split)

lemma pmembers_render:
  assumes "\<And>m k r. m \<in> set ms \<Longrightarrow> delimited r \<Longrightarrow> 2 * length (render (snd m)) + 1 \<le> k \<Longrightarrow>
      pval k d (render (snd m) @ r) = Some (snd m, r)"
    and "\<And>m. m \<in> set ms \<Longrightarrow> raw_string (fst m)"
    and "ms \<noteq> []" and "2 * length (commas (map render_member ms)) + 2 \<le> k"
  shows "pmembers k d (commas (map render_member ms) @ CHR ''}'' # r) = Some (ms, r)"
  using assms
proof (induction ms arbitrary: k rule: induct_list012)
  case (2 m)
  then obtain k' where k: "k = Suc k'" by (cases k) auto
  have "pval k' d (render (snd m) @ CHR ''}'' # r) = Some (snd m, CHR ''}'' # r)"
    using "2.prems" by (intro "2.prems"(1)) (simp_all add: k delimited_def render_member_def)
  from pmember_render [OF _ this] "2.prems"(2) show ?case by (simp add: k token_same token_other)
next
  case (3 m n ms)
  then obtain k' where k: "k = Suc k'" by (cases k) auto
  let ?rest = "commas (map render_member (n # ms)) @ CHR ''}'' # r"
  have "pval k' d (render (snd m) @ CHR '','' # ?rest) = Some (snd m, CHR '','' # ?rest)"
    using "3.prems" by (intro "3.prems"(1)) (simp_all add: k delimited_def render_member_def)
  moreover have "pmembers k' d ?rest = Some (n # ms, r)"
    using "3.prems" by (intro "3.IH"(2)) (simp_all add: k render_member_def)
  ultimately show ?case using "3.prems"(2) by (simp add: k token_same pmember_render del: pmembers.simps(2))
qed simp

lemma pval_render:
  "wf_val d v \<Longrightarrow> delimited r \<Longrightarrow> 2 * length (render v) + 1 \<le> k \<Longrightarrow> pval k d (render v @ r) = Some (v, r)"
proof (induction v arbitrary: d k r)
  case VNull
  then obtain k' where "k = Suc k'" by (cases k) auto
  then show ?case by (simp add: skip_ws_Cons is_ws_def scalar_def literal_def CutPrefix_def HasPrefix_def digit_char_def digit_val_def)
next
  case (VBool b)
  then obtain k' where "k = Suc k'" by (cases k) auto
  then show ?case by (simp add: skip_ws_Cons is_ws_def scalar_def literal_def CutPrefix_def HasPrefix_def digit_char_def digit_val_def)
next
  case (VNum n)
  then obtain k' where k: "k = Suc k'" by (cases k) auto
  from VNum have n: "scan_number (n @ r) = Some (n, r)" by (simp add: raw_number_def)
  obtain c t where c: "n = c # t" "c = CHR ''-'' \<or> digit_char c" using VNum(1) by (auto elim: raw_number_hd)
  then have "\<not> is_ws c" "c \<noteq> CHR ''{''" "c \<noteq> CHR ''[''" "c \<noteq> dq"
    by (auto simp: is_ws_def digit_char_def digit_val_def)
  then show ?case using n c by (simp add: k skip_ws_Cons scalar_def)
next
  case (VStr raw)
  then obtain k' where "k = Suc k'" by (cases k) auto
  then show ?case using VStr(1) by (simp add: skip_ws_Cons scalar_def raw_string_def)
next
  case (VArr vs)
  then obtain k' d' where k: "k = Suc k'" "d = Suc d'" by (cases k; cases d) auto
  show ?case
  proof (cases "vs = []")
    case False
    then obtain v ws where vs: "vs = v # ws" by (cases vs) auto
    have "pelems k' d' (commas (map render vs) @ CHR '']'' # r) = Some (vs, r)"
      using VArr False by (intro pelems_render) (auto simp: k)
    moreover have "starts_value (commas (map render vs) @ CHR '']'' # r)"
      using VArr(2) render_starts [of d' v] by (cases ws) (simp_all add: k vs)
    ultimately show ?thesis by (simp add: k skip_ws_Cons token_before)
  qed (simp add: k skip_ws_Cons token_same)
next
  case (VObj ms)
  then obtain k' d' where k: "k = Suc k'" "d = Suc d'" by (cases k; cases d) auto
  have r: "render (VObj ms) = CHR ''{'' # commas (map render_member ms) @ ''}''" by (simp add: render_member_def [abs_def])
  show ?case
  proof (cases "ms = []")
    case False
    then obtain m ns where ms: "ms = m # ns" by (cases ms) auto
    have IH: "pval j d' (render (snd m) @ t) = Some (snd m, t)"
      if "m \<in> set ms" "delimited t" "2 * length (render (snd m)) + 1 \<le> j" for m j t
      using that VObj(1) [of m "snd m" d' t j] VObj(2) by (auto simp: k snds.simps)
    have "pmembers k' d' (commas (map render_member ms) @ CHR ''}'' # r) = Some (ms, r)"
      using VObj(2,4) False unfolding r by (intro pmembers_render IH) (auto simp: k)
    moreover have "starts_value (commas (map render_member ms) @ CHR ''}'' # r)"
      by (cases ns) (simp_all add: ms render_member_def starts_value_def)
    ultimately show ?thesis unfolding r by (simp add: k skip_ws_Cons token_before)
  qed (simp add: k skip_ws_Cons token_same)
qed

text \<open>A well-formed value that is rendered is parsed back.\<close>

lemma parse_render: "wf_val maxNestingDepth v \<Longrightarrow> parse_json (render v) = Some v"
  using pval_render [of maxNestingDepth v "[]" "2 * length (render v) + 1"]
  by (simp add: parse_json_def delimited_def skip_ws_def)

end
