(* ===== verification/Wire.thy ===== *)
theory Wire
  imports Events Token Json_Values "HOL-Library.AList" "HOL-Library.List_Lexorder" "HOL-Library.Char_ord"
begin

text \<open>
  Envelopes on the wire, \<open>Marshal\<close> and \<open>Unmarshal\<close> of \<open>internal/events/events.go\<close>, through the encoder
  and the decoder of \<open>encoding/json\<close>: what a worker publishes, what an API replica reads from Redis
  and what it writes to the socket. Parameters are the text of UUIDs (\<open>google/uuid\<close>) and \<open>num\<close>, the
  text in which a number literal comes back after it was held as a \<open>float64\<close> (\<open>None\<close>: out of range).
  An offset of a time is read but not kept (every writer uses UTC), and a nil map is an empty one (no
  frame is published without data).
\<close>

subsection \<open>Encoding\<close>

text \<open>\<open>compact\<close> escapes the HTML characters and the line separators of a raw message.\<close>

function html_escape :: "string \<Rightarrow> string" where
  "html_escape [] = []"
| "html_escape (c # s) =
     (if c \<in> {CHR ''<'', CHR ''>'', CHR ''&''} then escape c @ html_escape s
      else if HasPrefix (c # s) (utf8_encode 8232) then bs # ''u2028'' @ html_escape (drop 2 s)
      else if HasPrefix (c # s) (utf8_encode 8233) then bs # ''u2029'' @ html_escape (drop 2 s)
      else c # html_escape s)"
  by pat_completeness auto
termination html_escape by (relation "measure length") auto

fun compact :: "jval \<Rightarrow> jval" where
  "compact (VStr raw) = VStr (html_escape raw)"
| "compact (VArr vs) = VArr (map compact vs)"
| "compact (VObj ms) = VObj (map (\<lambda>m. (html_escape (fst m), compact (snd m))) ms)"
| "compact v = v"

text \<open>The keys of a map are written in the order of their bytes.\<close>

fun encode :: "json \<Rightarrow> jval option" where
  "encode JNull = Some VNull"
| "encode (JBool b) = Some (VBool b)"
| "encode (JInt n) = Some (VNum (FormatInt n))"
| "encode (JFloat n) = Some (VNum n)"
| "encode (JStr s) = Some (VStr (quote s))"
| "encode (JTime t) = map_option VStr (format_time t)"
| "encode (JRaw raw) = (if raw = [] then Some VNull else map_option compact (parse_json raw))"
| "encode (JArr js) = map_option VArr (those (map encode js))"
| "encode (JObj kvs) = map_option (\<lambda>ms. VObj (map (apfst quote) (sort_key fst ms)))
     (those (map (\<lambda>kv. map_option (Pair (fst kv)) (encode (snd kv))) kvs))"

definition envelope_value :: "uuid_lib \<Rightarrow> Envelope \<Rightarrow> jval option" where
  "envelope_value ids e = do {
     t \<leftarrow> format_time (env_OccurredAt e);
     data \<leftarrow> encode (JObj (env_Data e));
     Some (VObj [(''seq'', VNum (FormatInt (Seq e))), (''type'', VStr (quote (type_text (env_Type e)))),
       (''instance_id'', VStr (quote (id_String ids (env_InstanceID e)))),
       (''generation'', VNum (FormatInt (env_Generation e))), (''occurred_at'', VStr t), (''data'', data)]) }"

definition Marshal :: "uuid_lib \<Rightarrow> Envelope \<Rightarrow> string option" where
  "Marshal ids e = map_option render (envelope_value ids e)"

subsection \<open>Writing to the socket\<close>

text \<open>
  A frame that cannot be encoded closes the socket; otherwise the connection, a parameter,
  takes the payload or fails.
\<close>

datatype socket_write = EncodeFailed | WriteFailed string | Written string

definition write_frame :: "uuid_lib \<Rightarrow> (string \<Rightarrow> bool) \<Rightarrow> Envelope \<Rightarrow> socket_write" where
  "write_frame ids conn_Write e = (case Marshal ids e of
       None \<Rightarrow> EncodeFailed
     | Some payload \<Rightarrow> if conn_Write payload then Written payload else WriteFailed payload)"

subsection \<open>Decoding\<close>

text \<open>A later member replaces an earlier one of the same key.\<close>

fun put_all :: "(string \<times> json) list \<Rightarrow> (string \<times> json) list \<Rightarrow> (string \<times> json) list" where
  "put_all m [] = m"
| "put_all m ((k, v) # kvs) = put_all (AList.update k v m) kvs"

fun decode_any :: "(string \<Rightarrow> string option) \<Rightarrow> jval \<Rightarrow> json option" where
  "decode_any num VNull = Some JNull"
| "decode_any num (VBool b) = Some (JBool b)"
| "decode_any num (VNum n) = map_option JFloat (num n)"
| "decode_any num (VStr raw) = Some (JStr (unquote raw))"
| "decode_any num (VArr vs) = map_option JArr (those (map (decode_any num) vs))"
| "decode_any num (VObj ms) = map_option (\<lambda>kvs. JObj (put_all [] kvs))
     (those (map (\<lambda>m. map_option (Pair (unquote (fst m))) (decode_any num (snd m))) ms))"

text \<open>
  A member goes to the field of that name, or else to the one that differs only in case. Two letters
  outside ASCII fold to ASCII ones: the long s and the sign of the kelvin.
\<close>

function fold_name :: "string \<Rightarrow> string" where
  "fold_name [] = []"
| "fold_name (c # s) = (if HasPrefix (c # s) (utf8_encode 383) then CHR ''s'' # fold_name (drop 1 s)
     else if HasPrefix (c # s) (utf8_encode 8490) then CHR ''k'' # fold_name (drop 2 s)
     else lower_char c # fold_name s)"
  by pat_completeness auto
termination fold_name by (relation "measure length") auto

definition envelope_fields :: "string list" where
  "envelope_fields = [''seq'', ''type'', ''instance_id'', ''generation'', ''occurred_at'', ''data'']"

definition field_named :: "string list \<Rightarrow> string \<Rightarrow> string option" where
  "field_named names key = (if key \<in> set names then Some key else find (\<lambda>n. n = fold_name key) names)"

text \<open>\<open>null\<close> leaves a field as it is (a map becomes nil); a value of another kind is an error.\<close>

definition int_field :: "jval \<Rightarrow> int \<Rightarrow> int option" where
  "int_field v old = (case v of VNull \<Rightarrow> Some old | VNum n \<Rightarrow> ParseInt64 n | _ \<Rightarrow> None)"

definition known_types :: "Type list" where
  "known_types = [TypeStateSnapshot, TypePairingCode, TypePairingSucceed, TypePairingExpired, TypePairingFailed, TypeConnected,
     TypeDisconnected, TypeLoggedOut, TypeBanned, TypeNumberChanged, TypePairingPasskeyChallenge, TypePairingPasskeyCode]"

definition type_of_text :: "string \<Rightarrow> Type" where
  "type_of_text s = (case find (\<lambda>t. type_text t = s) known_types of Some t \<Rightarrow> t | None \<Rightarrow> OtherType s)"

definition set_field ::
  "uuid_lib \<Rightarrow> (string \<Rightarrow> string option) \<Rightarrow> string \<Rightarrow> jval \<Rightarrow> Envelope \<Rightarrow> Envelope option" where
  "set_field ids num name v e =
     (if name = ''seq'' then map_option (\<lambda>n. e\<lparr>Seq := n\<rparr>) (int_field v (Seq e))
      else if name = ''generation'' then map_option (\<lambda>n. e\<lparr>env_Generation := n\<rparr>) (int_field v (env_Generation e))
      else if name = ''type'' then (case v of VNull \<Rightarrow> Some e | VStr raw \<Rightarrow> Some (e\<lparr>env_Type := type_of_text (unquote raw)\<rparr>) | _ \<Rightarrow> None)
      else if name = ''instance_id'' then (case v of VNull \<Rightarrow> Some e
          | VStr raw \<Rightarrow> map_option (\<lambda>i. e\<lparr>env_InstanceID := i\<rparr>) (parseUUID ids (unquote raw)) | _ \<Rightarrow> None)
      else if name = ''occurred_at'' then (case v of VNull \<Rightarrow> Some e
          | VStr raw \<Rightarrow> map_option (\<lambda>t. e\<lparr>env_OccurredAt := t\<rparr>) (parse_time raw) | _ \<Rightarrow> None)
      else (case v of VNull \<Rightarrow> Some (e\<lparr>env_Data := []\<rparr>)
          | VObj ms \<Rightarrow> map_option (\<lambda>kvs. e\<lparr>env_Data := put_all (env_Data e) kvs\<rparr>)
              (those (map (\<lambda>m. map_option (Pair (unquote (fst m))) (decode_any num (snd m))) ms))
          | _ \<Rightarrow> None))"

fun set_fields ::
  "uuid_lib \<Rightarrow> (string \<Rightarrow> string option) \<Rightarrow> (string \<times> jval) list \<Rightarrow> Envelope \<Rightarrow> Envelope option" where
  "set_fields ids num [] e = Some e"
| "set_fields ids num (m # ms) e = (case field_named envelope_fields (unquote (fst m)) of
       None \<Rightarrow> set_fields ids num ms e
     | Some name \<Rightarrow> (case set_field ids num name (snd m) e of None \<Rightarrow> None | Some e' \<Rightarrow> set_fields ids num ms e'))"

text \<open>The zero envelope carries \<open>uuid.Nil\<close>.\<close>

definition zero_envelope :: "uuid_lib \<Rightarrow> Envelope" where
  "zero_envelope ids = \<lparr>Seq = 0, env_Type = OtherType [],
     env_InstanceID = (case parseUUID ids ''00000000-0000-0000-0000-000000000000'' of Some i \<Rightarrow> i | None \<Rightarrow> 0),
     env_Generation = 0, env_OccurredAt = zero_time, env_Data = []\<rparr>"

definition Unmarshal :: "uuid_lib \<Rightarrow> (string \<Rightarrow> string option) \<Rightarrow> string \<Rightarrow> Envelope option" where
  "Unmarshal ids num raw = (case parse_json raw of
       Some VNull \<Rightarrow> Some (zero_envelope ids)
     | Some (VObj ms) \<Rightarrow> set_fields ids num ms (zero_envelope ids)
     | _ \<Rightarrow> None)"

subsection \<open>Text that is written as it is\<close>

definition plain_char :: "char \<Rightarrow> bool" where
  "plain_char c \<longleftrightarrow> 32 \<le> byte c \<and> byte c < 128 \<and> c \<notin> {dq, bs, CHR ''<'', CHR ''>'', CHR ''&''}"

definition plain_text :: "string \<Rightarrow> bool" where
  "plain_text s \<longleftrightarrow> list_all plain_char s"

lemma escape_plain: "plain_char c \<Longrightarrow> escape c = [c]"
proof -
  assume c: "plain_char c"
  have low: "c \<noteq> x" if "byte x < 32" for x using that c by (auto simp: plain_char_def)
  have "c \<noteq> CHR 0x08" "c \<noteq> CHR 0x0C" "c \<noteq> CHR 0x0A" "c \<noteq> CHR 0x0D" "c \<noteq> CHR 0x09"
    by (rule low, simp add: byte_def)+
  moreover have "c \<noteq> dq" "c \<noteq> bs" using c by (simp_all add: plain_char_def)
  ultimately have "find (\<lambda>p. c = snd p \<and> c \<noteq> CHR ''/'') short_escapes = None" unfolding short_escapes_def by simp
  with c show "escape c = [c]" by (auto simp: escape_def plain_char_def)
qed

lemma ascii_width: "byte c < 128 \<Longrightarrow> rune_width (c # s) = 1"
  by (simp add: rune_width_def continuation_def)

lemma plain_runes: "plain_text s \<Longrightarrow> runes s = map (\<lambda>c. [c]) s"
  by (induction s) (simp_all add: plain_text_def plain_char_def ascii_width)

lemma plain_quote: "plain_text s \<Longrightarrow> valid_utf8 s \<and> quote s = s"
proof -
  assume p: "plain_text s"
  have "valid_utf8 s" using p by (simp add: valid_utf8_def plain_runes list_all_iff valid_rune_def ascii_width plain_text_def plain_char_def)
  moreover have "quote_rune [c] = [c]" if "plain_char c" for c
    using that escape_plain [OF that] by (simp add: quote_rune_def plain_char_def)
  then have "concat (map quote_rune (map (\<lambda>c. [c]) s)) = s" using p
    by (induction s) (simp_all add: plain_text_def)
  then have "quote s = s" using p by (simp add: quote_def plain_runes)
  ultimately show "valid_utf8 s \<and> quote s = s" ..
qed

lemma plain_unquote: "plain_text s \<Longrightarrow> unquote s = s"
  using plain_quote [of s] unquote_quote [of s] by simp

lemma plain_html_escape: "plain_text s \<Longrightarrow> html_escape s = s"
proof (induction s)
  case (Cons c s)
  have wide: "\<exists>h t. utf8_encode r = h # t \<and> 128 \<le> byte h" if "r = 8232 \<or> r = 8233" for r
    using that by (elim disjE) (simp_all add: utf8_encode_def byte_def)
  have c: "byte c < 128" "c \<notin> {CHR ''<'', CHR ''>'', CHR ''&''}" using Cons.prems by (simp_all add: plain_text_def plain_char_def)
  have "\<not> HasPrefix (c # s) (utf8_encode r)" if "r = 8232 \<or> r = 8233" for r
    using wide [OF that] c(1) by (auto simp: HasPrefix_iff)
  then show ?case using Cons c(2) by (simp add: plain_text_def)
qed simp

lemma digit_plain: "digit_char c \<Longrightarrow> plain_char c"
  by (auto simp: digit_char_def digit_val_def plain_char_def byte_def Let_def split: if_splits)

lemma pad_plain: "plain_text (pad w n)"
  using all_digits_pad [of w n] by (auto simp: plain_text_def list_all_iff all_digits_def intro!: digit_plain simp: digit_char_def)

lemma fraction_plain: "plain_text (fraction n)"
proof -
  have "set (rev (dropWhile (\<lambda>c. c = CHR ''0'') (rev (pad 9 n)))) \<subseteq> set (pad 9 n)"
    using set_dropWhileD [of _ "\<lambda>c. c = CHR ''0''" "rev (pad 9 n)"] by auto
  then have "\<forall>c \<in> set (rev (dropWhile (\<lambda>c. c = CHR ''0'') (rev (pad 9 n)))). plain_char c"
    using pad_plain [of 9 n] by (auto simp: plain_text_def list_all_iff simp del: set_rev)
  moreover have "plain_char CHR ''.''" by (simp add: plain_char_def byte_def)
  ultimately show ?thesis unfolding fraction_def plain_text_def by (simp add: list_all_iff)
qed

lemma format_time_plain: "format_time t = Some s \<Longrightarrow> plain_text s"
proof -
  have append: "plain_text (a @ b) \<longleftrightarrow> plain_text a \<and> plain_text b" for a b by (simp add: plain_text_def)
  have one: "plain_text ''-''" "plain_text ''T''" "plain_text '':''" "plain_text ''Z''" by (simp_all add: plain_text_def plain_char_def byte_def)
  assume "format_time t = Some s"
  then show "plain_text s" unfolding format_time_def Let_def
    by (simp only: append one pad_plain fraction_plain simp_thms option.inject option.distinct split: if_splits prod.splits)
      (metis append fraction_plain one pad_plain)
qed

subsection \<open>Number literals\<close>

lemma digits_nat_chars: "\<forall>c \<in> set (digits_nat n). digit_char c"
  using parse_digits_all [OF parse_digits_digits_nat [of n]] by (simp add: all_digits_def digit_char_def)

lemma digits_nat_leading: "n \<noteq> 0 \<Longrightarrow> hd (digits_nat n) \<noteq> CHR ''0''"
proof (induction n rule: digits_nat.induct)
  case (1 n)
  show ?case
  proof (cases "n < 10")
    case True
    with "1.prems" have "digit_val (char_of (48 + n)) \<noteq> digit_val CHR ''0''" by (simp add: digit_val_char) (simp add: digit_val_def)
    with True show ?thesis by (subst digits_nat.simps) auto
  next
    case False
    then have "hd (digits_nat n) = hd (digits_nat (n div 10))" by (subst digits_nat.simps) simp
    with "1.IH" [OF False] False show ?thesis by simp
  qed
qed

lemma delimited_after:
  assumes "delimited r"
  shows "scan_frac r = Some ([], r)" and "scan_exp r = Some ([], r)" and "takeWhile digit_char r = []"
  using assms by (auto simp: delimited_def scan_frac_def scan_exp_def digit_char_def digit_val_def split: list.splits)

lemma scan_int_digits:
  assumes "delimited r"
  shows "scan_int (digits_nat n @ r) = Some (digits_nat n, r)"
proof (cases "n = 0")
  case True
  have "char_of (48 :: nat) = CHR ''0''" by code_simp
  with True show ?thesis by (simp add: scan_int_def digits_nat.simps [of 0])
next
  case False
  obtain c t where d: "digits_nat n = c # t" by (cases "digits_nat n") auto
  have "takeWhile digit_char (digits_nat n @ r) = digits_nat n" "dropWhile digit_char (digits_nat n @ r) = r"
    using digits_nat_chars [of n] delimited_after(3) [OF assms] by (auto simp: takeWhile_append2 dropWhile_append2 dropWhile_eq_self_iff takeWhile_eq_Nil_iff)
  moreover have "c \<noteq> CHR ''0''" "digit_char c" using digits_nat_leading [OF False] digits_nat_chars [of n] by (auto simp: d)
  ultimately show ?thesis by (simp add: d scan_int_def)
qed

lemma raw_number_FormatInt: "raw_number (FormatInt n)"
  unfolding raw_number_def
proof (intro allI impI)
  fix r assume r: "delimited r"
  obtain c t where d: "digits_nat (nat n) = c # t" by (cases "digits_nat (nat n)") auto
  then have "c \<noteq> CHR ''-''" using digits_nat_no_sign [of "nat n"] by simp
  then have "split_sign {CHR ''-''} (digits_nat (nat n) @ r) = ([], digits_nat (nat n) @ r)" by (simp add: d split_sign_def)
  then show "scan_number (FormatInt n @ r) = Some (FormatInt n, r)"
    using scan_int_digits [OF r] delimited_after [OF r]
    by (cases "n < 0") (simp_all add: scan_number_def FormatInt_def split_sign_def)
qed

subsection \<open>What comes back\<close>

text \<open>Payloads of strings, booleans, times and nested maps, with text in UTF-8, at most \<open>d\<close> levels deep.\<close>

fun portable :: "nat \<Rightarrow> json \<Rightarrow> bool" where
  "portable d JNull = True"
| "portable d (JBool b) = True"
| "portable d (JStr s) = valid_utf8 s"
| "portable d (JTime t) = (format_time t \<noteq> None)"
| "portable d (JArr js) = (0 < d \<and> (\<forall>j \<in> set js. portable (d - 1) j))"
| "portable d (JObj kvs) = (0 < d \<and> distinct (map fst kvs) \<and>
     (\<forall>kv \<in> set kvs. valid_utf8 (fst kv) \<and> portable (d - 1) (snd kv)))"
| "portable d (JInt n) = False"
| "portable d (JFloat n) = False"
| "portable d (JRaw s) = False"

text \<open>How the reader of a frame holds it: times as text, keys in order.\<close>

fun relayed :: "json \<Rightarrow> json" where
  "relayed (JTime t) = (case format_time t of Some s \<Rightarrow> JStr s | None \<Rightarrow> JNull)"
| "relayed (JArr js) = JArr (map relayed js)"
| "relayed (JObj kvs) = JObj (sort_key fst (map (\<lambda>kv. (fst kv, relayed (snd kv))) kvs))"
| "relayed j = j"

lemma update_new: "k \<notin> fst ` set m \<Longrightarrow> AList.update k v m = m @ [(k, v)]"
  by (induction m) auto

lemma put_all_new: "distinct (map fst (m @ kvs)) \<Longrightarrow> put_all m kvs = m @ kvs"
proof (induction kvs arbitrary: m)
  case (Cons kv kvs)
  obtain k v where kv: "kv = (k, v)" by (cases kv)
  have "AList.update k v m = m @ [(k, v)]" using Cons.prems by (intro update_new) (auto simp: kv)
  then show ?case using Cons.IH [of "m @ [(k, v)]"] Cons.prems by (simp add: kv)
qed simp

lemma those_Some: "(\<And>x. x \<in> set xs \<Longrightarrow> f x = Some (g x)) \<Longrightarrow> those (map f xs) = Some (map g xs)"
  by (induction xs) auto

lemma sort_by_key_map: "sort_key fst (map (\<lambda>kv. (fst kv, h kv)) kvs) = map (\<lambda>kv. (fst kv, h kv)) (sort_key fst kvs)"
proof -
  have "insort_key fst (fst kv, h kv) (map (\<lambda>kv. (fst kv, h kv)) xs) = map (\<lambda>kv. (fst kv, h kv)) (insort_key fst kv xs)" for kv xs
    by (induction xs) auto
  then show ?thesis by (induction kvs) auto
qed

lemma raw_string_quote: "valid_utf8 s \<Longrightarrow> raw_string (quote s)"
  by (simp add: raw_string_def scan_quote)

lemma raw_string_plain: "plain_text s \<Longrightarrow> raw_string s"
  using raw_string_quote plain_quote by metis

text \<open>A value as the encoder writes it.\<close>

definition written :: "json \<Rightarrow> jval" where
  "written j = the (encode j)"

definition faithful :: "(string \<Rightarrow> string option) \<Rightarrow> nat \<Rightarrow> json \<Rightarrow> bool" where
  "faithful num d j \<longleftrightarrow> encode j = Some (written j) \<and> wf_val d (written j) \<and>
     decode_any num (written j) = Some (relayed j) \<and> encode (relayed j) = Some (written j)"

lemma faithful_object:
  assumes "\<forall>kv \<in> set kvs. valid_utf8 (fst kv) \<and> faithful num d (snd kv)" and "distinct (map fst kvs)"
  shows "faithful num (Suc d) (JObj kvs)"
proof -
  let ?kvs = "sort_key fst kvs"
  let ?v = "VObj (map (\<lambda>kv. (quote (fst kv), written (snd kv))) ?kvs)"
  have ok: "\<forall>kv \<in> set ?kvs. valid_utf8 (fst kv) \<and> faithful num d (snd kv)" using assms(1) by simp
  have "those (map (\<lambda>kv. map_option (Pair (fst kv)) (encode (snd kv))) kvs) = Some (map (\<lambda>kv. (fst kv, written (snd kv))) kvs)"
    using assms(1) by (intro those_Some) (simp add: faithful_def)
  then have enc: "encode (JObj kvs) = Some ?v" by (simp add: sort_by_key_map [where h = "\<lambda>kv. written (snd kv)"] comp_def)
  then have w: "written (JObj kvs) = ?v" by (simp only: written_def [of "JObj kvs"] option.sel)
  have rel: "relayed (JObj kvs) = JObj (map (\<lambda>kv. (fst kv, relayed (snd kv))) ?kvs)"
    by (simp add: sort_by_key_map [where h = "\<lambda>kv. relayed (snd kv)"])
  have "those (map (\<lambda>kv. map_option (Pair (unquote (quote (fst kv)))) (decode_any num (written (snd kv)))) ?kvs) =
      Some (map (\<lambda>kv. (fst kv, relayed (snd kv))) ?kvs)"
    using ok by (intro those_Some) (auto simp: faithful_def unquote_quote)
  moreover have keys: "distinct (map fst ?kvs)" using assms(2) by (metis distinct_map distinct_sort set_sort)
  then have "put_all [] (map (\<lambda>kv. (fst kv, relayed (snd kv))) ?kvs) = map (\<lambda>kv. (fst kv, relayed (snd kv))) ?kvs"
    by (subst put_all_new) (simp_all add: comp_def)
  ultimately have dec: "decode_any num ?v = Some (relayed (JObj kvs))" unfolding rel by (simp add: comp_def)
  have "those (map (\<lambda>kv. map_option (Pair (fst kv)) (encode (relayed (snd kv)))) ?kvs) = Some (map (\<lambda>kv. (fst kv, written (snd kv))) ?kvs)"
    using ok by (intro those_Some) (auto simp: faithful_def)
  then have "encode (relayed (JObj kvs)) = Some ?v" unfolding rel
    by (simp add: comp_def sort_by_key_map [where h = "\<lambda>kv. written (snd kv)"] sort_key_id_if_sorted)
  moreover have "wf_val (Suc d) ?v" using ok by (auto simp: faithful_def raw_string_quote)
  ultimately show ?thesis unfolding faithful_def w using enc dec by blast
qed

lemma portable_faithful: "portable d j \<Longrightarrow> faithful num d j"
proof (induction j arbitrary: d)
  case (JStr s)
  then show ?case by (simp add: faithful_def written_def raw_string_quote unquote_quote)
next
  case (JTime t)
  then obtain s where s: "format_time t = Some s" by auto
  note p = format_time_plain [OF s]
  show ?case using s plain_quote [OF p] plain_unquote [OF p] raw_string_plain [OF p] by (simp add: faithful_def written_def)
next
  case (JArr js)
  then obtain d' where d: "d = Suc d'" by (cases d) auto
  have ok: "\<forall>j \<in> set js. faithful num d' j" using JArr by (auto simp: d)
  then have "those (map encode js) = Some (map written js)" "those (map (\<lambda>j. encode (relayed j)) js) = Some (map written js)"
    "those (map (\<lambda>j. decode_any num (written j)) js) = Some (map relayed js)"
    by (auto intro!: those_Some simp: faithful_def)
  then show ?case using ok by (auto simp: faithful_def written_def [of "JArr js"] comp_def d)
next
  case (JObj kvs)
  then obtain d' where d: "d = Suc d'" by (cases d) auto
  have "faithful num d' (snd kv)" if "kv \<in> set kvs" for kv
    using that JObj(1) [of kv "snd kv" d'] JObj(2) by (auto simp: d snds.simps)
  then show ?case using JObj(2) unfolding d by (intro faithful_object) auto
qed (auto simp: faithful_def written_def)

subsection \<open>Envelopes come back\<close>

definition wire_ok :: "uuid_lib \<Rightarrow> Envelope \<Rightarrow> bool" where
  "wire_ok ids e \<longleftrightarrow> - (2 ^ 63) \<le> Seq e \<and> Seq e < 2 ^ 63 \<and> - (2 ^ 63) \<le> env_Generation e \<and> env_Generation e < 2 ^ 63 \<and>
     env_Type e \<in> set known_types \<and> valid_utf8 (id_String ids (env_InstanceID e)) \<and>
     parseUUID ids (id_String ids (env_InstanceID e)) = Some (env_InstanceID e) \<and>
     format_time (env_OccurredAt e) \<noteq> None \<and> portable (maxNestingDepth - 1) (JObj (env_Data e))"

definition relayed_envelope :: "Envelope \<Rightarrow> Envelope" where
  "relayed_envelope e = e\<lparr>env_Data := (case relayed (JObj (env_Data e)) of JObj kvs \<Rightarrow> kvs | _ \<Rightarrow> [])\<rparr>"

lemma known_types_round: "list_all (\<lambda>t. type_of_text (type_text t) = t \<and> plain_text (type_text t)) known_types"
  by code_simp

lemma type_round: "t \<in> set known_types \<Longrightarrow> type_of_text (type_text t) = t \<and> plain_text (type_text t)"
  using known_types_round unfolding list_all_iff by blast

lemma field_names_round: "list_all (\<lambda>n. plain_text n \<and> field_named envelope_fields n = Some n) envelope_fields"
  by code_simp

lemma field_names: "n \<in> set envelope_fields \<Longrightarrow> plain_text n \<and> field_named envelope_fields n = Some n"
  using field_names_round unfolding list_all_iff by blast

lemma set_fields_Cons:
  assumes "n \<in> set envelope_fields"
  shows "set_fields ids num ((n, v) # ms) e = Option.bind (set_field ids num n v e) (set_fields ids num ms)"
  using field_names [OF assms] plain_unquote [of n] by (simp split: option.splits)

lemma data_object:
  assumes "portable d (JObj kvs)"
  obtains ms where "written (JObj kvs) = VObj ms"
    and "\<And>e. env_Data e = [] \<Longrightarrow> set_field ids num ''data'' (VObj ms) e =
      Some (e\<lparr>env_Data := (case relayed (JObj kvs) of JObj r \<Rightarrow> r | _ \<Rightarrow> [])\<rparr>)"
proof -
  note f = portable_faithful [OF assms, of num, unfolded faithful_def]
  from f obtain ms where w: "written (JObj kvs) = VObj ms" by (auto simp del: relayed.simps) metis
  obtain r where "relayed (JObj kvs) = JObj r" by simp
  moreover have "decode_any num (VObj ms) = Some (relayed (JObj kvs))" using f by (simp add: w)
  ultimately have "set_field ids num ''data'' (VObj ms) e = Some (e\<lparr>env_Data := r\<rparr>)" if "env_Data e = []" for e
    using that by (auto simp: set_field_def)
  with that [OF w] \<open>relayed (JObj kvs) = JObj r\<close> show ?thesis by simp
qed

definition members :: "uuid_lib \<Rightarrow> Envelope \<Rightarrow> string \<Rightarrow> (string \<times> jval) list" where
  "members ids e t = [(''seq'', VNum (FormatInt (Seq e))), (''type'', VStr (type_text (env_Type e))),
     (''instance_id'', VStr (quote (id_String ids (env_InstanceID e)))), (''generation'', VNum (FormatInt (env_Generation e))),
     (''occurred_at'', VStr t), (''data'', written (JObj (env_Data e)))]"

lemma members_written:
  assumes "wire_ok ids e"
  obtains t where "format_time (env_OccurredAt e) = Some t" and "envelope_value ids e = Some (VObj (members ids e t))"
    and "envelope_value ids (relayed_envelope e) = Some (VObj (members ids e t))"
    and "wf_val maxNestingDepth (VObj (members ids e t))"
proof -
  from assms obtain t where t: "format_time (env_OccurredAt e) = Some t" by (auto simp: wire_ok_def)
  from assms have "portable (maxNestingDepth - 1) (JObj (env_Data e))" by (simp add: wire_ok_def)
  note f = portable_faithful [OF this, of "\<lambda>n. None", unfolded faithful_def]
  have q: "quote (type_text (env_Type e)) = type_text (env_Type e)"
    using assms type_round plain_quote by (auto simp: wire_ok_def)
  have v: "envelope_value ids e = Some (VObj (members ids e t))"
    unfolding envelope_value_def members_def using t f q by (simp del: encode.simps)
  obtain r where r: "relayed (JObj (env_Data e)) = JObj r" by simp
  have "envelope_value ids (relayed_envelope e) = Some (VObj (members ids e t))"
    unfolding envelope_value_def members_def using t f q r by (simp add: relayed_envelope_def del: encode.simps relayed.simps)
  moreover have "wf_val maxNestingDepth (VObj (members ids e t))"
  proof -
    have "raw_string n" if "n \<in> set envelope_fields" for n using field_names [OF that] raw_string_plain by blast
    moreover have "raw_string (type_text (env_Type e))" "raw_string t" "raw_string (quote (id_String ids (env_InstanceID e)))"
      using assms type_round format_time_plain [OF t] raw_string_plain raw_string_quote by (auto simp: wire_ok_def)
    ultimately show ?thesis using f by (simp add: members_def envelope_fields_def raw_number_FormatInt maxNestingDepth_def)
  qed
  ultimately show ?thesis using that t v by blast
qed


definition demo_code :: Envelope where
  "demo_code = \<lparr>Seq = 3, env_Type = TypePairingCode, env_InstanceID = 7, env_Generation = 2, env_OccurredAt = 86400 * second + 500,
     env_Data = [(''method'', JStr ''qr''), (''code'', JStr (''2@<'' @ dq # ''>'')), (''expires_at'', JTime (second * 90000))]\<rparr>"


subsection \<open>A relayed challenge\<close>

text \<open>
  A raw message is no such payload: the challenge of a passkey leaves the worker with its members as
  they were, and the replica writes them in the order of their keys.
\<close>

definition demo_challenge :: jval where
  "demo_challenge = VObj [(''rp'', VNull), (''id'', VBool True)]"

lemma challenge_is_reordered:
  "encode (JRaw (render demo_challenge)) = Some demo_challenge \<and>
   Option.bind (Option.bind (encode (JRaw (render demo_challenge))) (decode_any num)) encode = Some (VObj [(''id'', VBool True), (''rp'', VNull)])"
proof -
  have plain: "plain_text ''rp''" "plain_text ''id''" by code_simp+
  then have "wf_val maxNestingDepth demo_challenge" by (simp add: demo_challenge_def raw_string_plain maxNestingDepth_def)
  moreover have "compact demo_challenge = demo_challenge" using plain by (simp add: demo_challenge_def plain_html_escape del: html_escape.simps)
  moreover have "render demo_challenge \<noteq> []" by (simp add: demo_challenge_def)
  ultimately have enc: "encode (JRaw (render demo_challenge)) = Some demo_challenge" using parse_render by simp
  have order: "sort_key fst [(''rp'', VNull), (''id'', VBool True)] = [(''id'', VBool True), (''rp'', VNull)]" by code_simp
  have "decode_any num demo_challenge = Some (JObj [(''rp'', JNull), (''id'', JBool True)])"
    using plain by (simp add: demo_challenge_def plain_unquote del: unquote.simps)
  then show ?thesis using enc plain plain_quote order by (simp del: sort_key_simps)
qed

subsection \<open>Names on the bus\<close>

definition Channel :: "uuid_lib \<Rightarrow> ID \<Rightarrow> string" where
  "Channel ids i = ''events:'' @ id_String ids i"

definition seqKey :: "uuid_lib \<Rightarrow> ID \<Rightarrow> string" where
  "seqKey ids i = ''wa:seq:'' @ id_String ids i"

definition pairingKey :: "uuid_lib \<Rightarrow> ID \<Rightarrow> string" where
  "pairingKey ids i = ''wa:pairing:'' @ id_String ids i"

text \<open>
  Two instances never share a channel or a key, nor do a counter and a snapshot, so the model keeps
  one channel, one counter and one snapshot per instance.
\<close>

lemma bus_names_apart:
  assumes "inj (id_String ids)"
  shows "Channel ids i = Channel ids j \<longleftrightarrow> i = j" and "seqKey ids i = seqKey ids j \<longleftrightarrow> i = j"
    and "pairingKey ids i = pairingKey ids j \<longleftrightarrow> i = j" and "seqKey ids i \<noteq> pairingKey ids j"
  using assms by (auto simp: Channel_def seqKey_def pairingKey_def dest: injD)

end
