(* ===== verification/Spec2Isabelle.thy ===== *)
theory Spec2Isabelle
  imports EndToEnd Isolation Processes Hypermeow Delivery Metrics Wire
begin

text \<open>
  A verification library for zappermeow, a multi-tenant server that keeps WhatsApp sessions connected.

  \<^bold>\<open>The program.\<close> One binary runs two kinds of process. The API (\<open>serve\<close>) is stateless: it
  authenticates requests, manages tenants, instances and keys, records what a tenant wants of a session, and
  streams events over WebSockets. The session worker (\<open>session-worker\<close>) is stateful: it owns sessions through
  leases in PostgreSQL, talks to WhatsApp through a library, persists what happens and publishes it over Redis.
  The API finds the owner of a session through its lease and commands it over gRPC; every command carries the
  generation of the lease, and the worker refuses one that is not current. Workers heartbeat their leases, drop
  sessions whose lease they lost, and adopt sessions whose owner is gone.

  \<^bold>\<open>How it is modelled.\<close> Fallible, state-changing Go code is a function from a state to a result
  (\<open>Inl\<close> an error) and a new state; \<open>Prelude\<close> has the combinators, the relational principle
  \<open>always R m\<close> (locale \<open>world_rel\<close>) used for invariants and frame conditions everywhere, and lemmas on tables.
  A SQL statement is one atomic step on a \<open>database\<close> record of tables; every call of the database or of Redis
  consumes an entry of a list of faults, so a request may be lost before or after it took effect
  (\<open>run_statement\<close>, \<open>redis_call\<close>, \<open>transaction\<close>). Goroutines are sequences of such steps that interleave;
  theorems quantify over all sequences. Instants and durations are integers (nanoseconds), wrapped to 64 bits
  where the code can overflow; identifiers of rows are opaque numbers.

  \<^bold>\<open>Vocabulary and libraries.\<close> \<open>Go_Strings\<close>, \<open>Base64\<close> and \<open>Cursor\<close> model what is used of Go's
  string functions, \<open>encoding/base64\<close> (locale \<open>b64_encoding\<close>) and the trail cursor. \<open>Errors\<close> models
  \<open>domain/errors.go\<close> and \<open>api/httperr\<close>: problem documents reveal neither causes nor submitted secrets.
  \<open>Domain_Instance\<close> and \<open>Domain_Accounts\<close> model the entities, states, reasons and validation of
  \<open>internal/domain\<close>; \<open>Password\<close>, \<open>Token\<close> and \<open>Proxy\<close> its password hashes, access tokens and egress proxies,
  with round trips for hashes and tokens.

  \<^bold>\<open>Tables.\<close> \<open>Store\<close> (instances, leases, trail) and \<open>Account_Store\<close> (tenants, users, keys, audit log)
  model the generated statements of \<open>internal/store\<close> with the constraints of the schema.

  \<^bold>\<open>The worker.\<close> \<open>Lease\<close> models \<open>internal/lease\<close>: a generation is granted to one worker at most
  and the fence admits only the current owner (locale \<open>fencing\<close>, interpreted on the lease table). \<open>Events\<close>
  models \<open>internal/events\<close>: numbered frames, the pairing snapshot, subscriptions without gaps. \<open>Wire\<close>
  models how a frame is encoded and decoded (\<open>events.go\<close>) over what is used of \<open>encoding/json\<close> and
  \<open>time\<close> (\<open>Json\<close>: UTF-8 and quoting, \<open>Json_Values\<close>: the parser and the printer, \<open>Calendar\<close>: RFC 3339): a
  frame survives the bus and reaches the socket with the bytes the worker wrote. \<open>WA\<close> models the
  session interface, the classification of the library's events and the scripted session of \<open>internal/wa\<close>;
  \<open>Hypermeow\<close> the real adapter (\<open>hypermeow.go\<close>): passkey steps are used once (also as locale
  \<open>passkey_session\<close>, interpreted on the adapter and on the scripted session), traffic never bypasses a
  configured proxy, and reconnection stops exactly after a permanent failure. \<open>Supervisor\<close> models
  \<open>worker/supervisor.go\<close>, \<open>session.go\<close> and \<open>reconcile.go\<close>, \<open>Delivery\<close> the channels between a session
  and its handler, \<open>Supervisor_Facts\<close> and \<open>Fleet\<close> what they guarantee: a well-formed session map whatever
  fails, heartbeats that drop exactly what was lost, permanent failures that park an instance, and adoption of
  every orphan. \<open>GrpcServer\<close> models \<open>worker/grpcserver.go\<close>: a stale command touches nothing. \<open>Retention\<close>
  models the sweep of the trail under an advisory lock.

  \<^bold>\<open>The API.\<close> \<open>SessionClient\<close> models \<open>api/sessionclient\<close>: whatever is cached, a command reaches the owner the lease names. \<open>EndToEnd\<close>
  follows a disconnect and a connect from the service through the client and the wire into the owning worker.
  \<open>Connection\<close> and \<open>Connection_Facts\<close> model \<open>services/connection.go\<close>: what a recorded intent means for
  adoption, suspension of a tenant, bounded waiting for an owner, paging through the trail. \<open>Accounts\<close> models the
  other services; \<open>Account_Facts\<close>, \<open>Login_Facts\<close>, \<open>Access_Facts\<close> and \<open>Key_Registry\<close> show that account commands
  are atomic and audited, that the tables stay well formed, what a login reveals and how guessing is bounded,
  that admission is sound, and that the key tables refine an abstract registry in which revocation is final
  (locale \<open>forward_simulation\<close>). \<open>Middleware\<close> models the gates, \<open>Ws\<close> the event socket, \<open>Handlers\<close> and
  \<open>Connection_Handlers\<close> the HTTP handlers, \<open>Registration\<close> and \<open>Routes\<close> the registered operations, their
  groups and the chain around them; \<open>Route_Facts\<close> and \<open>Isolation\<close> show that replies need live credentials,
  that routes are unambiguous, and that tenants cannot reach each other's rows.

  \<^bold>\<open>Processes.\<close> \<open>Config\<close> models \<open>internal/config\<close>: secrets win over the environment, and the validated
  timing is what failover needs. \<open>Processes\<close> models \<open>cmd/zappermeow\<close>, \<open>api/application.go\<close> and the loop of
  the runtime: an API that serves has its super-admin, a worker that is told to stop hands everything over, and a
  replacement lets the leases of its predecessor expire. \<open>Drivers\<close> models the migrations and the pools of
  \<open>internal/store\<close> with the handles they open and close. \<open>Metrics\<close> models \<open>internal/metrics\<close> and every
  recording of the program: none can panic, and when the gauge of connected sessions is right.

  \<^bold>\<open>Parameters.\<close> Code outside the repository enters as records of functions: argon2, SHA-256, JWT
  signing, UUID and mail parsing, \<open>net/url\<close>, the limiter's store, gRPC status texts, the WhatsApp library, the
  environment parser, the file system, the drivers, content negotiation and how a number looks after it was a \<open>float64\<close>. Laws about them are named hypotheses
  (\<open>jwt_contract\<close>, \<open>egress_contract\<close> and the like) and every theorem that uses one has a witness with
  a concrete instance. Random bytes and fresh identifiers are arguments.

  \<^bold>\<open>Bounds.\<close> Every operation is a total, executable function. Only the JSON parser takes fuel, twice the length of
  its input and one more, which \<open>fuel_enough\<close> shows to suffice (more fuel never changes a result), and it
  nests at most 10000 deep as \<open>encoding/json\<close> does. The loop that waits for an owner
  recurses on the time that is left, the retry of a call on the attempts that are left, loops driven by channels on the
  sequence of ready cases; the histories the theorems quantify over are inductive relations, and buffers have the capacities of the code (32 and 8 events of a session, 64 in an inbox,
  64 in a subscription).

  \<^bold>\<open>Not modelled.\<close> Log lines (no effect on the state; only what the request log names is stated), generated
  protobuf code (its messages are records where they are used), decoding of HTTP requests and encoding of
  responses (the HTTP framework), the encoding of the pairing snapshot (Redis holds the value itself), and
  test helpers.
\<close>

end
